(* ===== verification/Prelude.thy ===== *)
theory Prelude
  imports
    Complex_Main
    "HOL-Library.Char_ord"
    "HOL-Library.List_Lexorder"
    "HOL-Library.Product_Lexorder"
begin

text \<open>
  Shared vocabulary of the development: the exceptions of the Python code as values,
  the readings a call takes from its environment (clock, UUIDs), tables as lists of rows
  in insertion order, and the generic lemmas on lists that the table proofs use.

  A repository method that runs in one transaction returns \<open>exn + 'a \<times> 'db\<close>: \<open>Inl e\<close>
  is the exception that leaves the \<^verbatim>\<open>with session.begin()\<close> block, and the
  transaction is rolled back, so there is no new state; \<open>Inr (v, d')\<close> is a return and the
  committed state. Time is an \<open>int\<close>: microseconds of the UTC instant.
\<close>

section \<open>Exceptions and readings of the environment\<close>

datatype exn =
    ValueError string
  | KeyError string
  | TypeError string
  | RuntimeError string
  | IntegrityError
  | AsyncCancelledError

type_synonym time = int

text \<open>
  What one call reads from outside: \<open>now\<close> is \<^verbatim>\<open>datetime.now(UTC)\<close> and \<open>uuid n\<close> is the
  \<open>n\<close>-th \<^verbatim>\<open>uuid.uuid4().hex\<close> the call asks for.
\<close>

record call_env =
  now :: time
  uuid :: "nat \<Rightarrow> string"

text \<open>
  \<open>bind_exn\<close> runs the rest of a transaction unless an exception left it; \<open>commit\<close> ends the
  \<^verbatim>\<open>with session.begin()\<close> block: the new state is committed, or the exception passes on and
  the state is the one before the transaction.
\<close>

definition bind_exn :: "exn + 'a \<Rightarrow> ('a \<Rightarrow> exn + 'b) \<Rightarrow> exn + 'b" where
  "bind_exn m f = (case m of Inl x \<Rightarrow> Inl x | Inr v \<Rightarrow> f v)"

definition commit :: "exn + 'a \<times> 'd \<Rightarrow> 'd \<Rightarrow> (exn + 'a) \<times> 'd" where
  "commit m d = (case m of Inl x \<Rightarrow> (Inl x, d) | Inr (v, d') \<Rightarrow> (Inr v, d'))"

lemma bind_exn_simps [simp]: "bind_exn (Inl x) f = Inl x" "bind_exn (Inr v) f = f v"
  by (simp_all add: bind_exn_def)

lemma bind_exn_Inr: "bind_exn m f = Inr w \<longleftrightarrow> (\<exists>v. m = Inr v \<and> f v = Inr w)"
  by (cases m) simp_all

lemma commit_simps [simp]: "commit (Inl x) d = (Inl x, d)" "commit (Inr (v, d')) d = (Inr v, d')"
  by (simp_all add: commit_def)

lemma commit_Inr: "commit m d = (Inr v, d') \<longleftrightarrow> m = Inr (v, d')"
  by (cases m) (auto simp: commit_def split: prod.splits)

section \<open>Hints\<close>

named_theorems frame_simps \<open>fields an operation does not touch\<close>
named_theorems inv_intros \<open>operations preserve the invariant of their component\<close>
named_theorems row_simps \<open>what a row looks like after an operation\<close>

section \<open>Tables as lists of rows\<close>

text \<open>\<open>UPDATE ... SET f WHERE P\<close>.\<close>

definition upd_where :: "('a \<Rightarrow> bool) \<Rightarrow> ('a \<Rightarrow> 'a) \<Rightarrow> 'a list \<Rightarrow> 'a list" where
  "upd_where P f xs = map (\<lambda>x. if P x then f x else x) xs"

text \<open>\<open>COALESCE(MAX(..), 0)\<close> over a column.\<close>

fun sql_max :: "int list \<Rightarrow> int option" where
  "sql_max [] = None"
| "sql_max (x # xs) = Some (fold max xs x)"

definition coalesce :: "'a option \<Rightarrow> 'a \<Rightarrow> 'a" where
  "coalesce x d = (case x of None \<Rightarrow> d | Some v \<Rightarrow> v)"

text \<open>\<open>LIMIT n\<close>; a negative limit is no limit (SQLite).\<close>

definition sql_limit :: "int \<Rightarrow> 'a list \<Rightarrow> 'a list" where
  "sql_limit n xs = (if n < 0 then xs else take (nat n) xs)"

text \<open>\<^verbatim>\<open>tuple(dict.fromkeys(xs))\<close>: the first occurrence of every element, in order.\<close>

fun dict_fromkeys :: "'a list \<Rightarrow> 'a list" where
  "dict_fromkeys [] = []"
| "dict_fromkeys (x # xs) = x # filter (\<lambda>y. y \<noteq> x) (dict_fromkeys xs)"

section \<open>Lemmas on tables\<close>

lemma upd_where_Nil [simp]: "upd_where P f [] = []"
  by (simp add: upd_where_def)

lemma upd_where_Cons [simp]:
  "upd_where P f (x # xs) = (if P x then f x else x) # upd_where P f xs"
  by (simp add: upd_where_def)

lemma upd_where_append [simp]:
  "upd_where P f (xs @ ys) = upd_where P f xs @ upd_where P f ys"
  by (simp add: upd_where_def)

lemma length_upd_where [simp]: "length (upd_where P f xs) = length xs"
  by (simp add: upd_where_def)

lemma set_upd_where: "set (upd_where P f xs) = (\<lambda>x. if P x then f x else x) ` set xs"
  by (simp add: upd_where_def)

lemma upd_where_none: "(\<And>x. x \<in> set xs \<Longrightarrow> \<not> P x) \<Longrightarrow> upd_where P f xs = xs"
  by (induction xs) auto

lemma map_upd_where:
  assumes "\<And>x. P x \<Longrightarrow> g (f x) = g x"
  shows "map g (upd_where P f xs) = map g xs"
  using assms by (induction xs) auto

lemma ball_upd_where:
  "(\<forall>y \<in> set (upd_where P f xs). Q y) \<longleftrightarrow> (\<forall>x \<in> set xs. Q (if P x then f x else x))"
  by (auto simp: set_upd_where)

lemma image_upd_where:
  "(\<And>x. P x \<Longrightarrow> g (f x) = g x) \<Longrightarrow> g ` set (upd_where P f xs) = g ` set xs"
  using map_upd_where [of P g f xs] by (metis set_map)

text \<open>Looking a row up after an update that keeps the columns it is looked up by.\<close>

lemma find_upd_where:
  assumes "\<And>x. P x \<Longrightarrow> Q (f x) = Q x"
  shows "find Q (upd_where P f xs) = map_option (\<lambda>x. if P x then f x else x) (find Q xs)"
  using assms by (induction xs) auto

lemma find_append:
  "find Q (xs @ ys) = (case find Q xs of None \<Rightarrow> find Q ys | Some x \<Rightarrow> Some x)"
  by (induction xs) auto

lemma find_None: "find Q xs = None \<longleftrightarrow> (\<forall>x \<in> set xs. \<not> Q x)"
  by (induction xs) auto

lemma find_SomeD: "find Q xs = Some x \<Longrightarrow> x \<in> set xs \<and> Q x"
  by (induction xs) (auto split: if_splits)

lemma find_set_filter: "find Q xs = None \<longleftrightarrow> filter Q xs = []"
  by (induction xs) auto

lemma find_distinct_key:
  assumes "distinct (map k xs)" and "x \<in> set xs" and "Q x"
    and "\<And>y. y \<in> set xs \<Longrightarrow> Q y \<Longrightarrow> k y = k x"
  shows "find Q xs = Some x"
proof (cases "find Q xs")
  case None
  with assms(2,3) show ?thesis by (simp add: find_None)
next
  case (Some y)
  then have "y \<in> set xs" and "Q y" by (auto dest: find_SomeD)
  moreover from this have "k y = k x" by (rule assms(4))
  ultimately have "y = x" using assms(1,2) by (auto simp: distinct_map inj_on_def)
  with Some show ?thesis by simp
qed

lemma filter_upd_where:
  assumes "\<And>x. P x \<Longrightarrow> Q (f x) = Q x"
  shows "filter Q (upd_where P f xs) = upd_where P f (filter Q xs)"
  using assms by (induction xs) auto

lemma count_key_le_one:
  assumes "distinct (map k xs)" and "\<And>x y. P x \<Longrightarrow> P y \<Longrightarrow> k x = k y"
  shows "length (filter P xs) \<le> 1"
  using assms(1)
proof (induction xs)
  case Nil
  then show ?case by simp
next
  case (Cons x xs)
  show ?case
  proof (cases "P x")
    case True
    have "\<not> P y" if "y \<in> set xs" for y
    proof
      assume "P y"
      with True have "k x = k y" by (rule assms(2))
      with that Cons.prems show False by (auto simp: image_iff)
    qed
    then have "filter P xs = []" by (simp add: filter_empty_conv)
    with True show ?thesis by simp
  next
    case False
    with Cons show ?thesis by simp
  qed
qed

lemma fold_max_ge: "(a::int) \<le> fold max xs a"
proof (induction xs arbitrary: a)
  case Nil
  then show ?case by simp
next
  case (Cons x xs)
  have "max x a \<le> fold max xs (max x a)" by (rule Cons.IH)
  then show ?case by simp
qed

lemma fold_max_member: "x \<in> set xs \<Longrightarrow> (x::int) \<le> fold max xs a"
proof (induction xs arbitrary: a)
  case Nil
  then show ?case by simp
next
  case (Cons y ys)
  show ?case
  proof (cases "x = y")
    case True
    have "max y a \<le> fold max ys (max y a)" by (rule fold_max_ge)
    with True show ?thesis by simp
  next
    case False
    with Cons show ?thesis by simp
  qed
qed

lemma fold_max_upt: "0 \<le> (a::int) \<Longrightarrow> fold max (map int [Suc 0..<Suc n]) a = max a (int n)"
  by (induction n arbitrary: a) auto

lemma sql_max_upt: "coalesce (sql_max (map int [Suc 0..<Suc n])) 0 = int n"
proof (cases n)
  case 0
  then show ?thesis by (simp add: coalesce_def)
next
  case (Suc m)
  have "map int [Suc 0..<Suc n] = 1 # map int [Suc (Suc 0)..<Suc n]"
    by (simp add: Suc upt_conv_Cons)
  moreover have "fold max (map int [Suc 0..<Suc n]) 0 = int n"
    using fold_max_upt [of 0 n] by simp
  ultimately show ?thesis by (simp add: coalesce_def)
qed

lemma sql_max_bound: "x \<in> set xs \<Longrightarrow> x \<le> coalesce (sql_max xs) 0"
  by (cases xs) (auto simp: coalesce_def intro: fold_max_ge fold_max_member)

section \<open>First occurrences\<close>

lemma set_dict_fromkeys [simp]: "set (dict_fromkeys xs) = set xs"
  by (induction xs) auto

lemma distinct_dict_fromkeys [simp]: "distinct (dict_fromkeys xs)"
  by (induction xs) auto

lemma dict_fromkeys_distinct: "distinct xs \<Longrightarrow> dict_fromkeys xs = xs"
proof (induction xs)
  case Nil
  then show ?case by simp
next
  case (Cons x xs)
  then have "filter (\<lambda>y. y \<noteq> x) xs = xs" by (simp add: filter_id_conv) blast
  with Cons show ?case by simp
qed

lemma dict_fromkeys_idem [simp]: "dict_fromkeys (dict_fromkeys xs) = dict_fromkeys xs"
  by (rule dict_fromkeys_distinct) simp

section \<open>Maps over one key\<close>

lemma length_filter_one_find:
  "length (filter P xs) = 1 \<Longrightarrow> \<exists>x. find P xs = Some x \<and> filter P xs = [x]"
  by (induction xs) (auto split: if_splits)

end
