(* ===== verification/Py_Text.thy ===== *)
theory Py_Text
  imports Prelude "HOL-Library.Sublist"
begin

text \<open>
  The parts of Python's text library the program uses: \<^verbatim>\<open>str\<close> methods, \<^verbatim>\<open>int(str)\<close> and
  \<^verbatim>\<open>str(int)\<close>, and URL-safe base64 with the lenient decoder of \<^verbatim>\<open>binascii.a2b_base64\<close>.

  A \<open>char\<close> of a Python string is a code point below 256 (Latin-1), and a byte string is
  a list of the same characters. Code points whose case mapping leaves that range
  (micro sign, y with diaeresis) keep themselves under \<open>py_casefold\<close> and \<open>py_upper\<close>.
\<close>

section \<open>Characters and case\<close>

abbreviation code :: "char \<Rightarrow> nat" where
  "code c \<equiv> of_char c"

definition py_isspace :: "char \<Rightarrow> bool" where
  "py_isspace c \<longleftrightarrow> code c \<in> {9, 10, 11, 12, 13, 28, 29, 30, 31, 32, 133, 160}"

definition is_digit :: "char \<Rightarrow> bool" where
  "is_digit c \<longleftrightarrow> 48 \<le> code c \<and> code c \<le> 57"

definition is_lower_az :: "char \<Rightarrow> bool" where
  "is_lower_az c \<longleftrightarrow> 97 \<le> code c \<and> code c \<le> 122"

definition is_upper_az :: "char \<Rightarrow> bool" where
  "is_upper_az c \<longleftrightarrow> 65 \<le> code c \<and> code c \<le> 90"

definition is_alnum_ascii :: "char \<Rightarrow> bool" where
  "is_alnum_ascii c \<longleftrightarrow> is_digit c \<or> is_lower_az c \<or> is_upper_az c"

definition is_hex_lower :: "char \<Rightarrow> bool" where
  "is_hex_lower c \<longleftrightarrow> is_digit c \<or> (97 \<le> code c \<and> code c \<le> 102)"

definition is_ascii :: "char \<Rightarrow> bool" where
  "is_ascii c \<longleftrightarrow> code c < 128"

definition lower_char :: "char \<Rightarrow> char" where
  "lower_char c =
     (if is_upper_az c \<or> (192 \<le> code c \<and> code c \<le> 222 \<and> code c \<noteq> 215)
      then char_of (code c + 32) else c)"

definition upper_char :: "char \<Rightarrow> char" where
  "upper_char c =
     (if is_lower_az c \<or> (224 \<le> code c \<and> code c \<le> 254 \<and> code c \<noteq> 247)
      then char_of (code c - 32) else c)"

definition py_lower :: "string \<Rightarrow> string" where
  "py_lower s = map lower_char s"

definition py_casefold :: "string \<Rightarrow> string" where
  "py_casefold s = concat (map (\<lambda>c. if code c = 223 then ''ss'' else [lower_char c]) s)"

definition py_upper :: "string \<Rightarrow> string" where
  "py_upper s = concat (map (\<lambda>c. if code c = 223 then ''SS'' else [upper_char c]) s)"

section \<open>Stripping, splitting, prefixes\<close>

definition rstrip_by :: "(char \<Rightarrow> bool) \<Rightarrow> string \<Rightarrow> string" where
  "rstrip_by P s = rev (dropWhile P (rev s))"

definition py_strip :: "string \<Rightarrow> string" where
  "py_strip s = rstrip_by py_isspace (dropWhile py_isspace s)"

definition startswith :: "string \<Rightarrow> string \<Rightarrow> bool" where
  "startswith p s \<longleftrightarrow> take (length p) s = p"

definition endswith :: "string \<Rightarrow> string \<Rightarrow> bool" where
  "endswith p s \<longleftrightarrow> startswith (rev p) (rev s)"

text \<open>\<^verbatim>\<open>s.partition(sep)\<close> for a one-character separator: what is before it, whether it
  occurs, what is after its first occurrence.\<close>

fun partition_at :: "char \<Rightarrow> string \<Rightarrow> string \<times> bool \<times> string" where
  "partition_at sep [] = ([], False, [])"
| "partition_at sep (c # cs) =
     (if c = sep then ([], True, cs)
      else (case partition_at sep cs of (a, found, b) \<Rightarrow> (c # a, found, b)))"

text \<open>\<^verbatim>\<open>s.split(sep, n)\<close> for a one-character separator.\<close>

fun split_max :: "char \<Rightarrow> nat \<Rightarrow> string \<Rightarrow> string list" where
  "split_max sep 0 s = [s]"
| "split_max sep (Suc n) s =
     (case partition_at sep s of
        (a, found, b) \<Rightarrow> if found then a # split_max sep n b else [s])"

lemma partition_at_notin: "sep \<notin> set a \<Longrightarrow> partition_at sep (a @ sep # b) = (a, True, b)"
  by (induction a) auto

lemma partition_at_none: "sep \<notin> set a \<Longrightarrow> partition_at sep a = (a, False, [])"
  by (induction a) auto

lemma startswith_append [simp]: "startswith p (p @ s)"
  by (simp add: startswith_def)

lemma rstrip_by_append: "(\<And>c. c \<in> set t \<Longrightarrow> P c) \<Longrightarrow> rstrip_by P (s @ t) = rstrip_by P s"
  unfolding rstrip_by_def rev_append by (subst dropWhile_append2) auto

lemma rstrip_by_id: "(\<And>c. c \<in> set s \<Longrightarrow> \<not> P c) \<Longrightarrow> rstrip_by P s = s"
  by (cases s rule: rev_cases) (auto simp: rstrip_by_def)

lemma py_strip_id: "(\<And>c. c \<in> set s \<Longrightarrow> \<not> py_isspace c) \<Longrightarrow> py_strip s = s"
proof -
  assume a: "\<And>c. c \<in> set s \<Longrightarrow> \<not> py_isspace c"
  then have "dropWhile py_isspace s = s" by (cases s) auto
  with a show ?thesis by (simp add: py_strip_def rstrip_by_id)
qed

lemma py_strip_head: "py_strip s = c # cs \<Longrightarrow> \<not> py_isspace c"
proof -
  assume a: "py_strip s = c # cs"
  let ?t = "dropWhile py_isspace s"
  have "\<exists>u. ?t = py_strip s @ u"
    unfolding py_strip_def rstrip_by_def
    by (metis rev_append rev_rev_ident takeWhile_dropWhile_id)
  with a obtain u where "?t = c # cs @ u" by auto
  then show ?thesis by (metis hd_dropWhile list.discI list.sel(1))
qed

section \<open>Decimal integers\<close>

definition digit_char :: "nat \<Rightarrow> char" where
  "digit_char n = char_of (48 + n)"

definition digit_val :: "char \<Rightarrow> nat" where
  "digit_val c = code c - 48"

fun nat_digits :: "nat \<Rightarrow> string" where
  "nat_digits n = (if n < 10 then [digit_char n] else nat_digits (n div 10) @ [digit_char (n mod 10)])"

declare nat_digits.simps [simp del]

definition py_str_int :: "int \<Rightarrow> string" where
  "py_str_int i = (if i < 0 then CHR ''-'' # nat_digits (nat (- i)) else nat_digits (nat i))"

text \<open>\<^verbatim>\<open>digit (_? digit)*\<close>; the flag says whether the last character was a digit.\<close>

fun parse_digits :: "nat \<Rightarrow> bool \<Rightarrow> string \<Rightarrow> nat option" where
  "parse_digits acc prev [] = (if prev then Some acc else None)"
| "parse_digits acc prev (c # cs) =
     (if is_digit c then parse_digits (10 * acc + digit_val c) True cs
      else if c = CHR ''_'' \<and> prev then parse_digits acc False cs
      else None)"

definition int_max_str_digits :: nat where
  "int_max_str_digits = 4300"

text \<open>\<^verbatim>\<open>int(s)\<close>; \<open>None\<close> is the ValueError.\<close>

definition py_int :: "string \<Rightarrow> int option" where
  "py_int s =
     (let t = py_strip s;
          neg = (case t of c # _ \<Rightarrow> c = CHR ''-'' | [] \<Rightarrow> False);
          body = (case t of c # u \<Rightarrow> if c = CHR ''-'' \<or> c = CHR ''+'' then u else t | [] \<Rightarrow> t)
      in if int_max_str_digits < length (filter is_digit body) then None
         else map_option (\<lambda>n. if neg then - int n else int n) (parse_digits 0 False body))"

lemma code_char_of_lt: "n < 256 \<Longrightarrow> code (char_of n) = n"
  by simp

lemma is_digit_digit_char [simp]: "n < 10 \<Longrightarrow> is_digit (digit_char n)"
  by (simp add: is_digit_def digit_char_def)

lemma digit_val_digit_char [simp]: "n < 10 \<Longrightarrow> digit_val (digit_char n) = n"
  by (simp add: digit_val_def digit_char_def)

lemma nat_digits_are_digits: "c \<in> set (nat_digits n) \<Longrightarrow> is_digit c"
proof (induction n rule: nat_digits.induct)
  case (1 n)
  show ?case
  proof (cases "n < 10")
    case True
    with "1.prems" show ?thesis by (simp add: nat_digits.simps [of n])
  next
    case False
    with "1.prems" have "c \<in> set (nat_digits (n div 10)) \<or> c = digit_char (n mod 10)"
      by (auto simp: nat_digits.simps [of n])
    with False "1.IH" show ?thesis by auto
  qed
qed

lemma nat_digits_nonempty: "nat_digits n \<noteq> []"
  by (subst nat_digits.simps) simp

lemma nat_digits_length: "0 < k \<Longrightarrow> n < 10 ^ k \<Longrightarrow> length (nat_digits n) \<le> k"
proof (induction n arbitrary: k rule: nat_digits.induct)
  case (1 n)
  show ?case
  proof (cases "n < 10")
    case True
    with "1.prems" show ?thesis by (simp add: nat_digits.simps [of n])
  next
    case False
    with "1.prems" obtain j where j: "k = Suc j" "0 < j"
      by (cases k; cases "k - 1") auto
    with "1.prems" have "n div 10 < 10 ^ j" by (simp add: less_mult_imp_div_less mult.commute)
    with "1.IH" False j have "length (nat_digits (n div 10)) \<le> j" by blast
    with False j show ?thesis by (simp add: nat_digits.simps [of n])
  qed
qed

lemma parse_digits_append:
  assumes "\<And>c. c \<in> set xs \<Longrightarrow> is_digit c" and "xs \<noteq> []"
  shows "parse_digits acc p (xs @ ys) =
    parse_digits (foldl (\<lambda>a c. 10 * a + digit_val c) acc xs) True ys"
  using assms
proof (induction xs arbitrary: acc p)
  case Nil
  then show ?case by simp
next
  case (Cons x xs)
  show ?case
  proof (cases "xs = []")
    case True
    with Cons.prems show ?thesis by simp
  next
    case False
    have "parse_digits (10 * acc + digit_val x) True (xs @ ys) =
        parse_digits (foldl (\<lambda>a c. 10 * a + digit_val c) (10 * acc + digit_val x) xs) True ys"
      by (rule Cons.IH) (use Cons.prems False in auto)
    with Cons.prems show ?thesis by simp
  qed
qed

lemma foldl_nat_digits: "foldl (\<lambda>a c. 10 * a + digit_val c) 0 (nat_digits n) = n"
proof (induction n rule: nat_digits.induct)
  case (1 n)
  show ?case
  proof (cases "n < 10")
    case True
    then show ?thesis by (simp add: nat_digits.simps [of n])
  next
    case False
    with "1.IH" show ?thesis by (simp add: nat_digits.simps [of n])
  qed
qed

lemma parse_nat_digits: "parse_digits 0 False (nat_digits n) = Some n"
  using parse_digits_append [of "nat_digits n" 0 False "[]"]
  by (simp add: nat_digits_are_digits nat_digits_nonempty foldl_nat_digits)

lemma digit_not_space: "is_digit c \<Longrightarrow> \<not> py_isspace c"
  by (auto simp: is_digit_def py_isspace_def)

lemma digit_not_sign: "is_digit c \<Longrightarrow> c \<noteq> CHR ''-'' \<and> c \<noteq> CHR ''+''"
  by (auto simp: is_digit_def)

lemma py_int_nat_digits:
  assumes "n < 10 ^ int_max_str_digits"
  shows "py_int (nat_digits n) = Some (int n)"
proof -
  have strip: "py_strip (nat_digits n) = nat_digits n"
    by (rule py_strip_id) (auto dest: nat_digits_are_digits digit_not_space)
  obtain c cs where cs: "nat_digits n = c # cs"
    using nat_digits_nonempty [of n] by (cases "nat_digits n") auto
  have c: "c \<noteq> CHR ''-'' \<and> c \<noteq> CHR ''+''"
    using nat_digits_are_digits [of c n] cs digit_not_sign by simp
  have pos: "0 < int_max_str_digits" by (simp add: int_max_str_digits_def)
  have "length (filter is_digit (nat_digits n)) \<le> length (nat_digits n)" by simp
  also have "\<dots> \<le> int_max_str_digits"
    by (rule nat_digits_length [OF pos assms])
  finally have len: "\<not> int_max_str_digits < length (filter is_digit (c # cs))" by (simp only: cs not_less)
  have val: "parse_digits 0 False (c # cs) = Some n"
    using parse_nat_digits [of n] by (simp only: cs)
  have strip': "py_strip (c # cs) = c # cs"
    using strip by (simp only: cs)
  show ?thesis
    unfolding py_int_def Let_def cs strip' using c len val by (simp del: parse_digits.simps filter.simps)
qed

end
