(* ===== verification/Py_Json.thy ===== *)
theory Py_Json
  imports Py_Text
begin

text \<open>
  JSON documents as the program holds them after \<^verbatim>\<open>json.loads\<close>, the compact printer
  \<^verbatim>\<open>json.dumps(v, separators=(",", ":"), ensure_ascii=False)\<close> with and without
  \<^verbatim>\<open>sort_keys\<close>, and \<^verbatim>\<open>datetime.isoformat()\<close> of a UTC instant, the form in which times
  enter a document. An object is a list of fields in insertion order; a float is the
  rational it denotes, and \<open>frepr\<close> (Python's \<^verbatim>\<open>float.__repr__\<close>) prints it.
\<close>

datatype json =
    JNull
  | JBool bool
  | JInt int
  | JFloat rat
  | JStr string
  | JArr "json list"
  | JObj "(string \<times> json) list"

definition obj_get :: "string \<Rightarrow> (string \<times> json) list \<Rightarrow> json option" where
  "obj_get k fs = map_of fs k"

section \<open>Printing\<close>

definition hex_digit :: "nat \<Rightarrow> char" where
  "hex_digit n = (if n < 10 then char_of (48 + n) else char_of (87 + n))"

definition json_escape_char :: "char \<Rightarrow> string" where
  "json_escape_char c =
     (if c = CHR 0x22 then [CHR 0x5C, CHR 0x22]
      else if c = CHR 0x5C then [CHR 0x5C, CHR 0x5C]
      else if code c = 10 then [CHR 0x5C, CHR ''n'']
      else if code c = 13 then [CHR 0x5C, CHR ''r'']
      else if code c = 9 then [CHR 0x5C, CHR ''t'']
      else if code c = 12 then [CHR 0x5C, CHR ''f'']
      else if code c = 8 then [CHR 0x5C, CHR ''b'']
      else if code c < 32
        then [CHR 0x5C, CHR ''u'', CHR ''0'', CHR ''0'', hex_digit (code c div 16), hex_digit (code c mod 16)]
      else [c])"

definition json_string :: "string \<Rightarrow> string" where
  "json_string s = CHR 0x22 # concat (map json_escape_char s) @ [CHR 0x22]"

fun join_with :: "string \<Rightarrow> string list \<Rightarrow> string" where
  "join_with sep [] = []"
| "join_with sep [x] = x"
| "join_with sep (x # y # ys) = x @ sep @ join_with sep (y # ys)"

fun json_text :: "(rat \<Rightarrow> string) \<Rightarrow> json \<Rightarrow> string"
  and json_texts :: "(rat \<Rightarrow> string) \<Rightarrow> json list \<Rightarrow> string list"
  and field_texts :: "(rat \<Rightarrow> string) \<Rightarrow> (string \<times> json) list \<Rightarrow> string list" where
  "json_text frepr JNull = ''null''"
| "json_text frepr (JBool b) = (if b then ''true'' else ''false'')"
| "json_text frepr (JInt i) = py_str_int i"
| "json_text frepr (JFloat q) = frepr q"
| "json_text frepr (JStr s) = json_string s"
| "json_text frepr (JArr xs) = ''['' @ join_with '','' (json_texts frepr xs) @ '']''"
| "json_text frepr (JObj fs) = ''{'' @ join_with '','' (field_texts frepr fs) @ ''}''"
| "json_texts frepr [] = []"
| "json_texts frepr (x # xs) = json_text frepr x # json_texts frepr xs"
| "field_texts frepr [] = []"
| "field_texts frepr ((k, v) # fs) = (json_string k @ '':'' @ json_text frepr v) # field_texts frepr fs"

text \<open>\<^verbatim>\<open>sort_keys=True\<close>: every object's fields in the order of their keys.\<close>

fun json_sorted :: "json \<Rightarrow> json"
  and json_sorteds :: "json list \<Rightarrow> json list"
  and field_sorteds :: "(string \<times> json) list \<Rightarrow> (string \<times> json) list" where
  "json_sorted (JArr xs) = JArr (json_sorteds xs)"
| "json_sorted (JObj fs) = JObj (sort_key fst (field_sorteds fs))"
| "json_sorted v = v"
| "json_sorteds [] = []"
| "json_sorteds (x # xs) = json_sorted x # json_sorteds xs"
| "field_sorteds [] = []"
| "field_sorteds ((k, v) # fs) = (k, json_sorted v) # field_sorteds fs"

definition json_canonical :: "(rat \<Rightarrow> string) \<Rightarrow> json \<Rightarrow> string" where
  "json_canonical frepr v = json_text frepr (json_sorted v)"

section \<open>Instants in ISO format\<close>

text \<open>Days since 1970-01-01 to year, month, day of the proleptic Gregorian calendar.\<close>

definition civil_from_days :: "int \<Rightarrow> int \<times> int \<times> int" where
  "civil_from_days z0 =
     (let z = z0 + 719468;
          era = z div 146097;
          doe = z mod 146097;
          yoe = (doe - doe div 1460 + doe div 36524 - doe div 146096) div 365;
          doy = doe - (365 * yoe + yoe div 4 - yoe div 100);
          mp = (5 * doy + 2) div 153;
          d = doy - (153 * mp + 2) div 5 + 1;
          m = (if mp < 10 then mp + 3 else mp - 9);
          y = yoe + era * 400 + (if m \<le> 2 then 1 else 0)
      in (y, m, d))"

definition zfill :: "nat \<Rightarrow> int \<Rightarrow> string" where
  "zfill w i = (let s = py_str_int i in replicate (w - length s) (CHR ''0'') @ s)"

definition isoformat :: "time \<Rightarrow> string" where
  "isoformat t =
     (let days = t div 86400000000; us = t mod 86400000000;
          secs = us div 1000000; frac = us mod 1000000
      in case civil_from_days days of (y, m, d) \<Rightarrow>
           zfill 4 y @ ''-'' @ zfill 2 m @ ''-'' @ zfill 2 d @ ''T'' @
           zfill 2 (secs div 3600) @ '':'' @ zfill 2 (secs div 60 mod 60) @ '':'' @
           zfill 2 (secs mod 60) @
           (if frac = 0 then [] else ''.'' @ zfill 6 frac) @ ''+00:00'')"

definition json_opt :: "string option \<Rightarrow> json" where
  "json_opt x = (case x of None \<Rightarrow> JNull | Some s \<Rightarrow> JStr s)"

definition json_time_opt :: "time option \<Rightarrow> json" where
  "json_time_opt x = (case x of None \<Rightarrow> JNull | Some t \<Rightarrow> JStr (isoformat t))"

end
