(* ===== verification/Core_Model.thy ===== *)
theory Core_Model
  imports Py_Json "HOL-Library.FSet"
begin

text \<open>
  The data of \<^verbatim>\<open>shared_llm_core\<close> that the program handles: finding sources and
  severities (the members the program names), findings, correlations. What the program
  calls in that package is a parameter of the model, collected in the record \<open>core_lib\<close>:
  the \<^verbatim>\<open>value\<close> of an enum member and \<^verbatim>\<open>Finding.to_dict\<close> / \<^verbatim>\<open>Finding.from_dict\<close>.
  Also here: Python's naive and aware datetimes.
\<close>

section \<open>Enums\<close>

datatype finding_source = SOC | VULN | LAB | CODE | REVERSE | FIRMWARE | EXTERNAL

datatype finding_severity = INFO | LOW | MEDIUM | HIGH | CRITICAL

text \<open>The rank tables of \<^verbatim>\<open>correlations.py\<close> and \<^verbatim>\<open>finding_lifecycle.py\<close>.\<close>

fun severity_rank :: "finding_severity \<Rightarrow> nat" where
  "severity_rank INFO = 0"
| "severity_rank LOW = 1"
| "severity_rank MEDIUM = 2"
| "severity_rank HIGH = 3"
| "severity_rank CRITICAL = 4"

lemma severity_rank_inj: "severity_rank a = severity_rank b \<longleftrightarrow> a = b"
  by (cases a; cases b) simp_all

text \<open>The rank orders the severities.\<close>

instantiation finding_severity :: linorder
begin

definition less_eq_finding_severity :: "finding_severity \<Rightarrow> finding_severity \<Rightarrow> bool" where
  "less_eq_finding_severity a b \<longleftrightarrow> severity_rank a \<le> severity_rank b"

definition less_finding_severity :: "finding_severity \<Rightarrow> finding_severity \<Rightarrow> bool" where
  "less_finding_severity a b \<longleftrightarrow> severity_rank a < severity_rank b"

instance
  by standard
    (auto simp: less_eq_finding_severity_def less_finding_severity_def severity_rank_inj)

end

section \<open>Datetimes\<close>

text \<open>
  Wall-clock microseconds since the epoch, and for an aware value the UTC offset in
  microseconds. \<open>instant\<close> is what the program's \<^verbatim>\<open>_as_utc\<close> denotes: a naive value is read
  as UTC.
\<close>

datatype py_datetime = Naive int | Aware int int

fun instant :: "py_datetime \<Rightarrow> time" where
  "instant (Naive w) = w"
| "instant (Aware w off) = w - off"

fun is_naive :: "py_datetime \<Rightarrow> bool" where
  "is_naive (Naive w) = True"
| "is_naive (Aware w off) = False"

text \<open>\<open>a - b\<close> of two datetimes raises a TypeError when exactly one of them is naive.\<close>

definition datetime_diff :: "py_datetime \<Rightarrow> py_datetime \<Rightarrow> exn + int" where
  "datetime_diff a b =
     (if is_naive a = is_naive b then Inr (instant a - instant b)
      else Inl (TypeError ''can't subtract offset-naive and offset-aware datetimes''))"

section \<open>Findings and correlations\<close>

record finding =
  f_id :: string
  f_source :: finding_source
  f_severity :: finding_severity
  f_confidence :: rat
  f_title :: string
  f_description :: string
  f_host :: "string option"
  f_cve :: "string option"
  f_ts :: "py_datetime option"
  f_evidence :: "string list"
  f_related :: "string list"
  f_tags :: "string fset"
  f_metadata :: "(string \<times> json) list"

record correlation =
  c_rule_id :: string
  c_findings :: "string list"
  c_severity :: finding_severity
  c_narrative :: string

record core_lib =
  source_value :: "finding_source \<Rightarrow> string"
  severity_value :: "finding_severity \<Rightarrow> string"
  finding_to_dict :: "finding \<Rightarrow> (string \<times> json) list"
  finding_from_dict :: "(string \<times> json) list \<Rightarrow> exn + finding"

text \<open>The documented round trip of \<^verbatim>\<open>shared_llm_core\<close>'s serialisation.\<close>

definition dict_roundtrip :: "core_lib \<Rightarrow> bool" where
  "dict_roundtrip L \<longleftrightarrow> (\<forall>f. finding_from_dict L (finding_to_dict L f) = Inr f)"

end
