(* ===== verification/Job_Model.thy ===== *)
theory Job_Model
  imports Core_Model
begin

text \<open>
  The job data of \<^verbatim>\<open>jobs.py\<close> (status, record, event and their JSON forms), the protocol
  \<^verbatim>\<open>JobRepository\<close> of \<^verbatim>\<open>repositories.py\<close> as a record of operations over a state type, and
  the abstract job store that says what the protocol promises: one record and one event
  list per tenant and job.
\<close>

section \<open>Status, record, event\<close>

datatype job_status = QUEUED | RUNNING | SUCCEEDED | FAILED | CANCELLED | TIMED_OUT

fun job_status_value :: "job_status \<Rightarrow> string" where
  "job_status_value QUEUED = ''queued''"
| "job_status_value RUNNING = ''running''"
| "job_status_value SUCCEEDED = ''succeeded''"
| "job_status_value FAILED = ''failed''"
| "job_status_value CANCELLED = ''cancelled''"
| "job_status_value TIMED_OUT = ''timed_out''"

definition terminal :: "job_status \<Rightarrow> bool" where
  "terminal s \<longleftrightarrow> s \<in> {SUCCEEDED, FAILED, CANCELLED, TIMED_OUT}"

lemma terminal_simps [simp]:
  "\<not> terminal QUEUED" "\<not> terminal RUNNING" "terminal SUCCEEDED" "terminal FAILED"
  "terminal CANCELLED" "terminal TIMED_OUT"
  by (simp_all add: terminal_def)

lemma not_terminal_iff: "\<not> terminal s \<longleftrightarrow> s = QUEUED \<or> s = RUNNING"
  by (cases s) simp_all

record job_record =
  j_id :: string
  j_tenant_id :: string
  j_source :: finding_source
  j_payload :: json
  j_status :: job_status
  j_created_at :: time
  j_updated_at :: time
  j_idempotency_key :: "string option"
  j_dispatch_id :: "string option"
  j_attempt :: int
  j_cancel_requested :: bool
  j_result_count :: int
  j_error_code :: "string option"
  j_error_message :: "string option"

record job_event =
  ev_sequence :: int
  ev_job_id :: string
  ev_tenant_id :: string
  ev_kind :: string
  ev_payload :: json
  ev_created_at :: time

text \<open>A string is falsy in Python when it is \<^verbatim>\<open>None\<close> or empty.\<close>

definition truthy :: "string option \<Rightarrow> bool" where
  "truthy x \<longleftrightarrow> x \<noteq> None \<and> x \<noteq> Some []"

definition error_object :: "string option \<Rightarrow> string option \<Rightarrow> json" where
  "error_object c m = JObj [(''code'', json_opt c), (''message'', json_opt m)]"

definition job_to_dict :: "core_lib \<Rightarrow> job_record \<Rightarrow> json" where
  "job_to_dict L j = JObj
     [(''id'', JStr (j_id j)),
      (''tenant_id'', JStr (j_tenant_id j)),
      (''source'', JStr (source_value L (j_source j))),
      (''status'', JStr (job_status_value (j_status j))),
      (''created_at'', JStr (isoformat (j_created_at j))),
      (''updated_at'', JStr (isoformat (j_updated_at j))),
      (''attempt'', JInt (j_attempt j)),
      (''cancel_requested'', JBool (j_cancel_requested j)),
      (''result_count'', JInt (j_result_count j)),
      (''error'', if truthy (j_error_code j)
                  then error_object (j_error_code j) (j_error_message j) else JNull)]"

definition event_to_dict :: "job_event \<Rightarrow> json" where
  "event_to_dict e = JObj
     [(''sequence'', JInt (ev_sequence e)),
      (''job_id'', JStr (ev_job_id e)),
      (''kind'', JStr (ev_kind e)),
      (''payload'', ev_payload e),
      (''created_at'', JStr (isoformat (ev_created_at e)))]"

text \<open>The payload of a \<^verbatim>\<open>status\<close> event, and of one written by \<^verbatim>\<open>transition\<close>.\<close>

definition status_payload :: "job_status \<Rightarrow> json" where
  "status_payload s = JObj [(''status'', JStr (job_status_value s))]"

definition transition_payload :: "job_status \<Rightarrow> string option \<Rightarrow> string option \<Rightarrow> json" where
  "transition_payload s c m =
     (if truthy c
      then JObj [(''status'', JStr (job_status_value s)), (''error'', error_object c m)]
      else status_payload s)"

section \<open>The columns an operation sets\<close>

definition new_job ::
  "string \<Rightarrow> string \<Rightarrow> finding_source \<Rightarrow> json \<Rightarrow> string option \<Rightarrow> time \<Rightarrow> job_record" where
  "new_job jid tid src p key t =
     \<lparr>j_id = jid, j_tenant_id = tid, j_source = src, j_payload = p, j_status = QUEUED,
      j_created_at = t, j_updated_at = t, j_idempotency_key = key, j_dispatch_id = None,
      j_attempt = 0, j_cancel_requested = False, j_result_count = 0,
      j_error_code = None, j_error_message = None\<rparr>"

text \<open>
  The updates are stated on the record scheme, so that they serve the rows of both backends:
  \<^verbatim>\<open>JobRow\<close> of \<^verbatim>\<open>db_models.py\<close> extends the record by columns of its own.
\<close>

definition running_job :: "time \<Rightarrow> 'a job_record_scheme \<Rightarrow> 'a job_record_scheme" where
  "running_job t j = j\<lparr>j_status := RUNNING, j_attempt := j_attempt j + 1, j_updated_at := t,
     j_error_code := None, j_error_message := None\<rparr>"

definition moved_job ::
  "time \<Rightarrow> job_status \<Rightarrow> int option \<Rightarrow> string option \<Rightarrow> string option \<Rightarrow>
    'a job_record_scheme \<Rightarrow> 'a job_record_scheme" where
  "moved_job t s n c m j = j\<lparr>j_status := s, j_updated_at := t,
     j_result_count := (case n of None \<Rightarrow> j_result_count j | Some k \<Rightarrow> k),
     j_error_code := c, j_error_message := m\<rparr>"

definition cancel_status :: "job_status \<Rightarrow> job_status" where
  "cancel_status s = (if s = QUEUED then CANCELLED else s)"

definition cancelled_job :: "time \<Rightarrow> 'a job_record_scheme \<Rightarrow> 'a job_record_scheme" where
  "cancelled_job t j = j\<lparr>j_cancel_requested := True, j_status := cancel_status (j_status j),
     j_updated_at := t\<rparr>"

definition dispatched_job :: "time \<Rightarrow> string \<Rightarrow> 'a job_record_scheme \<Rightarrow> 'a job_record_scheme" where
  "dispatched_job t d j = j\<lparr>j_dispatch_id := Some d, j_updated_at := t\<rparr>"

lemmas job_updates = running_job_def moved_job_def cancelled_job_def dispatched_job_def

lemma job_update_keys [simp]:
  "j_id (running_job t j) = j_id j" "j_tenant_id (running_job t j) = j_tenant_id j"
  "j_id (moved_job t s n c m j) = j_id j" "j_tenant_id (moved_job t s n c m j) = j_tenant_id j"
  "j_id (cancelled_job t j) = j_id j" "j_tenant_id (cancelled_job t j) = j_tenant_id j"
  "j_id (dispatched_job t d j) = j_id j" "j_tenant_id (dispatched_job t d j) = j_tenant_id j"
  by (simp_all add: job_updates)

lemma job_update_idempotency_key [simp]:
  "j_idempotency_key (running_job t j) = j_idempotency_key j"
  "j_idempotency_key (moved_job t s n c m j) = j_idempotency_key j"
  "j_idempotency_key (cancelled_job t j) = j_idempotency_key j"
  "j_idempotency_key (dispatched_job t d j) = j_idempotency_key j"
  by (simp_all add: job_updates)

lemma job_update_status [simp]:
  "j_status (running_job t j) = RUNNING" "j_status (moved_job t s n c m j) = s"
  "j_status (cancelled_job t j) = cancel_status (j_status j)"
  "j_status (dispatched_job t d j) = j_status j"
  "j_status (new_job jid tid src p key t) = QUEUED"
  by (simp_all add: job_updates new_job_def)

lemma job_update_attempt [simp]:
  "j_attempt (running_job t j) = j_attempt j + 1" "j_attempt (moved_job t s n c m j) = j_attempt j"
  "j_attempt (cancelled_job t j) = j_attempt j" "j_attempt (dispatched_job t d j) = j_attempt j"
  "j_attempt (new_job jid tid src p key t) = 0"
  by (simp_all add: job_updates new_job_def)

lemma job_update_cancel [simp]:
  "j_cancel_requested (running_job t j) = j_cancel_requested j"
  "j_cancel_requested (moved_job t s n c m j) = j_cancel_requested j"
  "j_cancel_requested (cancelled_job t j)"
  "j_cancel_requested (dispatched_job t d j) = j_cancel_requested j"
  "\<not> j_cancel_requested (new_job jid tid src p key t)"
  by (simp_all add: job_updates new_job_def)

lemma new_job_keys [simp]:
  "j_id (new_job jid tid src p key t) = jid" "j_tenant_id (new_job jid tid src p key t) = tid"
  "j_idempotency_key (new_job jid tid src p key t) = key"
  by (simp_all add: new_job_def)

lemma truncate_updates [simp]:
  "job_record.truncate (running_job t r) = running_job t (job_record.truncate r)"
  "job_record.truncate (moved_job t s n c m r) = moved_job t s n c m (job_record.truncate r)"
  "job_record.truncate (cancelled_job t r) = cancelled_job t (job_record.truncate r)"
  "job_record.truncate (dispatched_job t d r) = dispatched_job t d (job_record.truncate r)"
  by (simp_all add: job_updates job_record.defs split: option.splits)

lemma truncate_columns [simp]:
  "j_id (job_record.truncate r) = j_id r"
  "j_tenant_id (job_record.truncate r) = j_tenant_id r"
  "j_status (job_record.truncate r) = j_status r"
  "j_cancel_requested (job_record.truncate r) = j_cancel_requested r"
  "j_idempotency_key (job_record.truncate r) = j_idempotency_key r"
  "j_source (job_record.truncate r) = j_source r"
  "j_created_at (job_record.truncate r) = j_created_at r"
  by (simp_all add: job_record.defs)

lemma truncate_record [simp]: "job_record.truncate (r :: job_record) = r"
  by (simp add: job_record.defs)

lemma map_truncate_record [simp]: "map job_record.truncate (xs :: job_record list) = xs"
  by (simp add: map_idI)

lemma truncate_extend [simp]: "job_record.truncate (job_record.extend r x) = r"
  by (simp add: job_record.defs)

lemma extend_columns [simp]:
  "j_id (job_record.extend r x) = j_id r"
  "j_tenant_id (job_record.extend r x) = j_tenant_id r"
  "j_idempotency_key (job_record.extend r x) = j_idempotency_key r"
  "j_status (job_record.extend r x) = j_status r"
  by (simp_all add: job_record.defs)

section \<open>The protocol\<close>

text \<open>
  \<^verbatim>\<open>JobRepository\<close>: every operation takes the reading of the environment it may need and
  the state, and returns its value or exception with the new state. \<open>ping\<close> and \<open>close\<close> are
  connection management and have no counterpart.
\<close>

record 's job_repository =
  r_create :: "call_env \<Rightarrow> string \<Rightarrow> finding_source \<Rightarrow> json \<Rightarrow> string option \<Rightarrow> 's \<Rightarrow>
    (exn + job_record \<times> bool) \<times> 's"
  r_get :: "string \<Rightarrow> string \<Rightarrow> 's \<Rightarrow> job_record option"
  r_list_jobs :: "string \<Rightarrow> job_status option \<Rightarrow> finding_source option \<Rightarrow> int \<Rightarrow> 's \<Rightarrow> job_record list"
  r_find_by_idempotency_key :: "string \<Rightarrow> string \<Rightarrow> 's \<Rightarrow> job_record option"
  r_mark_running :: "call_env \<Rightarrow> string \<Rightarrow> string \<Rightarrow> bool \<Rightarrow> 's \<Rightarrow> (exn + job_record option) \<times> 's"
  r_transition :: "call_env \<Rightarrow> string \<Rightarrow> string \<Rightarrow> job_status \<Rightarrow> int option \<Rightarrow> string option \<Rightarrow>
    string option \<Rightarrow> 's \<Rightarrow> (exn + job_record) \<times> 's"
  r_append_event :: "call_env \<Rightarrow> string \<Rightarrow> string \<Rightarrow> string \<Rightarrow> json \<Rightarrow> 's \<Rightarrow> (exn + job_event) \<times> 's"
  r_list_events :: "string \<Rightarrow> string \<Rightarrow> int \<Rightarrow> int \<Rightarrow> 's \<Rightarrow> job_event list"
  r_set_dispatch_id :: "call_env \<Rightarrow> string \<Rightarrow> string \<Rightarrow> string \<Rightarrow> 's \<Rightarrow> 's"
  r_request_cancel :: "call_env \<Rightarrow> string \<Rightarrow> string \<Rightarrow> 's \<Rightarrow> (exn + job_record) \<times> 's"

end
