(* ===== verification/Job_Table.thy ===== *)
theory Job_Table
  imports Job_Model "HOL-Library.Multiset"
begin

text \<open>
  What the job tables of the two backends have in common: the row lookups and the row
  conflict of their constraints, stated on the record scheme, the event log with its
  per-job sequence numbers, and the abstract store both refine: for every tenant and job
  the record, if there is one, and the list of its events.
\<close>

section \<open>Rows\<close>

definition is_job :: "string \<Rightarrow> string \<Rightarrow> 'a job_record_scheme \<Rightarrow> bool" where
  "is_job t j r \<longleftrightarrow> j_tenant_id r = t \<and> j_id r = j"

definition has_key :: "string \<Rightarrow> string \<Rightarrow> 'a job_record_scheme \<Rightarrow> bool" where
  "has_key t k r \<longleftrightarrow> j_tenant_id r = t \<and> j_idempotency_key r = Some k"

definition job_matches ::
  "string \<Rightarrow> job_status option \<Rightarrow> finding_source option \<Rightarrow> 'a job_record_scheme \<Rightarrow> bool" where
  "job_matches t st src r \<longleftrightarrow> j_tenant_id r = t \<and>
     (case st of None \<Rightarrow> True | Some x \<Rightarrow> j_status r = x) \<and>
     (case src of None \<Rightarrow> True | Some x \<Rightarrow> j_source r = x)"

text \<open>\<^verbatim>\<open>ORDER BY created_at DESC, job_id DESC\<close>, and the limit \<^verbatim>\<open>max(1, min(limit, 200))\<close>.\<close>

definition newest_first :: "'a job_record_scheme list \<Rightarrow> 'a job_record_scheme list" where
  "newest_first js = rev (sort_key (\<lambda>r. (j_created_at r, j_id r)) js)"

definition page_limit :: "int \<Rightarrow> int" where
  "page_limit n = max 1 (min n 200)"

text \<open>The primary key and \<open>UNIQUE (tenant_id, idempotency_key)\<close>, where NULLs are distinct.\<close>

definition job_conflict :: "'a job_record_scheme \<Rightarrow> 'a job_record_scheme list \<Rightarrow> bool" where
  "job_conflict r js \<longleftrightarrow> (\<exists>x \<in> set js. j_id x = j_id r \<or>
     (j_idempotency_key r \<noteq> None \<and> j_tenant_id x = j_tenant_id r \<and>
      j_idempotency_key x = j_idempotency_key r))"

text \<open>The row a claim of the job may change: the \<^verbatim>\<open>WHERE\<close> of \<^verbatim>\<open>mark_running\<close>.\<close>

definition claimable :: "string \<Rightarrow> string \<Rightarrow> bool \<Rightarrow> 'a job_record_scheme \<Rightarrow> bool" where
  "claimable t j require_queued r \<longleftrightarrow> is_job t j r \<and>
     j_status r = (if require_queued then QUEUED else RUNNING) \<and> \<not> j_cancel_requested r"

section \<open>The event log\<close>

definition is_event_of :: "string \<Rightarrow> string \<Rightarrow> job_event \<Rightarrow> bool" where
  "is_event_of t j e \<longleftrightarrow> ev_tenant_id e = t \<and> ev_job_id e = j"

definition next_sequence :: "string \<Rightarrow> string \<Rightarrow> job_event list \<Rightarrow> int" where
  "next_sequence t j es = coalesce (sql_max (map ev_sequence (filter (is_event_of t j) es))) 0 + 1"

definition new_event :: "string \<Rightarrow> string \<Rightarrow> string \<Rightarrow> json \<Rightarrow> time \<Rightarrow> int \<Rightarrow> job_event" where
  "new_event t j kind p ts n =
     \<lparr>ev_sequence = n, ev_job_id = j, ev_tenant_id = t, ev_kind = kind,
      ev_payload = p, ev_created_at = ts\<rparr>"

definition log_event ::
  "string \<Rightarrow> string \<Rightarrow> string \<Rightarrow> json \<Rightarrow> time \<Rightarrow> job_event list \<Rightarrow> job_event list" where
  "log_event t j kind p ts es = es @ [new_event t j kind p ts (next_sequence t j es)]"

definition events_after :: "string \<Rightarrow> string \<Rightarrow> int \<Rightarrow> int \<Rightarrow> job_event list \<Rightarrow> job_event list" where
  "events_after t j after n es =
     sql_limit n (sort_key ev_sequence (filter (\<lambda>e. is_event_of t j e \<and> after < ev_sequence e) es))"

text \<open>The events of a job are numbered 1, 2, 3, ... in the order they were written.\<close>

definition numbered :: "job_event list \<Rightarrow> bool" where
  "numbered es \<longleftrightarrow> (\<forall>t j. map ev_sequence (filter (is_event_of t j) es) =
     map int [Suc 0..<Suc (length (filter (is_event_of t j) es))])"

lemma numbered_Nil [simp]: "numbered []"
  by (simp add: numbered_def)

lemma next_sequence_numbered:
  "numbered es \<Longrightarrow> next_sequence t j es = int (length (filter (is_event_of t j) es)) + 1"
  unfolding next_sequence_def numbered_def by (simp only: sql_max_upt)

lemma new_event_simps [simp]:
  "ev_sequence (new_event t j kind p ts n) = n" "ev_job_id (new_event t j kind p ts n) = j"
  "ev_tenant_id (new_event t j kind p ts n) = t" "ev_kind (new_event t j kind p ts n) = kind"
  "ev_payload (new_event t j kind p ts n) = p" "ev_created_at (new_event t j kind p ts n) = ts"
  by (simp_all add: new_event_def)

lemma is_event_of_new_event [simp]:
  "is_event_of t' j' (new_event t j kind p ts n) \<longleftrightarrow> t = t' \<and> j = j'"
  by (simp add: is_event_of_def)

lemma filter_log_event:
  "filter (is_event_of t' j') (log_event t j kind p ts es) =
     filter (is_event_of t' j') es @
     (if t = t' \<and> j = j' then [new_event t j kind p ts (next_sequence t j es)] else [])"
  by (simp add: log_event_def)

lemma numbered_log_event [inv_intros]:
  assumes "numbered es"
  shows "numbered (log_event t j kind p ts es)"
  unfolding numbered_def
proof (intro allI)
  fix t' j'
  have old: "map ev_sequence (filter (is_event_of t' j') es) =
      map int [Suc 0..<Suc (length (filter (is_event_of t' j') es))]"
    using assms unfolding numbered_def by blast
  have nxt: "next_sequence t j es = int (length (filter (is_event_of t j) es)) + 1"
    using assms by (rule next_sequence_numbered)
  show "map ev_sequence (filter (is_event_of t' j') (log_event t j kind p ts es)) =
      map int [Suc 0..<Suc (length (filter (is_event_of t' j') (log_event t j kind p ts es)))]"
    unfolding filter_log_event using nxt by (cases "t = t' \<and> j = j'") (auto simp: old)
qed

text \<open>Reading the log from a sequence number on, in a numbered log: drop that many.\<close>

lemma filter_upt_gt:
  "map f xs = map int [Suc a..<Suc (a + length xs)] \<Longrightarrow> filter (\<lambda>e. int (a + k) < f e) xs = drop k xs"
proof (induction xs arbitrary: a k)
  case Nil
  then show ?case by simp
next
  case (Cons x xs)
  have "map int [Suc a..<Suc (a + length (x # xs))] =
      int (Suc a) # map int [Suc (Suc a)..<Suc (Suc a + length xs)]"
    by (subst upt_conv_Cons) simp_all
  with Cons.prems have fx: "f x = int (Suc a)"
    and rest: "map f xs = map int [Suc (Suc a)..<Suc (Suc a + length xs)]" by simp_all
  show ?case
  proof (cases k)
    case 0
    have "filter (\<lambda>e. int (Suc a + 0) < f e) xs = drop 0 xs" by (rule Cons.IH [OF rest])
    moreover have "int a < f e" if "e \<in> set xs" for e
    proof -
      from that have "f e \<in> set (map f xs)" by simp
      then show ?thesis by (auto simp: rest)
    qed
    ultimately show ?thesis using 0 fx by (simp add: filter_id_conv)
  next
    case (Suc m)
    have "filter (\<lambda>e. int (Suc a + m) < f e) xs = drop m xs" by (rule Cons.IH [OF rest])
    with Suc fx show ?thesis by simp
  qed
qed

lemma sorted_numbered: "sorted (map int [a..<b])"
  by (simp add: sorted_map sorted_wrt_upt)

lemma numbered_positive:
  assumes "numbered es" and "e \<in> set es" and "is_event_of t j e"
  shows "0 < ev_sequence e"
proof -
  have "map ev_sequence (filter (is_event_of t j) es) =
      map int [Suc 0..<Suc (length (filter (is_event_of t j) es))]"
    using assms(1) unfolding numbered_def by blast
  moreover have "ev_sequence e \<in> set (map ev_sequence (filter (is_event_of t j) es))"
    using assms(2,3) by simp
  ultimately have "ev_sequence e \<in> set (map int [Suc 0..<Suc (length (filter (is_event_of t j) es))])"
    by simp
  then show ?thesis by (auto simp del: upt_Suc)
qed

lemma events_after_numbered:
  assumes "numbered es"
  shows "events_after t j after n es = sql_limit n (drop (nat after) (filter (is_event_of t j) es))"
proof -
  let ?es = "filter (is_event_of t j) es"
  have num: "map ev_sequence ?es = map int [Suc 0..<Suc (0 + length ?es)]"
    using assms(1) unfolding numbered_def by simp
  have "filter (\<lambda>e. is_event_of t j e \<and> after < ev_sequence e) es =
      filter (\<lambda>e. int (0 + nat after) < ev_sequence e) ?es"
    unfolding filter_filter
  proof (rule filter_cong [OF refl])
    fix x assume "x \<in> set es"
    then have "is_event_of t j x \<Longrightarrow> 0 < ev_sequence x" by (rule numbered_positive [OF assms])
    then show "(is_event_of t j x \<and> after < ev_sequence x) =
        (is_event_of t j x \<and> int (0 + nat after) < ev_sequence x)" by auto
  qed
  also have "\<dots> = drop (nat after) ?es" using num by (rule filter_upt_gt)
  finally have eq: "filter (\<lambda>e. is_event_of t j e \<and> after < ev_sequence e) es = drop (nat after) ?es" .
  have "sorted (map ev_sequence (drop (nat after) ?es))"
    unfolding drop_map [symmetric] num by (rule sorted_wrt_drop) (rule sorted_numbered)
  then have "sort_key ev_sequence (drop (nat after) ?es) = drop (nat after) ?es"
    by (rule sort_key_id_if_sorted)
  with eq show ?thesis by (simp add: events_after_def)
qed

section \<open>The abstract store\<close>

record job_store =
  st_jobs :: "string \<Rightarrow> string \<Rightarrow> job_record option"
  st_events :: "string \<Rightarrow> string \<Rightarrow> job_event list"

definition put_job :: "string \<Rightarrow> string \<Rightarrow> job_record \<Rightarrow> job_store \<Rightarrow> job_store" where
  "put_job t j r a = a\<lparr>st_jobs := (st_jobs a)(t := (st_jobs a t)(j \<mapsto> r))\<rparr>"

definition record_event :: "string \<Rightarrow> string \<Rightarrow> string \<Rightarrow> json \<Rightarrow> time \<Rightarrow> job_store \<Rightarrow> job_store" where
  "record_event t j kind p ts a = a\<lparr>st_events := (st_events a)(t := (st_events a t)(j :=
     st_events a t j @ [new_event t j kind p ts (int (length (st_events a t j)) + 1)]))\<rparr>"

definition spec_mark_running ::
  "call_env \<Rightarrow> string \<Rightarrow> string \<Rightarrow> bool \<Rightarrow> job_store \<Rightarrow> (exn + job_record option) \<times> job_store" where
  "spec_mark_running e t j rq a =
     (case st_jobs a t j of
        None \<Rightarrow> (Inr None, a)
      | Some r \<Rightarrow>
          if claimable t j rq r then
            (Inr (Some (running_job (now e) r)),
             record_event t j ''status'' (status_payload RUNNING) (now e)
               (put_job t j (running_job (now e) r) a))
          else (Inr None, a))"

definition spec_transition ::
  "call_env \<Rightarrow> string \<Rightarrow> string \<Rightarrow> job_status \<Rightarrow> int option \<Rightarrow> string option \<Rightarrow> string option \<Rightarrow>
    job_store \<Rightarrow> (exn + job_record) \<times> job_store" where
  "spec_transition e t j st n c m a =
     (case st_jobs a t j of
        None \<Rightarrow> (Inl (KeyError j), a)
      | Some r \<Rightarrow>
          (Inr (moved_job (now e) st n c m r),
           record_event t j ''status'' (transition_payload st c m) (now e)
             (put_job t j (moved_job (now e) st n c m r) a)))"

definition spec_append_event ::
  "call_env \<Rightarrow> string \<Rightarrow> string \<Rightarrow> string \<Rightarrow> json \<Rightarrow> job_store \<Rightarrow> (exn + job_event) \<times> job_store" where
  "spec_append_event e t j kind p a =
     (case st_jobs a t j of
        None \<Rightarrow> (Inl (KeyError j), a)
      | Some r \<Rightarrow>
          (Inr (new_event t j kind p (now e) (int (length (st_events a t j)) + 1)),
           record_event t j kind p (now e) a))"

definition spec_set_dispatch_id ::
  "call_env \<Rightarrow> string \<Rightarrow> string \<Rightarrow> string \<Rightarrow> job_store \<Rightarrow> job_store" where
  "spec_set_dispatch_id e t j d a =
     (case st_jobs a t j of
        None \<Rightarrow> a
      | Some r \<Rightarrow> put_job t j (dispatched_job (now e) d r) a)"

definition spec_request_cancel ::
  "call_env \<Rightarrow> string \<Rightarrow> string \<Rightarrow> job_store \<Rightarrow> (exn + job_record) \<times> job_store" where
  "spec_request_cancel e t j a =
     (case st_jobs a t j of
        None \<Rightarrow> (Inl (KeyError j), a)
      | Some r \<Rightarrow>
          if terminal (j_status r) then (Inr r, a)
          else (Inr (cancelled_job (now e) r),
                record_event t j ''cancel_requested'' (status_payload (cancel_status (j_status r))) (now e)
                  (put_job t j (cancelled_job (now e) r) a)))"

definition job_id_used :: "string \<Rightarrow> job_store \<Rightarrow> bool" where
  "job_id_used j a \<longleftrightarrow> (\<exists>t. st_jobs a t j \<noteq> None)"

definition spec_insert ::
  "call_env \<Rightarrow> string \<Rightarrow> finding_source \<Rightarrow> json \<Rightarrow> string option \<Rightarrow> job_store \<Rightarrow>
    (exn + job_record \<times> bool) \<times> job_store" where
  "spec_insert e t src p key a =
     (let jid = ''job_'' @ uuid e 0; r = new_job jid t src p key (now e)
      in if job_id_used jid a then (Inl IntegrityError, a)
         else (Inr (r, True),
               record_event t jid ''status'' (status_payload QUEUED) (now e) (put_job t jid r a)))"

section \<open>Well-formed stores\<close>

definition wf_store :: "job_store \<Rightarrow> bool" where
  "wf_store a \<longleftrightarrow>
     (\<forall>t j r. st_jobs a t j = Some r \<longrightarrow> j_tenant_id r = t \<and> j_id r = j) \<and>
     (\<forall>t t' j r r'. st_jobs a t j = Some r \<longrightarrow> st_jobs a t' j = Some r' \<longrightarrow> t = t') \<and>
     (\<forall>t j j' r r' k. st_jobs a t j = Some r \<longrightarrow> st_jobs a t j' = Some r' \<longrightarrow>
        j_idempotency_key r = Some k \<longrightarrow> j_idempotency_key r' = Some k \<longrightarrow> j = j') \<and>
     (\<forall>t j. map ev_sequence (st_events a t j) = map int [Suc 0..<Suc (length (st_events a t j))])"

lemma wf_store_job: "wf_store a \<Longrightarrow> st_jobs a t j = Some r \<Longrightarrow> j_tenant_id r = t \<and> j_id r = j"
  unfolding wf_store_def by blast

lemma store_simps [simp]:
  "st_events (put_job t j r a) = st_events a"
  "st_jobs (record_event t j kind p ts a) = st_jobs a"
  "st_jobs (put_job t j r a) t' j' = (if t' = t \<and> j' = j then Some r else st_jobs a t' j')"
  "st_events (record_event t j kind p ts a) t' j' =
     (if t' = t \<and> j' = j
      then st_events a t j @ [new_event t j kind p ts (int (length (st_events a t j)) + 1)]
      else st_events a t' j')"
  by (simp_all add: put_job_def record_event_def)

lemma store_eqI:
  assumes "\<And>t j. st_jobs a t j = st_jobs b t j" and "\<And>t j. st_events a t j = st_events b t j"
  shows "a = (b :: job_store)"
  using assms by (intro job_store.equality ext) simp_all

section \<open>Tables as stores\<close>

definition keys_unique :: "'a job_record_scheme list \<Rightarrow> bool" where
  "keys_unique js \<longleftrightarrow> (\<forall>x \<in> set js. \<forall>y \<in> set js. \<forall>k. j_idempotency_key x = Some k \<longrightarrow>
     j_idempotency_key y = Some k \<longrightarrow> j_tenant_id x = j_tenant_id y \<longrightarrow> j_id x = j_id y)"

lemma keys_uniqueD:
  "keys_unique js \<Longrightarrow> x \<in> set js \<Longrightarrow> y \<in> set js \<Longrightarrow> j_idempotency_key x = Some k \<Longrightarrow>
    j_idempotency_key y = Some k \<Longrightarrow> j_tenant_id x = j_tenant_id y \<Longrightarrow> j_id x = j_id y"
  unfolding keys_unique_def by blast

definition job_table_ok :: "'a job_record_scheme list \<Rightarrow> bool" where
  "job_table_ok js \<longleftrightarrow> distinct (map j_id js) \<and> keys_unique js"

definition table_view :: "'a job_record_scheme list \<Rightarrow> job_event list \<Rightarrow> job_store" where
  "table_view js es =
     \<lparr>st_jobs = (\<lambda>t j. map_option job_record.truncate (find (is_job t j) js)),
      st_events = (\<lambda>t j. filter (is_event_of t j) es)\<rparr>"

lemma table_view_simps [simp]:
  "st_jobs (table_view js es) t j = map_option job_record.truncate (find (is_job t j) js)"
  "st_events (table_view js es) t j = filter (is_event_of t j) es"
  by (simp_all add: table_view_def)

lemma job_table_ok_Nil [simp]: "job_table_ok []"
  by (simp add: job_table_ok_def keys_unique_def)

lemma is_job_find: "find (is_job t j) js = Some r \<Longrightarrow> r \<in> set js \<and> j_tenant_id r = t \<and> j_id r = j"
  by (auto dest: find_SomeD simp: is_job_def)

text \<open>The row of a job is the only one with its id.\<close>

lemma find_is_job:
  assumes "job_table_ok js" and "r \<in> set js" and "j_tenant_id r = t" and "j_id r = j"
  shows "find (is_job t j) js = Some r"
proof (rule find_distinct_key [where k = j_id])
  show "distinct (map j_id js)" using assms(1) by (simp add: job_table_ok_def)
qed (use assms in \<open>auto simp: is_job_def\<close>)

lemma find_has_key:
  assumes "job_table_ok js" and "r \<in> set js" and "has_key t k r"
  shows "find (has_key t k) js = Some r"
proof (rule find_distinct_key [where k = j_id])
  show "distinct (map j_id js)" using assms(1) by (simp add: job_table_ok_def)
next
  fix y assume "y \<in> set js" and "has_key t k y"
  with assms show "j_id y = j_id r"
    unfolding job_table_ok_def has_key_def by (intro keys_uniqueD [of js y r k]) simp_all
qed (use assms in simp_all)

lemma claimable_is_job: "claimable t j rq r \<Longrightarrow> is_job t j r"
  by (simp add: claimable_def)

text \<open>Updates that keep the key columns keep the table's constraints.\<close>

definition keeps_keys :: "('a job_record_scheme \<Rightarrow> 'a job_record_scheme) \<Rightarrow> bool" where
  "keeps_keys f \<longleftrightarrow> (\<forall>r. j_id (f r) = j_id r \<and> j_tenant_id (f r) = j_tenant_id r \<and>
     j_idempotency_key (f r) = j_idempotency_key r)"

lemma keeps_keys_updates [simp]:
  "keeps_keys (running_job t)" "keeps_keys (moved_job t s n c m)" "keeps_keys (cancelled_job t)"
  "keeps_keys (dispatched_job t d)"
  by (simp_all add: keeps_keys_def)

lemma job_table_ok_update [inv_intros]:
  assumes "job_table_ok js" and "keeps_keys f"
  shows "job_table_ok (upd_where P f js)"
proof -
  have "map j_id (upd_where P f js) = map j_id js"
    using assms(2) by (intro map_upd_where) (simp add: keeps_keys_def)
  moreover have "keys_unique (upd_where P f js)"
    unfolding keys_unique_def set_upd_where
  proof (intro ballI allI impI)
    fix x' y' k
    assume "x' \<in> (\<lambda>x. if P x then f x else x) ` set js" and "y' \<in> (\<lambda>x. if P x then f x else x) ` set js"
      and keys: "j_idempotency_key x' = Some k" "j_idempotency_key y' = Some k"
        "j_tenant_id x' = j_tenant_id y'"
    then obtain x y where xy: "x \<in> set js" "y \<in> set js" "x' = (if P x then f x else x)"
        "y' = (if P y then f y else y)" by blast
    with assms(2) have cols: "j_id x' = j_id x" "j_id y' = j_id y"
        "j_idempotency_key x' = j_idempotency_key x" "j_idempotency_key y' = j_idempotency_key y"
        "j_tenant_id x' = j_tenant_id x" "j_tenant_id y' = j_tenant_id y"
      by (simp_all add: keeps_keys_def)
    have "j_id x = j_id y"
      using assms(1) xy(1,2) keys cols unfolding job_table_ok_def by (intro keys_uniqueD [of js x y k]) simp_all
    with cols show "j_id x' = j_id y'" by simp
  qed
  ultimately show ?thesis using assms(1) by (simp add: job_table_ok_def)
qed

lemma job_table_ok_insert [inv_intros]:
  assumes "job_table_ok js" and "\<not> job_conflict r js"
  shows "job_table_ok (js @ [r])"
proof -
  have new: "j_id x \<noteq> j_id r"
    "\<not> (j_idempotency_key r \<noteq> None \<and> j_tenant_id x = j_tenant_id r \<and> j_idempotency_key x = j_idempotency_key r)"
    if "x \<in> set js" for x
    using assms(2) that unfolding job_conflict_def by blast+
  have "keys_unique (js @ [r])"
    unfolding keys_unique_def
  proof (intro ballI allI impI)
    fix x y k
    assume xy: "x \<in> set (js @ [r])" "y \<in> set (js @ [r])" "j_idempotency_key x = Some k"
      "j_idempotency_key y = Some k" "j_tenant_id x = j_tenant_id y"
    show "j_id x = j_id y"
    proof (cases "x \<in> set js \<and> y \<in> set js")
      case True
      with assms(1) xy show ?thesis
        unfolding job_table_ok_def by (intro keys_uniqueD [of js x y k]) simp_all
    next
      case False
      with xy new(2) show ?thesis by (metis Un_iff empty_iff insert_iff list.set(1,2) option.distinct(1) set_append)
    qed
  qed
  moreover have "j_id r \<notin> j_id ` set js" using new(1) by (metis imageE)
  ultimately show ?thesis using assms(1) by (simp add: job_table_ok_def)
qed

lemma find_job_update:
  assumes "keeps_keys f"
  shows "find (is_job t j) (upd_where P f js) =
    map_option (\<lambda>x. if P x then f x else x) (find (is_job t j) js)"
  using assms by (intro find_upd_where) (simp add: keeps_keys_def is_job_def)

text \<open>Updating the row of one job is storing the updated record.\<close>

lemma view_update:
  assumes "keeps_keys f" and "\<And>x. P x \<Longrightarrow> is_job t j x" and "find (is_job t j) js = Some r" and "P r"
  shows "table_view (upd_where P f js) es = put_job t j (job_record.truncate (f r)) (table_view js es)"
proof (rule store_eqI)
  fix t' j'
  show "st_jobs (table_view (upd_where P f js) es) t' j' =
      st_jobs (put_job t j (job_record.truncate (f r)) (table_view js es)) t' j'"
  proof (cases "t' = t \<and> j' = j")
    case True
    with assms show ?thesis by (simp add: find_job_update)
  next
    case False
    then have "\<not> P x" if "find (is_job t' j') js = Some x" for x
      using is_job_find [OF that] assms(2) [of x] by (auto simp: is_job_def)
    with False assms(1) show ?thesis
      by (cases "find (is_job t' j') js") (auto simp: find_job_update)
  qed
qed simp

lemma view_no_update:
  assumes "keeps_keys f" and "\<And>x. P x \<Longrightarrow> is_job t j x" and "find (is_job t j) js = None"
  shows "upd_where P f js = js"
  using assms by (intro upd_where_none) (auto simp: find_None)

lemma view_insert:
  assumes "\<And>x. x \<in> set js \<Longrightarrow> j_id x \<noteq> j_id r"
  shows "table_view (js @ [r]) es =
    put_job (j_tenant_id r) (j_id r) (job_record.truncate r) (table_view js es)"
proof (rule store_eqI)
  fix t' j'
  have "find (is_job t' j') js = None" if "j' = j_id r"
    using assms that by (auto simp: find_None is_job_def)
  then show "st_jobs (table_view (js @ [r]) es) t' j' =
      st_jobs (put_job (j_tenant_id r) (j_id r) (job_record.truncate r) (table_view js es)) t' j'"
    by (auto simp: find_append is_job_def split: option.split)
qed simp

text \<open>Appending to a numbered log is recording the event in the store.\<close>

lemma view_log_event:
  assumes "numbered es"
  shows "table_view js (log_event t j kind p ts es) = record_event t j kind p ts (table_view js es)"
  by (rule store_eqI) (auto simp: filter_log_event next_sequence_numbered [OF assms])

lemma wf_table_view:
  assumes "job_table_ok js" and "numbered es"
  shows "wf_store (table_view js es)"
proof -
  have uniq: "x = y" if "x \<in> set js" "y \<in> set js" "j_id x = j_id y" for x y
    using assms(1) that unfolding job_table_ok_def by (auto simp: distinct_map inj_on_def)
  show ?thesis
    unfolding wf_store_def table_view_simps
  proof (intro conjI allI impI)
    fix t t' j r r'
    assume "map_option job_record.truncate (find (is_job t j) js) = Some r"
      and "map_option job_record.truncate (find (is_job t' j) js) = Some r'"
    then show "t = t'" using uniq by (auto dest!: is_job_find)
  next
    fix t j j' r r' k
    assume "map_option job_record.truncate (find (is_job t j) js) = Some r"
      and "map_option job_record.truncate (find (is_job t j') js) = Some r'"
      and keys: "j_idempotency_key r = Some k" "j_idempotency_key r' = Some k"
    then obtain x y where "find (is_job t j) js = Some x" "r = job_record.truncate x"
      "find (is_job t j') js = Some y" "r' = job_record.truncate y" by auto
    with keys have "x \<in> set js" "y \<in> set js" "j_id x = j" "j_id y = j'" "j_tenant_id x = j_tenant_id y"
      "j_idempotency_key x = Some k" "j_idempotency_key y = Some k" by (auto dest: is_job_find)
    with assms(1) show "j = j'"
      unfolding job_table_ok_def by (metis keys_uniqueD)
  qed (use assms(2) in \<open>auto dest!: is_job_find simp: numbered_def\<close>)
qed

text \<open>At most one row can be claimed, so the row count says whether the job's row can.\<close>

lemma claim_rowcount:
  assumes "job_table_ok js"
  shows "length (filter (claimable t j rq) js) =
    (case find (is_job t j) js of None \<Rightarrow> 0 | Some r \<Rightarrow> if claimable t j rq r then 1 else 0)"
proof -
  have le: "length (filter (claimable t j rq) js) \<le> 1"
    using assms by (intro count_key_le_one [where k = j_id])
      (auto simp: job_table_ok_def claimable_def is_job_def)
  show ?thesis
  proof (cases "filter (claimable t j rq) js")
    case Nil
    then have "\<not> claimable t j rq r" if "find (is_job t j) js = Some r" for r
      using is_job_find [OF that] by (auto simp: filter_empty_conv)
    with Nil show ?thesis by (auto split: option.split)
  next
    case (Cons r rs)
    then have "r \<in> set (filter (claimable t j rq) js)" by simp
    then have r: "r \<in> set js" "claimable t j rq r" by auto
    then have "find (is_job t j) js = Some r"
      using assms by (intro find_is_job) (auto simp: claimable_def is_job_def)
    with r le Cons show ?thesis by simp
  qed
qed

lemma job_conflict_iff:
  assumes "job_table_ok js" and "\<And>k. j_idempotency_key r = Some k \<Longrightarrow> find (has_key (j_tenant_id r) k) js = None"
  shows "job_conflict r js \<longleftrightarrow> job_id_used (j_id r) (table_view js es)"
proof -
  have "\<not> (j_idempotency_key r \<noteq> None \<and> j_tenant_id x = j_tenant_id r \<and>
      j_idempotency_key x = j_idempotency_key r)" if "x \<in> set js" for x
  proof (cases "j_idempotency_key r")
    case (Some k)
    then have "\<not> has_key (j_tenant_id r) k x"
      using assms(2) [OF Some] that by (simp add: find_None)
    with Some show ?thesis by (simp add: has_key_def)
  qed simp
  then have "job_conflict r js \<longleftrightarrow> (\<exists>x \<in> set js. j_id x = j_id r)"
    unfolding job_conflict_def by blast
  also have "\<dots> \<longleftrightarrow> (\<exists>t. find (is_job t (j_id r)) js \<noteq> None)"
  proof
    assume "\<exists>x \<in> set js. j_id x = j_id r"
    then obtain x where "x \<in> set js" and "is_job (j_tenant_id x) (j_id r) x"
      by (auto simp: is_job_def)
    then have "find (is_job (j_tenant_id x) (j_id r)) js \<noteq> None" by (auto simp: find_None)
    then show "\<exists>t. find (is_job t (j_id r)) js \<noteq> None" by (rule exI)
  next
    assume "\<exists>t. find (is_job t (j_id r)) js \<noteq> None"
    then obtain t x where "find (is_job t (j_id r)) js = Some x" by auto
    then have "x \<in> set js" and "j_id x = j_id r" by (auto dest: is_job_find)
    then show "\<exists>x \<in> set js. j_id x = j_id r" by (rule bexI [rotated])
  qed
  finally show ?thesis by (simp add: job_id_used_def)
qed

section \<open>Listings\<close>

text \<open>Newest first: strictly descending in creation time and id, so the set fixes the list.\<close>

definition listing :: "job_record set \<Rightarrow> job_record list \<Rightarrow> bool" where
  "listing S xs \<longleftrightarrow> set xs = S \<and>
     sorted_wrt (\<lambda>x y. (j_created_at y, j_id y) < (j_created_at x, j_id x)) xs"

lemma sorted_wrt_unique:
  assumes "sorted_wrt R xs" and "sorted_wrt R ys" and "set xs = set ys"
    and asym: "\<And>x y. R x y \<Longrightarrow> \<not> R y x"
  shows "xs = ys"
  using assms(1-3)
proof (induction xs arbitrary: ys)
  case Nil
  then show ?case by simp
next
  case (Cons x xs)
  then obtain y ys' where ys: "ys = y # ys'" by (cases ys) auto
  have "x = y"
  proof (rule ccontr)
    assume "x \<noteq> y"
    with Cons.prems ys have "x \<in> set ys'" and "y \<in> set xs" by auto
    with Cons.prems ys have "R y x" and "R x y" by auto
    with asym show False by blast
  qed
  moreover have "set xs = set ys'"
  proof -
    have "x \<notin> set xs" using Cons.prems(1) asym by auto
    moreover have "y \<notin> set ys'" using Cons.prems(2) ys asym by auto
    ultimately show ?thesis using Cons.prems(3) ys \<open>x = y\<close> by auto
  qed
  ultimately show ?case using Cons ys by auto
qed

lemma listing_unique: "listing S xs \<Longrightarrow> listing S ys \<Longrightarrow> xs = ys"
  unfolding listing_def
  by (rule sorted_wrt_unique [where R = "\<lambda>x y. (j_created_at y, j_id y) < (j_created_at x, j_id x)"])
    auto

lemma set_newest_first [simp]: "set (newest_first js) = set js"
  by (simp add: newest_first_def)

lemma newest_first_descending:
  assumes "distinct (map j_id js)"
  shows "sorted_wrt (\<lambda>x y. (j_created_at y, j_id y) < (j_created_at x, j_id x)) (newest_first js)"
proof -
  let ?k = "\<lambda>r. (j_created_at r, j_id r)"
  let ?s = "sort_key ?k js"
  have le: "sorted_wrt (\<lambda>x y. ?k x \<le> ?k y) ?s"
    using sorted_sort_key [of ?k js] by (simp add: sorted_map)
  have "mset (map j_id ?s) = mset (map j_id js)" by simp
  then have "distinct (map j_id ?s)" using assms mset_eq_imp_distinct_iff by metis
  then have "sorted_wrt (\<lambda>x y. j_id x \<noteq> j_id y) ?s"
    by (simp add: sorted_wrt_iff_nth_less distinct_conv_nth)
  with le have "sorted_wrt (\<lambda>x y. ?k x < ?k y) ?s"
    by (auto simp: sorted_wrt_iff_nth_less order_less_le)
  then show ?thesis by (simp add: newest_first_def sorted_wrt_rev)
qed

lemma newest_listing:
  assumes "job_table_ok js"
  shows "listing {r. \<exists>j. st_jobs (table_view js es) t j = Some r \<and> job_matches t st src r}
    (map job_record.truncate (newest_first (filter (job_matches t st src) js)))"
proof -
  let ?js = "filter (job_matches t st src) js"
  have matches: "job_matches t st src (job_record.truncate x) = job_matches t st src x" for x
    by (auto simp: job_matches_def split: option.split)
  have "distinct (map j_id ?js)"
    using assms by (auto simp: job_table_ok_def distinct_map inj_on_def)
  then have "sorted_wrt (\<lambda>x y. (j_created_at y, j_id y) < (j_created_at x, j_id x))
      (map job_record.truncate (newest_first ?js))"
    using newest_first_descending [of ?js] by (simp add: sorted_wrt_map)
  moreover have "set (map job_record.truncate (newest_first ?js)) =
      {r. \<exists>j. st_jobs (table_view js es) t j = Some r \<and> job_matches t st src r}" (is "?L = ?R")
  proof
    show "?L \<subseteq> ?R"
    proof
      fix r assume "r \<in> ?L"
      then obtain x where x: "x \<in> set js" "job_matches t st src x" "r = job_record.truncate x" by auto
      then have "find (is_job t (j_id x)) js = Some x"
        using assms by (intro find_is_job) (auto simp: job_matches_def)
      with x matches show "r \<in> ?R" by auto
    qed
    show "?R \<subseteq> ?L" using matches by (auto dest!: is_job_find)
  qed
  ultimately show ?thesis by (simp add: listing_def)
qed

end
