(* ===== verification/Database.thy ===== *)
theory Database
  imports Job_Table
begin

text \<open>
  The relational schema of \<^verbatim>\<open>db_models.py\<close>: one record per row class and the database as
  the tuple of its tables, each a list of rows in insertion order. A row id is a row's
  position in the order of insertion. The inserts check the constraints the classes
  declare (primary keys, unique constraints, foreign keys) and raise an IntegrityError.
  Timestamps are instants; the length limits of the string columns are not enforced by
  SQLite and are not modelled. A job row is a job record with the columns only this
  backend has.
\<close>

section \<open>Rows\<close>

record tenant_row =
  t_id :: string
  t_slug :: string
  t_name :: string
  t_status :: string
  t_retention_days :: int
  t_created_at :: time
  t_updated_at :: time

record user_row =
  u_id :: string
  u_issuer :: string
  u_subject :: string
  u_email :: "string option"
  u_display_name :: "string option"
  u_created_at :: time
  u_updated_at :: time

record membership_row =
  m_tenant_id :: string
  m_user_id :: string
  m_role :: string
  m_status :: string
  m_created_at :: time

record api_key_row =
  k_id :: string
  k_tenant_id :: string
  k_key_prefix :: string
  k_secret_hash :: string
  k_role :: string
  k_scopes :: "string list"
  k_expires_at :: "time option"
  k_revoked_at :: "time option"
  k_created_at :: time

record client_row =
  i_id :: string
  i_name :: string
  i_key_prefix :: string
  i_secret_hash :: string
  i_allowed_issuers :: "string list"
  i_active :: bool
  i_rotated_from_id :: "string option"
  i_created_at :: time
  i_updated_at :: time
  i_last_used_at :: "time option"
  i_revoked_at :: "time option"

record session_row =
  s_id :: string
  s_token_hash :: string
  s_user_id :: string
  s_tenant_id :: string
  s_identity_client_id :: string
  s_created_at :: time
  s_expires_at :: time
  s_last_seen_at :: "time option"
  s_revoked_at :: "time option"

record job_row = job_record +
  j_queue :: string
  j_progress :: rat
  j_timeout_at :: "time option"
  j_created_by :: "string option"

record finding_row =
  fr_row_id :: int
  fr_tenant_id :: string
  fr_finding_id :: string
  fr_fingerprint :: string
  fr_source :: finding_source
  fr_severity :: finding_severity
  fr_confidence :: rat
  fr_status :: string
  fr_asset :: "string option"
  fr_cve :: "string option"
  fr_title :: string
  fr_description :: string
  fr_first_seen :: time
  fr_last_seen :: time
  fr_occurrences :: int
  fr_job_id :: "string option"
  fr_assigned_to :: "string option"
  fr_payload :: "(string \<times> json) list"
  fr_created_at :: time
  fr_updated_at :: time

record correlation_row =
  cr_id :: string
  cr_tenant_id :: string
  cr_rule_id :: string
  cr_rule_version :: string
  cr_severity :: string
  cr_narrative :: string
  cr_created_at :: time

record correlation_finding_row =
  cf_tenant_id :: string
  cf_correlation_id :: string
  cf_finding_id :: string

record audit_row =
  a_id :: string
  a_tenant_id :: string
  a_actor :: string
  a_action :: string
  a_resource_type :: string
  a_resource_id :: "string option"
  a_request_id :: "string option"
  a_outcome :: string
  a_details :: json
  a_created_at :: time

record database =
  db_tenants :: "tenant_row list"
  db_users :: "user_row list"
  db_memberships :: "membership_row list"
  db_api_keys :: "api_key_row list"
  db_clients :: "client_row list"
  db_sessions :: "session_row list"
  db_jobs :: "job_row list"
  db_job_events :: "job_event list"
  db_findings :: "finding_row list"
  db_correlations :: "correlation_row list"
  db_correlation_findings :: "correlation_finding_row list"
  db_audit_events :: "audit_row list"

definition empty_db :: database where
  "empty_db =
     \<lparr>db_tenants = [], db_users = [], db_memberships = [], db_api_keys = [], db_clients = [],
      db_sessions = [], db_jobs = [], db_job_events = [], db_findings = [], db_correlations = [],
      db_correlation_findings = [], db_audit_events = []\<rparr>"

section \<open>Lookups by primary key\<close>

definition get_tenant :: "string \<Rightarrow> database \<Rightarrow> tenant_row option" where
  "get_tenant t d = find (\<lambda>r. t_id r = t) (db_tenants d)"

definition get_user :: "string \<Rightarrow> database \<Rightarrow> user_row option" where
  "get_user u d = find (\<lambda>r. u_id r = u) (db_users d)"

definition get_membership_row :: "string \<Rightarrow> string \<Rightarrow> database \<Rightarrow> membership_row option" where
  "get_membership_row t u d = find (\<lambda>r. m_tenant_id r = t \<and> m_user_id r = u) (db_memberships d)"

definition get_client :: "string \<Rightarrow> database \<Rightarrow> client_row option" where
  "get_client i d = find (\<lambda>r. i_id r = i) (db_clients d)"

section \<open>Inserts\<close>

definition insert_tenant :: "tenant_row \<Rightarrow> database \<Rightarrow> exn + database" where
  "insert_tenant r d =
     (if \<exists>x \<in> set (db_tenants d). t_id x = t_id r \<or> t_slug x = t_slug r then Inl IntegrityError
      else Inr (d\<lparr>db_tenants := db_tenants d @ [r]\<rparr>))"

definition insert_user :: "user_row \<Rightarrow> database \<Rightarrow> exn + database" where
  "insert_user r d =
     (if \<exists>x \<in> set (db_users d). u_id x = u_id r \<or> (u_issuer x = u_issuer r \<and> u_subject x = u_subject r)
      then Inl IntegrityError
      else Inr (d\<lparr>db_users := db_users d @ [r]\<rparr>))"

definition insert_membership :: "membership_row \<Rightarrow> database \<Rightarrow> exn + database" where
  "insert_membership r d =
     (if get_membership_row (m_tenant_id r) (m_user_id r) d \<noteq> None
        \<or> get_tenant (m_tenant_id r) d = None \<or> get_user (m_user_id r) d = None
      then Inl IntegrityError
      else Inr (d\<lparr>db_memberships := db_memberships d @ [r]\<rparr>))"

definition insert_api_key :: "api_key_row \<Rightarrow> database \<Rightarrow> exn + database" where
  "insert_api_key r d =
     (if (\<exists>x \<in> set (db_api_keys d). k_id x = k_id r \<or> k_key_prefix x = k_key_prefix r)
        \<or> get_tenant (k_tenant_id r) d = None
      then Inl IntegrityError
      else Inr (d\<lparr>db_api_keys := db_api_keys d @ [r]\<rparr>))"

definition insert_client :: "client_row \<Rightarrow> database \<Rightarrow> exn + database" where
  "insert_client r d =
     (if (\<exists>x \<in> set (db_clients d). i_id x = i_id r \<or> i_key_prefix x = i_key_prefix r)
        \<or> (case i_rotated_from_id r of None \<Rightarrow> False | Some i \<Rightarrow> get_client i d = None)
      then Inl IntegrityError
      else Inr (d\<lparr>db_clients := db_clients d @ [r]\<rparr>))"

definition insert_session :: "session_row \<Rightarrow> database \<Rightarrow> exn + database" where
  "insert_session r d =
     (if (\<exists>x \<in> set (db_sessions d). s_id x = s_id r \<or> s_token_hash x = s_token_hash r)
        \<or> get_user (s_user_id r) d = None \<or> get_tenant (s_tenant_id r) d = None
        \<or> get_client (s_identity_client_id r) d = None
      then Inl IntegrityError
      else Inr (d\<lparr>db_sessions := db_sessions d @ [r]\<rparr>))"

definition insert_job :: "job_row \<Rightarrow> database \<Rightarrow> exn + database" where
  "insert_job r d =
     (if job_conflict r (db_jobs d) \<or> get_tenant (j_tenant_id r) d = None then Inl IntegrityError
      else Inr (d\<lparr>db_jobs := db_jobs d @ [r]\<rparr>))"

definition insert_job_event :: "job_event \<Rightarrow> database \<Rightarrow> exn + database" where
  "insert_job_event r d =
     (if (\<exists>x \<in> set (db_job_events d). is_event_of (ev_tenant_id r) (ev_job_id r) x \<and> ev_sequence x = ev_sequence r)
        \<or> find (is_job (ev_tenant_id r) (ev_job_id r)) (db_jobs d) = None
      then Inl IntegrityError
      else Inr (d\<lparr>db_job_events := db_job_events d @ [r]\<rparr>))"

text \<open>The row id of a finding is the next one of the autoincrementing key; no row is deleted.\<close>

definition next_row_id :: "database \<Rightarrow> int" where
  "next_row_id d = coalesce (sql_max (map fr_row_id (db_findings d))) 0 + 1"

definition insert_finding :: "finding_row \<Rightarrow> database \<Rightarrow> exn + database" where
  "insert_finding r d =
     (if (\<exists>x \<in> set (db_findings d). fr_row_id x = fr_row_id r \<or> (fr_tenant_id x = fr_tenant_id r \<and>
            (fr_finding_id x = fr_finding_id r \<or> fr_fingerprint x = fr_fingerprint r)))
        \<or> get_tenant (fr_tenant_id r) d = None
      then Inl IntegrityError
      else Inr (d\<lparr>db_findings := db_findings d @ [r]\<rparr>))"

definition insert_correlation :: "correlation_row \<Rightarrow> database \<Rightarrow> exn + database" where
  "insert_correlation r d =
     (if (\<exists>x \<in> set (db_correlations d). cr_id x = cr_id r) \<or> get_tenant (cr_tenant_id r) d = None
      then Inl IntegrityError
      else Inr (d\<lparr>db_correlations := db_correlations d @ [r]\<rparr>))"

definition insert_correlation_finding :: "correlation_finding_row \<Rightarrow> database \<Rightarrow> exn + database" where
  "insert_correlation_finding r d =
     (if r \<in> set (db_correlation_findings d)
        \<or> (\<forall>x \<in> set (db_correlations d). \<not> (cr_tenant_id x = cf_tenant_id r \<and> cr_id x = cf_correlation_id r))
      then Inl IntegrityError
      else Inr (d\<lparr>db_correlation_findings := db_correlation_findings d @ [r]\<rparr>))"

definition insert_audit :: "audit_row \<Rightarrow> database \<Rightarrow> exn + database" where
  "insert_audit r d =
     (if (\<exists>x \<in> set (db_audit_events d). a_id x = a_id r) \<or> get_tenant (a_tenant_id r) d = None
      then Inl IntegrityError
      else Inr (d\<lparr>db_audit_events := db_audit_events d @ [r]\<rparr>))"

section \<open>Writes every repository shares\<close>

definition default_tenant :: "string \<Rightarrow> time \<Rightarrow> tenant_row" where
  "default_tenant t ts =
     \<lparr>t_id = t, t_slug = t, t_name = t, t_status = ''active'', t_retention_days = 90,
      t_created_at = ts, t_updated_at = ts\<rparr>"

definition ensure_tenant :: "string \<Rightarrow> time \<Rightarrow> database \<Rightarrow> exn + database" where
  "ensure_tenant t ts d =
     (case get_tenant t d of
        None \<Rightarrow> insert_tenant (default_tenant t ts) d
      | Some _ \<Rightarrow> Inr d)"

section \<open>Lemmas\<close>

text \<open>What an insert into one table leaves of the others.\<close>

lemma insert_tenant_Inr:
  "insert_tenant r d = Inr d' \<longleftrightarrow>
     (\<forall>x \<in> set (db_tenants d). t_id x \<noteq> t_id r \<and> t_slug x \<noteq> t_slug r) \<and>
     d' = d\<lparr>db_tenants := db_tenants d @ [r]\<rparr>"
  by (auto simp: insert_tenant_def)

lemma insert_audit_Inr:
  "insert_audit r d = Inr d' \<longleftrightarrow>
     (\<forall>x \<in> set (db_audit_events d). a_id x \<noteq> a_id r) \<and> get_tenant (a_tenant_id r) d \<noteq> None \<and>
     d' = d\<lparr>db_audit_events := db_audit_events d @ [r]\<rparr>"
  by (auto simp: insert_audit_def)

lemma get_tenant_frame [simp]:
  "get_tenant t (d\<lparr>db_audit_events := xs1\<rparr>) = get_tenant t d"
  "get_tenant t (d\<lparr>db_job_events := xs2\<rparr>) = get_tenant t d"
  "get_tenant t (d\<lparr>db_jobs := xs3\<rparr>) = get_tenant t d"
  "get_tenant t (d\<lparr>db_findings := xs4\<rparr>) = get_tenant t d"
  "get_tenant t (d\<lparr>db_correlations := xs5\<rparr>) = get_tenant t d"
  "get_tenant t (d\<lparr>db_correlation_findings := xs6\<rparr>) = get_tenant t d"
  "get_tenant t (d\<lparr>db_users := xs7\<rparr>) = get_tenant t d"
  "get_tenant t (d\<lparr>db_memberships := xs8\<rparr>) = get_tenant t d"
  "get_tenant t (d\<lparr>db_api_keys := xs9\<rparr>) = get_tenant t d"
  "get_tenant t (d\<lparr>db_clients := xs10\<rparr>) = get_tenant t d"
  "get_tenant t (d\<lparr>db_sessions := xs11\<rparr>) = get_tenant t d"
  by (simp_all add: get_tenant_def)

text \<open>After \<open>ensure_tenant\<close> the tenant is there, and only the tenants may have changed.\<close>

definition slug_free :: "string \<Rightarrow> database \<Rightarrow> bool" where
  "slug_free t d \<longleftrightarrow> get_tenant t d \<noteq> None \<or> (\<forall>x \<in> set (db_tenants d). t_slug x \<noteq> t)"

lemma no_tenant: "get_tenant t d = None \<longleftrightarrow> (\<forall>x \<in> set (db_tenants d). t_id x \<noteq> t)"
  by (simp add: get_tenant_def find_None)

lemma ensure_tenant_cases:
  "ensure_tenant t ts d =
     (if get_tenant t d \<noteq> None then Inr d
      else if slug_free t d then Inr (d\<lparr>db_tenants := db_tenants d @ [default_tenant t ts]\<rparr>)
      else Inl IntegrityError)"
proof (cases "get_tenant t d")
  case None
  then have "\<forall>x \<in> set (db_tenants d). t_id x \<noteq> t" by (simp add: no_tenant)
  with None show ?thesis
    by (simp add: ensure_tenant_def insert_tenant_def default_tenant_def slug_free_def)
qed (simp add: ensure_tenant_def)

lemma ensure_tenant_Inr:
  assumes "ensure_tenant t ts d = Inr d'"
  shows "get_tenant t d' \<noteq> None" and "\<exists>new. d' = d\<lparr>db_tenants := db_tenants d @ new\<rparr>"
proof -
  show "get_tenant t d' \<noteq> None"
    using assms by (auto simp: ensure_tenant_cases get_tenant_def find_append default_tenant_def split: if_splits)
  show "\<exists>new. d' = d\<lparr>db_tenants := db_tenants d @ new\<rparr>"
    using assms by (auto simp: ensure_tenant_cases split: if_splits intro: exI [of _ "[]"])
qed

lemma get_tenant_append:
  "get_tenant t d \<noteq> None \<Longrightarrow> get_tenant t (d\<lparr>db_tenants := db_tenants d @ new\<rparr>) \<noteq> None"
  by (auto simp: get_tenant_def find_append)

end
