(* ===== verification/Base64.thy ===== *)
theory Base64
  imports Py_Text
begin

text \<open>
  URL-safe base64 as the program uses it: \<^verbatim>\<open>base64.urlsafe_b64encode(b).rstrip("=")\<close> and
  \<^verbatim>\<open>base64.urlsafe_b64decode(s + "=" * (-len(s) % 4))\<close>, the second with the lenient
  automaton of \<^verbatim>\<open>binascii.a2b_base64\<close> (characters outside the alphabet are skipped, a
  complete padding ends the input). The round trip serves the finding cursors and the
  stored secret hashes.
\<close>

section \<open>Encoding\<close>

definition b64_char :: "nat \<Rightarrow> char" where
  "b64_char n =
     (if n < 26 then char_of (65 + n)
      else if n < 52 then char_of (71 + n)
      else if n < 62 then char_of (n - 4)
      else if n = 62 then CHR ''-'' else CHR ''_'')"

fun urlsafe_b64encode :: "string \<Rightarrow> string" where
  "urlsafe_b64encode [] = []"
| "urlsafe_b64encode [a] =
     [b64_char (code a div 4), b64_char (code a mod 4 * 16), CHR ''='', CHR ''='']"
| "urlsafe_b64encode [a, b] =
     [b64_char (code a div 4), b64_char (code a mod 4 * 16 + code b div 16),
      b64_char (code b mod 16 * 4), CHR ''='']"
| "urlsafe_b64encode (a # b # c # r) =
     b64_char (code a div 4) # b64_char (code a mod 4 * 16 + code b div 16) #
     b64_char (code b mod 16 * 4 + code c div 64) # b64_char (code c mod 64) #
     urlsafe_b64encode r"

definition b64_unpadded :: "string \<Rightarrow> string" where
  "b64_unpadded bs = rstrip_by (\<lambda>c. c = CHR ''='') (urlsafe_b64encode bs)"

section \<open>Decoding\<close>

definition b64_val :: "char \<Rightarrow> nat option" where
  "b64_val c =
     (if is_upper_az c then Some (code c - 65)
      else if is_lower_az c then Some (code c - 71)
      else if is_digit c then Some (code c + 4)
      else if c = CHR ''-'' \<or> c = CHR ''+'' then Some 62
      else if c = CHR ''_'' \<or> c = CHR ''/'' then Some 63
      else None)"

text \<open>The state is the position in the quad, the bits left over and the pads seen.\<close>

fun a2b_base64 :: "nat \<Rightarrow> nat \<Rightarrow> nat \<Rightarrow> string \<Rightarrow> string option" where
  "a2b_base64 q l pads [] = (if q = 0 then Some [] else None)"
| "a2b_base64 q l pads (c # cs) =
     (if c = CHR ''='' then
        (if 2 \<le> q then if 4 \<le> q + Suc pads then Some [] else a2b_base64 q l (Suc pads) cs
         else a2b_base64 q l pads cs)
      else (case b64_val c of
        None \<Rightarrow> a2b_base64 q l pads cs
      | Some v \<Rightarrow>
          if q = 0 then a2b_base64 1 v 0 cs
          else if q = 1 then
            map_option ((#) (char_of (l * 4 + v div 16))) (a2b_base64 2 (v mod 16) 0 cs)
          else if q = 2 then
            map_option ((#) (char_of (l * 16 + v div 4))) (a2b_base64 3 (v mod 4) 0 cs)
          else map_option ((#) (char_of (l * 64 + v))) (a2b_base64 0 0 0 cs)))"

definition pad4 :: "string \<Rightarrow> string" where
  "pad4 s = s @ replicate (nat ((- int (length s)) mod 4)) (CHR ''='')"

text \<open>\<open>None\<close> is the ValueError (of which \<^verbatim>\<open>binascii.Error\<close> is a subclass).\<close>

definition urlsafe_b64decode :: "string \<Rightarrow> string option" where
  "urlsafe_b64decode s = (if list_all is_ascii s then a2b_base64 0 0 0 s else None)"

section \<open>The round trip\<close>

lemma alphabet:
  assumes "n < 64"
  shows "b64_val (b64_char n) = Some n \<and> is_ascii (b64_char n)"
proof -
  consider "n < 26" | "26 \<le> n" "n < 52" | k where "n = 52 + k" "k < 10" | "n = 62" | "n = 63"
  proof (cases "52 \<le> n \<and> n < 62")
    case True
    then have "n = 52 + (n - 52)" "n - 52 < 10" by arith+
    then show ?thesis by (rule that(3))
  next
    case False
    with assms that show ?thesis by arith
  qed
  then show ?thesis
    by cases (simp_all add: b64_val_def b64_char_def is_upper_az_def is_lower_az_def is_digit_def
        is_ascii_def)
qed

lemma b64_val_b64_char: "n < 64 \<Longrightarrow> b64_val (b64_char n) = Some n"
  and b64_char_ascii: "n < 64 \<Longrightarrow> is_ascii (b64_char n)"
  using alphabet by blast+

lemma b64_char_not_pad: "n < 64 \<Longrightarrow> b64_char n \<noteq> CHR ''=''"
  using b64_val_b64_char [of n]
  by (auto simp: b64_val_def is_upper_az_def is_lower_az_def is_digit_def)

lemma b64_char_not_dollar: "n < 64 \<Longrightarrow> b64_char n \<noteq> CHR ''$''"
  using b64_val_b64_char [of n]
  by (auto simp: b64_val_def is_upper_az_def is_lower_az_def is_digit_def)

lemma code_lt_256: "code c < (256::nat)"
proof -
  have "code c mod (256::nat) < 256" by (rule mod_less_divisor) simp
  then show ?thesis by simp
qed

lemma sextets [simp]:
  "(code a :: nat) div 4 < 64" "(code a :: nat) mod 4 * 16 < 64"
  "(code a :: nat) mod 4 * 16 + code b div 16 < 64"
  "(code b :: nat) mod 16 * 4 < 64" "(code b :: nat) mod 16 * 4 + code c div 64 < 64"
  "(code c :: nat) mod 64 < 64"
  using code_lt_256 [of a] code_lt_256 [of b] code_lt_256 [of c] by linarith+

fun b64_plain :: "string \<Rightarrow> string" where
  "b64_plain [] = []"
| "b64_plain [a] = [b64_char (code a div 4), b64_char (code a mod 4 * 16)]"
| "b64_plain [a, b] =
     [b64_char (code a div 4), b64_char (code a mod 4 * 16 + code b div 16),
      b64_char (code b mod 16 * 4)]"
| "b64_plain (a # b # c # r) =
     b64_char (code a div 4) # b64_char (code a mod 4 * 16 + code b div 16) #
     b64_char (code b mod 16 * 4 + code c div 64) # b64_char (code c mod 64) #
     b64_plain r"

lemma b64_plain_chars: "c \<in> set (b64_plain bs) \<Longrightarrow> \<exists>n < 64. c = b64_char n"
  by (induction bs rule: b64_plain.induct) (auto intro: sextets)

lemma pad4_b64_plain: "pad4 (b64_plain bs) = urlsafe_b64encode bs"
proof (induction bs rule: b64_plain.induct)
  case (4 a b c r)
  have "(- int (length (b64_plain (a # b # c # r)))) mod 4 = (- int (length (b64_plain r))) mod 4"
    by simp presburger
  then have "pad4 (b64_plain (a # b # c # r)) =
      take 4 (b64_plain (a # b # c # r)) @ pad4 (b64_plain r)"
    by (simp add: pad4_def)
  with 4 show ?case by simp
qed (simp_all add: pad4_def numeral_2_eq_2)

lemma b64_unpadded_plain: "b64_unpadded bs = b64_plain bs"
proof -
  let ?P = "\<lambda>c. c = CHR ''=''"
  have "b64_unpadded bs = rstrip_by ?P (b64_plain bs)"
    unfolding b64_unpadded_def pad4_b64_plain [symmetric] pad4_def
    by (rule rstrip_by_append) simp
  also have "\<dots> = b64_plain bs"
    by (rule rstrip_by_id) (auto dest!: b64_plain_chars simp: b64_char_not_pad)
  finally show ?thesis .
qed

lemma b64_unpadded_chars: "c \<in> set (b64_unpadded bs) \<Longrightarrow> \<exists>n < 64. c = b64_char n"
  unfolding b64_unpadded_plain by (rule b64_plain_chars)

lemma pad4_b64_unpadded: "pad4 (b64_unpadded bs) = urlsafe_b64encode bs"
  by (simp add: b64_unpadded_plain pad4_b64_plain)

lemma a2b_char:
  "n < 64 \<Longrightarrow> a2b_base64 0 l p (b64_char n # cs) = a2b_base64 1 n 0 cs"
  "n < 64 \<Longrightarrow> a2b_base64 1 l p (b64_char n # cs) =
     map_option ((#) (char_of (l * 4 + n div 16))) (a2b_base64 2 (n mod 16) 0 cs)"
  "n < 64 \<Longrightarrow> a2b_base64 2 l p (b64_char n # cs) =
     map_option ((#) (char_of (l * 16 + n div 4))) (a2b_base64 3 (n mod 4) 0 cs)"
  "n < 64 \<Longrightarrow> a2b_base64 3 l p (b64_char n # cs) =
     map_option ((#) (char_of (l * 64 + n))) (a2b_base64 0 0 0 cs)"
  by (simp_all add: b64_val_b64_char b64_char_not_pad)

lemma nibbles:
  fixes k r :: nat
  shows "r < 16 \<Longrightarrow> (k * 16 + r) div 16 = k" "r < 16 \<Longrightarrow> (k * 16 + r) mod 16 = r"
    "r < 4 \<Longrightarrow> (k * 4 + r) div 4 = k" "r < 4 \<Longrightarrow> (k * 4 + r) mod 4 = r"
  by simp_all

lemma byte_parts:
  "(code b :: nat) div 16 < 16" "(code c :: nat) div 64 < 4"
  using code_lt_256 [of b] code_lt_256 [of c] by linarith+

lemma byte_recombine:
  "(code a :: nat) div 4 * 4 + (code a mod 4 * 16 + code b div 16) div 16 = code a"
  "(code a :: nat) div 4 * 4 + (code a mod 4 * 16) div 16 = code a"
  "((code a :: nat) mod 4 * 16 + code b div 16) mod 16 * 16 + (code b mod 16 * 4 + code c div 64) div 4 = code b"
  "((code a :: nat) mod 4 * 16 + code b div 16) mod 16 * 16 + (code b mod 16 * 4) div 4 = code b"
  "((code b :: nat) mod 16 * 4 + code c div 64) mod 4 * 64 + code c mod 64 = code c"
  by (simp_all only: nibbles byte_parts nonzero_mult_div_cancel_right div_mult_mod_eq)

lemmas a2b_step = a2b_char [unfolded One_nat_def] byte_recombine byte_parts sextets

lemma a2b_encode: "a2b_base64 0 l p (urlsafe_b64encode bs) = Some bs"
proof (induction bs arbitrary: l p rule: urlsafe_b64encode.induct)
  case (4 a b c r)
  then show ?case by (simp add: a2b_step del: a2b_base64.simps)
next
  case (2 a)
  have "a2b_base64 2 l p ''=='' = Some []" for l p by simp
  then show ?case by (simp add: a2b_step del: a2b_base64.simps)
next
  case (3 a b)
  have "a2b_base64 3 l p ''='' = Some []" for l p by simp
  then show ?case by (simp add: a2b_step del: a2b_base64.simps)
qed simp

lemma urlsafe_b64encode_ascii: "list_all is_ascii (urlsafe_b64encode bs)"
  by (induction bs rule: urlsafe_b64encode.induct) (auto simp: b64_char_ascii, simp_all add: is_ascii_def)

lemma b64_roundtrip: "urlsafe_b64decode (pad4 (b64_unpadded bs)) = Some bs"
  by (simp add: urlsafe_b64decode_def pad4_b64_unpadded urlsafe_b64encode_ascii a2b_encode)

end
