(* ===== verification/Job_Contract.thy ===== *)
theory Job_Contract
  imports Job_Table
begin

text \<open>
  The contract of \<^verbatim>\<open>JobRepository\<close>: the interface between the job backends and their
  clients (executor, API). A backend has an invariant and an abstraction to the job store,
  and every operation either raises an IntegrityError and leaves the state alone, which
  only happens when the environment is not \<open>ready\<close> (a UUID drawn for an audit row or a job
  is already in use), or does what the abstract operation does. The client lemmas in the
  locale are proved once from the laws; the theories of the backends interpret it.
\<close>

definition refines ::
  "('s \<Rightarrow> bool) \<Rightarrow> ('s \<Rightarrow> job_store) \<Rightarrow> bool \<Rightarrow> 's \<Rightarrow> (exn + 'a) \<times> job_store \<Rightarrow> (exn + 'a) \<times> 's \<Rightarrow> bool" where
  "refines invar view rdy s spec out \<longleftrightarrow>
     (out = (Inl IntegrityError, s) \<and> \<not> rdy) \<or>
     (fst out = fst spec \<and> view (snd out) = snd spec \<and> invar (snd out))"

lemma refinesI:
  "fst out = fst spec \<Longrightarrow> view (snd out) = snd spec \<Longrightarrow> invar (snd out) \<Longrightarrow> refines invar view rdy s spec out"
  by (simp add: refines_def)

locale job_contract =
  fixes R :: "'s job_repository"
    and invar :: "'s \<Rightarrow> bool"
    and view :: "'s \<Rightarrow> job_store"
    and ready :: "call_env \<Rightarrow> string \<Rightarrow> 's \<Rightarrow> bool"
  assumes wf: "invar s \<Longrightarrow> wf_store (view s)"
    and get: "invar s \<Longrightarrow> r_get R t j s = st_jobs (view s) t j"
    and find_some: "invar s \<Longrightarrow> r_find_by_idempotency_key R t k s = Some r \<Longrightarrow>
      st_jobs (view s) t (j_id r) = Some r \<and> j_idempotency_key r = Some k"
    and find_none: "invar s \<Longrightarrow> r_find_by_idempotency_key R t k s = None \<Longrightarrow>
      st_jobs (view s) t j = Some r \<Longrightarrow> j_idempotency_key r \<noteq> Some k"
    and list_events: "invar s \<Longrightarrow>
      r_list_events R t j after n s = sql_limit n (drop (nat after) (st_events (view s) t j))"
    and list_jobs: "invar s \<Longrightarrow>
      \<exists>xs. listing {r. \<exists>j. st_jobs (view s) t j = Some r \<and> job_matches t sf so r} xs \<and>
        r_list_jobs R t sf so n s = sql_limit (page_limit n) xs"
    and mark_running: "invar s \<Longrightarrow>
      refines invar view (ready e t s) s (spec_mark_running e t j rq (view s)) (r_mark_running R e t j rq s)"
    and transition: "invar s \<Longrightarrow>
      refines invar view (ready e t s) s (spec_transition e t j st cnt c m (view s))
        (r_transition R e t j st cnt c m s)"
    and append_event: "invar s \<Longrightarrow>
      refines invar view (ready e t s) s (spec_append_event e t j kind p (view s))
        (r_append_event R e t j kind p s)"
    and request_cancel: "invar s \<Longrightarrow>
      refines invar view (ready e t s) s (spec_request_cancel e t j (view s)) (r_request_cancel R e t j s)"
    and set_dispatch_id: "invar s \<Longrightarrow>
      view (r_set_dispatch_id R e t j d s) = spec_set_dispatch_id e t j d (view s) \<and>
      invar (r_set_dispatch_id R e t j d s)"
    and create_found: "invar s \<Longrightarrow> r_find_by_idempotency_key R t k s = Some r \<Longrightarrow>
      r_create R e t src p (Some k) s = (Inr (r, False), s)"
    and create_new: "invar s \<Longrightarrow>
      (\<And>k. key = Some k \<Longrightarrow> r_find_by_idempotency_key R t k s = None) \<Longrightarrow>
      refines invar view (ready e t s) s (spec_insert e t src p key (view s)) (r_create R e t src p key s)"
begin

lemma find_complete:
  assumes "invar s" and "st_jobs (view s) t j = Some r" and "j_idempotency_key r = Some k"
  shows "r_find_by_idempotency_key R t k s = Some r"
proof (cases "r_find_by_idempotency_key R t k s")
  case None
  with assms find_none show ?thesis by blast
next
  case (Some r')
  with assms(1) have r': "st_jobs (view s) t (j_id r') = Some r'" "j_idempotency_key r' = Some k"
    by (auto dest: find_some)
  have "wf_store (view s)" using assms(1) by (rule wf)
  with r' assms(2,3) have "j_id r' = j" unfolding wf_store_def by blast
  with r'(1) assms(2) Some show ?thesis by simp
qed

text \<open>Creating a job twice under one key returns the first job and changes nothing.\<close>

lemma create_idempotent:
  assumes "invar s" and "r_create R e t src p (Some k) s = (Inr (r, b), s')"
  shows "r_create R e' t src' p' (Some k) s' = (Inr (r, False), s')"
proof (cases "r_find_by_idempotency_key R t k s")
  case (Some r0)
  with assms have "r = r0" "s' = s" by (auto simp: create_found)
  with Some assms(1) show ?thesis by (simp add: create_found)
next
  case None
  then have "refines invar view (ready e t s) s (spec_insert e t src p (Some k) (view s)) (Inr (r, b), s')"
    using create_new [of s "Some k" t e src p] assms by simp
  then have r: "r = new_job (''job_'' @ uuid e 0) t src p (Some k) (now e)"
    and job: "st_jobs (view s') t (j_id r) = Some r" and "invar s'"
    by (auto simp: refines_def spec_insert_def Let_def split: if_splits)
  have "j_idempotency_key r = Some k" by (simp add: r)
  with job \<open>invar s'\<close> have "r_find_by_idempotency_key R t k s' = Some r" by (intro find_complete)
  with \<open>invar s'\<close> show ?thesis by (rule create_found)
qed

text \<open>Of two claims of a queued job at most one succeeds.\<close>

lemma claim_once:
  assumes "invar s" and "r_mark_running R e t j True s = (Inr (Some r), s')"
  shows "fst (r_mark_running R e' t j True s') = Inr None \<or> fst (r_mark_running R e' t j True s') = Inl IntegrityError"
proof -
  have "refines invar view (ready e t s) s (spec_mark_running e t j True (view s)) (Inr (Some r), s')"
    using mark_running [OF assms(1), of e t j True] assms(2) by simp
  then have "invar s'" and run: "\<exists>r'. st_jobs (view s') t j = Some r' \<and> j_status r' = RUNNING"
    by (auto simp: refines_def spec_mark_running_def split: option.splits if_splits)
  have "refines invar view (ready e' t s') s' (spec_mark_running e' t j True (view s'))
      (r_mark_running R e' t j True s')"
    using \<open>invar s'\<close> by (rule mark_running)
  moreover have "fst (spec_mark_running e' t j True (view s')) = Inr None"
    using run by (auto simp: spec_mark_running_def claimable_def)
  ultimately show ?thesis by (auto simp: refines_def)
qed

text \<open>Reading in pages never loses or repeats an event: the page after the first \<open>n\<close>.\<close>

lemma events_resume:
  assumes "invar s"
  shows "r_list_events R t j 0 (-1) s = take (nat after) (r_list_events R t j 0 (-1) s) @
    r_list_events R t j after (-1) s"
  using assms by (simp add: list_events sql_limit_def)

end

end
