(* ===== verification/Sqlite_Jobs.thy ===== *)
theory Sqlite_Jobs
  imports Job_Contract
begin

text \<open>
  \<^verbatim>\<open>SQLiteJobRepository\<close> of \<^verbatim>\<open>jobs.py\<close>. The state is the two tables in rowid order. Columns
  hold the values themselves where the code stores their text (\<^verbatim>\<open>isoformat\<close>, \<^verbatim>\<open>json.dumps\<close>,
  enum values) and reads it back; \<open>Sqlite_Text\<close> has the texts. Every method runs under the repository's lock, so one
  method is one step; \<open>sq_insert\<close> is the locked part of \<open>create\<close>, and the lookup before it
  is a separate step that other threads and processes may follow.
\<close>

record sqlite_db =
  sq_jobs :: "job_record list"
  sq_events :: "job_event list"

definition sq_empty :: sqlite_db where
  "sq_empty = \<lparr>sq_jobs = [], sq_events = []\<rparr>"

section \<open>Reads\<close>

definition sq_get :: "string \<Rightarrow> string \<Rightarrow> sqlite_db \<Rightarrow> job_record option" where
  "sq_get t j s = find (is_job t j) (sq_jobs s)"

definition sq_find_by_idempotency_key :: "string \<Rightarrow> string \<Rightarrow> sqlite_db \<Rightarrow> job_record option" where
  "sq_find_by_idempotency_key t k s = find (has_key t k) (sq_jobs s)"

definition sq_list_jobs ::
  "string \<Rightarrow> job_status option \<Rightarrow> finding_source option \<Rightarrow> int \<Rightarrow> sqlite_db \<Rightarrow> job_record list" where
  "sq_list_jobs t st src n s =
     sql_limit (page_limit n) (newest_first (filter (job_matches t st src) (sq_jobs s)))"

definition sq_list_events :: "string \<Rightarrow> string \<Rightarrow> int \<Rightarrow> int \<Rightarrow> sqlite_db \<Rightarrow> job_event list" where
  "sq_list_events t j after n s = events_after t j after n (sq_events s)"

definition sq_required :: "string \<Rightarrow> string \<Rightarrow> sqlite_db \<Rightarrow> exn + job_record" where
  "sq_required t j s = (case sq_get t j s of None \<Rightarrow> Inl (KeyError j) | Some r \<Rightarrow> Inr r)"

section \<open>Writes\<close>

definition sq_append_event_locked ::
  "string \<Rightarrow> string \<Rightarrow> string \<Rightarrow> json \<Rightarrow> time \<Rightarrow> sqlite_db \<Rightarrow> job_event \<times> sqlite_db" where
  "sq_append_event_locked t j kind p ts s =
     (new_event t j kind p ts (next_sequence t j (sq_events s)),
      s\<lparr>sq_events := log_event t j kind p ts (sq_events s)\<rparr>)"

text \<open>The locked part of \<open>create\<close>: insert, or on an IntegrityError roll back and look the
  key up again.\<close>

definition sq_insert ::
  "call_env \<Rightarrow> string \<Rightarrow> finding_source \<Rightarrow> json \<Rightarrow> string option \<Rightarrow> sqlite_db \<Rightarrow>
    (exn + job_record \<times> bool) \<times> sqlite_db" where
  "sq_insert e t src p key s =
     (let jid = ''job_'' @ uuid e 0;
          row = new_job jid t src p key (now e)
      in if job_conflict row (sq_jobs s) then
           (case key of
              None \<Rightarrow> (Inl IntegrityError, s)
            | Some k \<Rightarrow>
                (case sq_find_by_idempotency_key t k s of
                   None \<Rightarrow> (Inl IntegrityError, s)
                 | Some existing \<Rightarrow> (Inr (existing, False), s)))
         else
           (let s1 = s\<lparr>sq_jobs := sq_jobs s @ [row]\<rparr>;
                s2 = snd (sq_append_event_locked t jid ''status'' (status_payload QUEUED) (now e) s1)
            in case sq_get t jid s2 of
                 None \<Rightarrow> (Inl (RuntimeError ''created job could not be reloaded''), s2)
               | Some created \<Rightarrow> (Inr (created, True), s2)))"

definition sq_create ::
  "call_env \<Rightarrow> string \<Rightarrow> finding_source \<Rightarrow> json \<Rightarrow> string option \<Rightarrow> sqlite_db \<Rightarrow>
    (exn + job_record \<times> bool) \<times> sqlite_db" where
  "sq_create e t src p key s =
     (case key of
        None \<Rightarrow> sq_insert e t src p key s
      | Some k \<Rightarrow>
          (case sq_find_by_idempotency_key t k s of
             Some existing \<Rightarrow> (Inr (existing, False), s)
           | None \<Rightarrow> sq_insert e t src p key s))"

definition sq_mark_running ::
  "call_env \<Rightarrow> string \<Rightarrow> string \<Rightarrow> bool \<Rightarrow> sqlite_db \<Rightarrow> (exn + job_record option) \<times> sqlite_db" where
  "sq_mark_running e t j require_queued s =
     (let rowcount = length (filter (claimable t j require_queued) (sq_jobs s));
          s1 = s\<lparr>sq_jobs := upd_where (claimable t j require_queued) (running_job (now e)) (sq_jobs s)\<rparr>
      in if rowcount \<noteq> 1 then (Inr None, s1)
         else
           (let s2 = snd (sq_append_event_locked t j ''status'' (status_payload RUNNING) (now e) s1)
            in (case sq_required t j s2 of
                  Inl x \<Rightarrow> (Inl x, s2)
                | Inr r \<Rightarrow> (Inr (Some r), s2))))"

definition sq_transition ::
  "call_env \<Rightarrow> string \<Rightarrow> string \<Rightarrow> job_status \<Rightarrow> int option \<Rightarrow> string option \<Rightarrow> string option \<Rightarrow>
    sqlite_db \<Rightarrow> (exn + job_record) \<times> sqlite_db" where
  "sq_transition e t j st n c m s =
     (case sq_required t j s of
        Inl x \<Rightarrow> (Inl x, s)
      | Inr current \<Rightarrow>
          (let count = (case n of None \<Rightarrow> j_result_count current | Some k \<Rightarrow> k);
               s1 = s\<lparr>sq_jobs := upd_where (is_job t j) (moved_job (now e) st (Some count) c m) (sq_jobs s)\<rparr>;
               s2 = snd (sq_append_event_locked t j ''status'' (transition_payload st c m) (now e) s1)
           in (sq_required t j s2, s2)))"

definition sq_append_event ::
  "call_env \<Rightarrow> string \<Rightarrow> string \<Rightarrow> string \<Rightarrow> json \<Rightarrow> sqlite_db \<Rightarrow> (exn + job_event) \<times> sqlite_db" where
  "sq_append_event e t j kind p s =
     (case sq_required t j s of
        Inl x \<Rightarrow> (Inl x, s)
      | Inr _ \<Rightarrow> (case sq_append_event_locked t j kind p (now e) s of (ev, s1) \<Rightarrow> (Inr ev, s1)))"

definition sq_set_dispatch_id :: "call_env \<Rightarrow> string \<Rightarrow> string \<Rightarrow> string \<Rightarrow> sqlite_db \<Rightarrow> sqlite_db" where
  "sq_set_dispatch_id e t j d s =
     s\<lparr>sq_jobs := upd_where (is_job t j) (dispatched_job (now e) d) (sq_jobs s)\<rparr>"

definition sq_request_cancel ::
  "call_env \<Rightarrow> string \<Rightarrow> string \<Rightarrow> sqlite_db \<Rightarrow> (exn + job_record) \<times> sqlite_db" where
  "sq_request_cancel e t j s =
     (case sq_required t j s of
        Inl x \<Rightarrow> (Inl x, s)
      | Inr current \<Rightarrow>
          if terminal (j_status current) then (Inr current, s)
          else
            (let next_status = cancel_status (j_status current);
                 s1 = s\<lparr>sq_jobs := upd_where (is_job t j)
                   (\<lambda>r. r\<lparr>j_cancel_requested := True, j_status := next_status, j_updated_at := now e\<rparr>)
                   (sq_jobs s)\<rparr>;
                 s2 = snd (sq_append_event_locked t j ''cancel_requested''
                   (status_payload next_status) (now e) s1)
             in (sq_required t j s2, s2)))"

definition sqlite_repository :: "sqlite_db job_repository" where
  "sqlite_repository =
     \<lparr>r_create = sq_create, r_get = sq_get, r_list_jobs = sq_list_jobs,
      r_find_by_idempotency_key = sq_find_by_idempotency_key,
      r_mark_running = sq_mark_running, r_transition = sq_transition,
      r_append_event = sq_append_event, r_list_events = sq_list_events,
      r_set_dispatch_id = sq_set_dispatch_id, r_request_cancel = sq_request_cancel\<rparr>"

section \<open>Invariant and abstraction\<close>

definition sq_invar :: "sqlite_db \<Rightarrow> bool" where
  "sq_invar s \<longleftrightarrow> job_table_ok (sq_jobs s) \<and> numbered (sq_events s)"

definition sq_view :: "sqlite_db \<Rightarrow> job_store" where
  "sq_view s = table_view (sq_jobs s) (sq_events s)"

lemma sq_invar_empty: "sq_invar sq_empty"
  by (simp add: sq_invar_def sq_empty_def)

lemma sq_get_view: "sq_get t j s = st_jobs (sq_view s) t j"
  by (cases "find (is_job t j) (sq_jobs s)") (simp_all add: sq_get_def sq_view_def)

text \<open>The common shape of the writes: update the row of one job and log an event for it.\<close>

lemma sq_update_and_log:
  fixes kind :: string and p :: json and ts :: time
  assumes "sq_invar s" and "keeps_keys f" and "\<And>x. P x \<Longrightarrow> is_job t j x"
    and "find (is_job t j) (sq_jobs s) = Some r" and "P r"
  defines "s2 \<equiv> s\<lparr>sq_jobs := upd_where P f (sq_jobs s), sq_events := log_event t j kind p ts (sq_events s)\<rparr>"
  shows "sq_view s2 = record_event t j kind p ts (put_job t j (f r) (sq_view s))"
    and "sq_invar s2" and "sq_required t j s2 = Inr (f r)"
proof -
  show view: "sq_view s2 = record_event t j kind p ts (put_job t j (f r) (sq_view s))"
  proof -
    have "table_view (upd_where P f (sq_jobs s)) (sq_events s) = put_job t j (f r) (sq_view s)"
      using view_update [where P = P and f = f, OF assms(2-5)] by (simp add: sq_view_def)
    moreover have "numbered (sq_events s)" using assms(1) by (simp add: sq_invar_def)
    ultimately show ?thesis by (simp add: s2_def sq_view_def view_log_event)
  qed
  show "sq_invar s2"
    unfolding s2_def using assms(1,2) by (simp add: sq_invar_def inv_intros)
  show "sq_required t j s2 = Inr (f r)"
    by (simp add: sq_required_def sq_get_view view)
qed

lemmas sq_write_defs = sq_required_def sq_get_def sq_append_event_locked_def Let_def

lemma sq_mark_running_refines:
  assumes "sq_invar s"
  shows "refines sq_invar sq_view True s (spec_mark_running e t j rq (sq_view s)) (sq_mark_running e t j rq s)"
proof -
  have ok: "job_table_ok (sq_jobs s)" using assms by (simp add: sq_invar_def)
  consider (absent) "find (is_job t j) (sq_jobs s) = None"
    | (blocked) r where "find (is_job t j) (sq_jobs s) = Some r" "\<not> claimable t j rq r"
    | (claim) r where "find (is_job t j) (sq_jobs s) = Some r" "claimable t j rq r"
    by (cases "find (is_job t j) (sq_jobs s)") auto
  then show ?thesis
  proof cases
    case absent
    then have "upd_where (claimable t j rq) (running_job (now e)) (sq_jobs s) = sq_jobs s"
      by (intro view_no_update) (auto intro: claimable_is_job)
    with absent assms show ?thesis
      by (intro refinesI) (simp_all add: sq_mark_running_def Let_def claim_rowcount [OF ok]
          spec_mark_running_def sq_view_def)
  next
    case blocked
    have "\<not> claimable t j rq x" if "x \<in> set (sq_jobs s)" for x
    proof
      assume "claimable t j rq x"
      with that ok have "find (is_job t j) (sq_jobs s) = Some x"
        by (intro find_is_job) (auto simp: claimable_def is_job_def)
      with blocked \<open>claimable t j rq x\<close> show False by simp
    qed
    then have "upd_where (claimable t j rq) (running_job (now e)) (sq_jobs s) = sq_jobs s"
      by (rule upd_where_none)
    with blocked assms show ?thesis
      by (intro refinesI) (simp_all add: sq_mark_running_def Let_def claim_rowcount [OF ok]
          spec_mark_running_def sq_view_def)
  next
    case claim
    note upd = sq_update_and_log [where P = "claimable t j rq" and f = "running_job (now e)"
          and kind = "''status''" and p = "status_payload RUNNING" and ts = "now e",
        OF assms keeps_keys_updates(1) claimable_is_job claim]
    have "st_jobs (sq_view s) t j = Some r" using claim by (simp add: sq_view_def)
    with claim upd show ?thesis
      by (intro refinesI) (simp_all add: sq_mark_running_def Let_def claim_rowcount [OF ok]
          spec_mark_running_def sq_append_event_locked_def)
  qed
qed

lemma sq_required_view:
  "sq_required t j s = (case st_jobs (sq_view s) t j of None \<Rightarrow> Inl (KeyError j) | Some r \<Rightarrow> Inr r)"
  by (simp add: sq_required_def sq_get_view)

lemma sq_job_view: "st_jobs (sq_view s) t j = find (is_job t j) (sq_jobs s)"
  by (simp add: sq_get_view [symmetric] sq_get_def)

lemma sq_transition_refines:
  assumes "sq_invar s"
  shows "refines sq_invar sq_view True s (spec_transition e t j st n c m (sq_view s)) (sq_transition e t j st n c m s)"
proof (cases "st_jobs (sq_view s) t j")
  case None
  with assms show ?thesis
    by (intro refinesI) (simp_all add: sq_transition_def sq_required_view spec_transition_def)
next
  case (Some r)
  let ?f = "moved_job (now e) st (Some (case n of None \<Rightarrow> j_result_count r | Some k \<Rightarrow> k)) c m"
  have row: "find (is_job t j) (sq_jobs s) = Some r" using Some by (simp add: sq_job_view)
  have f: "?f r = moved_job (now e) st n c m r" by (simp add: moved_job_def)
  note upd = sq_update_and_log [where P = "is_job t j" and f = ?f and r = r and kind = "''status''"
      and p = "transition_payload st c m" and ts = "now e", OF assms keeps_keys_updates(2) _ row]
  have "is_job t j r" using row by (auto dest: find_SomeD)
  with Some upd f show ?thesis
    by (intro refinesI)
      (simp_all add: sq_transition_def sq_required_view spec_transition_def Let_def sq_append_event_locked_def)
qed

lemma sq_append_event_refines:
  assumes "sq_invar s"
  shows "refines sq_invar sq_view True s (spec_append_event e t j kind p (sq_view s)) (sq_append_event e t j kind p s)"
proof -
  have num: "numbered (sq_events s)" using assms by (simp add: sq_invar_def)
  show ?thesis
    using assms num
    by (intro refinesI; cases "st_jobs (sq_view s) t j")
      (simp_all add: sq_append_event_def sq_required_view spec_append_event_def sq_append_event_locked_def
        sq_invar_def inv_intros next_sequence_numbered,
       simp_all add: sq_view_def view_log_event)
qed

lemma sq_request_cancel_refines:
  assumes "sq_invar s"
  shows "refines sq_invar sq_view True s (spec_request_cancel e t j (sq_view s)) (sq_request_cancel e t j s)"
proof (cases "st_jobs (sq_view s) t j")
  case None
  with assms show ?thesis
    by (intro refinesI) (simp_all add: sq_request_cancel_def sq_required_view spec_request_cancel_def)
next
  case (Some r)
  let ?f = "\<lambda>x. x\<lparr>j_cancel_requested := True, j_status := cancel_status (j_status r), j_updated_at := now e\<rparr>"
  have row: "find (is_job t j) (sq_jobs s) = Some r" using Some by (simp add: sq_job_view)
  have f: "?f r = cancelled_job (now e) r" by (simp add: cancelled_job_def)
  have keeps: "keeps_keys ?f" by (simp add: keeps_keys_def)
  note upd = sq_update_and_log [where P = "is_job t j" and f = ?f and r = r and kind = "''cancel_requested''"
      and p = "status_payload (cancel_status (j_status r))" and ts = "now e", OF assms keeps _ row]
  have "is_job t j r" using row by (auto dest: find_SomeD)
  with Some upd f assms show ?thesis
    by (intro refinesI)
      (simp_all add: sq_request_cancel_def sq_required_view spec_request_cancel_def Let_def sq_append_event_locked_def)
qed

lemma sq_set_dispatch_id_refines:
  assumes "sq_invar s"
  shows "sq_view (sq_set_dispatch_id e t j d s) = spec_set_dispatch_id e t j d (sq_view s) \<and>
    sq_invar (sq_set_dispatch_id e t j d s)"
proof (cases "find (is_job t j) (sq_jobs s)")
  case None
  then have "upd_where (is_job t j) (dispatched_job (now e) d) (sq_jobs s) = sq_jobs s"
    by (intro view_no_update) auto
  with None assms show ?thesis
    by (simp add: sq_set_dispatch_id_def spec_set_dispatch_id_def sq_view_def)
next
  case (Some r)
  then have "is_job t j r" by (auto dest: find_SomeD)
  with Some view_update [where P = "is_job t j" and f = "dispatched_job (now e) d", OF keeps_keys_updates(4) _ Some]
  show ?thesis using assms
    by (simp add: sq_set_dispatch_id_def spec_set_dispatch_id_def sq_invar_def inv_intros) (simp add: sq_view_def)
qed

lemma sq_insert_refines:
  assumes "sq_invar s" and "\<And>k. key = Some k \<Longrightarrow> find (has_key t k) (sq_jobs s) = None"
  shows "refines sq_invar sq_view True s (spec_insert e t src p key (sq_view s)) (sq_insert e t src p key s)"
proof -
  let ?jid = "''job_'' @ uuid e 0"
  let ?row = "new_job ?jid t src p key (now e)"
  have ok: "job_table_ok (sq_jobs s)" and num: "numbered (sq_events s)"
    using assms(1) by (simp_all add: sq_invar_def)
  have conflict: "job_conflict ?row (sq_jobs s) \<longleftrightarrow> job_id_used ?jid (sq_view s)"
    using job_conflict_iff [OF ok, of ?row "sq_events s"] assms(2) by (simp add: sq_view_def)
  show ?thesis
  proof (cases "job_conflict ?row (sq_jobs s)")
    case True
    have "sq_insert e t src p key s = (Inl IntegrityError, s)"
      using True assms(2)
      by (cases key) (simp_all add: sq_insert_def Let_def sq_find_by_idempotency_key_def)
    with True conflict assms(1) show ?thesis
      by (intro refinesI) (simp_all add: spec_insert_def Let_def)
  next
    case False
    then have fresh: "j_id x \<noteq> ?jid" if "x \<in> set (sq_jobs s)" for x
      using that by (auto simp: job_conflict_def)
    have view: "table_view (sq_jobs s @ [?row]) (sq_events s) = put_job t ?jid ?row (sq_view s)"
      using view_insert [of "sq_jobs s" ?row "sq_events s"] fresh by (simp add: sq_view_def)
    have "find (is_job t ?jid) (sq_jobs s) = None"
      using fresh by (auto simp: find_None is_job_def)
    then have "find (is_job t ?jid) (sq_jobs s @ [?row]) = Some ?row"
      by (simp add: find_append is_job_def)
    with False conflict view ok num show ?thesis
      by (intro refinesI)
        (simp_all add: sq_insert_def spec_insert_def Let_def sq_append_event_locked_def sq_get_def
          sq_invar_def inv_intros, simp add: sq_view_def view_log_event)
  qed
qed

section \<open>The backend meets the contract\<close>

interpretation sqlite: job_contract sqlite_repository sq_invar sq_view "\<lambda>e t s. True"
proof (unfold_locales, goal_cases)
  case (1 s)
  then show ?case by (simp add: sq_view_def sq_invar_def wf_table_view)
next
  case (2 s t j)
  then show ?case by (simp add: sqlite_repository_def sq_get_view)
next
  case (3 s t k r)
  then have "find (has_key t k) (sq_jobs s) = Some r"
    by (simp add: sqlite_repository_def sq_find_by_idempotency_key_def)
  then have "r \<in> set (sq_jobs s)" "has_key t k r" by (auto dest: find_SomeD)
  with 3(1) show ?case
    by (auto simp: sq_job_view sq_invar_def has_key_def intro: find_is_job)
next
  case (4 s t k j r)
  then have "r \<in> set (sq_jobs s)" "j_tenant_id r = t" by (auto simp: sq_job_view dest: is_job_find)
  with 4(2) show ?case
    by (auto simp: sqlite_repository_def sq_find_by_idempotency_key_def find_None has_key_def)
next
  case (5 s "after" t j n)
  then show ?case
    by (simp add: sqlite_repository_def sq_list_events_def sq_invar_def events_after_numbered)
      (simp add: sq_view_def)
next
  case (6 s t st src n)
  then have "job_table_ok (sq_jobs s)" by (simp add: sq_invar_def)
  from newest_listing [OF this, of "sq_events s" t st src] show ?case
    unfolding sq_view_def by (intro exI conjI, assumption)
      (simp add: sqlite_repository_def sq_list_jobs_def sql_limit_def take_map )
next
  case (7 s e t j rq)
  then show ?case by (simp add: sqlite_repository_def sq_mark_running_refines)
next
  case (8 s e t j st cnt c m)
  then show ?case by (simp add: sqlite_repository_def sq_transition_refines)
next
  case (9 s e t j kind p)
  then show ?case by (simp add: sqlite_repository_def sq_append_event_refines)
next
  case (10 s e t j)
  then show ?case by (simp add: sqlite_repository_def sq_request_cancel_refines)
next
  case (11 s e t j d)
  then show ?case by (simp add: sqlite_repository_def sq_set_dispatch_id_refines)
next
  case (12 s t k r e src p)
  then show ?case by (simp add: sqlite_repository_def sq_create_def)
next
  case (13 s key t e src p)
  then have "\<And>k. key = Some k \<Longrightarrow> find (has_key t k) (sq_jobs s) = None"
    by (simp add: sqlite_repository_def sq_find_by_idempotency_key_def)
  with 13(1) have "refines sq_invar sq_view True s (spec_insert e t src p key (sq_view s)) (sq_insert e t src p key s)"
    by (rule sq_insert_refines)
  with 13(2) show ?case
    by (cases key) (simp_all add: sqlite_repository_def sq_create_def)
qed

end
