(* ===== verification/Sql_Jobs.thy ===== *)
theory Sql_Jobs
  imports Database Job_Contract
begin

text \<open>
  \<^verbatim>\<open>SQLAlchemyJobRepository\<close> of \<^verbatim>\<open>sql_jobs.py\<close> over the tables of \<^verbatim>\<open>Database\<close>. One method
  is one transaction, followed in the writes by a reload of the job in a session of its
  own. The UUIDs a call draws are numbered in the order of the calls.
\<close>

fun queue_of :: "finding_source \<Rightarrow> string" where
  "queue_of SOC = ''fast''"
| "queue_of VULN = ''analysis''"
| "queue_of LAB = ''sandbox''"
| "queue_of CODE = ''analysis''"
| "queue_of REVERSE = ''sandbox''"
| "queue_of FIRMWARE = ''sandbox''"
| "queue_of EXTERNAL = ''analysis''"

section \<open>Reads\<close>

definition job_from_row :: "job_row \<Rightarrow> job_record" where
  "job_from_row r = job_record.truncate r"

definition sa_get :: "string \<Rightarrow> string \<Rightarrow> database \<Rightarrow> job_record option" where
  "sa_get t j d = map_option job_from_row (find (is_job t j) (db_jobs d))"

definition sa_find_by_idempotency_key :: "string \<Rightarrow> string \<Rightarrow> database \<Rightarrow> job_record option" where
  "sa_find_by_idempotency_key t k d = map_option job_from_row (find (has_key t k) (db_jobs d))"

definition sa_list_jobs ::
  "string \<Rightarrow> job_status option \<Rightarrow> finding_source option \<Rightarrow> int \<Rightarrow> database \<Rightarrow> job_record list" where
  "sa_list_jobs t st src n d =
     map job_from_row (sql_limit (page_limit n) (newest_first (filter (job_matches t st src) (db_jobs d))))"

definition sa_list_events :: "string \<Rightarrow> string \<Rightarrow> int \<Rightarrow> int \<Rightarrow> database \<Rightarrow> job_event list" where
  "sa_list_events t j after n d = events_after t j after n (db_job_events d)"

definition sa_required :: "string \<Rightarrow> string \<Rightarrow> database \<Rightarrow> exn + job_record" where
  "sa_required t j d = (case sa_get t j d of None \<Rightarrow> Inl (KeyError j) | Some r \<Rightarrow> Inr r)"

definition required_row :: "string \<Rightarrow> string \<Rightarrow> database \<Rightarrow> exn + job_row" where
  "required_row t j d = (case find (is_job t j) (db_jobs d) of None \<Rightarrow> Inl (KeyError j) | Some r \<Rightarrow> Inr r)"

section \<open>Writes\<close>

definition sa_append_event ::
  "string \<Rightarrow> string \<Rightarrow> string \<Rightarrow> json \<Rightarrow> time \<Rightarrow> database \<Rightarrow> exn + job_event \<times> database" where
  "sa_append_event t j kind p ts d =
     (let row = new_event t j kind p ts (next_sequence t j (db_job_events d))
      in bind_exn (insert_job_event row d) (\<lambda>d1. Inr (row, d1)))"

definition sa_audit ::
  "string \<Rightarrow> string \<Rightarrow> string \<Rightarrow> string \<Rightarrow> string option \<Rightarrow> json \<Rightarrow> time \<Rightarrow> database \<Rightarrow> exn + database" where
  "sa_audit u t action rtype rid details ts d =
     insert_audit \<lparr>a_id = ''audit_'' @ u, a_tenant_id = t, a_actor = ''system'', a_action = action,
       a_resource_type = rtype, a_resource_id = rid, a_request_id = None, a_outcome = ''success'',
       a_details = details, a_created_at = ts\<rparr> d"

definition new_job_row ::
  "string \<Rightarrow> string \<Rightarrow> finding_source \<Rightarrow> json \<Rightarrow> string option \<Rightarrow> time \<Rightarrow> job_row" where
  "new_job_row jid t src p key ts =
     job_record.extend (new_job jid t src p key ts)
       (job_row.fields (queue_of src) 0 None None)"

text \<open>The transaction of \<open>create\<close>.\<close>

definition sa_create_tx ::
  "call_env \<Rightarrow> core_lib \<Rightarrow> string \<Rightarrow> finding_source \<Rightarrow> json \<Rightarrow> string option \<Rightarrow> database \<Rightarrow>
    exn + string \<times> database" where
  "sa_create_tx e L t src p key d =
     (let jid = ''job_'' @ uuid e 0
      in bind_exn (ensure_tenant t (now e) d) (\<lambda>d1.
         bind_exn (insert_job (new_job_row jid t src p key (now e)) d1) (\<lambda>d2.
         bind_exn (sa_append_event t jid ''status'' (status_payload QUEUED) (now e) d2) (\<lambda>(_, d3).
         bind_exn (sa_audit (uuid e 1) t ''job.created'' ''job'' (Some jid)
             (JObj [(''source'', JStr (source_value L src)), (''queue'', JStr (queue_of src))]) (now e) d3) (\<lambda>d4.
         Inr (jid, d4))))))"

definition sa_insert ::
  "core_lib \<Rightarrow> call_env \<Rightarrow> string \<Rightarrow> finding_source \<Rightarrow> json \<Rightarrow> string option \<Rightarrow> database \<Rightarrow>
    (exn + job_record \<times> bool) \<times> database" where
  "sa_insert L e t src p key d =
     (case commit (sa_create_tx e L t src p key d) d of
        (Inl x, d1) \<Rightarrow>
          (if x \<noteq> IntegrityError then (Inl x, d1)
           else case key of
              None \<Rightarrow> (Inl x, d1)
            | Some k \<Rightarrow>
                (case sa_find_by_idempotency_key t k d1 of
                   None \<Rightarrow> (Inl x, d1)
                 | Some existing \<Rightarrow> (Inr (existing, False), d1)))
      | (Inr jid, d1) \<Rightarrow>
          (case sa_get t jid d1 of
             None \<Rightarrow> (Inl (RuntimeError ''created job could not be reloaded''), d1)
           | Some created \<Rightarrow> (Inr (created, True), d1)))"

definition sa_create ::
  "core_lib \<Rightarrow> call_env \<Rightarrow> string \<Rightarrow> finding_source \<Rightarrow> json \<Rightarrow> string option \<Rightarrow> database \<Rightarrow>
    (exn + job_record \<times> bool) \<times> database" where
  "sa_create L e t src p key d =
     (case key of
        None \<Rightarrow> sa_insert L e t src p key d
      | Some k \<Rightarrow>
          (case sa_find_by_idempotency_key t k d of
             Some existing \<Rightarrow> (Inr (existing, False), d)
           | None \<Rightarrow> sa_insert L e t src p key d))"

definition sa_mark_running ::
  "call_env \<Rightarrow> string \<Rightarrow> string \<Rightarrow> bool \<Rightarrow> database \<Rightarrow> (exn + job_record option) \<times> database" where
  "sa_mark_running e t j require_queued d =
     (let rowcount = length (filter (claimable t j require_queued) (db_jobs d));
          d1 = d\<lparr>db_jobs := upd_where (claimable t j require_queued) (running_job (now e)) (db_jobs d)\<rparr>
      in if rowcount \<noteq> 1 then (Inr None, d1)
         else
           (case commit (sa_append_event t j ''status'' (status_payload RUNNING) (now e) d1) d of
              (Inl x, d2) \<Rightarrow> (Inl x, d2)
            | (Inr _, d2) \<Rightarrow> (Inr (sa_get t j d2), d2)))"

definition sa_transition ::
  "call_env \<Rightarrow> string \<Rightarrow> string \<Rightarrow> job_status \<Rightarrow> int option \<Rightarrow> string option \<Rightarrow> string option \<Rightarrow>
    database \<Rightarrow> (exn + job_record) \<times> database" where
  "sa_transition e t j st n c m d =
     (let payload = transition_payload st c m
      in case commit
          (bind_exn (required_row t j d) (\<lambda>_.
           bind_exn (sa_append_event t j ''status'' payload (now e)
             (d\<lparr>db_jobs := upd_where (is_job t j) (moved_job (now e) st n c m) (db_jobs d)\<rparr>)) (\<lambda>(_, d1).
           bind_exn (sa_audit (uuid e 0) t ''job.status_changed'' ''job'' (Some j) payload (now e) d1) (\<lambda>d2.
           Inr ((), d2))))) d of
        (Inl x, d3) \<Rightarrow> (Inl x, d3)
      | (Inr _, d3) \<Rightarrow> (sa_required t j d3, d3))"

definition sa_log ::
  "call_env \<Rightarrow> string \<Rightarrow> string \<Rightarrow> string \<Rightarrow> json \<Rightarrow> database \<Rightarrow> (exn + job_event) \<times> database" where
  "sa_log e t j kind p d =
     commit (bind_exn (required_row t j d) (\<lambda>_. sa_append_event t j kind p (now e) d)) d"

definition sa_set_dispatch_id :: "call_env \<Rightarrow> string \<Rightarrow> string \<Rightarrow> string \<Rightarrow> database \<Rightarrow> database" where
  "sa_set_dispatch_id e t j i d =
     d\<lparr>db_jobs := upd_where (is_job t j) (dispatched_job (now e) i) (db_jobs d)\<rparr>"

definition sa_request_cancel ::
  "call_env \<Rightarrow> string \<Rightarrow> string \<Rightarrow> database \<Rightarrow> (exn + job_record) \<times> database" where
  "sa_request_cancel e t j d =
     (case required_row t j d of
        Inl x \<Rightarrow> (Inl x, d)
      | Inr row \<Rightarrow>
          if terminal (j_status row) then (Inr (job_from_row row), d)
          else
            (let payload = status_payload (cancel_status (j_status row))
             in case commit
                (bind_exn (sa_append_event t j ''cancel_requested'' payload (now e)
                   (d\<lparr>db_jobs := upd_where (is_job t j) (cancelled_job (now e)) (db_jobs d)\<rparr>)) (\<lambda>(_, d1).
                 bind_exn (sa_audit (uuid e 0) t ''job.cancel_requested'' ''job'' (Some j) payload (now e) d1) (\<lambda>d2.
                 Inr ((), d2)))) d of
                (Inl x, d3) \<Rightarrow> (Inl x, d3)
              | (Inr _, d3) \<Rightarrow> (sa_required t j d3, d3)))"

definition sqlalchemy_repository :: "core_lib \<Rightarrow> database job_repository" where
  "sqlalchemy_repository L =
     \<lparr>r_create = sa_create L, r_get = sa_get, r_list_jobs = sa_list_jobs,
      r_find_by_idempotency_key = sa_find_by_idempotency_key,
      r_mark_running = sa_mark_running, r_transition = sa_transition,
      r_append_event = sa_log, r_list_events = sa_list_events,
      r_set_dispatch_id = sa_set_dispatch_id, r_request_cancel = sa_request_cancel\<rparr>"

section \<open>Invariant and abstraction\<close>

text \<open>
  The constraints of the two tables, the numbering of the events, and the foreign key to
  the tenants, which \<open>create\<close> establishes before it inserts a job.
\<close>

definition sa_invar :: "database \<Rightarrow> bool" where
  "sa_invar d \<longleftrightarrow> job_table_ok (db_jobs d) \<and> numbered (db_job_events d) \<and>
     (\<forall>r \<in> set (db_jobs d). get_tenant (j_tenant_id r) d \<noteq> None)"

definition sa_view :: "database \<Rightarrow> job_store" where
  "sa_view d = table_view (db_jobs d) (db_job_events d)"

text \<open>The audit ids a call may draw are unused, and the tenant exists or can be created.\<close>

definition sa_ready :: "call_env \<Rightarrow> string \<Rightarrow> database \<Rightarrow> bool" where
  "sa_ready e t d \<longleftrightarrow> slug_free t d \<and>
     (\<forall>x \<in> set (db_audit_events d). a_id x \<noteq> ''audit_'' @ uuid e 0 \<and> a_id x \<noteq> ''audit_'' @ uuid e 1)"

lemma sa_invar_empty: "sa_invar empty_db"
  by (simp add: sa_invar_def empty_db_def)

lemma sa_get_view: "sa_get t j d = st_jobs (sa_view d) t j"
  by (simp add: sa_get_def sa_view_def job_from_row_def [abs_def])

lemma sa_required_view:
  "sa_required t j d = (case st_jobs (sa_view d) t j of None \<Rightarrow> Inl (KeyError j) | Some r \<Rightarrow> Inr r)"
  by (simp add: sa_required_def sa_get_view)

text \<open>Appending the next event of an existing job never conflicts.\<close>

lemma sa_append_event_ok:
  assumes "numbered (db_job_events d)" and "find (is_job t j) (db_jobs d) \<noteq> None"
  shows "sa_append_event t j kind p ts d =
    Inr (new_event t j kind p ts (next_sequence t j (db_job_events d)),
         d\<lparr>db_job_events := log_event t j kind p ts (db_job_events d)\<rparr>)"
proof -
  have "ev_sequence x \<noteq> next_sequence t j (db_job_events d)"
    if "x \<in> set (db_job_events d)" "is_event_of t j x" for x
  proof -
    have "ev_sequence x \<in> set (map ev_sequence (filter (is_event_of t j) (db_job_events d)))"
      using that by simp
    then have "ev_sequence x \<le> coalesce (sql_max (map ev_sequence (filter (is_event_of t j) (db_job_events d)))) 0"
      by (rule sql_max_bound)
    then show ?thesis by (simp add: next_sequence_def)
  qed
  with assms(2) show ?thesis
    by (auto simp: sa_append_event_def insert_job_event_def Let_def log_event_def)
qed

text \<open>The common shape of the writes: update the row of one job and log an event for it.\<close>

lemma sa_invar_update [inv_intros]:
  assumes "sa_invar d" and "keeps_keys f"
  shows "sa_invar (d\<lparr>db_jobs := upd_where P f (db_jobs d)\<rparr>)"
  using assms by (auto simp: sa_invar_def inv_intros set_upd_where keeps_keys_def)

lemma sa_invar_log [inv_intros]:
  "sa_invar d \<Longrightarrow> sa_invar (d\<lparr>db_job_events := log_event t j kind p ts (db_job_events d)\<rparr>)"
  by (simp add: sa_invar_def inv_intros)

lemma sa_view_update:
  assumes "keeps_keys f" and "\<And>x. P x \<Longrightarrow> is_job t j x"
    and "find (is_job t j) (db_jobs d) = Some r" and "P r"
  shows "sa_view (d\<lparr>db_jobs := upd_where P f (db_jobs d)\<rparr>) =
    put_job t j (job_record.truncate (f r)) (sa_view d)"
  using view_update [where P = P and f = f, OF assms] by (simp add: sa_view_def)

lemma sa_view_log:
  "sa_invar d \<Longrightarrow> sa_view (d\<lparr>db_job_events := log_event t j kind p ts (db_job_events d)\<rparr>) =
    record_event t j kind p ts (sa_view d)"
  by (simp add: sa_view_def sa_invar_def view_log_event)

lemma sa_append_event_refines:
  assumes "sa_invar d" and "find (is_job t j) (db_jobs d) \<noteq> None"
  shows "\<exists>d'. sa_append_event t j kind p ts d =
      Inr (new_event t j kind p ts (int (length (st_events (sa_view d) t j)) + 1), d') \<and>
    sa_view d' = record_event t j kind p ts (sa_view d) \<and> sa_invar d' \<and>
    db_tenants d' = db_tenants d \<and> db_audit_events d' = db_audit_events d \<and> db_jobs d' = db_jobs d"
proof -
  have "numbered (db_job_events d)" using assms(1) by (simp add: sa_invar_def)
  with assms show ?thesis
    by (simp add: sa_append_event_ok sa_view_log inv_intros next_sequence_numbered)
      (simp add: sa_view_def)
qed

lemma sa_update_and_log:
  assumes "sa_invar d" and "keeps_keys f" and "\<And>x. P x \<Longrightarrow> is_job t j x"
    and "find (is_job t j) (db_jobs d) = Some r" and "P r"
  shows "\<exists>ev d'. sa_append_event t j kind p ts (d\<lparr>db_jobs := upd_where P f (db_jobs d)\<rparr>) = Inr (ev, d') \<and>
    sa_view d' = record_event t j kind p ts (put_job t j (job_record.truncate (f r)) (sa_view d)) \<and>
    sa_invar d' \<and> db_tenants d' = db_tenants d \<and> db_audit_events d' = db_audit_events d"
proof -
  let ?d = "d\<lparr>db_jobs := upd_where P f (db_jobs d)\<rparr>"
  have inv: "sa_invar ?d" using assms(1,2) by (rule sa_invar_update)
  have "find (is_job t j) (db_jobs ?d) \<noteq> None"
    using assms(2,4) by (simp add: find_job_update)
  from sa_append_event_refines [OF inv this, of kind p ts] obtain d' where
    "sa_append_event t j kind p ts ?d = Inr (new_event t j kind p ts (int (length (st_events (sa_view ?d) t j)) + 1), d')"
    "sa_view d' = record_event t j kind p ts (sa_view ?d)" "sa_invar d'"
    "db_tenants d' = db_tenants d" "db_audit_events d' = db_audit_events d" by auto
  then show ?thesis using sa_view_update [where f = f and P = P, OF assms(2-5)] by auto
qed

text \<open>The audit row at the end of a write: the view stays, or the UUID was used before.\<close>

lemma sa_audit_cases:
  assumes "sa_invar d" and "get_tenant t d \<noteq> None"
  shows "(\<exists>d'. sa_audit u t action rtype rid details ts d = Inr d' \<and> sa_view d' = sa_view d \<and> sa_invar d') \<or>
    (sa_audit u t action rtype rid details ts d = Inl IntegrityError \<and>
     (\<exists>x \<in> set (db_audit_events d). a_id x = ''audit_'' @ u))"
  using assms by (auto simp: sa_audit_def insert_audit_def sa_view_def sa_invar_def)

lemma job_tenant:
  assumes "sa_invar d" and "find (is_job t j) (db_jobs d) = Some r"
  shows "get_tenant t d \<noteq> None"
  using assms by (auto simp: sa_invar_def dest!: is_job_find)

section \<open>Refinement\<close>

lemma claimable_truncate [simp]: "claimable t j rq (job_record.truncate r) = claimable t j rq r"
  by (simp add: claimable_def is_job_def)

lemma sa_row_view: "st_jobs (sa_view d) t j = map_option job_record.truncate (find (is_job t j) (db_jobs d))"
  by (simp add: sa_view_def)

lemma sa_mark_running_refines:
  assumes "sa_invar d"
  shows "refines sa_invar sa_view rdy d (spec_mark_running e t j rq (sa_view d)) (sa_mark_running e t j rq d)"
proof -
  have ok: "job_table_ok (db_jobs d)" using assms by (simp add: sa_invar_def)
  have stay: "upd_where (claimable t j rq) (running_job (now e)) (db_jobs d) = db_jobs d"
    if "find (is_job t j) (db_jobs d) = None \<or> (\<exists>r. find (is_job t j) (db_jobs d) = Some r \<and> \<not> claimable t j rq r)"
  proof (rule upd_where_none)
    fix x assume x: "x \<in> set (db_jobs d)"
    show "\<not> claimable t j rq x"
    proof
      assume c: "claimable t j rq x"
      with x ok have "find (is_job t j) (db_jobs d) = Some x"
        by (intro find_is_job) (auto simp: claimable_def is_job_def)
      with c that show False by auto
    qed
  qed
  show ?thesis
  proof (cases "find (is_job t j) (db_jobs d)")
    case None
    with assms stay show ?thesis
      by (intro refinesI)
        (simp_all add: sa_mark_running_def Let_def claim_rowcount [OF ok] spec_mark_running_def sa_row_view)
  next
    case (Some r)
    show ?thesis
    proof (cases "claimable t j rq r")
      case False
      with Some assms stay show ?thesis
        by (intro refinesI)
          (simp_all add: sa_mark_running_def Let_def claim_rowcount [OF ok] spec_mark_running_def sa_row_view)
    next
      case True
      from sa_update_and_log [where P = "claimable t j rq" and f = "running_job (now e)" and kind = "''status''"
          and p = "status_payload RUNNING" and ts = "now e", OF assms keeps_keys_updates(1) claimable_is_job [where rq = rq] Some True]
      obtain ev d' where step: "sa_append_event t j ''status'' (status_payload RUNNING) (now e)
          (d\<lparr>db_jobs := upd_where (claimable t j rq) (running_job (now e)) (db_jobs d)\<rparr>) = Inr (ev, d')"
        "sa_view d' = record_event t j ''status'' (status_payload RUNNING) (now e)
          (put_job t j (running_job (now e) (job_record.truncate r)) (sa_view d))" "sa_invar d'" by auto
      have "st_jobs (sa_view d) t j = Some (job_record.truncate r)" using Some by (simp add: sa_row_view)
      with Some True step show ?thesis
        by (intro refinesI)
          (simp_all add: sa_mark_running_def Let_def claim_rowcount [OF ok] spec_mark_running_def sa_get_view)
    qed
  qed
qed

lemma sa_transition_refines:
  assumes "sa_invar d"
  shows "refines sa_invar sa_view (sa_ready e t d) d (spec_transition e t j st n c m (sa_view d))
    (sa_transition e t j st n c m d)"
proof (cases "find (is_job t j) (db_jobs d)")
  case None
  with assms show ?thesis
    by (intro refinesI) (simp_all add: sa_transition_def required_row_def spec_transition_def sa_row_view)
next
  case (Some r)
  then have "is_job t j r" by (auto dest: find_SomeD)
  from sa_update_and_log [where P = "is_job t j" and f = "moved_job (now e) st n c m" and kind = "''status''"
      and p = "transition_payload st c m" and ts = "now e", OF assms keeps_keys_updates(2) _ Some this]
  obtain ev d1 where step: "sa_append_event t j ''status'' (transition_payload st c m) (now e)
      (d\<lparr>db_jobs := upd_where (is_job t j) (moved_job (now e) st n c m) (db_jobs d)\<rparr>) = Inr (ev, d1)"
    "sa_view d1 = record_event t j ''status'' (transition_payload st c m) (now e)
      (put_job t j (moved_job (now e) st n c m (job_record.truncate r)) (sa_view d))" "sa_invar d1"
    "db_tenants d1 = db_tenants d" "db_audit_events d1 = db_audit_events d" by auto
  have view: "st_jobs (sa_view d) t j = Some (job_record.truncate r)" using Some by (simp add: sa_row_view)
  have "get_tenant t d1 \<noteq> None"
    using job_tenant [OF assms Some] step(4) by (simp add: get_tenant_def)
  from sa_audit_cases [OF step(3) this, of "uuid e 0" "''job.status_changed''" "''job''" "Some j"
      "transition_payload st c m" "now e"] step Some view
  show ?thesis
    by (auto simp: refines_def sa_transition_def Let_def required_row_def spec_transition_def
        sa_required_view sa_ready_def)
qed

lemma sa_log_refines:
  assumes "sa_invar d"
  shows "refines sa_invar sa_view rdy d (spec_append_event e t j kind p (sa_view d)) (sa_log e t j kind p d)"
proof (cases "find (is_job t j) (db_jobs d)")
  case None
  with assms show ?thesis
    by (intro refinesI) (simp_all add: sa_log_def required_row_def spec_append_event_def sa_row_view)
next
  case (Some r)
  then have "find (is_job t j) (db_jobs d) \<noteq> None" by simp
  from sa_append_event_refines [OF assms this, of kind p "now e"] Some show ?thesis
    by (auto simp: refines_def sa_log_def required_row_def spec_append_event_def sa_row_view)
qed

lemma sa_request_cancel_refines:
  assumes "sa_invar d"
  shows "refines sa_invar sa_view (sa_ready e t d) d (spec_request_cancel e t j (sa_view d))
    (sa_request_cancel e t j d)"
proof (cases "find (is_job t j) (db_jobs d)")
  case None
  with assms show ?thesis
    by (intro refinesI) (simp_all add: sa_request_cancel_def required_row_def spec_request_cancel_def sa_row_view)
next
  case (Some r)
  then have "is_job t j r" by (auto dest: find_SomeD)
  let ?p = "status_payload (cancel_status (j_status r))"
  from sa_update_and_log [where P = "is_job t j" and f = "cancelled_job (now e)" and kind = "''cancel_requested''"
      and p = ?p and ts = "now e", OF assms keeps_keys_updates(3) _ Some \<open>is_job t j r\<close>]
  obtain ev d1 where step: "sa_append_event t j ''cancel_requested'' ?p (now e)
      (d\<lparr>db_jobs := upd_where (is_job t j) (cancelled_job (now e)) (db_jobs d)\<rparr>) = Inr (ev, d1)"
    "sa_view d1 = record_event t j ''cancel_requested'' ?p (now e)
      (put_job t j (cancelled_job (now e) (job_record.truncate r)) (sa_view d))" "sa_invar d1"
    "db_tenants d1 = db_tenants d" "db_audit_events d1 = db_audit_events d" by auto
  have view: "st_jobs (sa_view d) t j = Some (job_record.truncate r)" using Some by (simp add: sa_row_view)
  have "get_tenant t d1 \<noteq> None"
    using job_tenant [OF assms Some] step(4) by (simp add: get_tenant_def)
  from sa_audit_cases [OF step(3) this, of "uuid e 0" "''job.cancel_requested''" "''job''" "Some j" ?p "now e"]
    step Some view assms
  show ?thesis
    by (auto simp: refines_def sa_request_cancel_def Let_def required_row_def spec_request_cancel_def
        sa_required_view sa_ready_def job_from_row_def)
qed

lemma sa_set_dispatch_id_refines:
  assumes "sa_invar d"
  shows "sa_view (sa_set_dispatch_id e t j i d) = spec_set_dispatch_id e t j i (sa_view d) \<and>
    sa_invar (sa_set_dispatch_id e t j i d)"
proof (cases "find (is_job t j) (db_jobs d)")
  case None
  then have "upd_where (is_job t j) (dispatched_job (now e) i) (db_jobs d) = db_jobs d"
    by (intro view_no_update) auto
  with None assms show ?thesis
    by (simp add: sa_set_dispatch_id_def spec_set_dispatch_id_def sa_row_view)
next
  case (Some r)
  then have "is_job t j r" by (auto dest: find_SomeD)
  with Some sa_view_update [where P = "is_job t j" and f = "dispatched_job (now e) i", OF keeps_keys_updates(4) _ Some] assms
  show ?thesis
    by (simp add: sa_set_dispatch_id_def spec_set_dispatch_id_def inv_intros sa_row_view)
qed

text \<open>The transaction of \<open>create\<close>: the job id is in use, or the environment is not ready, or
  the job and its first event are in the store.\<close>

lemma new_job_row_columns [simp]:
  "job_record.truncate (new_job_row jid t src p key ts) = new_job jid t src p key ts"
  "j_id (new_job_row jid t src p key ts) = jid" "j_tenant_id (new_job_row jid t src p key ts) = t"
  "j_idempotency_key (new_job_row jid t src p key ts) = key"
  by (simp_all add: new_job_row_def)

lemma sa_invar_insert:
  assumes "sa_invar d" and "\<not> job_conflict r (db_jobs d)" and "get_tenant (j_tenant_id r) d \<noteq> None"
  shows "sa_invar (d\<lparr>db_jobs := db_jobs d @ [r]\<rparr>)"
  using assms by (auto simp: sa_invar_def inv_intros)

lemma sa_view_insert:
  assumes "\<not> job_conflict r (db_jobs d)"
  shows "sa_view (d\<lparr>db_jobs := db_jobs d @ [r]\<rparr>) =
    put_job (j_tenant_id r) (j_id r) (job_record.truncate r) (sa_view d)"
  using assms view_insert [of "db_jobs d" r "db_job_events d"] by (auto simp: sa_view_def job_conflict_def)

lemma sa_create_tx_cases:
  fixes e :: call_env
  assumes "sa_invar d" and "\<And>k. key = Some k \<Longrightarrow> find (has_key t k) (db_jobs d) = None"
  defines "jid \<equiv> ''job_'' @ uuid e 0"
  shows "(sa_create_tx e L t src p key d = Inl IntegrityError \<and> (job_id_used jid (sa_view d) \<or> \<not> sa_ready e t d)) \<or>
    (\<exists>d'. sa_create_tx e L t src p key d = Inr (jid, d') \<and> sa_invar d' \<and> \<not> job_id_used jid (sa_view d) \<and>
      sa_view d' = record_event t jid ''status'' (status_payload QUEUED) (now e)
        (put_job t jid (new_job jid t src p key (now e)) (sa_view d)))"
proof (cases "ensure_tenant t (now e) d")
  case (Inl x)
  then have "x = IntegrityError \<and> \<not> slug_free t d" by (simp add: ensure_tenant_cases split: if_splits)
  with Inl show ?thesis
    unfolding sa_create_tx_def Let_def jid_def [symmetric] by (simp add: sa_ready_def)
next
  case (Inr d1)
  let ?row = "new_job_row jid t src p key (now e)"
  obtain new where d1: "d1 = d\<lparr>db_tenants := db_tenants d @ new\<rparr>" and t: "get_tenant t d1 \<noteq> None"
    using ensure_tenant_Inr [OF Inr] by auto
  have "get_tenant (j_tenant_id r) d1 \<noteq> None" if "r \<in> set (db_jobs d)" for r
    using assms(1) that unfolding d1 by (intro get_tenant_append) (simp add: sa_invar_def)
  then have inv1: "sa_invar d1" using assms(1) by (simp add: sa_invar_def d1)
  have view1: "sa_view d1 = sa_view d" by (simp add: sa_view_def d1)
  have conflict: "job_conflict ?row (db_jobs d1) \<longleftrightarrow> job_id_used jid (sa_view d)"
    using job_conflict_iff [of "db_jobs d" ?row "db_job_events d"] assms(1,2)
    by (simp add: d1 sa_view_def sa_invar_def)
  show ?thesis
  proof (cases "job_conflict ?row (db_jobs d1)")
    case True
    with Inr conflict show ?thesis
      unfolding sa_create_tx_def Let_def jid_def [symmetric] by (simp add: insert_job_def)
  next
    case False
    let ?d2 = "d1\<lparr>db_jobs := db_jobs d1 @ [?row]\<rparr>"
    have ins: "insert_job ?row d1 = Inr ?d2" using False t by (simp add: insert_job_def)
    have inv2: "sa_invar ?d2" using inv1 False t by (intro sa_invar_insert) simp_all
    have view2: "sa_view ?d2 = put_job t jid (new_job jid t src p key (now e)) (sa_view d)"
      using sa_view_insert [OF False] by (simp add: view1)
    have "find (is_job t jid) (db_jobs ?d2) \<noteq> None" by (auto simp: find_None is_job_def)
    from sa_append_event_refines [OF inv2 this, of "''status''" "status_payload QUEUED" "now e"]
    obtain ev d3 where log: "sa_append_event t jid ''status'' (status_payload QUEUED) (now e) ?d2 = Inr (ev, d3)"
      "sa_view d3 = record_event t jid ''status'' (status_payload QUEUED) (now e) (sa_view ?d2)"
      "sa_invar d3" "db_tenants d3 = db_tenants d1" "db_audit_events d3 = db_audit_events d" by (auto simp: d1)
    have t3: "get_tenant t d3 \<noteq> None" using t log(4) by (simp add: get_tenant_def)
    from sa_audit_cases [OF log(3) t3, of "uuid e 1" "''job.created''" "''job''" "Some jid"
        "JObj [(''source'', JStr (source_value L src)), (''queue'', JStr (queue_of src))]" "now e"]
      Inr ins log(1,2,5) view2 conflict False
    show ?thesis
      unfolding sa_create_tx_def Let_def jid_def [symmetric] by (auto simp: sa_ready_def)
  qed
qed

lemma sa_insert_refines:
  assumes "sa_invar d" and "\<And>k. key = Some k \<Longrightarrow> find (has_key t k) (db_jobs d) = None"
  shows "refines sa_invar sa_view (sa_ready e t d) d (spec_insert e t src p key (sa_view d)) (sa_insert L e t src p key d)"
proof -
  let ?jid = "''job_'' @ uuid e 0"
  from sa_create_tx_cases [OF assms, where key = key and src = src and p = p and L = L and e = e]
  consider (failed) "sa_create_tx e L t src p key d = Inl IntegrityError"
      "job_id_used ?jid (sa_view d) \<or> \<not> sa_ready e t d"
    | (created) d' where "sa_create_tx e L t src p key d = Inr (?jid, d')" "sa_invar d'"
      "\<not> job_id_used ?jid (sa_view d)"
      "sa_view d' = record_event t ?jid ''status'' (status_payload QUEUED) (now e)
        (put_job t ?jid (new_job ?jid t src p key (now e)) (sa_view d))"
    by blast
  then show ?thesis
  proof cases
    case failed
    have "sa_insert L e t src p key d = (Inl IntegrityError, d)"
      using failed(1) assms(2) by (cases key) (simp_all add: sa_insert_def sa_find_by_idempotency_key_def)
    with failed(2) assms(1) show ?thesis by (auto simp: refines_def spec_insert_def Let_def)
  next
    case created
    then show ?thesis
      by (intro refinesI) (simp_all add: sa_insert_def spec_insert_def Let_def sa_get_view)
  qed
qed

section \<open>The backend meets the contract\<close>

interpretation sqlalchemy: job_contract "sqlalchemy_repository L" sa_invar sa_view sa_ready for L
proof (unfold_locales, goal_cases)
  case (1 s)
  then show ?case by (simp add: sa_view_def sa_invar_def wf_table_view)
next
  case (2 s t j)
  then show ?case by (simp add: sqlalchemy_repository_def sa_get_view)
next
  case (3 s t k r)
  then obtain x where x: "find (has_key t k) (db_jobs s) = Some x" "r = job_record.truncate x"
    by (auto simp: sqlalchemy_repository_def sa_find_by_idempotency_key_def job_from_row_def)
  then have "x \<in> set (db_jobs s)" "has_key t k x" by (auto dest: find_SomeD)
  then have "find (is_job t (j_id x)) (db_jobs s) = Some x" and "j_idempotency_key x = Some k"
    using 3(1) by (auto simp: sa_invar_def has_key_def intro: find_is_job)
  with x(2) show ?case by (simp add: sa_row_view)
next
  case (4 s t k j r)
  then show ?case
    by (auto simp: sa_row_view sqlalchemy_repository_def sa_find_by_idempotency_key_def find_None has_key_def
        dest!: is_job_find)
next
  case (5 s "after" t j n)
  then show ?case
    by (simp add: sqlalchemy_repository_def sa_list_events_def sa_invar_def events_after_numbered)
      (simp add: sa_view_def)
next
  case (6 s t st src n)
  then have "job_table_ok (db_jobs s)" by (simp add: sa_invar_def)
  from newest_listing [OF this, of "db_job_events s" t st src] show ?case
    unfolding sa_view_def by (intro exI conjI, assumption)
      (simp add: sqlalchemy_repository_def sa_list_jobs_def sql_limit_def take_map job_from_row_def [abs_def])
next
  case (7 s e t j rq)
  then show ?case by (simp add: sqlalchemy_repository_def sa_mark_running_refines)
next
  case (8 s e t j st cnt c m)
  then show ?case by (simp add: sqlalchemy_repository_def sa_transition_refines)
next
  case (9 s e t j kind p)
  then show ?case by (simp add: sqlalchemy_repository_def sa_log_refines)
next
  case (10 s e t j)
  then show ?case by (simp add: sqlalchemy_repository_def sa_request_cancel_refines)
next
  case (11 s e t j d)
  then show ?case by (simp add: sqlalchemy_repository_def sa_set_dispatch_id_refines)
next
  case (12 s t k r e src p)
  then show ?case by (simp add: sqlalchemy_repository_def sa_create_def)
next
  case (13 s key t e src p)
  then have "\<And>k. key = Some k \<Longrightarrow> find (has_key t k) (db_jobs s) = None"
    by (simp add: sqlalchemy_repository_def sa_find_by_idempotency_key_def)
  with 13(1) have "refines sa_invar sa_view (sa_ready e t s) s (spec_insert e t src p key (sa_view s))
      (sa_insert L e t src p key s)"
    by (rule sa_insert_refines)
  with 13(2) show ?case
    by (cases key) (simp_all add: sqlalchemy_repository_def sa_create_def)
qed

end
