(* ===== verification/Job_Runs.thy ===== *)
theory Job_Runs
  imports Sqlite_Jobs Sql_Jobs
begin

text \<open>
  Sequences of repository calls, as clients make them: one call as a value, its answer, and
  the run of a list of calls over any \<open>job_repository\<close>. Two backends that meet the
  contract give the same answers to the same calls (locale \<open>job_pair\<close>), and the calls that
  do not claim or move a job keep what an executor relies on (locale \<open>job_client\<close>).
\<close>

section \<open>Calls and runs\<close>

datatype job_call =
    Call_create call_env string finding_source json "string option"
  | Call_mark_running call_env string string bool
  | Call_transition call_env string string job_status "int option" "string option" "string option"
  | Call_append_event call_env string string string json
  | Call_set_dispatch_id call_env string string string
  | Call_request_cancel call_env string string
  | Call_get string string
  | Call_list_jobs string "job_status option" "finding_source option" int
  | Call_find string string
  | Call_list_events string string int int

datatype job_answer =
    Ans_create "exn + job_record \<times> bool"
  | Ans_claim "exn + job_record option"
  | Ans_job "exn + job_record"
  | Ans_event "exn + job_event"
  | Ans_none
  | Ans_lookup "job_record option"
  | Ans_jobs "job_record list"
  | Ans_events "job_event list"

fun perform :: "'s job_repository \<Rightarrow> job_call \<Rightarrow> 's \<Rightarrow> job_answer \<times> 's" where
  "perform R (Call_create e t src p key) s = map_prod Ans_create id (r_create R e t src p key s)"
| "perform R (Call_mark_running e t j rq) s = map_prod Ans_claim id (r_mark_running R e t j rq s)"
| "perform R (Call_transition e t j st n c m) s = map_prod Ans_job id (r_transition R e t j st n c m s)"
| "perform R (Call_append_event e t j kind p) s = map_prod Ans_event id (r_append_event R e t j kind p s)"
| "perform R (Call_set_dispatch_id e t j i) s = (Ans_none, r_set_dispatch_id R e t j i s)"
| "perform R (Call_request_cancel e t j) s = map_prod Ans_job id (r_request_cancel R e t j s)"
| "perform R (Call_get t j) s = (Ans_lookup (r_get R t j s), s)"
| "perform R (Call_list_jobs t st src n) s = (Ans_jobs (r_list_jobs R t st src n s), s)"
| "perform R (Call_find t k) s = (Ans_lookup (r_find_by_idempotency_key R t k s), s)"
| "perform R (Call_list_events t j n m) s = (Ans_events (r_list_events R t j n m s), s)"

fun perform_all :: "'s job_repository \<Rightarrow> job_call list \<Rightarrow> 's \<Rightarrow> job_answer list \<times> 's" where
  "perform_all R [] s = ([], s)"
| "perform_all R (c # cs) s =
     (case perform R c s of (a, s1) \<Rightarrow> case perform_all R cs s1 of (as, s2) \<Rightarrow> (a # as, s2))"

lemma perform_all_Cons [simp]:
  "snd (perform_all R (c # cs) s) = snd (perform_all R cs (snd (perform R c s)))"
  "fst (perform_all R (c # cs) s) = fst (perform R c s) # fst (perform_all R cs (snd (perform R c s)))"
  by (simp_all split: prod.split)

declare perform_all.simps(2) [simp del]

text \<open>The tenant and the environment a call reads, if it reads one.\<close>

fun call_ready :: "(call_env \<Rightarrow> string \<Rightarrow> 's \<Rightarrow> bool) \<Rightarrow> job_call \<Rightarrow> 's \<Rightarrow> bool" where
  "call_ready rdy (Call_create e t src p key) s = rdy e t s"
| "call_ready rdy (Call_mark_running e t j rq) s = rdy e t s"
| "call_ready rdy (Call_transition e t j st n c m) s = rdy e t s"
| "call_ready rdy (Call_append_event e t j kind p) s = rdy e t s"
| "call_ready rdy (Call_request_cancel e t j) s = rdy e t s"
| "call_ready rdy c s = True"

fun run_ready :: "(call_env \<Rightarrow> string \<Rightarrow> 's \<Rightarrow> bool) \<Rightarrow> 's job_repository \<Rightarrow> job_call list \<Rightarrow> 's \<Rightarrow> bool" where
  "run_ready rdy R [] s = True"
| "run_ready rdy R (c # cs) s = (call_ready rdy c s \<and> run_ready rdy R cs (snd (perform R c s)))"

section \<open>Two backends agree\<close>

lemma refines_agree:
  assumes "refines i1 v1 r1 s1 spec out1" and "refines i2 v2 r2 s2 spec out2" and r1 and r2
  shows "fst out1 = fst out2 \<and> v1 (snd out1) = v2 (snd out2) \<and> i1 (snd out1) \<and> i2 (snd out2)"
  using assms by (auto simp: refines_def)

locale job_pair =
  one: job_contract R1 invar1 view1 ready1 + two: job_contract R2 invar2 view2 ready2
  for R1 :: "'s job_repository" and invar1 view1 ready1
    and R2 :: "'u job_repository" and invar2 view2 ready2
begin

lemma find_agree:
  assumes "invar1 s" and "invar2 u" and "view1 s = view2 u"
  shows "r_find_by_idempotency_key R1 t k s = r_find_by_idempotency_key R2 t k u"
proof (cases "r_find_by_idempotency_key R1 t k s")
  case None
  show ?thesis
  proof (cases "r_find_by_idempotency_key R2 t k u")
    case (Some r)
    with assms have "st_jobs (view1 s) t (j_id r) = Some r \<and> j_idempotency_key r = Some k"
      by (auto dest: two.find_some)
    with one.find_none [OF assms(1) None] show ?thesis by blast
  qed (simp add: None)
next
  case (Some r)
  with assms have "st_jobs (view2 u) t (j_id r) = Some r \<and> j_idempotency_key r = Some k"
    by (auto dest: one.find_some)
  with assms(2) have "r_find_by_idempotency_key R2 t k u = Some r" by (intro two.find_complete) auto
  with Some show ?thesis by simp
qed

lemma create_agree:
  assumes "invar1 s" and "invar2 u" and "view1 s = view2 u" and "ready1 e t s" and "ready2 e t u"
  shows "fst (r_create R1 e t src p key s) = fst (r_create R2 e t src p key u) \<and>
    view1 (snd (r_create R1 e t src p key s)) = view2 (snd (r_create R2 e t src p key u)) \<and>
    invar1 (snd (r_create R1 e t src p key s)) \<and> invar2 (snd (r_create R2 e t src p key u))"
proof (cases "\<exists>k r. key = Some k \<and> r_find_by_idempotency_key R1 t k s = Some r")
  case True
  then obtain k r where key: "key = Some k" and found: "r_find_by_idempotency_key R1 t k s = Some r"
    by blast
  moreover have "r_find_by_idempotency_key R2 t k u = Some r"
    using found find_agree [OF assms(1-3)] by simp
  ultimately show ?thesis using assms by (simp add: one.create_found two.create_found)
next
  case False
  then have none1: "\<And>k. key = Some k \<Longrightarrow> r_find_by_idempotency_key R1 t k s = None" by auto
  then have none2: "\<And>k. key = Some k \<Longrightarrow> r_find_by_idempotency_key R2 t k u = None"
    using find_agree [OF assms(1-3)] by simp
  show ?thesis
    using one.create_new [where key = key and t = t and e = e and src = src and p = p, OF assms(1) none1] 
      two.create_new
      [where key = key and t = t and e = e and src = src and p = p, OF assms(2) none2]
      assms(3-5)
    by (intro refines_agree) simp_all
qed

lemma listing_agree:
  assumes "invar1 s" and "invar2 u" and "view1 s = view2 u"
  shows "r_list_jobs R1 t st src n s = r_list_jobs R2 t st src n u"
proof -
  obtain xs where xs: "listing {r. \<exists>j. st_jobs (view1 s) t j = Some r \<and> job_matches t st src r} xs"
    "r_list_jobs R1 t st src n s = sql_limit (page_limit n) xs"
    using one.list_jobs [OF assms(1)] by blast
  obtain ys where ys: "listing {r. \<exists>j. st_jobs (view2 u) t j = Some r \<and> job_matches t st src r} ys"
    "r_list_jobs R2 t st src n u = sql_limit (page_limit n) ys"
    using two.list_jobs [OF assms(2)] by blast
  from xs(1) ys(1) assms(3) have "xs = ys" by (auto intro: listing_unique)
  with xs(2) ys(2) show ?thesis by simp
qed

definition related :: "'s \<Rightarrow> 'u \<Rightarrow> bool" where
  "related s u \<longleftrightarrow> invar1 s \<and> invar2 u \<and> view1 s = view2 u"

lemma perform_agree:
  assumes "related s u" and "call_ready ready1 c s" and "call_ready ready2 c u"
  shows "fst (perform R1 c s) = fst (perform R2 c u) \<and> related (snd (perform R1 c s)) (snd (perform R2 c u))"
proof -
  have st: "invar1 s" "invar2 u" "view1 s = view2 u" using assms(1) by (simp_all add: related_def)
  show ?thesis
  proof (cases c)
    case (Call_create e t src p key)
    with create_agree [OF st, of e t src p key] assms(2,3) show ?thesis by (auto simp: related_def)
  next
    case (Call_mark_running e t j rq)
    with refines_agree [OF one.mark_running [OF st(1), of e t j rq, unfolded st(3)] two.mark_running [OF st(2)]]
      assms(2,3) show ?thesis by (auto simp: related_def)
  next
    case (Call_transition e t j x n cd m)
    with refines_agree [OF one.transition [OF st(1), of e t j x n cd m, unfolded st(3)] two.transition [OF st(2)]]
      assms(2,3) show ?thesis by (auto simp: related_def)
  next
    case (Call_append_event e t j kind p)
    with refines_agree [OF one.append_event [OF st(1), of e t j kind p, unfolded st(3)] two.append_event [OF st(2)]]
      assms(2,3) show ?thesis by (auto simp: related_def)
  next
    case (Call_request_cancel e t j)
    with refines_agree [OF one.request_cancel [OF st(1), of e t j, unfolded st(3)] two.request_cancel [OF st(2)]]
      assms(2,3) show ?thesis by (auto simp: related_def)
  next
    case (Call_set_dispatch_id e t j i)
    with one.set_dispatch_id [OF st(1)] two.set_dispatch_id [OF st(2)] st(3) show ?thesis
      by (simp add: related_def)
  next
    case (Call_get t j)
    with st show ?thesis by (simp add: related_def one.get two.get)
  next
    case (Call_list_jobs t x src n)
    with st listing_agree [OF st] show ?thesis by (simp add: related_def)
  next
    case (Call_find t k)
    with st find_agree [OF st] show ?thesis by (simp add: related_def)
  next
    case (Call_list_events t j n m)
    with st show ?thesis by (simp add: related_def one.list_events two.list_events)
  qed
qed

lemma perform_all_agree:
  assumes "related s u" and "run_ready ready1 R1 cs s" and "run_ready ready2 R2 cs u"
  shows "fst (perform_all R1 cs s) = fst (perform_all R2 cs u) \<and>
    related (snd (perform_all R1 cs s)) (snd (perform_all R2 cs u))"
  using assms
proof (induction cs arbitrary: s u)
  case Nil
  then show ?case by simp
next
  case (Cons c cs)
  have step: "fst (perform R1 c s) = fst (perform R2 c u)"
    "related (snd (perform R1 c s)) (snd (perform R2 c u))"
    using perform_agree [of s u c] Cons.prems by auto
  with Cons.IH [OF step(2)] Cons.prems show ?case by simp
qed

end

interpretation backends: job_pair sqlite_repository sq_invar sq_view "\<lambda>e t s. True"
    "sqlalchemy_repository L" sa_invar sa_view sa_ready for L
  by unfold_locales

lemma run_ready_True: "run_ready (\<lambda>e t s. True) R cs s"
  by (induction cs arbitrary: s; simp; metis call_ready.simps job_call.exhaust)

section \<open>What calls keep\<close>

text \<open>The calls that claim or move a job; only its executor makes them.\<close>

fun moves :: "string \<Rightarrow> string \<Rightarrow> job_call \<Rightarrow> bool" where
  "moves t j (Call_mark_running e t' j' rq) \<longleftrightarrow> t' = t \<and> j' = j"
| "moves t j (Call_transition e t' j' st n c m) \<longleftrightarrow> t' = t \<and> j' = j"
| "moves t j _ \<longleftrightarrow> False"

text \<open>What every other call keeps of the job: it may only be cancelled, and while it is
  queued that also ends it.\<close>

definition job_kept :: "job_record \<Rightarrow> job_record \<Rightarrow> bool" where
  "job_kept r r' \<longleftrightarrow> j_source r' = j_source r \<and> j_payload r' = j_payload r \<and>
     j_attempt r' = j_attempt r \<and> j_result_count r' = j_result_count r \<and>
     j_error_code r' = j_error_code r \<and> j_error_message r' = j_error_message r \<and>
     (j_cancel_requested r \<longrightarrow> j_cancel_requested r') \<and>
     (j_status r' = QUEUED \<longrightarrow> j_cancel_requested r' = j_cancel_requested r) \<and>
     (j_status r' = j_status r \<or> (j_status r = QUEUED \<and> j_status r' = CANCELLED \<and> j_cancel_requested r'))"

lemma job_kept_refl [simp]: "job_kept r r"
  by (simp add: job_kept_def)

lemma job_kept_trans: "job_kept r r' \<Longrightarrow> job_kept r' r'' \<Longrightarrow> job_kept r r''"
  by (auto simp: job_kept_def)

lemma job_kept_updates [simp]: "job_kept r (dispatched_job ts d r)" "job_kept r (cancelled_job ts r)"
  by (auto simp: job_kept_def job_updates cancel_status_def)

lemma job_kept_not_queued: "job_kept r r' \<Longrightarrow> j_status r \<noteq> QUEUED \<Longrightarrow> j_status r' = j_status r"
  by (auto simp: job_kept_def)

definition store_keeps :: "string \<Rightarrow> string \<Rightarrow> job_store \<Rightarrow> job_store \<Rightarrow> bool" where
  "store_keeps t j a b \<longleftrightarrow>
     (\<forall>r. st_jobs a t j = Some r \<longrightarrow> (\<exists>r'. st_jobs b t j = Some r' \<and> job_kept r r'))"

lemma store_keeps_refl [simp]: "store_keeps t j a a"
  by (simp add: store_keeps_def)

lemma store_keeps_trans: "store_keeps t j a b \<Longrightarrow> store_keeps t j b c \<Longrightarrow> store_keeps t j a c"
  unfolding store_keeps_def by (meson job_kept_trans)

lemma spec_keeps:
  "t' \<noteq> t \<or> j' \<noteq> j \<Longrightarrow> store_keeps t j a (snd (spec_mark_running e t' j' rq a))"
  "t' \<noteq> t \<or> j' \<noteq> j \<Longrightarrow> store_keeps t j a (snd (spec_transition e t' j' st n c m a))"
  "store_keeps t j a (snd (spec_append_event e t' j' kind p a))"
  "store_keeps t j a (spec_set_dispatch_id e t' j' d a)"
  "store_keeps t j a (snd (spec_request_cancel e t' j' a))"
  "store_keeps t j a (snd (spec_insert e t' src p key a))"
  by (auto simp: store_keeps_def spec_mark_running_def spec_transition_def spec_append_event_def
      spec_set_dispatch_id_def spec_request_cancel_def spec_insert_def Let_def job_id_used_def
      split: option.split)

context job_contract
begin

lemma refines_keeps:
  assumes "invar s" and "refines invar view rdy s spec out" and "store_keeps t j (view s) (snd spec)"
  shows "invar (snd out) \<and> store_keeps t j (view s) (view (snd out))"
  using assms by (auto simp: refines_def)

lemma refines_invar: "invar s \<Longrightarrow> refines invar view rdy s spec out \<Longrightarrow> invar (snd out)"
  by (auto simp: refines_def)

lemma create_keeps:
  assumes "invar s"
  shows "invar (snd (r_create R e t' src p key s)) \<and>
    store_keeps t j (view s) (view (snd (r_create R e t' src p key s)))"
proof (cases "\<exists>k r. key = Some k \<and> r_find_by_idempotency_key R t' k s = Some r")
  case True
  with assms show ?thesis by (auto simp: create_found)
next
  case False
  then have "\<And>k. key = Some k \<Longrightarrow> r_find_by_idempotency_key R t' k s = None" by auto
  then show ?thesis
    using assms create_new [where key = key and t = t' and e = e and src = src and p = p, OF assms]
    by (intro refines_keeps) (auto simp: spec_keeps)
qed

lemma perform_invar: "invar s \<Longrightarrow> invar (snd (perform R c s))"
  using create_keeps refines_invar [OF _ mark_running] refines_invar [OF _ transition]
    refines_invar [OF _ append_event] refines_invar [OF _ request_cancel] set_dispatch_id
  by (cases c) simp_all

lemma perform_all_invar: "invar s \<Longrightarrow> invar (snd (perform_all R cs s))"
proof (induction cs arbitrary: s)
  case (Cons c cs)
  then show ?case using perform_invar [of s c] by simp
qed simp

lemma perform_keeps:
  assumes "invar s" and "\<not> moves t j c"
  shows "store_keeps t j (view s) (view (snd (perform R c s)))"
proof (cases c)
  case (Call_create e t' src p key)
  with assms create_keeps show ?thesis by simp
next
  case (Call_mark_running e t' j' rq)
  with assms refines_keeps [OF _ mark_running] show ?thesis by (simp add: spec_keeps)
next
  case (Call_transition e t' j' st n cd m)
  with assms refines_keeps [OF _ transition] show ?thesis by (simp add: spec_keeps)
next
  case (Call_append_event e t' j' kind p)
  with assms refines_keeps [OF _ append_event] show ?thesis by (simp add: spec_keeps)
next
  case (Call_request_cancel e t' j')
  with assms refines_keeps [OF _ request_cancel] show ?thesis by (simp add: spec_keeps)
next
  case (Call_set_dispatch_id e t' j' d)
  with assms set_dispatch_id show ?thesis by (simp add: spec_keeps)
qed simp_all

lemma perform_all_keeps:
  assumes "invar s" and "\<forall>c \<in> set cs. \<not> moves t j c"
  shows "store_keeps t j (view s) (view (snd (perform_all R cs s)))"
  using assms
proof (induction cs arbitrary: s)
  case (Cons c cs)
  let ?s = "snd (perform R c s)"
  have "store_keeps t j (view s) (view ?s)" using Cons.prems by (intro perform_keeps) auto
  moreover have "store_keeps t j (view ?s) (view (snd (perform_all R cs ?s)))"
    using Cons.prems perform_invar by (intro Cons.IH) auto
  ultimately show ?case by (auto intro: store_keeps_trans)
qed simp

text \<open>A job that was claimed cannot be claimed as queued again, whatever other calls come between.\<close>

lemma claim_exclusive:
  assumes "invar s" and "r_mark_running R e t j True s = (Inr (Some r), s1)"
    and "\<forall>c \<in> set cs. \<not> moves t j c"
  shows "fst (r_mark_running R e' t j True (snd (perform_all R cs s1))) \<in> {Inr None, Inl IntegrityError}"
proof -
  let ?s2 = "snd (perform_all R cs s1)"
  have "refines invar view (ready e t s) s (spec_mark_running e t j True (view s)) (Inr (Some r), s1)"
    using mark_running [OF assms(1), of e t j True] assms(2) by simp
  then have "invar s1" and "\<exists>r'. st_jobs (view s1) t j = Some r' \<and> j_status r' = RUNNING"
    by (auto simp: refines_def spec_mark_running_def split: option.splits if_splits)
  then obtain r' where r': "st_jobs (view s1) t j = Some r'" "j_status r' = RUNNING" by blast
  obtain r2 where "st_jobs (view ?s2) t j = Some r2" "job_kept r' r2"
    using perform_all_keeps [OF \<open>invar s1\<close> assms(3)] r'(1) by (auto simp: store_keeps_def)
  then have "fst (spec_mark_running e' t j True (view ?s2)) = Inr None"
    using r'(2) by (auto simp: spec_mark_running_def claimable_def dest!: job_kept_not_queued)
  moreover have "refines invar view (ready e' t ?s2) ?s2 (spec_mark_running e' t j True (view ?s2))
      (r_mark_running R e' t j True ?s2)"
    using perform_all_invar [OF \<open>invar s1\<close>] by (rule mark_running)
  ultimately show ?thesis by (auto simp: refines_def)
qed

text \<open>A terminal job stays as it is under every call that does not move it.\<close>

lemma terminal_kept:
  assumes "invar s" and "\<forall>c \<in> set cs. \<not> moves t j c"
    and "st_jobs (view s) t j = Some r" and "terminal (j_status r)"
  shows "\<exists>r'. st_jobs (view (snd (perform_all R cs s))) t j = Some r' \<and> j_status r' = j_status r"
  using perform_all_keeps [OF assms(1,2)] assms(3,4)
  by (fastforce simp: store_keeps_def dest: job_kept_not_queued)

end

end
