(* ===== verification/Execution.thy ===== *)
theory Execution
  imports Job_Runs
begin

text \<open>
  \<^verbatim>\<open>JobExecutor\<close> of \<^verbatim>\<open>execution.py\<close> as a machine: one step is one call of the repository or
  the registry together with the pure code up to the next call, so that calls of other
  actors can come between any two of them. What the executor waits for is an input of the
  step: the state of the scan task when \<^verbatim>\<open>asyncio.wait\<close> returns, what awaiting the cancelled
  task yields, and whether the await raises \<^verbatim>\<open>asyncio.CancelledError\<close> because the worker is
  being stopped. The tenant of the context variable is part of the state.
\<close>

section \<open>The executor and what it calls\<close>

text \<open>The registry acts for the tenant bound in the context variable.\<close>

record 's finding_registry =
  rg_findings :: "string \<Rightarrow> 's \<Rightarrow> exn + finding list"
  rg_add_for_job :: "call_env \<Rightarrow> string \<Rightarrow> finding \<Rightarrow> string option \<Rightarrow> 's \<Rightarrow> (exn + unit) \<times> 's"
  rg_add_correlation :: "call_env \<Rightarrow> string \<Rightarrow> correlation \<Rightarrow> 's \<Rightarrow> (exn + unit) \<times> 's"

text \<open>A \<^verbatim>\<open>ProductCLIError\<close>; \<open>pe_timeout\<close> says that it is a \<^verbatim>\<open>ProductTimeoutError\<close>.\<close>

record product_error =
  pe_code :: string
  pe_message :: string
  pe_retryable :: bool
  pe_timeout :: bool

text \<open>How the scan task ends: with findings, an exception, or cancelled.\<close>

datatype scan_outcome =
    Scan_findings "finding list"
  | Scan_product_error product_error
  | Scan_exception string
  | Scan_cancelled

text \<open>A correlation rule: a new finding and the existing ones to correlations, or an exception.\<close>

type_synonym correlation_rule = "finding \<Rightarrow> finding list \<Rightarrow> exn + correlation list"

record 's executor =
  ex_repository :: "'s job_repository"
  ex_registry :: "'s finding_registry"
  ex_products :: "finding_source set"
  ex_correlations :: "correlation_rule list"
  ex_max_attempts :: int
  ex_core :: core_lib
  ex_exn_text :: "exn \<Rightarrow> string"

definition make_executor :: "'s executor \<Rightarrow> exn + 's executor" where
  "make_executor X =
     (if ex_max_attempts X < 1 then Inl (ValueError ''max_attempts must be at least one'') else Inr X)"

section \<open>States\<close>

text \<open>What \<^verbatim>\<open>_store_results\<close> still has to do, in order.\<close>

datatype store_action =
    Do_add finding
  | Do_log string json
  | Do_rule correlation_rule finding
  | Do_correlation correlation
  | Do_seen finding

definition finding_actions :: "'s executor \<Rightarrow> finding \<Rightarrow> store_action list" where
  "finding_actions X f =
     Do_add f # Do_log ''finding'' (JObj (finding_to_dict (ex_core X) f)) #
     map (\<lambda>r. Do_rule r f) (ex_correlations X) @ [Do_seen f]"

definition correlation_payload :: "core_lib \<Rightarrow> correlation \<Rightarrow> json" where
  "correlation_payload L c = JObj
     [(''rule_id'', JStr (c_rule_id c)),
      (''findings'', JArr (map JStr (c_findings c))),
      (''severity'', JStr (severity_value L (c_severity c))),
      (''narrative'', JStr (c_narrative c))]"

definition correlation_actions :: "'s executor \<Rightarrow> correlation \<Rightarrow> store_action list" where
  "correlation_actions X c =
     [Do_correlation c, Do_log ''correlation'' (correlation_payload (ex_core X) c)]"

text \<open>The exceptions the body of the attempt ends with, as its handlers tell them apart.\<close>

datatype failure =
    Job_cancelled
  | Task_cancelled
  | Product_failure product_error
  | Other_failure string

datatype exec_pc =
    At_start
  | At_unknown_source finding_source
  | At_attempt int
  | At_cancelled_before int
  | At_claim int
  | At_poll int
  | At_results int "finding list"
  | At_store int "finding list" "finding list" "store_action list"
  | At_success int "finding list"
  | At_failure int failure
  | At_stop
  | At_backoff int
  | Finished "exn option"

record 's exec_state =
  x_state :: 's
  x_tenant :: string
  x_saved :: string
  x_pc :: exec_pc

text \<open>
  The inputs of a step. \<open>in_stopped\<close>: the await of this step raises CancelledError.
  \<open>in_scan\<close>: the task is done with this outcome when the wait returns. \<open>in_cancelled_scan\<close>:
  what awaiting the task yields after \<^verbatim>\<open>scan_task.cancel()\<close>, when it was not done before.
\<close>

record exec_input =
  in_env :: call_env
  in_stopped :: bool
  in_scan :: "scan_outcome option"
  in_cancelled_scan :: scan_outcome

section \<open>Steps\<close>

text \<open>Leaving the attempt: \<^verbatim>\<open>finally: reset_tenant(token)\<close>.\<close>

definition leave :: "exec_pc \<Rightarrow> 's exec_state \<Rightarrow> 's exec_state" where
  "leave pc x = x\<lparr>x_tenant := x_saved x, x_pc := pc\<rparr>"

definition goto :: "exec_pc \<Rightarrow> 's \<Rightarrow> 's exec_state \<Rightarrow> 's exec_state" where
  "goto pc s x = x\<lparr>x_state := s, x_pc := pc\<rparr>"

text \<open>After a call outside the \<^verbatim>\<open>try\<close>: an exception leaves \<open>execute\<close>.\<close>

definition finish_outside :: "(exn + 'a) \<times> 's \<Rightarrow> 's exec_state \<Rightarrow> 's exec_state" where
  "finish_outside res x =
     (case res of (Inl e, s) \<Rightarrow> goto (Finished (Some e)) s x | (Inr _, s) \<Rightarrow> goto (Finished None) s x)"

text \<open>After the last call of an exception handler: the \<^verbatim>\<open>finally\<close> runs in either case.\<close>

definition finish_handler :: "exn option \<Rightarrow> (exn + 'a) \<times> 's \<Rightarrow> 's exec_state \<Rightarrow> 's exec_state" where
  "finish_handler after_ok res x =
     (case res of
        (Inl e, s) \<Rightarrow> leave (Finished (Some e)) (goto (Finished (Some e)) s x)
      | (Inr _, s) \<Rightarrow> leave (Finished after_ok) (goto (Finished after_ok) s x))"

text \<open>In the \<^verbatim>\<open>try\<close>, an exception of a call goes to the last handler.\<close>

definition in_try :: "'s executor \<Rightarrow> int \<Rightarrow> (exn + 'a) \<times> 's \<Rightarrow> exec_pc \<Rightarrow> 's exec_state \<Rightarrow> 's exec_state" where
  "in_try X n res pc x =
     (case res of
        (Inl e, s) \<Rightarrow> goto (At_failure n (Other_failure (ex_exn_text X e))) s x
      | (Inr _, s) \<Rightarrow> goto pc s x)"

text \<open>What \<^verbatim>\<open>return await scan_task\<close> leads to.\<close>

fun scan_result :: "int \<Rightarrow> scan_outcome \<Rightarrow> exec_pc" where
  "scan_result n (Scan_findings fs) = At_results n fs"
| "scan_result n (Scan_product_error e) = At_failure n (Product_failure e)"
| "scan_result n (Scan_exception m) = At_failure n (Other_failure m)"
| "scan_result n Scan_cancelled = At_failure n Task_cancelled"

text \<open>
  Awaiting the task after it was cancelled: a CancelledError is swallowed and a result
  ignored, and JobCancelledError follows; another exception of the task passes on.
\<close>

fun cancelled_scan_result :: "int \<Rightarrow> scan_outcome \<Rightarrow> exec_pc" where
  "cancelled_scan_result n (Scan_product_error e) = At_failure n (Product_failure e)"
| "cancelled_scan_result n (Scan_exception m) = At_failure n (Other_failure m)"
| "cancelled_scan_result n _ = At_failure n Job_cancelled"

text \<open>The same when the worker is being stopped, which raises CancelledError again.\<close>

fun stopped_scan_result :: "int \<Rightarrow> scan_outcome \<Rightarrow> exec_pc" where
  "stopped_scan_result n (Scan_product_error e) = At_failure n (Product_failure e)"
| "stopped_scan_result n (Scan_exception m) = At_failure n (Other_failure m)"
| "stopped_scan_result n _ = At_failure n Task_cancelled"

text \<open>The call of \<^verbatim>\<open>_store_results\<close> that is next.\<close>

definition store_step ::
  "'s executor \<Rightarrow> call_env \<Rightarrow> string \<Rightarrow> string \<Rightarrow> int \<Rightarrow> finding list \<Rightarrow> finding list \<Rightarrow>
    store_action \<Rightarrow> store_action list \<Rightarrow> 's exec_state \<Rightarrow> 's exec_state" where
  "store_step X e t j n fs seen a rest x =
     (case a of
        Do_add f \<Rightarrow>
          in_try X n (rg_add_for_job (ex_registry X) e (x_tenant x) f (Some j) (x_state x))
            (At_store n fs seen rest) x
      | Do_log kind p \<Rightarrow>
          in_try X n (r_append_event (ex_repository X) e t j kind p (x_state x)) (At_store n fs seen rest) x
      | Do_rule r f \<Rightarrow>
          (case r f seen of
             Inl ex \<Rightarrow> goto (At_failure n (Other_failure (ex_exn_text X ex))) (x_state x) x
           | Inr cs \<Rightarrow>
               goto (At_store n fs seen (concat (map (correlation_actions X) cs) @ rest)) (x_state x) x)
      | Do_correlation c \<Rightarrow>
          in_try X n (rg_add_correlation (ex_registry X) e (x_tenant x) c (x_state x))
            (At_store n fs seen rest) x
      | Do_seen f \<Rightarrow> goto (At_store n fs (seen @ [f]) rest) (x_state x) x)"

text \<open>The handlers of the attempt's \<^verbatim>\<open>try\<close>.\<close>

definition failure_step ::
  "'s executor \<Rightarrow> call_env \<Rightarrow> string \<Rightarrow> string \<Rightarrow> int \<Rightarrow> failure \<Rightarrow> 's exec_state \<Rightarrow> 's exec_state" where
  "failure_step X e t j n f x =
     (let R = ex_repository X; s = x_state x
      in case f of
           Job_cancelled \<Rightarrow> finish_handler None (r_transition R e t j CANCELLED None None None s) x
         | Task_cancelled \<Rightarrow>
             (case r_get R t j s of
                None \<Rightarrow> leave (Finished (Some AsyncCancelledError)) x
              | Some current \<Rightarrow>
                  if terminal (j_status current) then leave (Finished (Some AsyncCancelledError)) x
                  else goto At_stop s x)
         | Product_failure pe \<Rightarrow>
             if pe_retryable pe \<and> n < ex_max_attempts X then
               (case r_append_event R e t j ''retrying''
                  (JObj [(''attempt'', JInt n), (''next_attempt'', JInt (n + 1)), (''code'', JStr (pe_code pe))]) s of
                  (Inl ex, s1) \<Rightarrow> leave (Finished (Some ex)) (goto (Finished (Some ex)) s1 x)
                | (Inr _, s1) \<Rightarrow> goto (At_backoff n) s1 x)
             else
               finish_handler None
                 (r_transition R e t j (if pe_timeout pe then TIMED_OUT else FAILED) None
                    (Some (pe_code pe)) (Some (pe_message pe)) s) x
         | Other_failure m \<Rightarrow>
             finish_handler None
               (r_transition R e t j FAILED None (Some ''INTERNAL_ERROR'') (Some m) s) x)"

text \<open>The body of \<open>execute\<close> for the job \<open>j\<close> of tenant \<open>t\<close>.\<close>

definition exec_step :: "'s executor \<Rightarrow> string \<Rightarrow> string \<Rightarrow> exec_input \<Rightarrow> 's exec_state \<Rightarrow> 's exec_state" where
  "exec_step X t j i x =
     (let R = ex_repository X; s = x_state x; e = in_env i
      in case x_pc x of
           At_start \<Rightarrow>
             (case r_get R t j s of
                None \<Rightarrow> goto (Finished None) s x
              | Some job \<Rightarrow>
                  if terminal (j_status job) then goto (Finished None) s x
                  else if j_source job \<notin> ex_products X then goto (At_unknown_source (j_source job)) s x
                  else goto (At_attempt 1) s x)
         | At_unknown_source src \<Rightarrow>
             finish_outside
               (r_transition R e t j FAILED None (Some ''UNKNOWN_SOURCE'')
                  (Some (''No adapter registered for '' @ source_value (ex_core X) src)) s) x
         | At_attempt n \<Rightarrow>
             if ex_max_attempts X < n then goto (Finished None) s x
             else
               (case r_get R t j s of
                  None \<Rightarrow> goto (Finished None) s x
                | Some current \<Rightarrow>
                    if j_status current = CANCELLED then goto (Finished None) s x
                    else if j_cancel_requested current then goto (At_cancelled_before n) s x
                    else goto (At_claim n) s x)
         | At_cancelled_before n \<Rightarrow> finish_outside (r_transition R e t j CANCELLED None None None s) x
         | At_claim n \<Rightarrow>
             (case r_mark_running R e t j (n = 1) s of
                (Inl ex, s1) \<Rightarrow> goto (Finished (Some ex)) s1 x
              | (Inr None, s1) \<Rightarrow> goto (Finished None) s1 x
              | (Inr (Some _), s1) \<Rightarrow> goto (At_poll n) s1 (x\<lparr>x_saved := x_tenant x, x_tenant := t\<rparr>))
         | At_poll n \<Rightarrow>
             if in_stopped i then
               goto (case in_scan i of
                       Some out \<Rightarrow> At_failure n Task_cancelled
                     | None \<Rightarrow> stopped_scan_result n (in_cancelled_scan i)) s x
             else
               (case r_get R t j s of
                  Some current \<Rightarrow>
                    if j_cancel_requested current then
                      goto (cancelled_scan_result n
                        (case in_scan i of Some out \<Rightarrow> out | None \<Rightarrow> in_cancelled_scan i)) s x
                    else goto (case in_scan i of None \<Rightarrow> At_poll n | Some out \<Rightarrow> scan_result n out) s x
                | None \<Rightarrow> goto (case in_scan i of None \<Rightarrow> At_poll n | Some out \<Rightarrow> scan_result n out) s x)
         | At_results n fs \<Rightarrow>
             (case rg_findings (ex_registry X) (x_tenant x) s of
                Inl ex \<Rightarrow> goto (At_failure n (Other_failure (ex_exn_text X ex))) s x
              | Inr seen \<Rightarrow> goto (At_store n fs seen (concat (map (finding_actions X) fs))) s x)
         | At_store n fs seen [] \<Rightarrow> goto (At_success n fs) s x
         | At_store n fs seen (a # rest) \<Rightarrow> store_step X e t j n fs seen a rest x
         | At_success n fs \<Rightarrow>
             (case r_transition R e t j SUCCEEDED (Some (int (length fs))) None None s of
                (Inl ex, s1) \<Rightarrow> goto (At_failure n (Other_failure (ex_exn_text X ex))) s1 x
              | (Inr _, s1) \<Rightarrow> leave (Finished None) (goto (Finished None) s1 x))
         | At_failure n f \<Rightarrow> failure_step X e t j n f x
         | At_stop \<Rightarrow>
             finish_handler (Some AsyncCancelledError) (r_transition R e t j CANCELLED None None None s) x
         | At_backoff n \<Rightarrow>
             if in_stopped i then leave (Finished (Some AsyncCancelledError)) x
             else leave (At_attempt (n + 1)) x
         | Finished r \<Rightarrow> x)"

definition exec_start :: "string \<Rightarrow> 's \<Rightarrow> 's exec_state" where
  "exec_start ctx s = \<lparr>x_state = s, x_tenant = ctx, x_saved = ctx, x_pc = At_start\<rparr>"

text \<open>A run of the executor alone on a list of inputs.\<close>

definition exec_run :: "'s executor \<Rightarrow> string \<Rightarrow> string \<Rightarrow> exec_input list \<Rightarrow> 's exec_state \<Rightarrow> 's exec_state" where
  "exec_run X t j is x = fold (exec_step X t j) is x"

text \<open>
  The executor among other actors: between two of its steps come any calls that do not
  claim or move its job, from the API, other jobs' executors, other tenants. A second
  executor of the same job, as of a job that is delivered again while the first one still
  runs, is not among them.
\<close>

inductive exec_system ::
  "'s executor \<Rightarrow> string \<Rightarrow> string \<Rightarrow> 's exec_state \<Rightarrow> 's exec_state \<Rightarrow> bool"
  for X :: "'s executor" and t j where
  exec_refl: "exec_system X t j x x"
| exec_own: "exec_system X t j x y \<Longrightarrow> exec_system X t j x (exec_step X t j i y)"
| exec_other: "exec_system X t j x y \<Longrightarrow> \<not> moves t j c \<Longrightarrow>
    exec_system X t j x (y\<lparr>x_state := snd (perform (ex_repository X) c (x_state y))\<rparr>)"

end
