(* ===== verification/Identity.thy ===== *)
theory Identity
  imports Database Base64 Execution
begin

text \<open>
  \<^verbatim>\<open>SQLAlchemyIdentityRepository\<close> of \<^verbatim>\<open>identity.py\<close>: tenants, users, memberships, API keys,
  identity clients and user sessions over the tables of \<^verbatim>\<open>Database\<close>. The hash functions are
  parameters; what a call draws at random is part of its environment. The regular
  expressions are written out as predicates. One method is one transaction. The records
  of tenants, users and memberships have the columns of their rows and are not repeated.
\<close>

section \<open>Parameters\<close>

text \<open>
  \<^verbatim>\<open>hashlib.scrypt\<close> with the program's cost parameters, of the UTF-8 encoding of the secret
  and a salt, and the hex digest of \<^verbatim>\<open>hashlib.sha256\<close> of the UTF-8 encoding of a token.
\<close>

record crypto =
  scrypt_digest :: "string \<Rightarrow> string \<Rightarrow> string"
  token_sha256 :: "string \<Rightarrow> string"

text \<open>\<^verbatim>\<open>secrets.token_hex(12)\<close>, \<^verbatim>\<open>secrets.token_urlsafe(32)\<close>, \<^verbatim>\<open>secrets.token_bytes(16)\<close>.\<close>

record secret_env = call_env +
  token_hex :: string
  token_urlsafe :: string
  token_salt :: string

section \<open>Validation\<close>

definition roles :: "string list" where
  "roles = [''viewer'', ''analyst'', ''admin'']"

definition tenant_statuses :: "string list" where
  "tenant_statuses = [''active'', ''suspended'', ''disabled'']"

definition membership_statuses :: "string list" where
  "membership_statuses = [''active'', ''suspended'']"

definition identity_client_scopes :: "string list" where
  "identity_client_scopes = [''auth:exchange'']"

definition is_identifier :: "string \<Rightarrow> bool" where
  "is_identifier s =
     (case s of [] \<Rightarrow> False
      | c # cs \<Rightarrow> is_alnum_ascii c \<and> length cs \<le> 127 \<and>
          list_all (\<lambda>x. is_alnum_ascii x \<or> x \<in> set ''_.:-'') cs)"

definition slug_char :: "char \<Rightarrow> bool" where
  "slug_char c \<longleftrightarrow> is_lower_az c \<or> is_digit c"

definition is_slug :: "string \<Rightarrow> bool" where
  "is_slug s \<longleftrightarrow> s \<noteq> [] \<and> length s \<le> 128 \<and> slug_char (hd s) \<and> slug_char (last s) \<and>
     list_all (\<lambda>x. slug_char x \<or> x = CHR ''-'') s"

definition is_key_prefix :: "string \<Rightarrow> string \<Rightarrow> bool" where
  "is_key_prefix p s \<longleftrightarrow> startswith p s \<and> length s = length p + 24 \<and> list_all is_hex_lower (drop (length p) s)"

definition url_token_char :: "char \<Rightarrow> bool" where
  "url_token_char c \<longleftrightarrow> is_alnum_ascii c \<or> c = CHR ''_'' \<or> c = CHR ''-''"

definition is_session_token :: "string \<Rightarrow> bool" where
  "is_session_token s \<longleftrightarrow> startswith ''igs_'' s \<and> 44 \<le> length s \<and> length s \<le> 68 \<and>
     list_all url_token_char (drop 4 s)"

definition validate_identifier :: "string \<Rightarrow> string \<Rightarrow> exn + unit" where
  "validate_identifier v field =
     (if is_identifier v then Inr ()
      else Inl (ValueError (field @ '' must contain 1 to 128 letters, digits, '.', '_', ':', or '-'' @ [CHR 0x27])))"

definition validate_role :: "string \<Rightarrow> exn + unit" where
  "validate_role r =
     (if r \<in> set roles then Inr ()
      else Inl (ValueError ''role must be one of ['admin', 'analyst', 'viewer']''))"

definition normalize_scopes :: "string list \<Rightarrow> exn + string list" where
  "normalize_scopes xs =
     (if \<exists>s \<in> set xs. s = [] \<or> 128 < length s
      then Inl (ValueError ''each scope must contain 1 to 128 characters'')
      else if 64 < length (dict_fromkeys xs)
      then Inl (ValueError ''an API key can contain at most 64 scopes'')
      else Inr (dict_fromkeys xs))"

definition normalize_client_name :: "string \<Rightarrow> exn + string" where
  "normalize_client_name s =
     (if py_strip s = [] \<or> 255 < length (py_strip s)
      then Inl (ValueError ''name must contain 1 to 255 characters'') else Inr (py_strip s))"

definition normalize_issuers :: "string list \<Rightarrow> exn + string list" where
  "normalize_issuers xs =
     (let ys = map py_strip xs
      in if \<exists>s \<in> set ys. s = [] \<or> 512 < length s
         then Inl (ValueError ''each issuer must contain 1 to 512 characters'')
         else if ys = [] then Inl (ValueError ''at least one issuer is required'')
         else if 16 < length (dict_fromkeys ys)
         then Inl (ValueError ''an identity client can allow at most 16 issuers'')
         else Inr (dict_fromkeys ys))"

definition normalize_expiry :: "py_datetime option \<Rightarrow> exn + time option" where
  "normalize_expiry v =
     (case v of
        None \<Rightarrow> Inr None
      | Some ts \<Rightarrow> if is_naive ts then Inl (ValueError ''expires_at must include a timezone'')
          else Inr (Some (instant ts)))"

definition max_session_ttl :: int where
  "max_session_ttl = 15 * 60"

definition default_session_ttl :: int where
  "default_session_ttl = 5 * 60"

text \<open>The lifetime in microseconds.\<close>

definition normalize_session_ttl :: "int \<Rightarrow> exn + int" where
  "normalize_session_ttl n =
     (if \<not> (1 \<le> n \<and> n \<le> max_session_ttl)
      then Inl (ValueError (''ttl_seconds must be between 1 and '' @ py_str_int max_session_ttl))
      else Inr (n * 1000000))"

section \<open>Secrets\<close>

definition scrypt_n :: int where "scrypt_n = 2 ^ 14"
definition scrypt_r :: int where "scrypt_r = 8"
definition scrypt_p :: int where "scrypt_p = 1"

definition hash_secret :: "crypto \<Rightarrow> string \<Rightarrow> string \<Rightarrow> string" where
  "hash_secret C salt secret =
     ''scrypt$'' @ py_str_int scrypt_n @ ''$'' @ py_str_int scrypt_r @ ''$'' @ py_str_int scrypt_p @ ''$'' @
     b64_unpadded salt @ ''$'' @ b64_unpadded (scrypt_digest C secret salt)"

definition verify_secret :: "crypto \<Rightarrow> string \<Rightarrow> string \<Rightarrow> bool" where
  "verify_secret C secret encoded =
     (case split_max (CHR ''$'') 5 encoded of
        [algorithm, n, r, p, salt, expected] \<Rightarrow>
          algorithm = ''scrypt'' \<and>
          py_int n = Some scrypt_n \<and> py_int r = Some scrypt_r \<and> py_int p = Some scrypt_p \<and>
          (case (urlsafe_b64decode (pad4 salt), urlsafe_b64decode (pad4 expected)) of
             (Some s, Some x) \<Rightarrow> scrypt_digest C secret s = x
           | _ \<Rightarrow> False)
      | _ \<Rightarrow> False)"

definition parse_key :: "string \<Rightarrow> string \<Rightarrow> (string \<times> string) option" where
  "parse_key p token =
     (if 128 < length token then None
      else (case partition_at (CHR ''.'') token of
        (pre, found, secret) \<Rightarrow>
          if \<not> found \<or> \<not> is_key_prefix p pre then None
          else if \<not> (32 \<le> length secret \<and> length secret \<le> 64) then None
          else Some (pre, secret)))"

definition parse_api_key :: "string \<Rightarrow> (string \<times> string) option" where
  "parse_api_key token = parse_key ''igw_'' token"

definition parse_identity_client_key :: "string \<Rightarrow> (string \<times> string) option" where
  "parse_identity_client_key token = parse_key ''igb_'' token"

section \<open>What the methods return\<close>

record api_key_principal =
  ap_tenant_id :: string
  ap_role :: string
  ap_scopes :: "string list"
  ap_api_key_id :: string

record issued_api_key =
  ik_id :: string
  ik_tenant_id :: string
  ik_role :: string
  ik_scopes :: "string list"
  ik_expires_at :: "time option"
  ik_token :: string

record api_key_record =
  kr_id :: string
  kr_key_prefix :: string
  kr_role :: string
  kr_scopes :: "string list"
  kr_created_at :: time
  kr_revoked_at :: "time option"

record client_record =
  ir_id :: string
  ir_name :: string
  ir_key_prefix :: string
  ir_allowed_issuers :: "string list"
  ir_active :: bool
  ir_rotated_from_id :: "string option"
  ir_created_at :: time
  ir_updated_at :: time
  ir_last_used_at :: "time option"
  ir_revoked_at :: "time option"

record client_principal =
  ip_identity_client_id :: string
  ip_name :: string
  ip_allowed_issuers :: "string list"
  ip_scopes :: "string list"

record issued_session =
  is_id :: string
  is_tenant_id :: string
  is_user_id :: string
  is_identity_client_id :: string
  is_expires_at :: time
  is_token :: string

record session_principal =
  sp_tenant_id :: string
  sp_user_id :: string
  sp_role :: string
  sp_session_id :: string
  sp_identity_client_id :: string

definition api_key_info :: "api_key_row \<Rightarrow> api_key_record" where
  "api_key_info r = \<lparr>kr_id = k_id r, kr_key_prefix = k_key_prefix r, kr_role = k_role r,
     kr_scopes = k_scopes r, kr_created_at = k_created_at r, kr_revoked_at = k_revoked_at r\<rparr>"

definition client_info :: "client_row \<Rightarrow> client_record" where
  "client_info r = \<lparr>ir_id = i_id r, ir_name = i_name r, ir_key_prefix = i_key_prefix r,
     ir_allowed_issuers = i_allowed_issuers r, ir_active = i_active r,
     ir_rotated_from_id = i_rotated_from_id r, ir_created_at = i_created_at r,
     ir_updated_at = i_updated_at r, ir_last_used_at = i_last_used_at r, ir_revoked_at = i_revoked_at r\<rparr>"

definition identity_audit ::
  "string \<Rightarrow> string \<Rightarrow> string \<Rightarrow> string \<Rightarrow> string \<Rightarrow> string option \<Rightarrow> json \<Rightarrow> time \<Rightarrow> string option \<Rightarrow> string \<Rightarrow>
    database \<Rightarrow> exn + database" where
  "identity_audit u t actor action rtype rid details ts request outcome d =
     insert_audit \<lparr>a_id = ''audit_'' @ u, a_tenant_id = t, a_actor = actor, a_action = action,
       a_resource_type = rtype, a_resource_id = rid, a_request_id = request, a_outcome = outcome,
       a_details = details, a_created_at = ts\<rparr> d"

section \<open>Tenants, users, memberships\<close>

definition create_tenant ::
  "call_env \<Rightarrow> string \<Rightarrow> string \<Rightarrow> string \<Rightarrow> int \<Rightarrow> string \<Rightarrow> database \<Rightarrow> (exn + tenant_row) \<times> database" where
  "create_tenant e t slug name days actor d =
     commit
       (bind_exn (validate_identifier t ''tenant_id'') (\<lambda>_.
        if \<not> is_slug slug
        then Inl (ValueError ''slug must use lowercase letters, digits, and internal hyphens'')
        else if py_strip name = [] \<or> 255 < length (py_strip name)
        then Inl (ValueError ''name must contain 1 to 255 characters'')
        else if \<not> (1 \<le> days \<and> days \<le> 3650)
        then Inl (ValueError ''retention_days must be between 1 and 3650'')
        else
          (let row = \<lparr>t_id = t, t_slug = slug, t_name = py_strip name, t_status = ''active'',
                      t_retention_days = days, t_created_at = now e, t_updated_at = now e\<rparr>
           in bind_exn (insert_tenant row d) (\<lambda>d1.
              bind_exn (identity_audit (uuid e 0) t actor ''tenant.created'' ''tenant'' (Some t)
                (JObj [(''slug'', JStr slug), (''retention_days'', JInt days)]) (now e) None ''success'' d1) (\<lambda>d2.
              Inr (row, d2)))))) d"

definition set_tenant_status ::
  "call_env \<Rightarrow> string \<Rightarrow> string \<Rightarrow> string \<Rightarrow> database \<Rightarrow> (exn + tenant_row) \<times> database" where
  "set_tenant_status e t status actor d =
     commit
       (if status \<notin> set tenant_statuses
        then Inl (ValueError ''status must be one of ['active', 'disabled', 'suspended']'')
        else (case get_tenant t d of
          None \<Rightarrow> Inl (KeyError (''tenant not found: '' @ t))
        | Some row \<Rightarrow>
            (let f = (\<lambda>r. r\<lparr>t_status := status, t_updated_at := now e\<rparr>)
             in bind_exn (identity_audit (uuid e 0) t actor ''tenant.status_changed'' ''tenant'' (Some t)
                  (JObj [(''from'', JStr (t_status row)), (''to'', JStr status)]) (now e) None ''success''
                  (d\<lparr>db_tenants := upd_where (\<lambda>r. t_id r = t) f (db_tenants d)\<rparr>)) (\<lambda>d1.
                Inr (f row, d1))))) d"

definition is_user :: "string \<Rightarrow> string \<Rightarrow> user_row \<Rightarrow> bool" where
  "is_user issuer subject r \<longleftrightarrow> u_issuer r = issuer \<and> u_subject r = subject"

definition profile_of :: "string option \<Rightarrow> string option \<Rightarrow> time \<Rightarrow> user_row \<Rightarrow> user_row" where
  "profile_of email display ts r = r\<lparr>u_email := email, u_display_name := display, u_updated_at := ts\<rparr>"

definition validate_user :: "string \<Rightarrow> string \<Rightarrow> string option \<Rightarrow> string option \<Rightarrow> exn + unit" where
  "validate_user issuer subject email display =
     (if issuer = [] \<or> 512 < length issuer then Inl (ValueError ''issuer must contain 1 to 512 characters'')
      else if subject = [] \<or> 255 < length subject then Inl (ValueError ''subject must contain 1 to 255 characters'')
      else if (case email of None \<Rightarrow> False | Some x \<Rightarrow> 320 < length x)
      then Inl (ValueError ''email must contain at most 320 characters'')
      else if (case display of None \<Rightarrow> False | Some x \<Rightarrow> 255 < length x)
      then Inl (ValueError ''display_name must contain at most 255 characters'')
      else Inr ())"

text \<open>
  The two transactions of \<open>upsert_user\<close>; \<open>sel\<close> is the row the first one's \<^verbatim>\<open>SELECT\<close> returned,
  which a concurrent first exchange may have made stale.
\<close>

definition upsert_first ::
  "call_env \<Rightarrow> string \<Rightarrow> string \<Rightarrow> string option \<Rightarrow> string option \<Rightarrow> user_row option \<Rightarrow> database \<Rightarrow>
    exn + user_row \<times> database" where
  "upsert_first e issuer subject email display sel d =
     (case sel of
        None \<Rightarrow>
          (let row = \<lparr>u_id = ''usr_'' @ uuid e 0, u_issuer = issuer, u_subject = subject, u_email = email,
                      u_display_name = display, u_created_at = now e, u_updated_at = now e\<rparr>
           in bind_exn (insert_user row d) (\<lambda>d1. Inr (row, d1)))
      | Some row \<Rightarrow>
          Inr (profile_of email display (now e) row,
               d\<lparr>db_users := upd_where (\<lambda>r. u_id r = u_id row) (profile_of email display (now e)) (db_users d)\<rparr>))"

definition upsert_retry ::
  "call_env \<Rightarrow> string \<Rightarrow> string \<Rightarrow> string option \<Rightarrow> string option \<Rightarrow> database \<Rightarrow> exn + user_row \<times> database" where
  "upsert_retry e issuer subject email display d =
     (case find (is_user issuer subject) (db_users d) of
        None \<Rightarrow> Inl IntegrityError
      | Some row \<Rightarrow>
          Inr (profile_of email display (now e) row,
               d\<lparr>db_users := upd_where (\<lambda>r. u_id r = u_id row) (profile_of email display (now e)) (db_users d)\<rparr>))"

definition upsert_selected ::
  "call_env \<Rightarrow> string \<Rightarrow> string \<Rightarrow> string option \<Rightarrow> string option \<Rightarrow> user_row option \<Rightarrow> database \<Rightarrow>
    (exn + user_row) \<times> database" where
  "upsert_selected e issuer subject email display sel d =
     (case commit (upsert_first e issuer subject email display sel d) d of
        (Inl x, d1) \<Rightarrow>
          if x = IntegrityError then commit (upsert_retry e issuer subject email display d1) d1 else (Inl x, d1)
      | (Inr r, d1) \<Rightarrow> (Inr r, d1))"

definition upsert_user ::
  "call_env \<Rightarrow> string \<Rightarrow> string \<Rightarrow> string option \<Rightarrow> string option \<Rightarrow> database \<Rightarrow>
    (exn + user_row) \<times> database" where
  "upsert_user e issuer subject email display d =
     (case validate_user (py_strip issuer) (py_strip subject) email display of
        Inl x \<Rightarrow> (Inl x, d)
      | Inr _ \<Rightarrow> upsert_selected e (py_strip issuer) (py_strip subject) email display
          (find (is_user (py_strip issuer) (py_strip subject)) (db_users d)) d)"

definition set_membership ::
  "call_env \<Rightarrow> string \<Rightarrow> string \<Rightarrow> string \<Rightarrow> string \<Rightarrow> database \<Rightarrow> (exn + membership_row) \<times> database" where
  "set_membership e t u role actor d =
     commit
       (bind_exn (validate_role role) (\<lambda>_.
        if get_tenant t d = None then Inl (KeyError (''tenant not found: '' @ t))
        else if get_user u d = None then Inl (KeyError (''user not found: '' @ u))
        else
          (let result = (case get_membership_row t u d of
                 None \<Rightarrow>
                   (let row = \<lparr>m_tenant_id = t, m_user_id = u, m_role = role, m_status = ''active'',
                               m_created_at = now e\<rparr>
                    in bind_exn (insert_membership row d) (\<lambda>d1. Inr (row, d1)))
               | Some row \<Rightarrow>
                   Inr (row\<lparr>m_role := role\<rparr>,
                        d\<lparr>db_memberships := upd_where (\<lambda>r. m_tenant_id r = t \<and> m_user_id r = u)
                          (\<lambda>r. r\<lparr>m_role := role\<rparr>) (db_memberships d)\<rparr>))
           in bind_exn result (\<lambda>(row, d1).
              bind_exn (identity_audit (uuid e 0) t actor ''membership.set'' ''membership'' (Some u)
                (JObj [(''role'', JStr role)]) (now e) None ''success'' d1) (\<lambda>d2.
              Inr (row, d2)))))) d"

definition set_membership_status ::
  "call_env \<Rightarrow> string \<Rightarrow> string \<Rightarrow> string \<Rightarrow> string \<Rightarrow> database \<Rightarrow> (exn + membership_row) \<times> database" where
  "set_membership_status e t u status actor d =
     commit
       (if status \<notin> set membership_statuses
        then Inl (ValueError ''status must be one of ['active', 'suspended']'')
        else (case get_membership_row t u d of
          None \<Rightarrow> Inl (KeyError (''membership not found: tenant='' @ t @ '', user='' @ u))
        | Some row \<Rightarrow>
            bind_exn (identity_audit (uuid e 0) t actor ''membership.status_changed'' ''membership'' (Some u)
              (JObj [(''from'', JStr (m_status row)), (''to'', JStr status)]) (now e) None ''success''
              (d\<lparr>db_memberships := upd_where (\<lambda>r. m_tenant_id r = t \<and> m_user_id r = u)
                 (\<lambda>r. r\<lparr>m_status := status\<rparr>) (db_memberships d)\<rparr>)) (\<lambda>d1.
            Inr (row\<lparr>m_status := status\<rparr>, d1)))) d"

definition record_auth_event ::
  "call_env \<Rightarrow> string \<Rightarrow> string \<Rightarrow> string \<Rightarrow> string \<Rightarrow> string option \<Rightarrow> json \<Rightarrow> database \<Rightarrow>
    (exn + bool) \<times> database" where
  "record_auth_event e t actor action outcome request details d =
     commit
       (if outcome \<notin> {''success'', ''failure''} then Inl (ValueError ''outcome must be success or failure'')
        else if get_tenant t d = None then Inr (False, d)
        else bind_exn (identity_audit (uuid e 0) t (take 255 actor) action ''authentication'' None details
               (now e) request outcome d) (\<lambda>d1. Inr (True, d1))) d"

section \<open>API keys\<close>

definition has_prefix :: "string \<Rightarrow> api_key_row \<Rightarrow> bool" where
  "has_prefix p r \<longleftrightarrow> k_key_prefix r = p"

definition issue_api_key ::
  "crypto \<Rightarrow> secret_env \<Rightarrow> string \<Rightarrow> string \<Rightarrow> string list \<Rightarrow> py_datetime option \<Rightarrow> string \<Rightarrow> database \<Rightarrow>
    (exn + issued_api_key) \<times> database" where
  "issue_api_key C e t role scopes expires actor d =
     commit
       (bind_exn (validate_role role) (\<lambda>_.
        bind_exn (normalize_scopes scopes) (\<lambda>scs.
        bind_exn (normalize_expiry expires) (\<lambda>expiry.
        if (case expiry of None \<Rightarrow> False | Some x \<Rightarrow> x \<le> now e)
        then Inl (ValueError ''expires_at must be in the future'')
        else
          (let pre = ''igw_'' @ token_hex e;
               token = pre @ ''.'' @ token_urlsafe e;
               row = \<lparr>k_id = ''key_'' @ uuid e 0, k_tenant_id = t, k_key_prefix = pre,
                      k_secret_hash = hash_secret C (token_salt e) (token_urlsafe e), k_role = role,
                      k_scopes = scs, k_expires_at = expiry, k_revoked_at = None, k_created_at = now e\<rparr>
           in case get_tenant t d of
                None \<Rightarrow> Inl (KeyError (''tenant not found: '' @ t))
              | Some tenant \<Rightarrow>
                  if t_status tenant \<noteq> ''active''
                  then Inl (ValueError ''API keys can only be issued for active tenants'')
                  else
                    bind_exn (insert_api_key row d) (\<lambda>d1.
                    bind_exn (identity_audit (uuid e 1) t actor ''api_key.issued'' ''api_key'' (Some (k_id row))
                      (JObj [(''prefix'', JStr pre), (''role'', JStr role), (''scopes'', JArr (map JStr scs))])
                      (now e) None ''success'' d1) (\<lambda>d2.
                    Inr (\<lparr>ik_id = k_id row, ik_tenant_id = t, ik_role = role, ik_scopes = scs,
                          ik_expires_at = expiry, ik_token = token\<rparr>, d2)))))))) d"

text \<open>The checks on a stored key at the time \<open>ts\<close>.\<close>

definition api_key_usable :: "time \<Rightarrow> api_key_row \<Rightarrow> database \<Rightarrow> bool" where
  "api_key_usable ts r d \<longleftrightarrow>
     (case get_tenant (k_tenant_id r) d of None \<Rightarrow> False | Some x \<Rightarrow> t_status x = ''active'') \<and>
     k_revoked_at r = None \<and>
     (case k_expires_at r of None \<Rightarrow> True | Some x \<Rightarrow> \<not> x \<le> ts) \<and>
     k_role r \<in> set roles"

definition authenticate_api_key ::
  "crypto \<Rightarrow> call_env \<Rightarrow> string \<Rightarrow> database \<Rightarrow> api_key_principal option" where
  "authenticate_api_key C e token d =
     (case parse_api_key token of
        None \<Rightarrow> None
      | Some (pre, secret) \<Rightarrow>
          (case find (has_prefix pre) (db_api_keys d) of
             None \<Rightarrow> None
           | Some row \<Rightarrow>
               if \<not> verify_secret C secret (k_secret_hash row) then None
               else if \<not> api_key_usable (now e) row d then None
               else Some \<lparr>ap_tenant_id = k_tenant_id row, ap_role = k_role row,
                          ap_scopes = k_scopes row, ap_api_key_id = k_id row\<rparr>))"

definition list_api_keys :: "string \<Rightarrow> bool \<Rightarrow> database \<Rightarrow> exn + api_key_record list" where
  "list_api_keys t include_revoked d =
     bind_exn (validate_identifier t ''tenant_id'') (\<lambda>_.
       Inr (map api_key_info (sort_key (\<lambda>r. (k_created_at r, k_id r))
         (filter (\<lambda>r. k_tenant_id r = t \<and> (include_revoked \<or> k_revoked_at r = None)) (db_api_keys d)))))"

definition is_api_key :: "string \<Rightarrow> string \<Rightarrow> api_key_row \<Rightarrow> bool" where
  "is_api_key t i r \<longleftrightarrow> k_tenant_id r = t \<and> k_id r = i"

definition revoke_api_key ::
  "call_env \<Rightarrow> string \<Rightarrow> string \<Rightarrow> string \<Rightarrow> database \<Rightarrow> (exn + bool) \<times> database" where
  "revoke_api_key e t i actor d =
     commit
       (case find (is_api_key t i) (db_api_keys d) of
          None \<Rightarrow> Inr (False, d)
        | Some row \<Rightarrow>
            if k_revoked_at row \<noteq> None then Inr (True, d)
            else
              bind_exn (identity_audit (uuid e 0) t actor ''api_key.revoked'' ''api_key'' (Some i)
                (JObj [(''prefix'', JStr (k_key_prefix row))]) (now e) None ''success''
                (d\<lparr>db_api_keys := upd_where (is_api_key t i) (\<lambda>r. r\<lparr>k_revoked_at := Some (now e)\<rparr>)
                   (db_api_keys d)\<rparr>)) (\<lambda>d1. Inr (True, d1))) d"

section \<open>Identity clients\<close>

definition new_identity_client ::
  "crypto \<Rightarrow> secret_env \<Rightarrow> string \<Rightarrow> string list \<Rightarrow> string option \<Rightarrow> client_row \<times> string" where
  "new_identity_client C e name issuers rotated_from =
     (\<lparr>i_id = ''idc_'' @ uuid e 0, i_name = name, i_key_prefix = ''igb_'' @ token_hex e,
       i_secret_hash = hash_secret C (token_salt e) (token_urlsafe e), i_allowed_issuers = issuers,
       i_active = True, i_rotated_from_id = rotated_from, i_created_at = now e, i_updated_at = now e,
       i_last_used_at = None, i_revoked_at = None\<rparr>,
      ''igb_'' @ token_hex e @ ''.'' @ token_urlsafe e)"

definition issue_identity_client ::
  "crypto \<Rightarrow> secret_env \<Rightarrow> string \<Rightarrow> string list \<Rightarrow> database \<Rightarrow> (exn + client_record \<times> string) \<times> database" where
  "issue_identity_client C e name issuers d =
     commit
       (bind_exn (normalize_client_name name) (\<lambda>clean.
        bind_exn (normalize_issuers issuers) (\<lambda>allowed.
        case new_identity_client C e clean allowed None of (row, token) \<Rightarrow>
          bind_exn (insert_client row d) (\<lambda>d1. Inr ((client_info row, token), d1))))) d"

definition list_identity_clients :: "database \<Rightarrow> client_record list" where
  "list_identity_clients d = map client_info (sort_key (\<lambda>r. (i_created_at r, i_id r)) (db_clients d))"

definition rotate_identity_client ::
  "crypto \<Rightarrow> secret_env \<Rightarrow> string \<Rightarrow> database \<Rightarrow> (exn + client_record \<times> string) \<times> database" where
  "rotate_identity_client C e i d =
     commit
       (case get_client i d of
          None \<Rightarrow> Inl (KeyError (''identity client not found: '' @ i))
        | Some previous \<Rightarrow>
            if \<not> i_active previous \<or> i_revoked_at previous \<noteq> None
            then Inl (ValueError ''revoked identity clients cannot be rotated'')
            else
              (case new_identity_client C e (i_name previous) (i_allowed_issuers previous) (Some (i_id previous)) of
                 (row, token) \<Rightarrow> bind_exn (insert_client row d) (\<lambda>d1. Inr ((client_info row, token), d1)))) d"

definition authenticate_identity_client ::
  "crypto \<Rightarrow> call_env \<Rightarrow> string \<Rightarrow> string option \<Rightarrow> database \<Rightarrow> client_principal option \<times> database" where
  "authenticate_identity_client C e token issuer d =
     (case parse_identity_client_key token of
        None \<Rightarrow> (None, d)
      | Some (pre, secret) \<Rightarrow>
          if (case issuer of None \<Rightarrow> False | Some x \<Rightarrow> py_strip x = []) then (None, d)
          else
            (case find (\<lambda>r. i_key_prefix r = pre) (db_clients d) of
               None \<Rightarrow> (None, d)
             | Some row \<Rightarrow>
                 if \<not> verify_secret C secret (i_secret_hash row) then (None, d)
                 else if \<not> i_active row \<or> i_revoked_at row \<noteq> None \<or>
                   (case issuer of None \<Rightarrow> False | Some x \<Rightarrow> py_strip x \<notin> set (i_allowed_issuers row))
                 then (None, d)
                 else (Some \<lparr>ip_identity_client_id = i_id row, ip_name = i_name row,
                             ip_allowed_issuers = i_allowed_issuers row, ip_scopes = identity_client_scopes\<rparr>,
                       d\<lparr>db_clients := upd_where (\<lambda>r. i_id r = i_id row)
                          (\<lambda>r. r\<lparr>i_last_used_at := Some (now e), i_updated_at := now e\<rparr>) (db_clients d)\<rparr>)))"

definition revoke_identity_client :: "call_env \<Rightarrow> string \<Rightarrow> database \<Rightarrow> bool \<times> database" where
  "revoke_identity_client e i d =
     (case get_client i d of
        None \<Rightarrow> (False, d)
      | Some row \<Rightarrow>
          if i_revoked_at row \<noteq> None then (True, d)
          else (True, d\<lparr>db_clients := upd_where (\<lambda>r. i_id r = i)
                 (\<lambda>r. r\<lparr>i_active := False, i_revoked_at := Some (now e), i_updated_at := now e\<rparr>)
                 (db_clients d)\<rparr>))"

section \<open>User sessions\<close>

definition client_live :: "string \<Rightarrow> database \<Rightarrow> bool" where
  "client_live i d \<longleftrightarrow>
     (case get_client i d of None \<Rightarrow> False | Some c \<Rightarrow> i_active c \<and> i_revoked_at c = None)"

definition issue_user_session ::
  "crypto \<Rightarrow> secret_env \<Rightarrow> string \<Rightarrow> string \<Rightarrow> string \<Rightarrow> int \<Rightarrow> string \<Rightarrow> string option \<Rightarrow> database \<Rightarrow>
    (exn + issued_session) \<times> database" where
  "issue_user_session C e i t u ttl_seconds actor request d =
     commit
       (bind_exn (normalize_session_ttl ttl_seconds) (\<lambda>ttl.
        let expires = now e + ttl;
            token = ''igs_'' @ token_urlsafe e;
            row = \<lparr>s_id = ''ses_'' @ uuid e 0, s_token_hash = token_sha256 C token, s_user_id = u,
                   s_tenant_id = t, s_identity_client_id = i, s_created_at = now e, s_expires_at = expires,
                   s_last_seen_at = None, s_revoked_at = None\<rparr>
        in if \<not> client_live i d then Inl (ValueError ''identity client must be active'')
           else
             (case get_tenant t d of
                None \<Rightarrow> Inl (KeyError (''tenant not found: '' @ t))
              | Some tenant \<Rightarrow>
                  if t_status tenant \<noteq> ''active''
                  then Inl (ValueError ''user sessions can only be issued for active tenants'')
                  else if get_user u d = None then Inl (KeyError (''user not found: '' @ u))
                  else
                    (case get_membership_row t u d of
                       None \<Rightarrow> Inl (ValueError ''an active membership is required'')
                     | Some m \<Rightarrow>
                         if m_status m \<noteq> ''active'' then Inl (ValueError ''an active membership is required'')
                         else if m_role m \<notin> set roles then Inl (ValueError ''membership role is invalid'')
                         else
                           bind_exn (insert_session row d) (\<lambda>d1.
                           bind_exn (identity_audit (uuid e 1) t actor ''user_session.issued'' ''user_session''
                             (Some (s_id row))
                             (JObj [(''user_id'', JStr u), (''identity_client_id'', JStr i),
                                    (''expires_at'', JStr (isoformat expires))])
                             (now e) request ''success'' d1) (\<lambda>d2.
                           Inr (\<lparr>is_id = s_id row, is_tenant_id = t, is_user_id = u,
                                 is_identity_client_id = i, is_expires_at = expires, is_token = token\<rparr>, d2))))))) d"

text \<open>The role a session gives at the time \<open>ts\<close>, if it is good for anything.\<close>

definition session_role :: "time \<Rightarrow> session_row \<Rightarrow> database \<Rightarrow> string option" where
  "session_role ts r d =
     (if s_revoked_at r \<noteq> None \<or> s_expires_at r \<le> ts then None
      else
        (case (get_tenant (s_tenant_id r) d, get_membership_row (s_tenant_id r) (s_user_id r) d) of
           (Some tenant, Some m) \<Rightarrow>
             if client_live (s_identity_client_id r) d \<and> t_status tenant = ''active'' \<and>
                m_status m = ''active'' \<and> m_role m \<in> set roles
             then Some (m_role m) else None
         | _ \<Rightarrow> None))"

definition authenticate_user_session ::
  "crypto \<Rightarrow> call_env \<Rightarrow> string \<Rightarrow> database \<Rightarrow> session_principal option \<times> database" where
  "authenticate_user_session C e token d =
     (if \<not> is_session_token token then (None, d)
      else
        (case find (\<lambda>r. s_token_hash r = token_sha256 C token) (db_sessions d) of
           None \<Rightarrow> (None, d)
         | Some row \<Rightarrow>
             (case session_role (now e) row d of
                None \<Rightarrow> (None, d)
              | Some role \<Rightarrow>
                  (Some \<lparr>sp_tenant_id = s_tenant_id row, sp_user_id = s_user_id row, sp_role = role,
                         sp_session_id = s_id row, sp_identity_client_id = s_identity_client_id row\<rparr>,
                   d\<lparr>db_sessions := upd_where (\<lambda>r. s_id r = s_id row)
                      (\<lambda>r. r\<lparr>s_last_seen_at := Some (now e)\<rparr>) (db_sessions d)\<rparr>))))"

definition is_session :: "string \<Rightarrow> string \<Rightarrow> session_row \<Rightarrow> bool" where
  "is_session t i r \<longleftrightarrow> s_tenant_id r = t \<and> s_id r = i"

definition revoke_user_session ::
  "call_env \<Rightarrow> string \<Rightarrow> string \<Rightarrow> string \<Rightarrow> string option \<Rightarrow> database \<Rightarrow> (exn + bool) \<times> database" where
  "revoke_user_session e t i actor request d =
     commit
       (case find (is_session t i) (db_sessions d) of
          None \<Rightarrow> Inr (False, d)
        | Some row \<Rightarrow>
            if s_revoked_at row \<noteq> None then Inr (True, d)
            else
              bind_exn (identity_audit (uuid e 0) t actor ''user_session.revoked'' ''user_session'' (Some i)
                (JObj [(''user_id'', JStr (s_user_id row))]) (now e) request ''success''
                (d\<lparr>db_sessions := upd_where (is_session t i) (\<lambda>r. r\<lparr>s_revoked_at := Some (now e)\<rparr>)
                   (db_sessions d)\<rparr>)) (\<lambda>d1. Inr (True, d1))) d"

definition cleanup_expired_user_sessions ::
  "call_env \<Rightarrow> py_datetime option \<Rightarrow> database \<Rightarrow> (exn + int) \<times> database" where
  "cleanup_expired_user_sessions e before d =
     commit
       (bind_exn (normalize_expiry before) (\<lambda>v.
        let cutoff = (case v of None \<Rightarrow> now e | Some ts \<Rightarrow> ts);
            gone = filter (\<lambda>r. s_expires_at r \<le> cutoff) (db_sessions d)
        in Inr (int (length gone), d\<lparr>db_sessions := filter (\<lambda>r. \<not> s_expires_at r \<le> cutoff) (db_sessions d)\<rparr>))) d"

end
