(* ===== verification/Rbac.thy ===== *)
theory Rbac
  imports Identity Py_Json
begin

text \<open>
  The access control of \<^verbatim>\<open>auth.py\<close>: principals from the environment, the middleware's
  decision on a request, scopes, and the authenticator \<^verbatim>\<open>gateway.py\<close> installs. A header is a
  pair of byte strings, read as Latin-1. The decision is a value: the principal the
  application is called as, or the error response.
\<close>

record principal =
  p_tenant_id :: string
  p_role :: string
  p_scopes :: "string set option"
  p_auth_type :: string
  p_user_id :: "string option"
  p_session_id :: "string option"
  p_identity_client_id :: "string option"
  p_api_key_id :: "string option"

definition plain_principal :: "string \<Rightarrow> string \<Rightarrow> principal" where
  "plain_principal t role =
     \<lparr>p_tenant_id = t, p_role = role, p_scopes = None, p_auth_type = ''machine'', p_user_id = None,
      p_session_id = None, p_identity_client_id = None, p_api_key_id = None\<rparr>"

section \<open>Principals from the environment\<close>

definition load_entry :: "string \<times> json \<Rightarrow> exn + string \<times> principal" where
  "load_entry kv =
     (if length (fst kv) < 16
      then Inl (ValueError ''every gateway bearer token must contain at least 16 characters'')
      else (case snd kv of
        JObj fs \<Rightarrow>
          (case map_of fs ''tenant'' of
             Some (JStr t) \<Rightarrow>
               if t = [] \<or> 128 < length t
               then Inl (ValueError ''gateway tenant IDs must contain 1 to 128 characters'')
               else (case map_of fs ''role'' of
                 Some (JStr r) \<Rightarrow>
                   if r \<in> set roles then Inr (fst kv, plain_principal t r)
                   else Inl (ValueError ''gateway role must be one of ['admin', 'analyst', 'viewer']'')
               | Some (JArr _) \<Rightarrow> Inl (TypeError ''unhashable type'')
               | Some (JObj _) \<Rightarrow> Inl (TypeError ''unhashable type'')
               | _ \<Rightarrow> Inl (ValueError ''gateway role must be one of ['admin', 'analyst', 'viewer']''))
           | _ \<Rightarrow> Inl (ValueError ''gateway tenant IDs must contain 1 to 128 characters''))
      | _ \<Rightarrow> Inl (ValueError ''every gateway token entry must be an object'')))"

fun load_entries :: "(string \<times> json) list \<Rightarrow> exn + (string \<times> principal) list" where
  "load_entries [] = Inr []"
| "load_entries (kv # kvs) =
     bind_exn (load_entry kv) (\<lambda>p. bind_exn (load_entries kvs) (\<lambda>ps. Inr (p # ps)))"

text \<open>
  \<open>parse\<close> is \<^verbatim>\<open>json.loads\<close>; an object has distinct keys. \<open>raw\<close> and \<open>required\<close> are the values
  of the two variables.
\<close>

definition load_principals ::
  "(string \<Rightarrow> exn + json) \<Rightarrow> string option \<Rightarrow> string option \<Rightarrow> bool \<Rightarrow> exn + (string \<times> principal) list" where
  "load_principals parse raw required require_when_enabled =
     (let text_value = py_strip (case raw of None \<Rightarrow> [] | Some s \<Rightarrow> s);
          needed = py_lower (case required of None \<Rightarrow> [] | Some s \<Rightarrow> s) \<in> {''1'', ''true'', ''yes''}
      in if text_value = [] then
           (if needed \<and> require_when_enabled
            then Inl (RuntimeError ''INTEGRATION_AUTH_REQUIRED is enabled but INTEGRATION_AUTH_TOKENS is empty'')
            else Inr [])
         else bind_exn (parse text_value) (\<lambda>v. case v of
             JObj kvs \<Rightarrow> load_entries kvs
           | _ \<Rightarrow> Inl (ValueError ''INTEGRATION_AUTH_TOKENS must be a JSON object'')))"

section \<open>Requests\<close>

record http_request =
  rq_is_http :: bool
  rq_path :: string
  rq_method :: string
  rq_headers :: "(string \<times> string) list"

text \<open>The dictionary of the headers: of equal names the last one counts.\<close>

definition header :: "string \<Rightarrow> http_request \<Rightarrow> string option" where
  "header name r = map_of (rev (map (\<lambda>(k, v). (py_lower k, v)) (rq_headers r))) name"

definition printable_ascii :: "char \<Rightarrow> bool" where
  "printable_ascii c \<longleftrightarrow> 32 < code c \<and> code c < 127"

definition valid_request_id :: "string \<Rightarrow> bool" where
  "valid_request_id s \<longleftrightarrow> 1 \<le> length s \<and> length s \<le> 128 \<and> list_all printable_ascii s"

text \<open>The first valid \<^verbatim>\<open>X-Request-ID\<close>, or a fresh one from \<^verbatim>\<open>secrets.token_hex(12)\<close>.\<close>

definition request_id_of :: "string \<Rightarrow> http_request \<Rightarrow> string" where
  "request_id_of fresh r =
     (case find (\<lambda>(k, v). py_lower k = ''x-request-id'' \<and> valid_request_id (py_strip v)) (rq_headers r) of
        None \<Rightarrow> ''req_'' @ fresh
      | Some (k, v) \<Rightarrow> py_strip v)"

section \<open>Authentication\<close>

definition bearer_token :: "string \<Rightarrow> string option" where
  "bearer_token authorization =
     (case partition_at (CHR '' '') authorization of
        (scheme, found, token) \<Rightarrow>
          if py_lower scheme \<noteq> ''bearer'' \<or> token = [] then None else Some token)"

text \<open>\<^verbatim>\<open>hmac.compare_digest\<close> of two strings: both must be ASCII.\<close>

definition compare_digest :: "string \<Rightarrow> string \<Rightarrow> exn + bool" where
  "compare_digest a b =
     (if list_all is_ascii a \<and> list_all is_ascii b then Inr (a = b)
      else Inl (TypeError ''comparing strings with non-ASCII characters is not supported''))"

fun static_principal :: "string \<Rightarrow> (string \<times> principal) list \<Rightarrow> exn + principal option" where
  "static_principal token [] = Inr None"
| "static_principal token ((configured, p) # ps) =
     bind_exn (compare_digest token configured) (\<lambda>eq.
       if eq then Inr (Some p) else static_principal token ps)"

text \<open>
  The authenticator of \<^verbatim>\<open>gateway.py\<close> and what the middleware makes of its result. An API
  key's principal has scopes and no session, a session's has no scopes.
\<close>

definition api_key_caller :: "api_key_principal \<Rightarrow> principal" where
  "api_key_caller a =
     \<lparr>p_tenant_id = ap_tenant_id a, p_role = ap_role a, p_scopes = Some (set (ap_scopes a)),
      p_auth_type = ''machine'', p_user_id = None, p_session_id = None, p_identity_client_id = None,
      p_api_key_id = Some (ap_api_key_id a)\<rparr>"

definition session_caller :: "session_principal \<Rightarrow> principal" where
  "session_caller s =
     \<lparr>p_tenant_id = sp_tenant_id s, p_role = sp_role s, p_scopes = None,
      p_auth_type = (if sp_session_id s = [] then ''machine'' else ''user''), p_user_id = Some (sp_user_id s),
      p_session_id = Some (sp_session_id s), p_identity_client_id = Some (sp_identity_client_id s),
      p_api_key_id = None\<rparr>"

definition database_authenticator ::
  "crypto \<Rightarrow> call_env \<Rightarrow> string \<Rightarrow> database \<Rightarrow> principal option \<times> database" where
  "database_authenticator C e token d =
     (if startswith ''igs_'' token
      then (case authenticate_user_session C e token d of (s, d1) \<Rightarrow> (map_option session_caller s, d1))
      else (map_option api_key_caller (authenticate_api_key C e token d), d))"

type_synonym authenticator = "string \<Rightarrow> database \<Rightarrow> principal option \<times> database"

definition authenticate_request ::
  "(string \<times> principal) list \<Rightarrow> authenticator option \<Rightarrow> http_request \<Rightarrow> database \<Rightarrow>
    (exn + principal option) \<times> database" where
  "authenticate_request principals auth r d =
     (case bearer_token (case header ''authorization'' r of None \<Rightarrow> [] | Some h \<Rightarrow> h) of
        None \<Rightarrow> (Inr None, d)
      | Some token \<Rightarrow>
          (case static_principal token principals of
             Inl x \<Rightarrow> (Inl x, d)
           | Inr (Some p) \<Rightarrow> (Inr (Some p), d)
           | Inr None \<Rightarrow>
               (case auth of
                  None \<Rightarrow> (Inr None, d)
                | Some f \<Rightarrow> (case f token d of (p, d1) \<Rightarrow> (Inr p, d1)))))"

section \<open>The decision\<close>

definition safe_methods :: "string list" where
  "safe_methods = [''GET'', ''HEAD'', ''OPTIONS'']"

definition public_paths :: "string list" where
  "public_paths = [''/livez'', ''/v0.5/health'']"

definition route_auth_paths :: "string list" where
  "route_auth_paths = [''/v1/auth/exchange'', ''/v1/auth/session/revoke'']"

definition scope_allows :: "principal \<Rightarrow> string \<Rightarrow> string \<Rightarrow> bool" where
  "scope_allows p method path =
     (case p_scopes p of
        None \<Rightarrow> True
      | Some scopes \<Rightarrow>
          if scopes = {} \<or> ''gateway:*'' \<in> scopes then True
          else if startswith ''/v1/admin/'' path then ''gateway:admin'' \<in> scopes
          else if method \<in> set safe_methods then ''gateway:read'' \<in> scopes
          else if startswith ''/v1/scans'' path \<or> (startswith ''/v0.5/'' path \<and> endswith ''/scan'' path)
          then ''scan:write'' \<in> scopes
          else if startswith ''/v1/findings/'' path \<and> method = ''PATCH'' then ''finding:write'' \<in> scopes
          else ''gateway:write'' \<in> scopes)"

datatype decision = Call_as principal | Pass_through | Deny int string

definition decide ::
  "(string \<times> principal) list \<Rightarrow> authenticator option \<Rightarrow> http_request \<Rightarrow> database \<Rightarrow>
    (exn + decision) \<times> database" where
  "decide principals auth r d =
     (if \<not> rq_is_http r then (Inr Pass_through, d)
      else if rq_path r \<in> set public_paths
      then (Inr (Call_as ((plain_principal ''_system'' ''viewer'')\<lparr>p_auth_type := ''public''\<rparr>)), d)
      else if rq_path r \<in> set route_auth_paths
      then (Inr (Call_as ((plain_principal ''_auth'' ''viewer'')\<lparr>p_auth_type := ''route''\<rparr>)), d)
      else if principals = [] \<and> auth = None then (Inr (Call_as (plain_principal ''default'' ''admin'')), d)
      else
        (case authenticate_request principals auth r d of
           (Inl x, d1) \<Rightarrow> (Inl x, d1)
         | (Inr None, d1) \<Rightarrow> (Inr (Deny 401 ''AUTHENTICATION_REQUIRED''), d1)
         | (Inr (Some p), d1) \<Rightarrow>
             (let method = py_upper (rq_method r)
              in if startswith ''/v1/admin/'' (rq_path r) \<and> p_role p \<noteq> ''admin''
                 then (Inr (Deny 403 ''ACCESS_DENIED''), d1)
                 else if method \<notin> set safe_methods \<and> p_role p = ''viewer''
                 then (Inr (Deny 403 ''ACCESS_DENIED''), d1)
                 else if \<not> scope_allows p method (rq_path r) then (Inr (Deny 403 ''ACCESS_DENIED''), d1)
                 else (Inr (Call_as p), d1))))"

definition auth_error :: "int \<Rightarrow> string \<Rightarrow> string \<Rightarrow> string \<Rightarrow> json" where
  "auth_error status c message request_id =
     JObj [(''error'', JObj [(''code'', JStr c), (''message'', JStr message), (''request_id'', JStr request_id)])]"

section \<open>Lemmas\<close>

lemma static_principal_Inr:
  "static_principal token ps = Inr (Some p) \<Longrightarrow> (token, p) \<in> set ps"
  by (induction ps) (auto simp: compare_digest_def split: if_splits)

text \<open>What the middleware lets through, by who calls: the reasons a principal is trusted.\<close>

definition open_path :: "string \<Rightarrow> bool" where
  "open_path path \<longleftrightarrow> path \<in> set public_paths \<union> set route_auth_paths"

lemma decide_called:
  assumes "decide principals auth r d = (Inr (Call_as p), d')" and "\<not> open_path (rq_path r)"
    and "principals \<noteq> [] \<or> auth \<noteq> None"
  shows "authenticate_request principals auth r d = (Inr (Some p), d') \<and>
    (startswith ''/v1/admin/'' (rq_path r) \<longrightarrow> p_role p = ''admin'') \<and>
    (p_role p = ''viewer'' \<longrightarrow> py_upper (rq_method r) \<in> set safe_methods) \<and>
    scope_allows p (py_upper (rq_method r)) (rq_path r)"
proof -
  have "(Inr (Call_as p), d') =
      (case authenticate_request principals auth r d of
           (Inl x, d1) \<Rightarrow> (Inl x, d1)
         | (Inr None, d1) \<Rightarrow> (Inr (Deny 401 ''AUTHENTICATION_REQUIRED''), d1)
         | (Inr (Some p), d1) \<Rightarrow>
             (let method = py_upper (rq_method r)
              in if startswith ''/v1/admin/'' (rq_path r) \<and> p_role p \<noteq> ''admin''
                 then (Inr (Deny 403 ''ACCESS_DENIED''), d1)
                 else if method \<notin> set safe_methods \<and> p_role p = ''viewer''
                 then (Inr (Deny 403 ''ACCESS_DENIED''), d1)
                 else if \<not> scope_allows p method (rq_path r) then (Inr (Deny 403 ''ACCESS_DENIED''), d1)
                 else (Inr (Call_as p), d1)))"
    using assms by (auto simp: decide_def open_path_def split: if_splits)
  then show ?thesis
    by (auto simp: Let_def simp del: list.set split: prod.splits sum.splits option.splits if_splits)
qed

lemma authenticate_request_some:
  assumes "authenticate_request principals auth r d = (Inr (Some p), d')"
  obtains token where "header ''authorization'' r \<noteq> None"
    and "bearer_token (the (header ''authorization'' r)) = Some token"
    and "(token, p) \<in> set principals \<or> (\<exists>f. auth = Some f \<and> f token d = (Some p, d'))"
proof -
  have "bearer_token [] = None" by (simp add: bearer_token_def)
  with assms that show ?thesis
    by (auto simp: authenticate_request_def split: option.splits sum.splits prod.splits dest: static_principal_Inr)
qed

end
