(* ===== verification/Rate_Limiter.thy ===== *)
theory Rate_Limiter
  imports Py_Text
begin

text \<open>
  \<^verbatim>\<open>ExchangeRateLimiter\<close> of \<^verbatim>\<open>auth.py\<close>: a sliding window of attempts for every key, with a
  bound on the number of keys and a shared queue for the keys beyond it. The clock reads
  microseconds, the window is in seconds. The dictionary is an association list in insertion
  order.
\<close>

type_synonym attempts = "(string \<times> int list) list"

record limiter =
  l_max_attempts :: int
  l_window_seconds :: int
  l_max_keys :: int
  l_attempts :: attempts

definition overflow_key :: string where
  "overflow_key = ''overflow''"

definition make_limiter :: "int \<Rightarrow> int \<Rightarrow> int \<Rightarrow> exn + limiter" where
  "make_limiter attempts window keys =
     (if attempts < 1 \<or> window < 1 \<or> keys < 2 then Inl (ValueError ''exchange rate limits must be positive'')
      else Inr \<lparr>l_max_attempts = attempts, l_window_seconds = window, l_max_keys = keys,
                l_attempts = [(overflow_key, [])]\<rparr>)"

definition window_us :: "limiter \<Rightarrow> int" where
  "window_us l = l_window_seconds l * 1000000"

definition is_stale :: "int \<Rightarrow> string \<times> int list \<Rightarrow> bool" where
  "is_stale cutoff kv \<longleftrightarrow> fst kv \<noteq> overflow_key \<and> (snd kv = [] \<or> last (snd kv) \<le> cutoff)"

text \<open>The key an attempt is counted under, after the stale keys were dropped if need be.\<close>

definition choose_key :: "int \<Rightarrow> string \<Rightarrow> limiter \<Rightarrow> string \<times> attempts" where
  "choose_key cutoff key l =
     (let m = l_attempts l
      in if key \<notin> fst ` set m \<and> l_max_keys l \<le> int (length m) then
           (let m1 = filter (\<lambda>kv. \<not> is_stale cutoff kv) m
            in (if l_max_keys l \<le> int (length m1) then overflow_key else key, m1))
         else (key, m))"

fun set_key :: "string \<Rightarrow> int list \<Rightarrow> attempts \<Rightarrow> attempts" where
  "set_key k v [] = [(k, v)]"
| "set_key k v ((k', v') # m) = (if k' = k then (k, v) # m else (k', v') # set_key k v m)"

text \<open>\<^verbatim>\<open>int(window - (now - first))\<close> truncates the seconds, which are not negative here.\<close>

definition check :: "int \<Rightarrow> string \<Rightarrow> limiter \<Rightarrow> (bool \<times> int) \<times> limiter" where
  "check tm key l =
     (let cutoff = tm - window_us l
      in case choose_key cutoff key l of (k, m) \<Rightarrow>
           (let old = (case map_of m k of None \<Rightarrow> [] | Some xs \<Rightarrow> xs);
                kept = dropWhile (\<lambda>x. x \<le> cutoff) old
            in if l_max_attempts l \<le> int (length kept)
               then ((False, max 1 ((window_us l - (tm - hd kept)) div 1000000)),
                     l\<lparr>l_attempts := set_key k kept m\<rparr>)
               else ((True, 0), l\<lparr>l_attempts := set_key k (kept @ [tm]) m\<rparr>)))"

text \<open>\<^verbatim>\<open>_positive_int_env\<close> of the raw value of a variable, or of its default.\<close>

definition positive_int_env :: "string \<Rightarrow> string option \<Rightarrow> int \<Rightarrow> exn + int" where
  "positive_int_env name raw dflt =
     (case py_int (py_strip (case raw of None \<Rightarrow> py_str_int dflt | Some s \<Rightarrow> s)) of
        None \<Rightarrow> Inl (RuntimeError (name @ '' must be a positive integer''))
      | Some v \<Rightarrow> if v < 1 then Inl (RuntimeError (name @ '' must be a positive integer'')) else Inr v)"

definition load_exchange_rate_limiter :: "(string \<Rightarrow> string option) \<Rightarrow> exn + limiter" where
  "load_exchange_rate_limiter env =
     bind_exn (positive_int_env ''INTEGRATION_AUTH_EXCHANGE_RATE_LIMIT''
       (env ''INTEGRATION_AUTH_EXCHANGE_RATE_LIMIT'') 20) (\<lambda>n.
     bind_exn (positive_int_env ''INTEGRATION_AUTH_EXCHANGE_RATE_WINDOW_SECONDS''
       (env ''INTEGRATION_AUTH_EXCHANGE_RATE_WINDOW_SECONDS'') 60) (\<lambda>w.
     make_limiter n w 10000))"

section \<open>Invariant\<close>

text \<open>
  The keys are distinct and at most \<open>max_keys\<close>, the overflow queue is there, every queue is
  in time order, holds at most \<open>max_attempts\<close> entries and none from the future.
\<close>

definition queue_ok :: "limiter \<Rightarrow> int \<Rightarrow> int list \<Rightarrow> bool" where
  "queue_ok l tm xs \<longleftrightarrow> sorted xs \<and> int (length xs) \<le> l_max_attempts l \<and> (\<forall>x \<in> set xs. x \<le> tm)"

definition limiter_ok :: "int \<Rightarrow> limiter \<Rightarrow> bool" where
  "limiter_ok tm l \<longleftrightarrow> 1 \<le> l_max_attempts l \<and> 1 \<le> l_window_seconds l \<and> 2 \<le> l_max_keys l \<and>
     distinct (map fst (l_attempts l)) \<and> overflow_key \<in> fst ` set (l_attempts l) \<and>
     int (length (l_attempts l)) \<le> l_max_keys l \<and>
     (\<forall>kv \<in> set (l_attempts l). queue_ok l tm (snd kv))"

lemma set_key_keys: "fst ` set (set_key k v m) = insert k (fst ` set m)"
proof (induction m)
  case (Cons a m)
  then show ?case by (cases a; cases "fst a = k") auto
qed simp

lemma set_key_distinct: "distinct (map fst m) \<Longrightarrow> distinct (map fst (set_key k v m))"
proof (induction m)
  case (Cons a m)
  then show ?case using set_key_keys [of k v m] by (cases a) auto
qed simp

lemma set_key_length: "length (set_key k v m) = (if k \<in> fst ` set m then length m else Suc (length m))"
proof (induction m)
  case (Cons a m)
  then show ?case by (cases a; cases "fst a = k"; cases "k \<in> fst ` set m") auto
qed simp

lemma set_key_entries: "kv \<in> set (set_key k v m) \<Longrightarrow> kv = (k, v) \<or> kv \<in> set m"
  by (induction m) (auto split: if_splits)

lemma map_of_set_key [simp]: "map_of (set_key k v m) = (map_of m)(k \<mapsto> v)"
  by (induction m) (auto simp: fun_eq_iff)

lemma sorted_dropWhile: "sorted xs \<Longrightarrow> sorted (dropWhile P xs)"
  by (induction xs) auto

lemma make_limiter_ok: "make_limiter a w k = Inr l \<Longrightarrow> limiter_ok tm l"
  by (auto simp: make_limiter_def limiter_ok_def queue_ok_def split: if_splits)

lemma choose_key_ok:
  assumes "limiter_ok tm l" and "choose_key c key l = (k, m)"
  shows "distinct (map fst m)" and "overflow_key \<in> fst ` set m"
    and "int (length (set_key k v m)) \<le> l_max_keys l" and "set m \<subseteq> set (l_attempts l)"
proof -
  have inv: "distinct (map fst (l_attempts l))" "overflow_key \<in> fst ` set (l_attempts l)"
    "int (length (l_attempts l)) \<le> l_max_keys l"
    using assms(1) by (simp_all add: limiter_ok_def)
  have m: "m = l_attempts l \<or> m = filter (\<lambda>kv. \<not> is_stale c kv) (l_attempts l)"
    using assms(2) by (auto simp: choose_key_def Let_def split: if_splits)
  then show "set m \<subseteq> set (l_attempts l)" by auto
  show "distinct (map fst m)" using m inv(1) by (auto simp: distinct_map_filter)
  have stay: "overflow_key \<in> fst ` set (filter (\<lambda>kv. \<not> is_stale c kv) (l_attempts l))"
    using inv(2) by (force simp: is_stale_def)
  then show there: "overflow_key \<in> fst ` set m" using m inv(2) by auto
  show "int (length (set_key k v m)) \<le> l_max_keys l"
  proof (cases "k \<in> fst ` set m")
    case True
    have "length m \<le> length (l_attempts l)" using m by auto
    with True inv(3) show ?thesis by (simp add: set_key_length)
  next
    case False
    have "int (length m) < l_max_keys l"
      using assms(2) False there by (auto simp: choose_key_def Let_def not_le split: if_splits)
    with False show ?thesis by (simp add: set_key_length)
  qed
qed

lemma queue_ok_dropWhile: "queue_ok l tm xs \<Longrightarrow> queue_ok l tm (dropWhile P xs)"
  unfolding queue_ok_def
  using length_dropWhile_le [of P xs] set_dropWhileD [of _ P xs] sorted_dropWhile [of xs P] by fastforce

lemma check_ok:
  assumes "limiter_ok tm l" and "tm \<le> tm'"
  shows "limiter_ok tm' (snd (check tm' key l))"
proof -
  let ?c = "tm' - window_us l"
  obtain k m where km: "choose_key ?c key l = (k, m)" by fastforce
  define old where "old = (case map_of m k of None \<Rightarrow> [] | Some xs \<Rightarrow> xs)"
  define kept where "kept = dropWhile (\<lambda>x. x \<le> ?c) old"
  note ch = choose_key_ok [OF assms(1) km]
  have later: "queue_ok l tm' (snd kv)" if "kv \<in> set m" for kv
    using that ch(4) assms by (fastforce simp: limiter_ok_def queue_ok_def)
  have "queue_ok l tm' old"
  proof (cases "map_of m k")
    case None
    then show ?thesis using assms(1) by (simp add: old_def queue_ok_def limiter_ok_def)
  next
    case (Some xs)
    with later [of "(k, xs)"] show ?thesis by (auto simp: old_def dest: map_of_SomeD)
  qed
  then have kept: "queue_ok l tm' kept" unfolding kept_def by (rule queue_ok_dropWhile)
  have upd: "limiter_ok tm' (l\<lparr>l_attempts := set_key k v m\<rparr>)" if "queue_ok l tm' v" for v
    using assms(1) ch set_key_keys [of k v m] set_key_distinct [OF ch(1), of k v] later that
    by (auto simp: limiter_ok_def queue_ok_def dest!: set_key_entries)
  have "queue_ok l tm' (kept @ [tm'])" if "\<not> l_max_attempts l \<le> int (length kept)"
    using kept that by (auto simp: queue_ok_def sorted_append)
  with kept upd km show ?thesis
    by (simp add: check_def Let_def old_def [symmetric] kept_def [symmetric])
qed

section \<open>The bound on what is let through\<close>

text \<open>The entries of a queue that lie in the window before \<open>tm\<close>.\<close>

definition recent :: "limiter \<Rightarrow> int \<Rightarrow> int list \<Rightarrow> int list" where
  "recent l tm xs = filter (\<lambda>x. tm - window_us l < x) xs"

lemma dropWhile_sorted_filter: "sorted xs \<Longrightarrow> dropWhile (\<lambda>x. x \<le> (c::int)) xs = filter (\<lambda>x. c < x) xs"
proof (induction xs)
  case (Cons x xs)
  then have "\<not> x \<le> c \<Longrightarrow> filter (\<lambda>x. c < x) xs = xs" by (auto simp: filter_id_conv)
  with Cons show ?case by (cases "x \<le> c") auto
qed simp

text \<open>
  An attempt is let through exactly when fewer than \<open>max_attempts\<close> attempts of its queue lie
  in the window, and one that is let through is counted.
\<close>

lemma check_decision:
  assumes "limiter_ok tm l" and "tm \<le> tm'" and "choose_key (tm' - window_us l) key l = (k, m)"
  defines "q \<equiv> (case map_of m k of None \<Rightarrow> [] | Some xs \<Rightarrow> xs)"
  shows "fst (fst (check tm' key l)) \<longleftrightarrow> int (length (recent l tm' q)) < l_max_attempts l"
    and "fst (fst (check tm' key l)) \<Longrightarrow>
      map_of (l_attempts (snd (check tm' key l))) k = Some (recent l tm' q @ [tm'])"
    and "\<not> fst (fst (check tm' key l)) \<Longrightarrow>
      1 \<le> snd (fst (check tm' key l)) \<and> snd (fst (check tm' key l)) \<le> l_window_seconds l"
proof -
  let ?c = "tm' - window_us l"
  have "queue_ok l tm q"
  proof (cases "map_of m k")
    case None
    then show ?thesis using assms(1) by (simp add: q_def queue_ok_def limiter_ok_def)
  next
    case (Some xs)
    then have "(k, xs) \<in> set (l_attempts l)"
      using choose_key_ok(4) [OF assms(1,3)] by (auto dest: map_of_SomeD)
    with assms(1) Some show ?thesis by (auto simp: limiter_ok_def q_def)
  qed
  then have sorted: "sorted q" and past: "\<forall>x \<in> set q. x \<le> tm" by (simp_all add: queue_ok_def)
  have kept: "dropWhile (\<lambda>x. x \<le> ?c) q = recent l tm' q"
    unfolding recent_def using sorted by (rule dropWhile_sorted_filter)
  have result: "check tm' key l =
      (if l_max_attempts l \<le> int (length (recent l tm' q))
       then ((False, max 1 ((window_us l - (tm' - hd (recent l tm' q))) div 1000000)),
             l\<lparr>l_attempts := set_key k (recent l tm' q) m\<rparr>)
       else ((True, 0), l\<lparr>l_attempts := set_key k (recent l tm' q @ [tm']) m\<rparr>))"
    by (simp add: check_def Let_def assms(3) q_def [symmetric] kept)
  show "fst (fst (check tm' key l)) \<longleftrightarrow> int (length (recent l tm' q)) < l_max_attempts l"
    by (auto simp: result)
  show "fst (fst (check tm' key l)) \<Longrightarrow>
      map_of (l_attempts (snd (check tm' key l))) k = Some (recent l tm' q @ [tm'])"
    by (auto simp: result split: if_splits)
  assume denied: "\<not> fst (fst (check tm' key l))"
  then have full: "l_max_attempts l \<le> int (length (recent l tm' q))" by (auto simp: result split: if_splits)
  have "1 \<le> l_max_attempts l" and w: "1 \<le> l_window_seconds l" using assms(1) by (simp_all add: limiter_ok_def)
  with full obtain x rest where x: "recent l tm' q = x # rest" by (cases "recent l tm' q") auto
  then have "x \<in> set q" "tm' - window_us l < x" using set_filter [of "\<lambda>x. tm' - window_us l < x" q]
    by (auto simp: recent_def filter_eq_Cons_iff)
  with past assms(2) have "x \<le> tm'" by auto
  then have "(window_us l - (tm' - x)) div 1000000 \<le> window_us l div 1000000"
    by (intro zdiv_mono1) simp_all
  then have "(window_us l - (tm' - x)) div 1000000 \<le> l_window_seconds l" by (simp add: window_us_def)
  with denied full x w show "1 \<le> snd (fst (check tm' key l)) \<and> snd (fst (check tm' key l)) \<le> l_window_seconds l"
    by (simp add: result)
qed

section \<open>Runs\<close>

text \<open>
  A run of attempts, each at a time and under a client's key, and the log of those let
  through: the queue an attempt was counted in and its time.
\<close>

definition queue_key :: "int \<Rightarrow> string \<Rightarrow> limiter \<Rightarrow> string" where
  "queue_key tm key l = fst (choose_key (tm - window_us l) key l)"

definition logged :: "int \<Rightarrow> string \<Rightarrow> limiter \<Rightarrow> (string \<times> int) list" where
  "logged tm key l = (if fst (fst (check tm key l)) then [(queue_key tm key l, tm)] else [])"

fun attempt_all :: "(int \<times> string) list \<Rightarrow> limiter \<Rightarrow> (string \<times> int) list \<times> limiter" where
  "attempt_all [] l = ([], l)"
| "attempt_all ((tm, key) # as) l =
     (case attempt_all as (snd (check tm key l)) of (lg, l') \<Rightarrow> (logged tm key l @ lg, l'))"

definition queue_of_key :: "string \<Rightarrow> limiter \<Rightarrow> int list" where
  "queue_of_key k l = (case map_of (l_attempts l) k of None \<Rightarrow> [] | Some xs \<Rightarrow> xs)"

definition in_window :: "limiter \<Rightarrow> int \<Rightarrow> string \<Rightarrow> (string \<times> int) list \<Rightarrow> int list" where
  "in_window l tm k lg = filter (\<lambda>x. tm - window_us l < x) (map snd (filter (\<lambda>e. fst e = k) lg))"

text \<open>What the limiter remembers of the window is what was let through in it.\<close>

definition remembers :: "int \<Rightarrow> limiter \<Rightarrow> (string \<times> int) list \<Rightarrow> bool" where
  "remembers tm l lg \<longleftrightarrow> (\<forall>k. in_window l tm k lg = recent l tm (queue_of_key k l))"

lemma recent_later: "tm \<le> tm' \<Longrightarrow> recent l tm' (recent l tm xs) = recent l tm' xs"
  by (induction xs) (auto simp: recent_def)

lemma in_window_later:
  "tm \<le> tm' \<Longrightarrow> in_window l tm k lg = recent l tm xs \<Longrightarrow> in_window l tm' k lg = recent l tm' xs"
proof -
  assume le: "tm \<le> tm'" and eq: "in_window l tm k lg = recent l tm xs"
  have "in_window l tm' k lg = recent l tm' (in_window l tm k lg)"
    using le by (auto simp: in_window_def recent_def intro: filter_cong)
  with eq le show ?thesis by (simp add: recent_later)
qed

lemma check_window [simp]: "window_us (snd (check tm key l)) = window_us l"
  "l_max_attempts (snd (check tm key l)) = l_max_attempts l"
  by (auto simp: check_def Let_def window_us_def split: prod.split)

lemma in_window_check [simp]: "in_window (snd (check tm key l)) tm' k lg = in_window l tm' k lg"
  "recent (snd (check tm key l)) tm' xs = recent l tm' xs"
  by (simp_all add: in_window_def recent_def)

lemma recent_idem [simp]: "recent l tm (recent l tm xs) = recent l tm xs"
  by (simp add: recent_def)

lemma recent_append: "recent l tm (xs @ ys) = recent l tm xs @ recent l tm ys"
  by (simp add: recent_def)

text \<open>Dropping a stale queue drops nothing recent.\<close>

lemma choose_key_recent:
  assumes "limiter_ok tm l" and "choose_key (tm' - window_us l) key l = (k, m)"
  shows "recent l tm' (case map_of m k' of None \<Rightarrow> [] | Some xs \<Rightarrow> xs) = recent l tm' (queue_of_key k' l)"
proof (cases "m = l_attempts l")
  case False
  let ?c = "tm' - window_us l"
  have m: "m = filter (\<lambda>kv. \<not> is_stale ?c kv) (l_attempts l)"
    using assms(2) False by (auto simp: choose_key_def Let_def split: if_splits)
  have dist: "distinct (map fst (l_attempts l))" using assms(1) by (simp add: limiter_ok_def)
  show ?thesis
  proof (cases "map_of (l_attempts l) k'")
    case None
    then have "k' \<notin> fst ` set m" using m by (auto simp: map_of_eq_None_iff)
    then have "map_of m k' = None" by (simp add: map_of_eq_None_iff)
    with None show ?thesis by (simp add: queue_of_key_def)
  next
    case (Some xs)
    then have entry: "(k', xs) \<in> set (l_attempts l)" by (rule map_of_SomeD)
    show ?thesis
    proof (cases "is_stale ?c (k', xs)")
      case True
      have "sorted xs" using assms(1) entry by (auto simp: limiter_ok_def queue_ok_def)
      with True have "\<forall>x \<in> set xs. x \<le> ?c"
        by (cases xs rule: rev_cases) (auto simp: is_stale_def sorted_append)
      then have "recent l tm' xs = []" by (auto simp: recent_def filter_empty_conv)
      moreover have "k' \<notin> fst ` set m"
        using True entry dist m by (force simp: distinct_map inj_on_def)
      then have "map_of m k' = None" by (simp add: map_of_eq_None_iff)
      ultimately show ?thesis using Some by (simp add: queue_of_key_def recent_def)
    next
      case False
      with entry m have "(k', xs) \<in> set m" by simp
      moreover have "distinct (map fst m)" using choose_key_ok(1) [OF assms] .
      ultimately have "map_of m k' = Some xs" by simp
      with Some show ?thesis by (simp add: queue_of_key_def)
    qed
  qed
qed (simp add: queue_of_key_def)

lemma check_queue:
  assumes "limiter_ok tm l" and "tm \<le> tm'"
  shows "recent l tm' (queue_of_key k' (snd (check tm' key l))) =
    recent l tm' (queue_of_key k' l) @ (if (k', tm') \<in> set (logged tm' key l) then [tm'] else [])"
proof -
  obtain k m where km: "choose_key (tm' - window_us l) key l = (k, m)" by fastforce
  define q where "q = (case map_of m k of None \<Rightarrow> [] | Some xs \<Rightarrow> xs)"
  note drop = choose_key_recent [OF assms(1) km]
  have w: "0 < window_us l" using assms(1) by (simp add: limiter_ok_def window_us_def)
  have sorted: "sorted q"
  proof (cases "map_of m k")
    case (Some xs)
    then have "(k, xs) \<in> set (l_attempts l)" using choose_key_ok(4) [OF assms(1) km] by (auto dest: map_of_SomeD)
    with Some assms(1) show ?thesis by (auto simp: q_def limiter_ok_def queue_ok_def)
  qed (simp add: q_def)
  have kept: "dropWhile (\<lambda>x. x \<le> tm' - window_us l) q = recent l tm' q"
    unfolding recent_def using sorted by (rule dropWhile_sorted_filter)
  have result: "l_attempts (snd (check tm' key l)) = set_key k
      (if fst (fst (check tm' key l)) then recent l tm' q @ [tm'] else recent l tm' q) m"
    by (simp add: check_def Let_def km q_def [symmetric] kept)
  have now: "recent l tm' [tm'] = [tm']" using w by (simp add: recent_def)
  show ?thesis
  proof (cases "k' = k")
    case True
    then show ?thesis
      using drop [of k] now
      by (simp add: queue_of_key_def [of _ "snd (check tm' key l)"] result logged_def queue_key_def km
          recent_append q_def [symmetric])
  next
    case False
    then show ?thesis
      using drop [of k'] by (simp add: queue_of_key_def [of _ "snd (check tm' key l)"] result logged_def queue_key_def km)
  qed
qed

lemma remembers_step:
  assumes "limiter_ok tm l" and "tm \<le> tm'" and "remembers tm l lg"
  shows "remembers tm' (snd (check tm' key l)) (lg @ logged tm' key l)"
  unfolding remembers_def
proof
  fix k
  have w: "0 < window_us l" using assms(1) by (simp add: limiter_ok_def window_us_def)
  have "in_window l tm' k lg = recent l tm' (queue_of_key k l)"
    using assms(2,3) in_window_later by (auto simp: remembers_def)
  moreover have "in_window l tm' k (logged tm' key l) = (if (k, tm') \<in> set (logged tm' key l) then [tm'] else [])"
    using w by (auto simp: in_window_def logged_def)
  moreover have "in_window l tm' k (lg @ logged tm' key l) = in_window l tm' k lg @ in_window l tm' k (logged tm' key l)"
    by (simp add: in_window_def)
  ultimately show "in_window (snd (check tm' key l)) tm' k (lg @ logged tm' key l) =
      recent (snd (check tm' key l)) tm' (queue_of_key k (snd (check tm' key l)))"
    using check_queue [OF assms(1,2), of k key] by simp
qed

lemma attempt_all_append:
  "attempt_all (as @ bs) l =
    (case attempt_all as l of (lg, l1) \<Rightarrow> case attempt_all bs l1 of (lg', l2) \<Rightarrow> (lg @ lg', l2))"
  by (induction as l rule: attempt_all.induct) (auto split: prod.split)

lemma attempt_all_remembers:
  assumes "limiter_ok tm l" and "sorted (tm # map fst as)"
    and "remembers tm l old"
  shows "let tm' = last (tm # map fst as); l' = snd (attempt_all as l)
    in limiter_ok tm' l' \<and> remembers tm' l' (old @ fst (attempt_all as l)) \<and>
       window_us l' = window_us l \<and> l_max_attempts l' = l_max_attempts l"
  using assms
proof (induction as arbitrary: tm l old)
  case (Cons a as)
  obtain tm1 key where a: "a = (tm1, key)" by fastforce
  let ?l = "snd (check tm1 key l)"
  have le: "tm \<le> tm1" "sorted (tm1 # map fst as)" using Cons.prems(2) a by auto
  have ok: "limiter_ok tm1 ?l" using Cons.prems(1) le(1) by (rule check_ok)
  have rem: "remembers tm1 ?l (old @ logged tm1 key l)"
    using Cons.prems(1) le(1) Cons.prems(3) by (rule remembers_step)
  show ?case using Cons.IH [OF ok le(2) rem] a by (auto simp: Let_def split: prod.splits)
qed simp

lemma attempt_all_times: "e \<in> set (fst (attempt_all as l)) \<Longrightarrow> snd e \<in> fst ` set as"
  by (induction as l rule: attempt_all.induct) (auto simp: logged_def split: prod.splits if_splits)

lemma queue_of_key_length: "limiter_ok tm l \<Longrightarrow> int (length (queue_of_key k l)) \<le> l_max_attempts l"
  by (auto simp: queue_of_key_def limiter_ok_def queue_ok_def split: option.split dest!: map_of_SomeD)

text \<open>What holds after a run of attempts up to a time.\<close>

lemma attempt_all_end:
  assumes "make_limiter n w m = Inr l" and "sorted (map fst as)" and "\<forall>a \<in> set as. fst a \<le> tm"
  obtains t1 where "t1 \<le> tm" and "limiter_ok t1 (snd (attempt_all as l))"
    and "remembers t1 (snd (attempt_all as l)) (fst (attempt_all as l))"
    and "window_us (snd (attempt_all as l)) = window_us l" and "l_max_attempts (snd (attempt_all as l)) = n"
    and "l_max_keys (snd (attempt_all as l)) = m"
proof -
  define t0 where "t0 = (case as of [] \<Rightarrow> tm | a # _ \<Rightarrow> fst a)"
  define t1 where "t1 = last (t0 # map fst as)"
  have l: "l = \<lparr>l_max_attempts = n, l_window_seconds = w, l_max_keys = m, l_attempts = [(overflow_key, [])]\<rparr>"
    using assms(1) by (auto simp: make_limiter_def split: if_splits)
  have ord: "sorted (t0 # map fst as)" using assms(2) by (cases as) (auto simp: t0_def)
  have "remembers t0 l []" by (auto simp: remembers_def in_window_def recent_def queue_of_key_def l)
  note run = attempt_all_remembers [OF make_limiter_ok [OF assms(1)] ord this]
  have keys: "l_max_keys (snd (attempt_all bs x)) = l_max_keys x" for bs x
    by (induction bs x rule: attempt_all.induct) (auto simp: check_def Let_def split: prod.splits)
  have "t1 \<le> tm" using assms(3) by (cases as rule: rev_cases) (auto simp: t1_def t0_def)
  with run keys [of as l] l show ?thesis by (intro that [of t1]) (simp_all add: Let_def t1_def)
qed

lemma in_window_end:
  assumes "remembers t1 l' lg" and "window_us l' = window_us l" and "t1 \<le> tm"
  shows "in_window l tm k lg = recent l' tm (queue_of_key k l')"
proof -
  have "in_window l' t1 k lg = recent l' t1 (queue_of_key k l')" using assms(1) by (simp add: remembers_def)
  with assms(3) have "in_window l' tm k lg = recent l' tm (queue_of_key k l')" by (rule in_window_later)
  then show ?thesis by (simp add: in_window_def assms(2))
qed

text \<open>Of the attempts up to a time, those let through in the window before it.\<close>

lemma attempt_all_window:
  assumes "make_limiter n w m = Inr l" and "sorted (map fst as)" and "\<forall>a \<in> set as. fst a \<le> tm"
  shows "int (length (in_window l tm k (fst (attempt_all as l)))) \<le> n \<and>
    int (length (l_attempts (snd (attempt_all as l)))) \<le> m"
proof -
  let ?l = "snd (attempt_all as l)"
  obtain t1 where t1: "t1 \<le> tm" "limiter_ok t1 ?l" "remembers t1 ?l (fst (attempt_all as l))"
    "window_us ?l = window_us l" "l_max_attempts ?l = n" "l_max_keys ?l = m"
    using assms by (rule attempt_all_end)
  have "length (in_window l tm k (fst (attempt_all as l))) \<le> length (queue_of_key k ?l)"
    using in_window_end [OF t1(3,4,1)] by (simp add: recent_def)
  with queue_of_key_length [OF t1(2), of k] t1(2,5,6) show ?thesis by (simp add: limiter_ok_def)
qed

text \<open>The next attempt is let through exactly when its window has room.\<close>

lemma attempt_exact:
  assumes "make_limiter n w m = Inr l" and "sorted (map fst as)" and "\<forall>a \<in> set as. fst a \<le> tm"
  shows "fst (fst (check tm key (snd (attempt_all as l)))) \<longleftrightarrow>
    int (length (in_window l tm (queue_key tm key (snd (attempt_all as l))) (fst (attempt_all as l)))) < n"
proof -
  let ?l = "snd (attempt_all as l)"
  obtain t1 where t1: "t1 \<le> tm" "limiter_ok t1 ?l" "remembers t1 ?l (fst (attempt_all as l))"
    "window_us ?l = window_us l" "l_max_attempts ?l = n" "l_max_keys ?l = m"
    using assms by (rule attempt_all_end)
  obtain k q where kq: "choose_key (tm - window_us ?l) key ?l = (k, q)" by fastforce
  then have "queue_key tm key ?l = k" by (simp add: queue_key_def)
  with check_decision(1) [OF t1(2,1) kq] choose_key_recent [OF t1(2) kq, of k] in_window_end [OF t1(3,4,1), of k] t1(5)
  show ?thesis by simp
qed

text \<open>Every window: what comes later than its end does not count.\<close>

lemma attempts_bounded:
  assumes "make_limiter n w m = Inr l" and "sorted (map fst as)"
  shows "int (length (filter (\<lambda>e. fst e = k \<and> tm - window_us l < snd e \<and> snd e \<le> tm) (fst (attempt_all as l)))) \<le> n"
proof -
  let ?P = "\<lambda>e. fst e = k \<and> tm - window_us l < snd e \<and> snd e \<le> tm"
  define as1 where "as1 = takeWhile (\<lambda>a. fst a \<le> tm) as"
  define as2 where "as2 = dropWhile (\<lambda>a. fst a \<le> tm) as"
  have split: "as = as1 @ as2" by (simp add: as1_def as2_def)
  have late: "tm < fst a" if "a \<in> set as2" for a
  proof (cases as2)
    case (Cons b bs)
    then have "\<not> fst b \<le> tm" unfolding as2_def by (metis hd_dropWhile list.distinct(1) list.sel(1))
    moreover have "fst b \<le> fst a" using assms(2) split Cons that by (auto simp: sorted_append)
    ultimately show ?thesis by simp
  qed (use that in simp)
  obtain lg1 l1 where run1: "attempt_all as1 l = (lg1, l1)" by fastforce
  have whole: "fst (attempt_all as l) = lg1 @ fst (attempt_all as2 l1)"
    by (simp add: split attempt_all_append run1 split: prod.split)
  have "filter ?P (fst (attempt_all as2 l1)) = []"
    using late by (fastforce simp: filter_empty_conv dest: attempt_all_times)
  then have "length (filter ?P (fst (attempt_all as l))) = length (filter ?P lg1)" by (simp add: whole)
  also have "\<dots> \<le> length (filter (\<lambda>e. tm - window_us l < snd e) (filter (\<lambda>e. fst e = k) lg1))"
    by (induction lg1) auto
  also have "\<dots> = length (in_window l tm k lg1)" by (simp add: in_window_def filter_map o_def)
  finally have le: "length (filter ?P (fst (attempt_all as l))) \<le> length (in_window l tm k lg1)" .
  have "sorted (map fst as1)" using assms(2) split by (simp add: sorted_append)
  moreover have "\<forall>a \<in> set as1. fst a \<le> tm" by (auto simp: as1_def dest: set_takeWhileD)
  ultimately have "int (length (in_window l tm k lg1)) \<le> n"
    using attempt_all_window [OF assms(1), of as1 tm k] run1 by simp
  with le show ?thesis by simp
qed

end
