(* ===== verification/Finding_Lifecycle.thy ===== *)
theory Finding_Lifecycle
  imports Database Base64 Execution
begin

text \<open>
  The finding registry of \<^verbatim>\<open>finding_lifecycle.py\<close> over the tables of \<^verbatim>\<open>Database\<close>: fingerprint
  and deduplication, the merge of two findings, the lifecycle update, cursors and pages,
  correlations, and the streams of the subscribers. The hash is a parameter. A finding is
  stored in one transaction; the one a concurrent insert of the same fingerprint makes fail
  is followed by a second transaction, so the row the first \<^verbatim>\<open>SELECT\<close> saw is an argument of
  the definitions that follow it.
\<close>

section \<open>Data\<close>

datatype finding_status = OPEN | CONFIRMED | RESOLVED | FALSE_POSITIVE | ACCEPTED_RISK

fun finding_status_value :: "finding_status \<Rightarrow> string" where
  "finding_status_value OPEN = ''open''"
| "finding_status_value CONFIRMED = ''confirmed''"
| "finding_status_value RESOLVED = ''resolved''"
| "finding_status_value FALSE_POSITIVE = ''false_positive''"
| "finding_status_value ACCEPTED_RISK = ''accepted_risk''"

definition finding_status_of :: "string \<Rightarrow> exn + finding_status" where
  "finding_status_of s =
     (case find (\<lambda>x. finding_status_value x = s) [OPEN, CONFIRMED, RESOLVED, FALSE_POSITIVE, ACCEPTED_RISK] of
        None \<Rightarrow> Inl (ValueError s)
      | Some x \<Rightarrow> Inr x)"

lemma finding_status_of_value [simp]: "finding_status_of (finding_status_value x) = Inr x"
  by (cases x) (simp_all add: finding_status_of_def)

record lifecycle_record =
  lr_finding :: finding
  lr_fingerprint :: string
  lr_status :: finding_status
  lr_first_seen :: time
  lr_last_seen :: time
  lr_occurrences :: int
  lr_job_id :: "string option"
  lr_assigned_to :: "string option"
  lr_cursor :: string

text \<open>\<^verbatim>\<open>dict.update\<close>: a key that is there keeps its place.\<close>

definition dict_set :: "string \<times> json \<Rightarrow> (string \<times> json) list \<Rightarrow> (string \<times> json) list" where
  "dict_set kv fs =
     (if fst kv \<in> fst ` set fs then map (\<lambda>x. if fst x = fst kv then kv else x) fs else fs @ [kv])"

definition dict_update :: "(string \<times> json) list \<Rightarrow> (string \<times> json) list \<Rightarrow> (string \<times> json) list" where
  "dict_update fs kvs = fold dict_set kvs fs"

definition lifecycle_to_dict :: "core_lib \<Rightarrow> lifecycle_record \<Rightarrow> json" where
  "lifecycle_to_dict L r = JObj (dict_update (finding_to_dict L (lr_finding r))
     [(''fingerprint'', JStr (lr_fingerprint r)),
      (''status'', JStr (finding_status_value (lr_status r))),
      (''first_seen'', JStr (isoformat (lr_first_seen r))),
      (''last_seen'', JStr (isoformat (lr_last_seen r))),
      (''occurrences'', JInt (lr_occurrences r)),
      (''job_id'', json_opt (lr_job_id r)),
      (''assigned_to'', json_opt (lr_assigned_to r))])"

section \<open>Fingerprint and merge\<close>

text \<open>
  The hash of the UTF-8 encoding, as hex, and the printing of floats in the document that is
  hashed.
\<close>

record hashing =
  sha256_hex :: "string \<Rightarrow> string"
  float_repr :: "rat \<Rightarrow> string"

definition locator_keys :: "string list" where
  "locator_keys = [''asset'', ''component'', ''file'', ''line'', ''path'', ''rule_id'', ''symbol'']"

definition locators :: "(string \<times> json) list \<Rightarrow> (string \<times> json) list" where
  "locators md = concat (map (\<lambda>k. case map_of md k of None \<Rightarrow> [] | Some v \<Rightarrow> [(k, v)]) locator_keys)"

definition finding_identity :: "core_lib \<Rightarrow> finding \<Rightarrow> json" where
  "finding_identity L f = JObj
     [(''source'', JStr (source_value L (f_source f))),
      (''title'', JStr (py_casefold (py_strip (f_title f)))),
      (''host'', JStr (py_casefold (py_strip (case f_host f of None \<Rightarrow> [] | Some h \<Rightarrow> h)))),
      (''cve'', JStr (py_upper (py_strip (case f_cve f of None \<Rightarrow> [] | Some c \<Rightarrow> c)))),
      (''locators'', JObj (locators (f_metadata f)))]"

definition finding_fingerprint :: "core_lib \<Rightarrow> hashing \<Rightarrow> finding \<Rightarrow> string" where
  "finding_fingerprint L H f = sha256_hex H (json_canonical (float_repr H) (finding_identity L f))"

definition merge_findings :: "finding \<Rightarrow> finding \<Rightarrow> finding" where
  "merge_findings existing incoming = incoming\<lparr>
     f_id := f_id existing,
     f_severity := (if severity_rank (f_severity existing) < severity_rank (f_severity incoming)
                    then f_severity incoming else f_severity existing),
     f_confidence := max (f_confidence existing) (f_confidence incoming),
     f_evidence := dict_fromkeys (f_evidence existing @ f_evidence incoming),
     f_related := dict_fromkeys (f_related existing @ f_related incoming),
     f_tags := f_tags existing |\<union>| f_tags incoming\<rparr>"

section \<open>Cursors\<close>

definition encode_cursor :: "int \<Rightarrow> string" where
  "encode_cursor n = b64_unpadded (py_str_int n)"

text \<open>
  The decoded bytes are read as ASCII; of the other UTF-8 texts \<^verbatim>\<open>int\<close> accepts only those
  of digits of other scripts.
\<close>

definition decode_cursor :: "string \<Rightarrow> exn + int" where
  "decode_cursor c =
     (case urlsafe_b64decode (pad4 c) of
        None \<Rightarrow> Inl (ValueError ''invalid finding cursor'')
      | Some bs \<Rightarrow>
          if \<not> list_all is_ascii bs then Inl (ValueError ''invalid finding cursor'')
          else (case py_int bs of
                  None \<Rightarrow> Inl (ValueError ''invalid finding cursor'')
                | Some v \<Rightarrow> if v < 1 then Inl (ValueError ''invalid finding cursor'') else Inr v))"

section \<open>Rows\<close>

definition finding_from_row :: "core_lib \<Rightarrow> finding_row \<Rightarrow> exn + finding" where
  "finding_from_row L r = finding_from_dict L (fr_payload r)"

definition record_from_row :: "core_lib \<Rightarrow> finding_row \<Rightarrow> exn + lifecycle_record" where
  "record_from_row L r =
     bind_exn (finding_from_row L r) (\<lambda>f.
     bind_exn (finding_status_of (fr_status r)) (\<lambda>st.
     Inr \<lparr>lr_finding = f, lr_fingerprint = fr_fingerprint r, lr_status = st,
          lr_first_seen = fr_first_seen r, lr_last_seen = fr_last_seen r,
          lr_occurrences = fr_occurrences r, lr_job_id = fr_job_id r,
          lr_assigned_to = fr_assigned_to r, lr_cursor = encode_cursor (fr_row_id r)\<rparr>))"

fun all_results :: "('a \<Rightarrow> exn + 'b) \<Rightarrow> 'a list \<Rightarrow> exn + 'b list" where
  "all_results f [] = Inr []"
| "all_results f (x # xs) = bind_exn (f x) (\<lambda>y. bind_exn (all_results f xs) (\<lambda>ys. Inr (y # ys)))"

definition new_finding_row ::
  "core_lib \<Rightarrow> string \<Rightarrow> string \<Rightarrow> finding \<Rightarrow> time \<Rightarrow> string option \<Rightarrow> time \<Rightarrow> int \<Rightarrow> finding_row" where
  "new_finding_row L t fp f seen_at job ts n =
     \<lparr>fr_row_id = n, fr_tenant_id = t, fr_finding_id = f_id f, fr_fingerprint = fp,
      fr_source = f_source f, fr_severity = f_severity f, fr_confidence = f_confidence f,
      fr_status = finding_status_value OPEN, fr_asset = f_host f, fr_cve = f_cve f,
      fr_title = f_title f, fr_description = f_description f,
      fr_first_seen = seen_at, fr_last_seen = seen_at, fr_occurrences = 1, fr_job_id = job,
      fr_assigned_to = None, fr_payload = finding_to_dict L f, fr_created_at = ts, fr_updated_at = ts\<rparr>"

text \<open>The columns the update of a known finding sets, and those the update after a lost
  insert race sets.\<close>

definition merged_row ::
  "core_lib \<Rightarrow> finding \<Rightarrow> time \<Rightarrow> string option \<Rightarrow> time \<Rightarrow> finding_row \<Rightarrow> finding_row" where
  "merged_row L m seen_at job ts r = r\<lparr>
     fr_severity := f_severity m, fr_confidence := f_confidence m, fr_description := f_description m,
     fr_last_seen := max (fr_last_seen r) seen_at, fr_first_seen := min (fr_first_seen r) seen_at,
     fr_occurrences := fr_occurrences r + 1, fr_job_id := (if truthy job then job else fr_job_id r),
     fr_payload := finding_to_dict L m, fr_updated_at := ts\<rparr>"

definition raced_row :: "core_lib \<Rightarrow> finding \<Rightarrow> time \<Rightarrow> time \<Rightarrow> finding_row \<Rightarrow> finding_row" where
  "raced_row L m seen_at ts r = r\<lparr>
     fr_occurrences := fr_occurrences r + 1, fr_last_seen := max (fr_last_seen r) seen_at,
     fr_payload := finding_to_dict L m, fr_updated_at := ts\<rparr>"

section \<open>Storing a finding\<close>

definition has_fingerprint :: "string \<Rightarrow> string \<Rightarrow> finding_row \<Rightarrow> bool" where
  "has_fingerprint t fp r \<longleftrightarrow> fr_tenant_id r = t \<and> fr_fingerprint r = fp"

definition seen_at :: "call_env \<Rightarrow> finding \<Rightarrow> time" where
  "seen_at e f = (case f_ts f of None \<Rightarrow> now e | Some ts \<Rightarrow> instant ts)"

definition set_row :: "finding_row \<Rightarrow> database \<Rightarrow> database" where
  "set_row r d = d\<lparr>db_findings := upd_where (\<lambda>x. fr_row_id x = fr_row_id r) (\<lambda>_. r) (db_findings d)\<rparr>"

text \<open>The first transaction; \<open>sel\<close> is the row its \<^verbatim>\<open>SELECT ... FOR UPDATE\<close> returned.\<close>

definition store_first ::
  "core_lib \<Rightarrow> hashing \<Rightarrow> call_env \<Rightarrow> string \<Rightarrow> finding \<Rightarrow> string option \<Rightarrow> finding_row option \<Rightarrow>
    database \<Rightarrow> exn + finding \<times> database" where
  "store_first L H e t f job sel d =
     bind_exn (ensure_tenant t (now e) d) (\<lambda>d1.
     case sel of
       None \<Rightarrow>
         (let row = new_finding_row L t (finding_fingerprint L H f) f (seen_at e f) job (now e) (next_row_id d1)
          in bind_exn (insert_finding row d1) (\<lambda>d2.
             bind_exn (finding_from_row L row) (\<lambda>r. Inr (r, d2))))
     | Some row \<Rightarrow>
         bind_exn (finding_from_row L row) (\<lambda>existing.
         let row' = merged_row L (merge_findings existing f) (seen_at e f) job (now e) row
         in bind_exn (finding_from_row L row') (\<lambda>r. Inr (r, set_row row' d1))))"

text \<open>The second one, after an IntegrityError of the first.\<close>

definition store_retry ::
  "core_lib \<Rightarrow> hashing \<Rightarrow> call_env \<Rightarrow> string \<Rightarrow> finding \<Rightarrow> database \<Rightarrow> exn + finding \<times> database" where
  "store_retry L H e t f d =
     (case find (has_fingerprint t (finding_fingerprint L H f)) (db_findings d) of
        None \<Rightarrow> Inl IntegrityError
      | Some row \<Rightarrow>
          bind_exn (finding_from_row L row) (\<lambda>existing.
          let row' = raced_row L (merge_findings existing f) (seen_at e f) (now e) row
          in bind_exn (finding_from_row L row') (\<lambda>r. Inr (r, set_row row' d))))"

definition store_selected ::
  "core_lib \<Rightarrow> hashing \<Rightarrow> call_env \<Rightarrow> string \<Rightarrow> finding \<Rightarrow> string option \<Rightarrow> finding_row option \<Rightarrow>
    database \<Rightarrow> (exn + finding) \<times> database" where
  "store_selected L H e t f job sel d =
     (case commit (store_first L H e t f job sel d) d of
        (Inl x, d1) \<Rightarrow>
          if x = IntegrityError then commit (store_retry L H e t f d1) d1 else (Inl x, d1)
      | (Inr r, d1) \<Rightarrow> (Inr r, d1))"

definition store_finding ::
  "core_lib \<Rightarrow> hashing \<Rightarrow> call_env \<Rightarrow> string \<Rightarrow> finding \<Rightarrow> string option \<Rightarrow> database \<Rightarrow>
    (exn + finding) \<times> database" where
  "store_finding L H e t f job d =
     store_selected L H e t f job
       (find (has_fingerprint t (finding_fingerprint L H f)) (db_findings d)) d"

section \<open>Correlations\<close>

fun insert_links :: "string \<Rightarrow> string \<Rightarrow> string list \<Rightarrow> database \<Rightarrow> exn + database" where
  "insert_links t c [] d = Inr d"
| "insert_links t c (f # fs) d =
     bind_exn (insert_correlation_finding \<lparr>cf_tenant_id = t, cf_correlation_id = c, cf_finding_id = f\<rparr> d)
       (insert_links t c fs)"

definition add_correlation :: "core_lib \<Rightarrow> call_env \<Rightarrow> string \<Rightarrow> correlation \<Rightarrow> database \<Rightarrow> (exn + unit) \<times> database" where
  "add_correlation L e t c d =
     (let cid = ''corr_'' @ uuid e 0
      in commit
        (bind_exn (ensure_tenant t (now e) d) (\<lambda>d1.
         bind_exn (insert_correlation \<lparr>cr_id = cid, cr_tenant_id = t, cr_rule_id = c_rule_id c,
             cr_rule_version = ''1'', cr_severity = severity_value L (c_severity c), cr_narrative = c_narrative c,
             cr_created_at = now e\<rparr> d1) (\<lambda>d2.
         bind_exn (insert_links t cid (c_findings c) d2) (\<lambda>d3. Inr ((), d3))))) d)"

text \<open>
  The order of rows the query does not order is the database's: \<open>ord\<close> permutes them.
\<close>

definition severity_of :: "core_lib \<Rightarrow> string \<Rightarrow> exn + finding_severity" where
  "severity_of L v =
     (case find (\<lambda>x. severity_value L x = v) [INFO, LOW, MEDIUM, HIGH, CRITICAL] of
        None \<Rightarrow> Inl (ValueError v) | Some x \<Rightarrow> Inr x)"

definition correlation_from_row ::
  "core_lib \<Rightarrow> correlation_finding_row list \<Rightarrow> correlation_row \<Rightarrow> exn + correlation" where
  "correlation_from_row L links r =
     bind_exn (severity_of L (cr_severity r)) (\<lambda>sev.
     Inr \<lparr>c_rule_id = cr_rule_id r,
          c_findings = map cf_finding_id (filter (\<lambda>l. cf_correlation_id l = cr_id r) links),
          c_severity = sev, c_narrative = cr_narrative r\<rparr>)"

definition list_correlations ::
  "core_lib \<Rightarrow> (correlation_finding_row list \<Rightarrow> correlation_finding_row list) \<Rightarrow> string \<Rightarrow> database \<Rightarrow>
    exn + correlation list" where
  "list_correlations L ord t d =
     all_results (correlation_from_row L (ord (filter (\<lambda>l. cf_tenant_id l = t) (db_correlation_findings d))))
       (sort_key cr_created_at (filter (\<lambda>r. cr_tenant_id r = t) (db_correlations d)))"

section \<open>Reading\<close>

definition tenant_findings :: "core_lib \<Rightarrow> string \<Rightarrow> database \<Rightarrow> exn + finding list" where
  "tenant_findings L t d =
     all_results (finding_from_row L) (sort_key fr_row_id (filter (\<lambda>r. fr_tenant_id r = t) (db_findings d)))"

record finding_query =
  fq_source :: "finding_source option"
  fq_severity :: "finding_severity option"
  fq_host :: "string option"
  fq_cve :: "string option"
  fq_since :: "time option"

definition opt_matches :: "'a option \<Rightarrow> ('a \<Rightarrow> bool) \<Rightarrow> bool" where
  "opt_matches x P = (case x of None \<Rightarrow> True | Some v \<Rightarrow> P v)"

definition query_findings :: "core_lib \<Rightarrow> string \<Rightarrow> finding_query \<Rightarrow> int \<Rightarrow> database \<Rightarrow> exn + finding list" where
  "query_findings L t q limit d =
     all_results (finding_from_row L)
       (sql_limit limit (sort_key (\<lambda>r. - fr_last_seen r)
         (filter (\<lambda>r. fr_tenant_id r = t \<and> opt_matches (fq_source q) (\<lambda>v. fr_source r = v) \<and>
            opt_matches (fq_severity q) (\<lambda>v. fr_severity r = v) \<and>
            opt_matches (fq_host q) (\<lambda>v. fr_asset r = Some v) \<and>
            opt_matches (fq_cve q) (\<lambda>v. fr_cve r = Some v) \<and>
            opt_matches (fq_since q) (\<lambda>v. v \<le> fr_last_seen r)) (db_findings d))))"

text \<open>\<^verbatim>\<open>xs[:n]\<close>.\<close>

definition py_prefix :: "int \<Rightarrow> 'a list \<Rightarrow> 'a list" where
  "py_prefix n xs = (if n < 0 then take (length xs - nat (- n)) xs else take (nat n) xs)"

record page_filter =
  pf_source :: "finding_source option"
  pf_severity :: "finding_severity option"
  pf_status :: "finding_status option"

definition page_matches :: "string \<Rightarrow> page_filter \<Rightarrow> finding_row \<Rightarrow> bool" where
  "page_matches t q r \<longleftrightarrow> fr_tenant_id r = t \<and> opt_matches (pf_source q) (\<lambda>v. fr_source r = v) \<and>
     opt_matches (pf_severity q) (\<lambda>v. fr_severity r = v) \<and>
     opt_matches (pf_status q) (\<lambda>v. fr_status r = finding_status_value v)"

definition page_rows :: "string \<Rightarrow> page_filter \<Rightarrow> database \<Rightarrow> finding_row list" where
  "page_rows t q d = rev (sort_key fr_row_id (filter (page_matches t q) (db_findings d)))"

definition list_page ::
  "core_lib \<Rightarrow> string \<Rightarrow> string option \<Rightarrow> int \<Rightarrow> page_filter \<Rightarrow> database \<Rightarrow>
    exn + lifecycle_record list \<times> string option" where
  "list_page L t cursor limit q d =
     bind_exn (case cursor of None \<Rightarrow> Inr None | Some c \<Rightarrow> bind_exn (decode_cursor c) (\<lambda>n. Inr (Some n))) (\<lambda>below.
     let rows = sql_limit (limit + 1) (filter (\<lambda>r. opt_matches below (\<lambda>n. fr_row_id r < n)) (page_rows t q d));
         has_more = limit < int (length rows);
         page = py_prefix limit rows
     in bind_exn (all_results (record_from_row L) page) (\<lambda>records.
        Inr (records, if has_more \<and> page \<noteq> [] then Some (encode_cursor (fr_row_id (last page))) else None)))"

section \<open>The lifecycle update\<close>

text \<open>\<open>assigned_to = None\<close> is the argument left out, \<open>Some None\<close> is \<^verbatim>\<open>None\<close>.\<close>

definition lifecycle_changes ::
  "finding_status option \<Rightarrow> string option option \<Rightarrow> finding_row \<Rightarrow> (string \<times> json) list" where
  "lifecycle_changes status assigned row =
     (case status of
        None \<Rightarrow> []
      | Some st \<Rightarrow> if finding_status_value st \<noteq> fr_status row
          then [(''status'', JObj [(''from'', JStr (fr_status row)), (''to'', JStr (finding_status_value st))])]
          else []) @
     (case assigned of
        None \<Rightarrow> []
      | Some a \<Rightarrow> if a \<noteq> fr_assigned_to row
          then [(''assigned_to'', JObj [(''from'', json_opt (fr_assigned_to row)), (''to'', json_opt a)])]
          else [])"

definition updated_row ::
  "call_env \<Rightarrow> finding_status option \<Rightarrow> string option option \<Rightarrow> finding_row \<Rightarrow> finding_row" where
  "updated_row e status assigned row = row\<lparr>
     fr_status := (case status of None \<Rightarrow> fr_status row | Some st \<Rightarrow> finding_status_value st),
     fr_assigned_to := (case assigned of None \<Rightarrow> fr_assigned_to row | Some a \<Rightarrow> a),
     fr_updated_at := now e\<rparr>"

definition update_lifecycle ::
  "core_lib \<Rightarrow> call_env \<Rightarrow> string \<Rightarrow> string \<Rightarrow> finding_status option \<Rightarrow> string option option \<Rightarrow> string \<Rightarrow>
    database \<Rightarrow> (exn + lifecycle_record option) \<times> database" where
  "update_lifecycle L e t fid status assigned actor d =
     commit
       (case find (\<lambda>r. fr_tenant_id r = t \<and> fr_finding_id r = fid) (db_findings d) of
          None \<Rightarrow> Inr (None, d)
        | Some row \<Rightarrow>
            bind_exn (insert_audit
              \<lparr>a_id = ''audit_'' @ uuid e 0, a_tenant_id = t, a_actor = actor, a_action = ''finding.updated'',
               a_resource_type = ''finding'', a_resource_id = Some fid, a_request_id = None,
               a_outcome = ''success'', a_details = JObj (lifecycle_changes status assigned row),
               a_created_at = now e\<rparr> (set_row (updated_row e status assigned row) d)) (\<lambda>d1.
            bind_exn (record_from_row L (updated_row e status assigned row)) (\<lambda>r. Inr (Some r, d1)))) d"

section \<open>Streams\<close>

text \<open>
  The subscribers of a process: for every tenant the queues, each with an identity and the
  items put into it; a queue holds at most 1000 items.
\<close>

datatype stream_item = Stream_finding finding | Stream_correlation correlation

type_synonym streams = "string \<Rightarrow> (nat \<times> stream_item list) list"

definition queue_maxsize :: nat where
  "queue_maxsize = 1000"

definition publish :: "string \<Rightarrow> stream_item \<Rightarrow> streams \<Rightarrow> streams" where
  "publish t x qs = qs(t := map (\<lambda>(i, xs). (i, if queue_maxsize \<le> length xs then xs else xs @ [x])) (qs t))"

definition subscribe :: "string \<Rightarrow> nat \<Rightarrow> streams \<Rightarrow> streams" where
  "subscribe t i qs = qs(t := qs t @ [(i, [])])"

definition receive :: "string \<Rightarrow> nat \<Rightarrow> streams \<Rightarrow> stream_item option \<times> streams" where
  "receive t i qs =
     (case map_of (qs t) i of
        Some (x # xs) \<Rightarrow> (Some x, qs(t := upd_where (\<lambda>q. fst q = i) (\<lambda>_. (i, xs)) (qs t)))
      | _ \<Rightarrow> (None, qs))"

definition unsubscribe :: "string \<Rightarrow> nat \<Rightarrow> streams \<Rightarrow> streams" where
  "unsubscribe t i qs = qs(t := filter (\<lambda>q. fst q \<noteq> i) (qs t))"

definition add_for_job ::
  "core_lib \<Rightarrow> hashing \<Rightarrow> call_env \<Rightarrow> string \<Rightarrow> finding \<Rightarrow> string option \<Rightarrow> database \<times> streams \<Rightarrow>
    (exn + unit) \<times> database \<times> streams" where
  "add_for_job L H e t f job s =
     (case store_finding L H e t f job (fst s) of
        (Inl x, d) \<Rightarrow> (Inl x, d, snd s)
      | (Inr stored, d) \<Rightarrow> (Inr (), d, publish t (Stream_finding stored) (snd s)))"

definition publish_correlation ::
  "core_lib \<Rightarrow> call_env \<Rightarrow> string \<Rightarrow> correlation \<Rightarrow> database \<times> streams \<Rightarrow> (exn + unit) \<times> database \<times> streams" where
  "publish_correlation L e t c s =
     (case add_correlation L e t c (fst s) of
        (Inl x, d) \<Rightarrow> (Inl x, d, snd s)
      | (Inr _, d) \<Rightarrow> (Inr (), d, publish t (Stream_correlation c) (snd s)))"

text \<open>The registry as the executor uses it; what the subscribers see does not concern the jobs.\<close>

definition sqlalchemy_registry :: "core_lib \<Rightarrow> hashing \<Rightarrow> database finding_registry" where
  "sqlalchemy_registry L H =
     \<lparr>rg_findings = tenant_findings L,
      rg_add_for_job = (\<lambda>e t f job d. case store_finding L H e t f job d of
         (Inl x, d1) \<Rightarrow> (Inl x, d1) | (Inr _, d1) \<Rightarrow> (Inr (), d1)),
      rg_add_correlation = add_correlation L\<rparr>"

end
