(* ===== verification/Api_V1.thy ===== *)
theory Api_V1
  imports Rbac Rate_Limiter Finding_Lifecycle
begin

text \<open>
  The handlers of \<^verbatim>\<open>api_v1.py\<close>. A handler takes the request as the middleware passed it on
  and the state of what it calls, and returns a response or the exception that becomes an
  internal error. The framework validates bodies and query parameters before a handler
  runs; the limits the program declares are predicates. What other processes do between the
  calls of the identity exchange is an argument, and so is the dispatcher. The event stream
  is a machine whose steps other calls can separate.
\<close>

section \<open>Requests and responses\<close>

record api_request =
  aq_request_id :: string
  aq_tenant_id :: string
  aq_role :: string
  aq_authorization :: "string option"
  aq_client_host :: "string option"
  aq_idempotency_key :: "string option"
  aq_last_event_id :: "string option"

record response =
  rs_status :: int
  rs_body :: json
  rs_headers :: "(string \<times> string) list"

definition json_response :: "int \<Rightarrow> json \<Rightarrow> (string \<times> string) list \<Rightarrow> response" where
  "json_response status body headers = \<lparr>rs_status = status, rs_body = body, rs_headers = headers\<rparr>"

definition error_response ::
  "int \<Rightarrow> string \<Rightarrow> string \<Rightarrow> string option \<Rightarrow> string option \<Rightarrow> bool \<Rightarrow> (string \<times> string) list \<Rightarrow> response" where
  "error_response status c message request_id job_id retryable headers =
     json_response status
       (JObj [(''error'', JObj
          ([(''code'', JStr c), (''message'', JStr message), (''retryable'', JBool retryable)] @
           (if truthy request_id then [(''request_id'', json_opt request_id)] else []) @
           (if truthy job_id then [(''job_id'', json_opt job_id)] else [])))])
       headers"

definition api_request_id :: "api_request \<Rightarrow> string" where
  "api_request_id r = (if aq_request_id r = [] then ''request-unknown'' else aq_request_id r)"

definition simple_error :: "api_request \<Rightarrow> int \<Rightarrow> string \<Rightarrow> string \<Rightarrow> response" where
  "simple_error r status c message =
     error_response status c message (Some (api_request_id r)) None False []"

definition job_error :: "api_request \<Rightarrow> string \<Rightarrow> int \<Rightarrow> string \<Rightarrow> string \<Rightarrow> response" where
  "job_error r j status c message =
     error_response status c message (Some (api_request_id r)) (Some j) False []"

definition validation_error :: "api_request \<Rightarrow> response" where
  "validation_error r = simple_error r 422 ''VALIDATION_ERROR'' ''Request validation failed''"

definition request_token :: "api_request \<Rightarrow> string option" where
  "request_token r = bearer_token (case aq_authorization r of None \<Rightarrow> [] | Some h \<Rightarrow> h)"

definition safe_bridge_prefix :: "string option \<Rightarrow> string" where
  "safe_bridge_prefix token =
     (case token of
        None \<Rightarrow> ''unknown''
      | Some s \<Rightarrow>
          (case partition_at (CHR ''.'') s of
             (pre, found, rest) \<Rightarrow>
               if s \<noteq> [] \<and> found \<and> startswith ''igb_'' pre \<and> length pre = 28 \<and> list_all is_hex_lower (drop 4 pre)
               then pre else ''unknown''))"

definition exchange_rate_key :: "api_request \<Rightarrow> string option \<Rightarrow> string" where
  "exchange_rate_key r token =
     (case aq_client_host r of None \<Rightarrow> ''unknown'' | Some h \<Rightarrow> h) @ '':'' @ safe_bridge_prefix token"

section \<open>Identity exchange\<close>

record exchange_body =
  xb_issuer :: string
  xb_subject :: string
  xb_email :: "string option"
  xb_display_name :: "string option"
  xb_requested_tenant_id :: string

definition exchange_body_ok :: "exchange_body \<Rightarrow> bool" where
  "exchange_body_ok b \<longleftrightarrow>
     1 \<le> length (xb_issuer b) \<and> length (xb_issuer b) \<le> 512 \<and>
     1 \<le> length (xb_subject b) \<and> length (xb_subject b) \<le> 255 \<and>
     opt_matches (xb_email b) (\<lambda>s. length s \<le> 320) \<and>
     opt_matches (xb_display_name b) (\<lambda>s. length s \<le> 255) \<and>
     1 \<le> length (xb_requested_tenant_id b) \<and> length (xb_requested_tenant_id b) \<le> 128"

text \<open>The state of the authentication routes: the database, if there is one, and the limiter.\<close>

record auth_world =
  aw_limiter :: limiter
  aw_db :: "database option"

definition record_exchange_failure ::
  "call_env \<Rightarrow> string \<Rightarrow> string \<Rightarrow> string \<Rightarrow> string \<Rightarrow> database \<Rightarrow> (exn + bool) \<times> database" where
  "record_exchange_failure e t actor reason request_id d =
     record_auth_event e t actor ''auth.exchange'' ''failure'' (Some request_id)
       (JObj [(''reason'', JStr reason)]) d"

text \<open>A failure is recorded and then answered, unless the recording raises.\<close>

definition refuse_exchange ::
  "call_env \<Rightarrow> string \<Rightarrow> string \<Rightarrow> string \<Rightarrow> string \<Rightarrow> response \<Rightarrow> database \<Rightarrow> (exn + response) \<times> database" where
  "refuse_exchange e t actor reason request_id resp d =
     (case record_exchange_failure e t actor reason request_id d of
        (Inl x, d1) \<Rightarrow> (Inl x, d1)
      | (Inr _, d1) \<Rightarrow> (Inr resp, d1))"

definition base_env :: "secret_env \<Rightarrow> call_env" where
  "base_env e = call_env.truncate e"

definition exchange_content :: "issued_session \<Rightarrow> string \<Rightarrow> json" where
  "exchange_content issued role = JObj
     [(''session_token'', JStr (is_token issued)),
      (''token_type'', JStr ''Bearer''),
      (''expires_at'', JStr (isoformat (is_expires_at issued))),
      (''tenant_id'', JStr (is_tenant_id issued)),
      (''user_id'', JStr (is_user_id issued)),
      (''role'', JStr role)]"

definition unauthenticated :: "api_request \<Rightarrow> response" where
  "unauthenticated r = error_response 401 ''AUTHENTICATION_FAILED'' ''Authentication failed''
     (Some (api_request_id r)) None False [(''WWW-Authenticate'', ''Bearer'')]"

definition access_denied :: "api_request \<Rightarrow> response" where
  "access_denied r = simple_error r 403 ''ACCESS_DENIED'' ''Access denied''"

definition auth_unavailable :: "api_request \<Rightarrow> response" where
  "auth_unavailable r = error_response 503 ''AUTH_SERVICE_UNAVAILABLE'' ''Authentication service unavailable''
     (Some (api_request_id r)) None True []"

text \<open>
  From the authenticated client on. \<open>E n\<close> is what the \<open>n\<close>-th call of the repository reads,
  \<open>W n\<close> what other processes have done to the database before it.
\<close>

definition exchange_session ::
  "crypto \<Rightarrow> (nat \<Rightarrow> secret_env) \<Rightarrow> (nat \<Rightarrow> database \<Rightarrow> database) \<Rightarrow> api_request \<Rightarrow> exchange_body \<Rightarrow> string \<Rightarrow>
    user_row \<Rightarrow> database \<Rightarrow> (exn + response) \<times> database" where
  "exchange_session C E W r b client user d =
     (let rid = api_request_id r;
          actor = ''identity_client:'' @ client;
          t = xb_requested_tenant_id b
      in case issue_user_session C (E 2) client t (u_id user) default_session_ttl actor (Some rid) (W 2 d) of
           (Inl (KeyError m), d1) \<Rightarrow>
             refuse_exchange (base_env (E 3)) t actor ''access_denied'' rid (access_denied r) (W 3 d1)
         | (Inl (ValueError m), d1) \<Rightarrow>
             refuse_exchange (base_env (E 3)) t actor ''access_denied'' rid (access_denied r) (W 3 d1)
         | (Inl x, d1) \<Rightarrow> (Inl x, d1)
         | (Inr issued, d1) \<Rightarrow>
             (case authenticate_user_session C (base_env (E 3)) (is_token issued) (W 3 d1) of
                (None, d2) \<Rightarrow>
                  (case revoke_user_session (base_env (E 4)) (is_tenant_id issued) (is_id issued) actor (Some rid)
                     (W 4 d2) of
                     (Inl x, d3) \<Rightarrow> (Inl x, d3)
                   | (Inr _, d3) \<Rightarrow> (Inr (access_denied r), d3))
              | (Some p, d2) \<Rightarrow>
                  (Inr (json_response 200 (exchange_content issued (sp_role p))
                     [(''Cache-Control'', ''no-store'')]), d2)))"

definition exchange_allowed ::
  "crypto \<Rightarrow> (nat \<Rightarrow> secret_env) \<Rightarrow> (nat \<Rightarrow> database \<Rightarrow> database) \<Rightarrow> api_request \<Rightarrow> exchange_body \<Rightarrow>
    database \<Rightarrow> (exn + response) \<times> database" where
  "exchange_allowed C E W r b d =
     (let token = request_token r; rid = api_request_id r
      in case authenticate_identity_client C (base_env (E 0)) (case token of None \<Rightarrow> [] | Some s \<Rightarrow> s)
             (Some (xb_issuer b)) (W 0 d) of
           (None, d1) \<Rightarrow>
             refuse_exchange (base_env (E 1)) (xb_requested_tenant_id b)
               (''identity_client:'' @ safe_bridge_prefix token) ''authentication_failed'' rid
               (unauthenticated r) (W 1 d1)
         | (Some client, d1) \<Rightarrow>
             (case upsert_user (base_env (E 1)) (xb_issuer b) (xb_subject b) (xb_email b) (xb_display_name b)
                 (W 1 d1) of
                (Inl (ValueError m), d2) \<Rightarrow> (Inr (validation_error r), d2)
              | (Inl x, d2) \<Rightarrow> (Inl x, d2)
              | (Inr user, d2) \<Rightarrow> exchange_session C E W r b (ip_identity_client_id client) user d2))"

text \<open>The handler; \<open>tm\<close> is the monotonic clock of the limiter.\<close>

definition exchange_identity ::
  "crypto \<Rightarrow> (nat \<Rightarrow> secret_env) \<Rightarrow> (nat \<Rightarrow> database \<Rightarrow> database) \<Rightarrow> int \<Rightarrow> api_request \<Rightarrow> exchange_body \<Rightarrow>
    auth_world \<Rightarrow> (exn + response) \<times> auth_world" where
  "exchange_identity C E W tm r b w =
     (if \<not> exchange_body_ok b then (Inr (validation_error r), w)
      else
        (let token = request_token r; rid = api_request_id r
         in case check tm (exchange_rate_key r token) (aw_limiter w) of
              ((allowed, retry_after), l) \<Rightarrow>
                (let w1 = w\<lparr>aw_limiter := l\<rparr>;
                     limited = error_response 429 ''RATE_LIMITED'' ''Too many authentication attempts''
                       (Some rid) None False [(''Retry-After'', py_str_int retry_after)]
                 in case aw_db w of
                      None \<Rightarrow> (Inr (if allowed then auth_unavailable r else limited), w1)
                    | Some d \<Rightarrow>
                        (case (if allowed then exchange_allowed C E W r b d
                               else refuse_exchange (base_env (E 0)) (xb_requested_tenant_id b)
                                 (''identity_client:'' @ safe_bridge_prefix token) ''rate_limited'' rid
                                 limited (W 0 d)) of
                           (res, d') \<Rightarrow> (res, w1\<lparr>aw_db := Some d'\<rparr>)))))"

section \<open>Revoking a session\<close>

text \<open>The body: absent, or with an optional token.\<close>

definition revoke_body_ok :: "string option option \<Rightarrow> bool" where
  "revoke_body_ok b = opt_matches b (\<lambda>t. opt_matches t (\<lambda>s. 40 \<le> length s \<and> length s \<le> 80))"

definition revoked_response :: response where
  "revoked_response = json_response 200 (JObj [(''revoked'', JBool True)]) [(''Cache-Control'', ''no-store'')]"

definition revoke_own_session ::
  "(nat \<Rightarrow> call_env) \<Rightarrow> (nat \<Rightarrow> database \<Rightarrow> database) \<Rightarrow> api_request \<Rightarrow> session_principal \<Rightarrow> database \<Rightarrow>
    (exn + response) \<times> database" where
  "revoke_own_session E W r p d =
     (case revoke_user_session (E 1) (sp_tenant_id p) (sp_session_id p)
         (''user:'' @ sp_user_id p @ '';session:'' @ sp_session_id p @ '';client:'' @ sp_identity_client_id p)
         (Some (api_request_id r)) (W 1 d) of
        (Inl x, d1) \<Rightarrow> (Inl x, d1)
      | (Inr _, d1) \<Rightarrow> (Inr revoked_response, d1))"

definition revoke_as_bridge ::
  "crypto \<Rightarrow> (nat \<Rightarrow> call_env) \<Rightarrow> (nat \<Rightarrow> database \<Rightarrow> database) \<Rightarrow> api_request \<Rightarrow> string option option \<Rightarrow>
    string \<Rightarrow> database \<Rightarrow> (exn + response) \<times> database" where
  "revoke_as_bridge C E W r body token d =
     (case authenticate_identity_client C (E 1) token None (W 1 d) of
        (None, d1) \<Rightarrow> (Inr (unauthenticated r), d1)
      | (Some bridge, d1) \<Rightarrow>
          (case body of
             Some (Some target_token) \<Rightarrow>
               (case authenticate_user_session C (E 2) target_token (W 2 d1) of
                  (None, d2) \<Rightarrow> (Inr (unauthenticated r), d2)
                | (Some target, d2) \<Rightarrow>
                    if sp_identity_client_id target \<noteq> ip_identity_client_id bridge
                    then (Inr (unauthenticated r), d2)
                    else
                      (case revoke_user_session (E 3) (sp_tenant_id target) (sp_session_id target)
                          (''identity_client:'' @ ip_identity_client_id bridge) (Some (api_request_id r)) (W 3 d2) of
                         (Inl x, d3) \<Rightarrow> (Inl x, d3)
                       | (Inr _, d3) \<Rightarrow> (Inr revoked_response, d3)))
           | _ \<Rightarrow> (Inr (unauthenticated r), d1)))"

definition revoke_session ::
  "crypto \<Rightarrow> (nat \<Rightarrow> call_env) \<Rightarrow> (nat \<Rightarrow> database \<Rightarrow> database) \<Rightarrow> api_request \<Rightarrow> string option option \<Rightarrow>
    database option \<Rightarrow> (exn + response) \<times> database option" where
  "revoke_session C E W r body db =
     (if \<not> revoke_body_ok body then (Inr (validation_error r), db)
      else
        (case db of
           None \<Rightarrow> (Inr (auth_unavailable r), None)
         | Some d \<Rightarrow>
             (let token = (case request_token r of None \<Rightarrow> [] | Some s \<Rightarrow> s)
              in map_prod id Some
                (case authenticate_user_session C (E 0) token (W 0 d) of
                   (Some p, d1) \<Rightarrow>
                     (case (case body of
                              Some (Some s) \<Rightarrow> compare_digest s token
                            | _ \<Rightarrow> Inr True) of
                        Inl x \<Rightarrow> (Inl x, d1)
                      | Inr False \<Rightarrow> (Inr (access_denied r), d1)
                      | Inr True \<Rightarrow> revoke_own_session E W r p d1)
                 | (None, d1) \<Rightarrow> revoke_as_bridge C E W r body token d1))))"

section \<open>Scans\<close>

record scan_body =
  sb_source :: finding_source
  sb_payload :: json

text \<open>
  A dispatcher: \<open>ds_submit\<close> is what \<^verbatim>\<open>submit\<close> returns or raises and what has become of the
  repository when it does (a worker may already have run the job), \<open>ds_cancel\<close> likewise.
  \<open>queues\<close> are the registered adapters with the queue of their capabilities.
\<close>

record 's dispatcher =
  ds_submit :: "job_record \<Rightarrow> string \<Rightarrow> 's \<Rightarrow> (exn + string) \<times> 's"
  ds_cancel :: "job_record \<Rightarrow> 's \<Rightarrow> (exn + unit) \<times> 's"

definition valid_idempotency_key :: "string option \<Rightarrow> bool" where
  "valid_idempotency_key k \<longleftrightarrow> opt_matches k (\<lambda>s. 1 \<le> length s \<and> length s \<le> 128)"

definition scan_response :: "core_lib \<Rightarrow> bool \<Rightarrow> job_record \<Rightarrow> response" where
  "scan_response L created job =
     json_response (if created then 202 else 200) (job_to_dict L job)
       [(''Location'', ''/v1/scans/'' @ j_id job)]"

text \<open>The body of the \<^verbatim>\<open>try\<close>: the dispatched job read again, or what was raised.\<close>

definition dispatch_job ::
  "'s job_repository \<Rightarrow> 's dispatcher \<Rightarrow> call_env \<Rightarrow> string \<Rightarrow> string \<Rightarrow> job_record \<Rightarrow> 's \<Rightarrow>
    (exn + job_record) \<times> 's" where
  "dispatch_job R D e t queue job s =
     (case ds_submit D job queue s of
        (Inl x, s1) \<Rightarrow> (Inl x, s1)
      | (Inr dispatch_id, s1) \<Rightarrow>
          (let s2 = r_set_dispatch_id R e t (j_id job) dispatch_id s1
           in case r_get R t (j_id job) s2 of
                None \<Rightarrow> (Inl (RuntimeError ''scan job disappeared''), s2)
              | Some j \<Rightarrow> (Inr j, s2)))"

definition create_scan ::
  "core_lib \<Rightarrow> 's job_repository \<Rightarrow> 's dispatcher \<Rightarrow> (finding_source \<Rightarrow> string option) \<Rightarrow> (exn \<Rightarrow> string) \<Rightarrow>
    (nat \<Rightarrow> call_env) \<Rightarrow> api_request \<Rightarrow> scan_body \<Rightarrow> 's \<Rightarrow> (exn + response) \<times> 's" where
  "create_scan L R D queues exn_text E r b s =
     (let t = aq_tenant_id r
      in if \<not> valid_idempotency_key (aq_idempotency_key r)
         then (Inr (simple_error r 400 ''INVALID_IDEMPOTENCY_KEY''
           ''Idempotency-Key must contain 1 to 128 characters''), s)
         else
           (case queues (sb_source b) of
              None \<Rightarrow> (Inr (simple_error r 404 ''UNKNOWN_SOURCE''
                (''No adapter registered for '' @ source_value L (sb_source b))), s)
            | Some queue \<Rightarrow>
                (case r_create R (E 0) t (sb_source b) (sb_payload b) (aq_idempotency_key r) s of
                   (Inl x, s1) \<Rightarrow> (Inl x, s1)
                 | (Inr (job, False), s1) \<Rightarrow> (Inr (scan_response L False job), s1)
                 | (Inr (job, True), s1) \<Rightarrow>
                     (case dispatch_job R D (E 1) t queue job s1 of
                        (Inr job1, s2) \<Rightarrow> (Inr (scan_response L True job1), s2)
                      | (Inl x, s2) \<Rightarrow>
                          (case r_transition R (E 2) t (j_id job) FAILED None (Some ''DISPATCH_FAILED'')
                              (Some (exn_text x)) s2 of
                             (Inl y, s3) \<Rightarrow> (Inl y, s3)
                           | (Inr failed, s3) \<Rightarrow>
                               (Inr (error_response 503 ''DISPATCH_FAILED'' ''The scan could not be queued''
                                  (Some (api_request_id r)) (Some (j_id failed)) True []), s3))))))"

definition list_scans ::
  "core_lib \<Rightarrow> 's job_repository \<Rightarrow> api_request \<Rightarrow> job_status option \<Rightarrow> finding_source option \<Rightarrow> int \<Rightarrow> 's \<Rightarrow> response" where
  "list_scans L R r status src limit s =
     (if \<not> (1 \<le> limit \<and> limit \<le> 200) then validation_error r
      else
        (let jobs = r_list_jobs R (aq_tenant_id r) status src limit s
         in json_response 200
              (JObj [(''count'', JInt (int (length jobs))), (''jobs'', JArr (map (job_to_dict L) jobs))]) []))"

definition job_not_found :: "api_request \<Rightarrow> string \<Rightarrow> response" where
  "job_not_found r j = job_error r j 404 ''JOB_NOT_FOUND'' ''Scan job not found''"

definition get_scan :: "core_lib \<Rightarrow> 's job_repository \<Rightarrow> api_request \<Rightarrow> string \<Rightarrow> 's \<Rightarrow> response" where
  "get_scan L R r j s =
     (case r_get R (aq_tenant_id r) j s of
        None \<Rightarrow> job_not_found r j
      | Some job \<Rightarrow> json_response 200 (job_to_dict L job) [])"

definition cancel_scan ::
  "core_lib \<Rightarrow> 's job_repository \<Rightarrow> 's dispatcher \<Rightarrow> call_env \<Rightarrow> api_request \<Rightarrow> string \<Rightarrow> 's \<Rightarrow>
    (exn + response) \<times> 's" where
  "cancel_scan L R D e r j s =
     (case r_get R (aq_tenant_id r) j s of
        None \<Rightarrow> (Inr (job_not_found r j), s)
      | Some current \<Rightarrow>
          (case r_request_cancel R e (aq_tenant_id r) j s of
             (Inl x, s1) \<Rightarrow> (Inl x, s1)
           | (Inr job, s1) \<Rightarrow>
               (case ds_cancel D current s1 of
                  (Inl x, s2) \<Rightarrow> (Inl x, s2)
                | (Inr _, s2) \<Rightarrow> (Inr (json_response 200 (job_to_dict L job) []), s2))))"

section \<open>The event stream\<close>

text \<open>\<^verbatim>\<open>json.dumps\<close> with its default separators.\<close>

fun dumps :: "(rat \<Rightarrow> string) \<Rightarrow> json \<Rightarrow> string"
  and dumps_items :: "(rat \<Rightarrow> string) \<Rightarrow> json list \<Rightarrow> string list"
  and dumps_fields :: "(rat \<Rightarrow> string) \<Rightarrow> (string \<times> json) list \<Rightarrow> string list" where
  "dumps frepr JNull = ''null''"
| "dumps frepr (JBool b) = (if b then ''true'' else ''false'')"
| "dumps frepr (JInt i) = py_str_int i"
| "dumps frepr (JFloat q) = frepr q"
| "dumps frepr (JStr s) = json_string s"
| "dumps frepr (JArr xs) = ''['' @ join_with '', '' (dumps_items frepr xs) @ '']''"
| "dumps frepr (JObj fs) = ''{'' @ join_with '', '' (dumps_fields frepr fs) @ ''}''"
| "dumps_items frepr [] = []"
| "dumps_items frepr (x # xs) = dumps frepr x # dumps_items frepr xs"
| "dumps_fields frepr [] = []"
| "dumps_fields frepr ((k, v) # fs) = (json_string k @ '': '' @ dumps frepr v) # dumps_fields frepr fs"

definition line_feed :: char where
  "line_feed = char_of (10 :: nat)"

datatype sse_chunk = Event_chunk job_event | Heartbeat_chunk

fun chunk_text :: "(rat \<Rightarrow> string) \<Rightarrow> sse_chunk \<Rightarrow> string" where
  "chunk_text frepr (Event_chunk e) =
     ''id: '' @ py_str_int (ev_sequence e) @ [line_feed] @ ''event: '' @ ev_kind e @ [line_feed] @
     ''data: '' @ dumps frepr (event_to_dict e) @ [line_feed, line_feed]"
| "chunk_text frepr Heartbeat_chunk = '': heartbeat'' @ [line_feed, line_feed]"

text \<open>
  The generator between two of its points: it reads the events, yields them one by one,
  reads the job, and sleeps or ends. The argument of \<open>Sse_get\<close> says whether there were
  events.
\<close>

datatype sse_pc = Sse_list | Sse_yield "job_event list" | Sse_get bool | Sse_done

record sse_state =
  ss_sequence :: int
  ss_idle :: int
  ss_pc :: sse_pc
  ss_sent :: "sse_chunk list"

definition events_page_limit :: int where
  "events_page_limit = 1000"

text \<open>A heartbeat after 60 rounds without events, which sleep for 15 seconds.\<close>

definition sse_idle_step :: "bool \<Rightarrow> sse_state \<Rightarrow> sse_state" where
  "sse_idle_step had x =
     (let idle = (if had then 0 else ss_idle x + 1)
      in if 60 \<le> idle then x\<lparr>ss_idle := 0, ss_pc := Sse_list, ss_sent := ss_sent x @ [Heartbeat_chunk]\<rparr>
         else x\<lparr>ss_idle := idle, ss_pc := Sse_list\<rparr>)"

definition sse_step :: "'s job_repository \<Rightarrow> string \<Rightarrow> string \<Rightarrow> 's \<Rightarrow> sse_state \<Rightarrow> sse_state" where
  "sse_step R t j s x =
     (case ss_pc x of
        Sse_list \<Rightarrow>
          (case r_list_events R t j (ss_sequence x) events_page_limit s of
             [] \<Rightarrow> x\<lparr>ss_pc := Sse_get False\<rparr>
           | e # es \<Rightarrow> x\<lparr>ss_pc := Sse_yield (e # es)\<rparr>)
      | Sse_yield [] \<Rightarrow> x\<lparr>ss_pc := Sse_get True\<rparr>
      | Sse_yield (e # es) \<Rightarrow>
          x\<lparr>ss_sequence := ev_sequence e, ss_pc := Sse_yield es, ss_sent := ss_sent x @ [Event_chunk e]\<rparr>
      | Sse_get had \<Rightarrow>
          (case r_get R t j s of
             None \<Rightarrow> x\<lparr>ss_pc := Sse_done\<rparr>
           | Some job \<Rightarrow>
               if terminal (j_status job) \<and> \<not> had then x\<lparr>ss_pc := Sse_done\<rparr> else sse_idle_step had x)
      | Sse_done \<Rightarrow> x)"

definition sse_start :: "int \<Rightarrow> sse_state" where
  "sse_start after = \<lparr>ss_sequence = after, ss_idle = 0, ss_pc = Sse_list, ss_sent = []\<rparr>"

text \<open>Steps of the stream alone, over a repository that does not change.\<close>

fun sse_run :: "'s job_repository \<Rightarrow> string \<Rightarrow> string \<Rightarrow> 's \<Rightarrow> nat \<Rightarrow> sse_state \<Rightarrow> sse_state" where
  "sse_run R t j s 0 x = x"
| "sse_run R t j s (Suc n) x = sse_run R t j s n (sse_step R t j s x)"

text \<open>The stream among other calls on the repository, those of the job's executor included.\<close>

inductive sse_system ::
  "'s job_repository \<Rightarrow> string \<Rightarrow> string \<Rightarrow> 's \<times> sse_state \<Rightarrow> 's \<times> sse_state \<Rightarrow> bool"
  for R :: "'s job_repository" and t j where
  sse_refl: "sse_system R t j w w"
| sse_own: "sse_system R t j w (s, x) \<Longrightarrow> sse_system R t j w (s, sse_step R t j s x)"
| sse_other: "sse_system R t j w (s, x) \<Longrightarrow> sse_system R t j w (snd (perform R c s), x)"

text \<open>The handler: the response, or the stream it starts.\<close>

definition scan_events ::
  "'s job_repository \<Rightarrow> api_request \<Rightarrow> string \<Rightarrow> 's \<Rightarrow> response + sse_state" where
  "scan_events R r j s =
     (if r_get R (aq_tenant_id r) j s = None then Inl (job_not_found r j)
      else
        (case py_int (if truthy (aq_last_event_id r) then the (aq_last_event_id r) else ''0'') of
           None \<Rightarrow> Inl (job_error r j 400 ''INVALID_EVENT_ID'' ''Last-Event-ID must be an integer'')
         | Some n \<Rightarrow> Inr (sse_start (max 0 n))))"

section \<open>Findings\<close>

text \<open>The lifecycle store is there or not; without it the registry has no \<^verbatim>\<open>list_page\<close>.\<close>

definition lifecycle_unavailable :: "api_request \<Rightarrow> response" where
  "lifecycle_unavailable r = simple_error r 503 ''LIFECYCLE_STORE_UNAVAILABLE''
     ''Finding lifecycle storage requires INTEGRATION_DATABASE_URL''"

definition list_findings ::
  "core_lib \<Rightarrow> bool \<Rightarrow> api_request \<Rightarrow> string option \<Rightarrow> int \<Rightarrow> page_filter \<Rightarrow> database \<Rightarrow> exn + response" where
  "list_findings L has_store r cursor limit q d =
     (if \<not> (1 \<le> limit \<and> limit \<le> 500) then Inr (validation_error r)
      else if \<not> has_store then Inr (lifecycle_unavailable r)
      else
        (case list_page L (aq_tenant_id r) cursor limit q d of
           Inl (ValueError m) \<Rightarrow> Inr (simple_error r 400 ''INVALID_CURSOR'' ''The finding cursor is invalid'')
         | Inl x \<Rightarrow> Inl x
         | Inr (records, next_cursor) \<Rightarrow>
             Inr (json_response 200
               (JObj [(''count'', JInt (int (length records))),
                      (''items'', JArr (map (lifecycle_to_dict L) records)),
                      (''next_cursor'', json_opt next_cursor)]) [])))"

text \<open>A field is \<open>None\<close> when the document does not have it, \<open>Some None\<close> when it is null.\<close>

record update_body =
  ub_status :: "finding_status option option"
  ub_assigned_to :: "string option option"

definition update_body_ok :: "update_body \<Rightarrow> bool" where
  "update_body_ok b \<longleftrightarrow> opt_matches (ub_assigned_to b) (\<lambda>a. opt_matches a (\<lambda>s. length s \<le> 255))"

definition update_finding ::
  "core_lib \<Rightarrow> bool \<Rightarrow> call_env \<Rightarrow> api_request \<Rightarrow> string \<Rightarrow> update_body \<Rightarrow> database \<Rightarrow>
    (exn + response) \<times> database" where
  "update_finding L has_store e r fid b d =
     (if \<not> update_body_ok b then (Inr (validation_error r), d)
      else if \<not> has_store then (Inr (lifecycle_unavailable r), d)
      else if ub_status b = None \<and> ub_assigned_to b = None
      then (Inr (simple_error r 400 ''EMPTY_UPDATE'' ''At least one lifecycle field must be provided''), d)
      else
        (case update_lifecycle L e (aq_tenant_id r) fid
            (case ub_status b of None \<Rightarrow> None | Some st \<Rightarrow> st) (ub_assigned_to b) (''role:'' @ aq_role r) d of
           (Inl x, d1) \<Rightarrow> (Inl x, d1)
         | (Inr None, d1) \<Rightarrow> (Inr (simple_error r 404 ''FINDING_NOT_FOUND'' ''Finding not found''), d1)
         | (Inr (Some rec), d1) \<Rightarrow> (Inr (json_response 200 (lifecycle_to_dict L rec) []), d1)))"

end
