(* ===== verification/Execution_Proofs.thy ===== *)
theory Execution_Proofs
  imports Execution
begin

text \<open>
  What the executor guarantees. The first part needs nothing of the repository: the tenant
  binding, the attempt numbers and a measure that every step but a waiting poll decreases.
  The second part is proved in a locale from the repository's contract and from a registry
  that leaves the jobs alone.
\<close>

section \<open>The tenant binding and the attempt numbers\<close>

text \<open>The positions inside the \<^verbatim>\<open>try\<close> of an attempt, and the attempt of a position.\<close>

fun in_attempt :: "exec_pc \<Rightarrow> bool" where
  "in_attempt (At_poll n) = True"
| "in_attempt (At_results n fs) = True"
| "in_attempt (At_store n fs seen todo) = True"
| "in_attempt (At_success n fs) = True"
| "in_attempt (At_failure n f) = True"
| "in_attempt At_stop = True"
| "in_attempt (At_backoff n) = True"
| "in_attempt _ = False"

fun attempt_of :: "exec_pc \<Rightarrow> int option" where
  "attempt_of (At_attempt n) = Some n"
| "attempt_of (At_cancelled_before n) = Some n"
| "attempt_of (At_claim n) = Some n"
| "attempt_of (At_poll n) = Some n"
| "attempt_of (At_results n fs) = Some n"
| "attempt_of (At_store n fs seen todo) = Some n"
| "attempt_of (At_success n fs) = Some n"
| "attempt_of (At_failure n f) = Some n"
| "attempt_of (At_backoff n) = Some n"
| "attempt_of _ = None"

definition numbers_ok :: "int \<Rightarrow> exec_pc \<Rightarrow> bool" where
  "numbers_ok m pc \<longleftrightarrow> (\<forall>n. attempt_of pc = Some n \<longrightarrow> 1 \<le> n \<and> n \<le> m) \<and>
     (\<forall>n. pc = At_backoff n \<longrightarrow> n < m)"

definition binding_ok :: "string \<Rightarrow> string \<Rightarrow> 's exec_state \<Rightarrow> bool" where
  "binding_ok t ctx x \<longleftrightarrow> x_saved x = ctx \<and> x_tenant x = (if in_attempt (x_pc x) then t else ctx)"

definition frame_ok :: "'s executor \<Rightarrow> string \<Rightarrow> string \<Rightarrow> 's exec_state \<Rightarrow> bool" where
  "frame_ok X t ctx x \<longleftrightarrow> numbers_ok (ex_max_attempts X) (x_pc x) \<and> binding_ok t ctx x"

lemma goto_simps [simp]:
  "x_pc (goto pc s x) = pc" "x_state (goto pc s x) = s"
  "x_tenant (goto pc s x) = x_tenant x" "x_saved (goto pc s x) = x_saved x"
  by (simp_all add: goto_def)

lemma leave_simps [simp]:
  "x_pc (leave pc x) = pc" "x_state (leave pc x) = x_state x"
  "x_tenant (leave pc x) = x_saved x" "x_saved (leave pc x) = x_saved x"
  by (simp_all add: leave_def)

text \<open>The results of one step: \<open>P\<close> holds of the position and the state it ends in.\<close>

lemmas step_defs = exec_step_def failure_step_def store_step_def in_try_def finish_handler_def
  finish_outside_def Let_def

lemma scan_result_attempt [simp]:
  "in_attempt (scan_result n out)" "in_attempt (cancelled_scan_result n out)"
  "in_attempt (stopped_scan_result n out)"
  "attempt_of (scan_result n out) = Some n" "attempt_of (cancelled_scan_result n out) = Some n"
  "attempt_of (stopped_scan_result n out) = Some n"
  by (cases out; simp)+

lemma scan_result_not_backoff [simp]:
  "scan_result n out \<noteq> At_backoff m" "cancelled_scan_result n out \<noteq> At_backoff m"
  "stopped_scan_result n out \<noteq> At_backoff m"
  by (cases out; simp)+

lemma frame_in_try:
  assumes "frame_ok X t ctx x" and "attempt_of (x_pc x) = Some n" and "in_attempt (x_pc x)"
    and "attempt_of pc = Some n" and "in_attempt pc" and "\<forall>m. pc \<noteq> At_backoff m"
  shows "frame_ok X t ctx (in_try X n res pc x)" and "frame_ok X t ctx (goto pc s x)"
  using assms
  by (cases res; cases "fst res"; simp add: frame_ok_def numbers_ok_def binding_ok_def in_try_def)+

lemma frame_finish_handler:
  assumes "frame_ok X t ctx x" and "in_attempt (x_pc x)"
  shows "frame_ok X t ctx (finish_handler r res x)"
  using assms
  by (cases res; cases "fst res"; simp add: frame_ok_def numbers_ok_def binding_ok_def finish_handler_def)

lemma frame_leave_finished:
  "frame_ok X t ctx x \<Longrightarrow> frame_ok X t ctx (leave (Finished r) (goto pc s x))"
  "frame_ok X t ctx x \<Longrightarrow> frame_ok X t ctx (leave (Finished r) x)"
  by (simp_all add: frame_ok_def numbers_ok_def binding_ok_def)

lemma frame_store_step:
  assumes "frame_ok X t ctx x" and "x_pc x = At_store n fs seen (a # rest)"
  shows "frame_ok X t ctx (store_step X e t j n fs seen a rest x)"
  using assms
  by (cases a) (auto simp: store_step_def frame_in_try split: sum.split)

lemma frame_failure_step:
  assumes "frame_ok X t ctx x" and "x_pc x = At_failure n f"
  shows "frame_ok X t ctx (failure_step X e t j n f x)"
proof -
  have stop: "frame_ok X t ctx (goto At_stop s x)" for s
    using assms by (simp add: frame_ok_def numbers_ok_def binding_ok_def)
  have backoff: "frame_ok X t ctx (goto (At_backoff n) s x)" if "n < ex_max_attempts X" for s
    using assms that by (simp add: frame_ok_def numbers_ok_def binding_ok_def)
  show ?thesis
    using assms stop backoff
    by (cases f) (auto simp: failure_step_def Let_def frame_finish_handler frame_leave_finished
        split: option.split sum.split prod.split)
qed

lemma frame_outside:
  assumes "frame_ok X t ctx x" and "\<not> in_attempt (x_pc x)" and "\<not> in_attempt pc"
    and "numbers_ok (ex_max_attempts X) pc"
  shows "frame_ok X t ctx (goto pc s x)"
  using assms by (simp add: frame_ok_def binding_ok_def)

lemma numbers_ok_simps [simp]:
  "numbers_ok m (Finished r)" "numbers_ok m (At_unknown_source src)"
  "numbers_ok m (At_attempt n) \<longleftrightarrow> 1 \<le> n \<and> n \<le> m"
  "numbers_ok m (At_claim n) \<longleftrightarrow> 1 \<le> n \<and> n \<le> m"
  "numbers_ok m (At_cancelled_before n) \<longleftrightarrow> 1 \<le> n \<and> n \<le> m"
  "numbers_ok m (At_poll n) \<longleftrightarrow> 1 \<le> n \<and> n \<le> m"
  "numbers_ok m (At_backoff n) \<longleftrightarrow> 1 \<le> n \<and> n < m"
  by (auto simp: numbers_ok_def)

lemma frame_finish_outside:
  assumes "frame_ok X t ctx x" and "\<not> in_attempt (x_pc x)"
  shows "frame_ok X t ctx (finish_outside res x)"
  using assms by (cases res; cases "fst res"; simp add: finish_outside_def frame_outside)

lemma frame_step:
  assumes "frame_ok X t ctx x" and "1 \<le> ex_max_attempts X"
  shows "frame_ok X t ctx (exec_step X t j i x)"
proof (cases "x_pc x")
  case At_start
  with assms show ?thesis by (simp add: exec_step_def Let_def frame_outside split: option.split)
next
  case (At_unknown_source src)
  with assms show ?thesis by (simp add: exec_step_def Let_def frame_finish_outside)
next
  case (At_attempt n)
  with assms(1) have "1 \<le> n \<and> n \<le> ex_max_attempts X" by (simp add: frame_ok_def)
  with At_attempt assms show ?thesis by (simp add: exec_step_def Let_def frame_outside split: option.split)
next
  case (At_cancelled_before n)
  with assms show ?thesis by (simp add: exec_step_def Let_def frame_finish_outside)
next
  case (At_claim n)
  then have claimed: "frame_ok X t ctx (goto (At_poll n) s (x\<lparr>x_saved := x_tenant x, x_tenant := t\<rparr>))" for s
    using assms(1) by (simp add: frame_ok_def binding_ok_def)
  with At_claim assms show ?thesis
    by (simp add: exec_step_def Let_def frame_outside split: option.split sum.split prod.split)
next
  case (At_poll n)
  with assms show ?thesis by (auto simp: exec_step_def Let_def frame_in_try split: option.split)
next
  case (At_results n fs)
  with assms show ?thesis by (simp add: exec_step_def Let_def frame_in_try split: sum.split)
next
  case (At_store n fs seen todo)
  with assms show ?thesis
    by (cases todo) (simp_all add: exec_step_def Let_def frame_in_try frame_store_step)
next
  case (At_success n fs)
  with assms show ?thesis
    by (simp add: exec_step_def Let_def frame_in_try frame_leave_finished split: sum.split prod.split)
next
  case (At_failure n f)
  with assms show ?thesis by (simp add: exec_step_def Let_def frame_failure_step)
next
  case At_stop
  with assms show ?thesis by (simp add: exec_step_def Let_def frame_finish_handler)
next
  case (At_backoff n)
  with assms have "frame_ok X t ctx (leave (At_attempt (n + 1)) x)"
    by (simp add: frame_ok_def binding_ok_def)
  with At_backoff assms show ?thesis by (simp add: exec_step_def Let_def frame_leave_finished)
next
  case (Finished r)
  with assms show ?thesis by (simp add: exec_step_def Let_def)
qed

lemma frame_start: "1 \<le> ex_max_attempts X \<Longrightarrow> frame_ok X t ctx (exec_start ctx s)"
  by (simp add: frame_ok_def numbers_ok_def binding_ok_def exec_start_def)

lemma frame_state [simp]: "frame_ok X t ctx (x\<lparr>x_state := s\<rparr>) = frame_ok X t ctx x"
  by (simp add: frame_ok_def binding_ok_def)

lemma frame_system:
  assumes "exec_system X t j x y" and "frame_ok X t ctx x" and "1 \<le> ex_max_attempts X"
  shows "frame_ok X t ctx y"
  using assms(1,2)
proof induction
  case (exec_own x y i)
  then have "frame_ok X t ctx y" by blast
  then show ?case using assms(3) by (rule frame_step)
qed simp_all

section \<open>Progress\<close>

text \<open>
  Lexicographic: the attempts left, the phase of the attempt, the rules still to apply
  (a rule may add correlations to the work list, never rules), and the length of the list.
\<close>

fun phase_rank :: "exec_pc \<Rightarrow> nat" where
  "phase_rank At_start = 11"
| "phase_rank (At_unknown_source src) = 1"
| "phase_rank (At_attempt n) = 10"
| "phase_rank (At_cancelled_before n) = 9"
| "phase_rank (At_claim n) = 8"
| "phase_rank (At_poll n) = 7"
| "phase_rank (At_results n fs) = 6"
| "phase_rank (At_store n fs seen todo) = 5"
| "phase_rank (At_success n fs) = 4"
| "phase_rank (At_failure n f) = 3"
| "phase_rank At_stop = 2"
| "phase_rank (At_backoff n) = 1"
| "phase_rank (Finished r) = 0"

fun is_rule :: "store_action \<Rightarrow> bool" where
  "is_rule (Do_rule r f) = True"
| "is_rule _ = False"

fun work_left :: "exec_pc \<Rightarrow> store_action list" where
  "work_left (At_store n fs seen todo) = todo"
| "work_left _ = []"

fun attempts_left :: "int \<Rightarrow> exec_pc \<Rightarrow> nat" where
  "attempts_left m At_start = nat m"
| "attempts_left m pc = (case attempt_of pc of None \<Rightarrow> 0 | Some n \<Rightarrow> nat (m - n))"

definition exec_measure :: "int \<Rightarrow> exec_pc \<Rightarrow> nat \<times> nat \<times> nat \<times> nat" where
  "exec_measure m pc = (attempts_left m pc, phase_rank pc,
     length (filter is_rule (work_left pc)), length (work_left pc))"

definition exec_order :: "((nat \<times> nat \<times> nat \<times> nat) \<times> (nat \<times> nat \<times> nat \<times> nat)) set" where
  "exec_order = less_than <*lex*> less_than <*lex*> less_than <*lex*> less_than"

lemma wf_exec_order: "wf exec_order"
  by (simp add: exec_order_def wf_lex_prod)

text \<open>A poll that finds the scan still running may leave the executor where it is.\<close>

definition waiting :: "exec_input \<Rightarrow> 's exec_state \<Rightarrow> bool" where
  "waiting i x \<longleftrightarrow> (\<exists>n. x_pc x = At_poll n) \<and> in_scan i = None"

lemma correlation_actions_no_rule [simp]:
  "filter is_rule (concat (map (correlation_actions X) cs)) = []"
  by (induction cs) (simp_all add: correlation_actions_def)

lemma scan_result_phase:
  "phase_rank (scan_result n out) < 7" "phase_rank (cancelled_scan_result n out) < 7"
  "phase_rank (stopped_scan_result n out) < 7"
  by (cases out; simp)+

lemma attempts_left_attempt: "attempt_of pc = Some n \<Longrightarrow> attempts_left m pc = nat (m - n)"
  by (cases pc) simp_all

lemma exec_measure_less_phase:
  assumes "attempt_of pc = Some n" and "attempt_of pc' = Some n \<or> attempt_of pc' = None \<and> pc' \<noteq> At_start"
    and "phase_rank pc' < phase_rank pc"
  shows "(exec_measure m pc', exec_measure m pc) \<in> exec_order"
proof -
  have "attempts_left m pc' \<le> attempts_left m pc"
    using assms(1,2) by (cases pc') (auto simp: attempts_left_attempt)
  with assms(3) show ?thesis by (auto simp: exec_order_def exec_measure_def)
qed

lemma exec_step_decreases:
  assumes "frame_ok X t ctx x" and "\<not> waiting i x" and "\<forall>r. x_pc x \<noteq> Finished r"
    and "1 \<le> ex_max_attempts X"
  shows "(exec_measure (ex_max_attempts X) (x_pc (exec_step X t j i x)),
    exec_measure (ex_max_attempts X) (x_pc x)) \<in> exec_order"
proof (cases "x_pc x" rule: in_attempt.cases)
  case (1 n)
  have "attempt_of (x_pc (exec_step X t j i x)) = Some n \<and> phase_rank (x_pc (exec_step X t j i x)) < 7"
    using 1 assms(2) by (auto simp: exec_step_def Let_def waiting_def scan_result_phase split: option.split)
  with 1 show ?thesis by (intro exec_measure_less_phase) simp_all
next
  case (3 n fs seen todo)
  with assms show ?thesis
    by (cases todo)
      (auto simp: step_defs exec_measure_def exec_order_def split: sum.split prod.split store_action.split)
qed (use assms in \<open>auto simp: step_defs frame_ok_def numbers_ok_def exec_measure_def exec_order_def
      split: sum.split prod.split option.split failure.split\<close>)

text \<open>
  The executor among actors of any kind: after its step number \<open>k\<close>, taken with the input
  \<open>f k\<close>, the others change the shared state by any function \<open>g k\<close>.
\<close>

primrec exec_among ::
  "'s executor \<Rightarrow> string \<Rightarrow> string \<Rightarrow> (nat \<Rightarrow> exec_input) \<Rightarrow> (nat \<Rightarrow> 's \<Rightarrow> 's) \<Rightarrow> nat \<Rightarrow> 's exec_state \<Rightarrow> 's exec_state" where
  "exec_among X t j f g 0 x = x"
| "exec_among X t j f g (Suc n) x =
     (let y = exec_step X t j (f n) (exec_among X t j f g n x) in y\<lparr>x_state := g n (x_state y)\<rparr>)"

lemma exec_among_frame:
  assumes "frame_ok X t ctx x" and "1 \<le> ex_max_attempts X"
  shows "frame_ok X t ctx (exec_among X t j f g n x)"
  using assms by (induction n) (simp_all add: Let_def frame_step)

text \<open>A waiting executor either goes on waiting at its position or goes on to a smaller one.\<close>

lemma waiting_step:
  assumes "x_pc x = At_poll n"
  shows "x_pc (exec_step X t j i x) = At_poll n \<or>
    (exec_measure m (x_pc (exec_step X t j i x)), exec_measure m (x_pc x)) \<in> exec_order"
proof -
  have "x_pc (exec_step X t j i x) = At_poll n \<or>
      attempt_of (x_pc (exec_step X t j i x)) = Some n \<and> phase_rank (x_pc (exec_step X t j i x)) < 7"
    using assms by (auto simp: exec_step_def Let_def scan_result_phase split: option.split)
  with assms show ?thesis by (auto intro: exec_measure_less_phase)
qed

text \<open>Within finitely many steps the position gets smaller, when a scan ends later on.\<close>

lemma exec_among_decreases:
  fixes X :: "'s executor" and t j f g x0
  defines "y \<equiv> \<lambda>k. exec_among X t j f g k x0"
  assumes "frame_ok X t ctx x0" and "1 \<le> ex_max_attempts X" and "in_scan (f (k + d)) \<noteq> None"
    and "\<forall>r. x_pc (y k) \<noteq> Finished r"
  shows "\<exists>k'. (exec_measure (ex_max_attempts X) (x_pc (y k')), exec_measure (ex_max_attempts X) (x_pc (y k))) \<in> exec_order"
proof -
  have framed: "frame_ok X t ctx (y k)" for k
    unfolding y_def using assms(2,3) by (rule exec_among_frame)
  have goes_on: "(exec_measure (ex_max_attempts X) (x_pc (y (Suc k))), exec_measure (ex_max_attempts X) (x_pc (y k))) \<in> exec_order"
    if "\<not> waiting (f k) (y k)" and "\<forall>r. x_pc (y k) \<noteq> Finished r" for k
    using exec_step_decreases [OF framed that assms(3), where j = j] by (simp add: y_def Let_def)
  show ?thesis
    using assms(4,5)
  proof (induction d arbitrary: k)
    case 0
    have "\<not> waiting (f k) (y k)" using 0(1) by (simp add: waiting_def)
    with 0(2) goes_on show ?case by blast
  next
    case (Suc d)
    show ?case
    proof (cases "waiting (f k) (y k)")
      case True
      then obtain n where n: "x_pc (y k) = At_poll n" by (auto simp: waiting_def)
      then have "x_pc (y (Suc k)) = At_poll n \<or>
          (exec_measure (ex_max_attempts X) (x_pc (y (Suc k))), exec_measure (ex_max_attempts X) (x_pc (y k))) \<in> exec_order"
        using waiting_step [OF n, of X t j "f k"] by (simp add: y_def Let_def)
      then show ?thesis using Suc.IH [of "Suc k"] Suc.prems(1) n by auto
    next
      case False
      with Suc.prems(2) goes_on show ?thesis by blast
    qed
  qed
qed

lemma exec_finishes:
  assumes "frame_ok X t ctx x" and "1 \<le> ex_max_attempts X" and "\<forall>k. \<exists>k' \<ge> k. in_scan (f k') \<noteq> None"
  shows "\<exists>n r. x_pc (exec_among X t j f g n x) = Finished r"
proof -
  have "\<exists>n r. x_pc (exec_among X t j f g n x) = Finished r"
    if "p = exec_measure (ex_max_attempts X) (x_pc (exec_among X t j f g k x))" for p k
    using that
  proof (induction p arbitrary: k rule: wf_induct_rule [OF wf_exec_order])
    case (1 p)
    obtain d where "in_scan (f (k + d)) \<noteq> None" using assms(3) by (metis le_add_diff_inverse)
    with 1 exec_among_decreases [OF assms(1,2)] show ?case by blast
  qed
  then show ?thesis by blast
qed

section \<open>What the executor does to its job\<close>

text \<open>
  A registry that leaves the jobs alone, next to a job repository that meets its contract.
\<close>

locale executor_client = job_contract R invar view ready
  for R :: "'s job_repository" and invar view ready +
  fixes G :: "'s finding_registry"
  assumes add_keeps: "invar s \<Longrightarrow>
      invar (snd (rg_add_for_job G e c f jb s)) \<and> view (snd (rg_add_for_job G e c f jb s)) = view s"
    and add_correlation_keeps: "invar s \<Longrightarrow>
      invar (snd (rg_add_correlation G e c co s)) \<and> view (snd (rg_add_correlation G e c co s)) = view s"

text \<open>
  What holds of the job while the executor is at a position: from the first claim on it is
  RUNNING until the executor itself moves it, and every claim counted one attempt.
\<close>

fun running_at :: "exec_pc \<Rightarrow> bool" where
  "running_at (At_attempt n) \<longleftrightarrow> n \<noteq> 1"
| "running_at (At_claim n) \<longleftrightarrow> n \<noteq> 1"
| "running_at (At_cancelled_before n) \<longleftrightarrow> True"
| "running_at pc \<longleftrightarrow> in_attempt pc"

fun claims_at :: "exec_pc \<Rightarrow> int option" where
  "claims_at At_start = Some 0"
| "claims_at (At_attempt n) = Some (n - 1)"
| "claims_at (At_cancelled_before n) = Some (n - 1)"
| "claims_at (At_claim n) = Some (n - 1)"
| "claims_at pc = attempt_of pc"

definition well_ended :: "job_record \<Rightarrow> job_record \<Rightarrow> bool" where
  "well_ended r0 r \<longleftrightarrow> terminal (j_status r) \<or> (j_status r = RUNNING \<and> j_cancel_requested r) \<or>
     (j_status r0 = RUNNING \<and> j_status r = RUNNING \<and> j_attempt r = j_attempt r0)"

definition job_phase :: "int \<Rightarrow> job_record \<Rightarrow> exec_pc \<Rightarrow> job_record \<Rightarrow> bool" where
  "job_phase m r0 pc r \<longleftrightarrow>
     (j_status r = QUEUED \<longrightarrow> \<not> j_cancel_requested r) \<and> j_source r = j_source r0 \<and>
     (running_at pc \<longrightarrow> j_status r = RUNNING) \<and>
     j_attempt r \<le> j_attempt r0 + m \<and>
     (\<forall>n. claims_at pc = Some n \<longrightarrow> j_attempt r = j_attempt r0 + n) \<and>
     (claims_at pc = Some 0 \<longrightarrow> j_status r = j_status r0 \<or> j_status r = CANCELLED) \<and>
     \<not> terminal (j_status r0) \<and>
     (\<forall>src. pc \<noteq> At_unknown_source src) \<and>
     (pc = Finished None \<longrightarrow> well_ended r0 r)"

lemma job_phase_kept:
  assumes "job_phase m r0 pc r" and "job_kept r r'"
  shows "job_phase m r0 pc r'"
proof -
  have same: "j_source r' = j_source r" "j_attempt r' = j_attempt r"
    "j_status r' = QUEUED \<longrightarrow> j_cancel_requested r' = j_cancel_requested r"
    "j_cancel_requested r \<longrightarrow> j_cancel_requested r'"
    and status: "j_status r' = j_status r \<or> (j_status r = QUEUED \<and> j_status r' = CANCELLED)"
    using assms(2) by (auto simp: job_kept_def)
  show ?thesis
    using status
  proof
    assume "j_status r' = j_status r"
    with same assms(1) show ?thesis unfolding job_phase_def well_ended_def by simp blast
  next
    assume "j_status r = QUEUED \<and> j_status r' = CANCELLED"
    with same assms(1) show ?thesis unfolding job_phase_def well_ended_def by simp
  qed
qed

text \<open>Inside an attempt, moving between positions of the same attempt keeps the phase.\<close>

lemma job_phase_attempt:
  assumes "job_phase m r0 pc r" and "in_attempt pc" and "attempt_of pc = Some n"
    and "in_attempt pc'" and "attempt_of pc' = Some n \<or> attempt_of pc' = None" and "1 \<le> n"
  shows "job_phase m r0 pc' r"
proof -
  have "running_at q" "claims_at q = attempt_of q" "\<forall>src. q \<noteq> At_unknown_source src" "\<forall>x. q \<noteq> Finished x"
    if "in_attempt q" for q
    using that by (cases q; simp)+
  note at = this [OF assms(2)] this [OF assms(4)]
  show ?thesis using assms at unfolding job_phase_def by auto
qed

lemma job_phase_moved:
  assumes "job_phase m r0 pc r" and "terminal st"
  shows "job_phase m r0 (Finished x) (moved_job ts st n c msg r)"
  using assms by (auto simp: job_phase_def well_ended_def moved_job_def)

lemma job_phase_exception: "job_phase m r0 pc r \<Longrightarrow> job_phase m r0 (Finished (Some e)) r"
  by (auto simp: job_phase_def)

context executor_client
begin

lemma transition_cases:
  assumes "invar s" and "st_jobs (view s) t j = Some r"
  obtains "r_transition R e t j st n c m s = (Inl IntegrityError, s)"
  | s' where "r_transition R e t j st n c m s = (Inr (moved_job (now e) st n c m r), s')" and "invar s'"
      and "st_jobs (view s') t j = Some (moved_job (now e) st n c m r)"
proof -
  obtain v s' where res: "r_transition R e t j st n c m s = (v, s')" by (cases "r_transition R e t j st n c m s")
  with transition [OF assms(1), of e t j st n c m] assms(2) that show ?thesis
    by (auto simp: refines_def spec_transition_def)
qed

lemma claim_cases:
  assumes "invar s" and "st_jobs (view s) t j = Some r"
  obtains "r_mark_running R e t j rq s = (Inl IntegrityError, s)"
  | s' where "r_mark_running R e t j rq s = (Inr None, s')" and "\<not> claimable t j rq r"
      and "invar s'" and "st_jobs (view s') t j = Some r"
  | s' where "r_mark_running R e t j rq s = (Inr (Some (running_job (now e) r)), s')" and "claimable t j rq r"
      and "invar s'" and "st_jobs (view s') t j = Some (running_job (now e) r)"
proof -
  obtain v s' where res: "r_mark_running R e t j rq s = (v, s')" by (cases "r_mark_running R e t j rq s")
  with mark_running [OF assms(1), of e t j rq] assms that show ?thesis
    by (cases "claimable t j rq r") (auto simp: refines_def spec_mark_running_def)
qed

lemma append_cases:
  assumes "invar s" and "st_jobs (view s) t j = Some r"
  obtains v s' where "r_append_event R e t j kind p s = (v, s')" and "invar s'" and "st_jobs (view s') t j = Some r"
proof -
  obtain v s' where res: "r_append_event R e t j kind p s = (v, s')" by (cases "r_append_event R e t j kind p s")
  with append_event [OF assms(1), of e t j kind p] assms that show ?thesis
    by (auto simp: refines_def spec_append_event_def)
qed

definition job_in :: "string \<Rightarrow> string \<Rightarrow> (job_record \<Rightarrow> bool) \<Rightarrow> 's \<Rightarrow> bool" where
  "job_in t j P s \<longleftrightarrow> invar s \<and> (\<exists>r. st_jobs (view s) t j = Some r \<and> P r)"

lemma finish_handler_job:
  assumes "job_in t j (job_phase m r0 pc) s" and "terminal st"
  shows "job_in t j (job_phase m r0 (x_pc (finish_handler res (r_transition R e t j st n c msg s) x)))
    (x_state (finish_handler res (r_transition R e t j st n c msg s) x))"
proof -
  obtain r where "invar s" and r: "st_jobs (view s) t j = Some r" "job_phase m r0 pc r"
    using assms(1) by (auto simp: job_in_def)
  from this(1,2) show ?thesis
    by (rule transition_cases [where e = e and st = st and n = n and c = c and m = msg])
      (use \<open>invar s\<close> r assms(2) in \<open>auto simp: finish_handler_def job_in_def intro: job_phase_moved job_phase_exception\<close>)
qed

lemma finish_outside_job:
  assumes "job_in t j (job_phase m r0 pc) s" and "terminal st"
  shows "job_in t j (job_phase m r0 (x_pc (finish_outside (r_transition R e t j st n c msg s) x)))
    (x_state (finish_outside (r_transition R e t j st n c msg s) x))"
proof -
  obtain r where "invar s" and r: "st_jobs (view s) t j = Some r" "job_phase m r0 pc r"
    using assms(1) by (auto simp: job_in_def)
  from this(1,2) show ?thesis
    by (rule transition_cases [where e = e and st = st and n = n and c = c and m = msg])
      (use \<open>invar s\<close> r assms(2) in \<open>auto simp: finish_outside_def job_in_def intro: job_phase_moved job_phase_exception\<close>)
qed

lemma job_in_phase_attempt:
  assumes "job_in t j (job_phase m r0 pc) s" and "in_attempt pc" and "attempt_of pc = Some n"
    and "in_attempt pc'" and "attempt_of pc' = Some n \<or> attempt_of pc' = None" and "1 \<le> n"
  shows "job_in t j (job_phase m r0 pc') s"
  using assms job_phase_attempt by (auto simp: job_in_def)

lemma add_job:
  "job_in t j P s \<Longrightarrow> job_in t j P (snd (rg_add_for_job G e c f jb s))"
  "job_in t j P s \<Longrightarrow> job_in t j P (snd (rg_add_correlation G e c co s))"
  using add_keeps add_correlation_keeps by (auto simp: job_in_def)

lemma append_job:
  assumes "job_in t j P s"
  shows "job_in t j P (snd (r_append_event R e t j kind p s))"
proof -
  obtain r where r: "invar s" "st_jobs (view s) t j = Some r" "P r" using assms by (auto simp: job_in_def)
  from r(1,2) show ?thesis
    by (rule append_cases [where e = e and kind = kind and p = p]) (use r(3) in \<open>auto simp: job_in_def\<close>)
qed

definition step_ok :: "string \<Rightarrow> string \<Rightarrow> int \<Rightarrow> job_record \<Rightarrow> 's exec_state \<Rightarrow> bool" where
  "step_ok t j m r0 x \<longleftrightarrow> job_in t j (job_phase m r0 (x_pc x)) (x_state x)"

lemma in_try_ok:
  assumes "job_in t j (job_phase m r0 pc) (snd res)" and "in_attempt pc" and "attempt_of pc = Some n" and "1 \<le> n"
    and "in_attempt pc'" and "attempt_of pc' = Some n"
  shows "step_ok t j m r0 (in_try X n res pc' x)"
  using job_in_phase_attempt [OF assms(1-3)] assms(4-6)
  by (cases res; cases "fst res") (simp_all add: in_try_def step_ok_def)

lemma store_step_ok:
  assumes "step_ok t j m r0 x" and "x_pc x = At_store n fs seen (a # rest)" and "1 \<le> n"
    and "ex_repository X = R" and "ex_registry X = G"
  shows "step_ok t j m r0 (store_step X e t j n fs seen a rest x)"
proof -
  have job: "job_in t j (job_phase m r0 (At_store n fs seen (a # rest))) (x_state x)"
    using assms(1,2) by (simp add: step_ok_def)
  have jump: "step_ok t j m r0 (goto pc (x_state x) x)" if "in_attempt pc" "attempt_of pc = Some n" for pc
    using job_in_phase_attempt [OF job, where pc' = pc] assms(3) that by (simp add: step_ok_def)
  show ?thesis
  proof (cases a)
    case (Do_add f)
    with in_try_ok [OF add_job(1) [OF job]] assms(3-5) show ?thesis by (simp add: store_step_def)
  next
    case (Do_log k p)
    with in_try_ok [OF append_job [OF job]] assms(3-5) show ?thesis by (simp add: store_step_def)
  next
    case (Do_rule r f)
    with jump show ?thesis by (cases "r f seen") (simp_all add: store_step_def)
  next
    case (Do_correlation c)
    with in_try_ok [OF add_job(2) [OF job]] assms(3-5) show ?thesis by (simp add: store_step_def)
  next
    case (Do_seen f)
    with jump show ?thesis by (simp add: store_step_def)
  qed
qed

lemma failure_step_ok:
  assumes "step_ok t j m r0 x" and "x_pc x = At_failure n f" and "1 \<le> n" and "ex_repository X = R"
  shows "step_ok t j m r0 (failure_step X e t j n f x)"
proof -
  have job: "job_in t j (job_phase m r0 (At_failure n f)) (x_state x)"
    using assms(1,2) by (simp add: step_ok_def)
  have handler: "step_ok t j m r0 (finish_handler res (r_transition R e t j st k c msg (x_state x)) x)"
    if "terminal st" for res st k c msg
    using finish_handler_job [OF job that] by (simp add: step_ok_def)
  show ?thesis
  proof (cases f)
    case Job_cancelled
    with handler assms(4) show ?thesis by (simp add: failure_step_def)
  next
    case Task_cancelled
    have "job_in t j (job_phase m r0 (Finished (Some AsyncCancelledError))) (x_state x)"
      using job by (auto simp: job_in_def intro: job_phase_exception)
    moreover have "job_in t j (job_phase m r0 At_stop) (x_state x)"
      using job_in_phase_attempt [OF job, where pc' = At_stop] assms(3) by simp
    ultimately show ?thesis using Task_cancelled assms(4)
      by (simp add: failure_step_def step_ok_def Let_def split: option.split)
  next
    case (Product_failure pe)
    let ?out = "r_append_event R e t j ''retrying''
      (JObj [(''attempt'', JInt n), (''next_attempt'', JInt (n + 1)), (''code'', JStr (pe_code pe))]) (x_state x)"
    have logged: "job_in t j (job_phase m r0 (At_failure n f)) (snd ?out)" using job by (rule append_job)
    have "job_in t j (job_phase m r0 (At_backoff n)) (snd ?out)"
      using job_in_phase_attempt [OF logged, where pc' = "At_backoff n"] assms(3) by simp
    moreover have "job_in t j (job_phase m r0 (Finished (Some ex))) (snd ?out)" for ex
      using logged by (auto simp: job_in_def intro: job_phase_exception)
    ultimately show ?thesis
      using Product_failure handler assms(4)
      by (cases ?out; cases "fst ?out") (simp_all add: failure_step_def step_ok_def Let_def)
  next
    case (Other_failure msg)
    with handler assms(4) show ?thesis by (simp add: failure_step_def)
  qed
qed

lemma claim_ok:
  assumes "step_ok t j m r0 x" and "x_pc x = At_claim n" and "1 \<le> n" and "n \<le> m" and "ex_repository X = R"
  shows "step_ok t j m r0 (exec_step X t j i x)"
proof -
  obtain r where r: "invar (x_state x)" "st_jobs (view (x_state x)) t j = Some r" "job_phase m r0 (At_claim n) r"
    using assms(1,2) by (auto simp: step_ok_def job_in_def)
  from r(1,2) show ?thesis
  proof (rule claim_cases [where e = "in_env i" and rq = "n = 1"])
    assume "r_mark_running R (in_env i) t j (n = 1) (x_state x) = (Inl IntegrityError, x_state x)"
    then show ?thesis using assms(2,5) r job_phase_exception [OF r(3)]
      by (simp add: exec_step_def step_ok_def job_in_def)
  next
    fix s' assume step: "r_mark_running R (in_env i) t j (n = 1) (x_state x) = (Inr None, s')"
      "\<not> claimable t j (n = 1) r" "invar s'" "st_jobs (view s') t j = Some r"
    have keys: "is_job t j r" using wf [OF r(1)] r(2) by (auto simp: is_job_def dest: wf_store_job)
    have "well_ended r0 r"
    proof (cases "n = 1")
      case True
      with step(2) keys r(3) have "j_status r \<noteq> QUEUED" by (auto simp: claimable_def job_phase_def)
      with True r(3) show ?thesis
        by (auto simp: job_phase_def well_ended_def not_terminal_iff)
    next
      case False
      with step(2) keys r(3) show ?thesis by (auto simp: claimable_def job_phase_def well_ended_def)
    qed
    with r(3) have "job_phase m r0 (Finished None) r" by (simp add: job_phase_def)
    with step assms(2,5) show ?thesis by (simp add: exec_step_def step_ok_def job_in_def)
  next
    fix s' assume step: "r_mark_running R (in_env i) t j (n = 1) (x_state x) = (Inr (Some (running_job (now (in_env i)) r)), s')"
      "claimable t j (n = 1) r" "invar s'" "st_jobs (view s') t j = Some (running_job (now (in_env i)) r)"
    have "job_phase m r0 (At_poll n) (running_job (now (in_env i)) r)"
      using r(3) assms(3,4) by (simp add: job_phase_def running_job_def)
    with step assms(2,5) show ?thesis by (simp add: exec_step_def step_ok_def job_in_def)
  qed
qed

lemma start_ok:
  assumes "step_ok t j m r0 x" and "x_pc x = At_start" and "j_source r0 \<in> ex_products X"
    and "ex_repository X = R"
  shows "step_ok t j m r0 (exec_step X t j i x)"
proof -
  obtain r where r: "invar (x_state x)" "st_jobs (view (x_state x)) t j = Some r" "job_phase m r0 At_start r"
    using assms(1,2) by (auto simp: step_ok_def job_in_def)
  then have "j_source r = j_source r0" by (simp add: job_phase_def)
  with r assms(2-4) show ?thesis
    by (auto simp: exec_step_def Let_def step_ok_def job_in_def get job_phase_def well_ended_def)
qed

lemma attempt_ok:
  assumes "step_ok t j m r0 x" and "x_pc x = At_attempt n" and "1 \<le> n" and "n \<le> ex_max_attempts X"
    and "ex_repository X = R"
  shows "step_ok t j m r0 (exec_step X t j i x)"
proof -
  obtain r where r: "invar (x_state x)" "st_jobs (view (x_state x)) t j = Some r" "job_phase m r0 (At_attempt n) r"
    using assms(1,2) by (auto simp: step_ok_def job_in_def)
  show ?thesis
  proof (cases "j_status r = CANCELLED")
    case True
    with r(3) have "job_phase m r0 (Finished None) r" by (auto simp: job_phase_def well_ended_def)
    with True r assms(2,4,5) show ?thesis
      by (simp add: exec_step_def Let_def step_ok_def job_in_def get)
  next
    case False
    have "job_phase m r0 (At_claim n) r" using r(3) by (auto simp: job_phase_def)
    moreover have "job_phase m r0 (At_cancelled_before n) r" if "j_cancel_requested r"
    proof -
      have "j_status r = RUNNING"
        using r(3) that False by (cases "n = 1") (auto simp: job_phase_def not_terminal_iff)
      with r(3) show ?thesis by (auto simp: job_phase_def)
    qed
    ultimately show ?thesis using False r assms(2,4,5)
      by (auto simp: exec_step_def Let_def step_ok_def job_in_def get)
  qed
qed

lemma step_ok_step:
  assumes "step_ok t j m r0 x" and "frame_ok X t ctx x" and "m = ex_max_attempts X"
    and "j_source r0 \<in> ex_products X" and "ex_repository X = R" and "ex_registry X = G"
  shows "step_ok t j m r0 (exec_step X t j i x)"
proof (cases "x_pc x")
  case At_start
  with assms(1,4,5) show ?thesis by (intro start_ok)
next
  case (At_unknown_source src)
  with assms(1) show ?thesis by (auto simp: step_ok_def job_in_def job_phase_def)
next
  case (At_attempt n)
  with assms show ?thesis by (intro attempt_ok) (auto simp: frame_ok_def)
next
  case (At_cancelled_before n)
  with assms(1,5) finish_outside_job [where st = CANCELLED and s = "x_state x" and pc = "At_cancelled_before n"]
  show ?thesis by (simp add: exec_step_def step_ok_def)
next
  case (At_claim n)
  with assms show ?thesis by (intro claim_ok) (auto simp: frame_ok_def)
next
  case (At_poll n)
  then have n: "1 \<le> n" using assms(2) by (simp add: frame_ok_def)
  have job: "job_in t j (job_phase m r0 (At_poll n)) (x_state x)" using At_poll assms(1) by (simp add: step_ok_def)
  have jump: "step_ok t j m r0 (goto pc (x_state x) x)" if "in_attempt pc" "attempt_of pc = Some n" for pc
    using job_in_phase_attempt [OF job, where pc' = pc] n that by (simp add: step_ok_def)
  show ?thesis using At_poll jump assms(5) by (simp add: exec_step_def Let_def split: option.split)
next
  case (At_results n fs)
  then have n: "1 \<le> n" using assms(2) by (simp add: frame_ok_def numbers_ok_def)
  have job: "job_in t j (job_phase m r0 (At_results n fs)) (x_state x)" using At_results assms(1) by (simp add: step_ok_def)
  have jump: "step_ok t j m r0 (goto pc (x_state x) x)" if "in_attempt pc" "attempt_of pc = Some n" for pc
    using job_in_phase_attempt [OF job, where pc' = pc] n that by (simp add: step_ok_def)
  show ?thesis using At_results jump by (simp add: exec_step_def Let_def split: sum.split)
next
  case (At_store n fs seen todo)
  then have n: "1 \<le> n" using assms(2) by (simp add: frame_ok_def numbers_ok_def)
  have job: "job_in t j (job_phase m r0 (At_store n fs seen todo)) (x_state x)" using At_store assms(1) by (simp add: step_ok_def)
  show ?thesis
  proof (cases todo)
    case Nil
    with At_store job_in_phase_attempt [OF job, where pc' = "At_success n fs"] n show ?thesis
      by (simp add: exec_step_def step_ok_def)
  next
    case (Cons a rest)
    with At_store assms n show ?thesis by (simp add: exec_step_def Let_def store_step_ok)
  qed
next
  case (At_success n fs)
  then have n: "1 \<le> n" using assms(2) by (simp add: frame_ok_def numbers_ok_def)
  obtain r where r: "invar (x_state x)" "st_jobs (view (x_state x)) t j = Some r" "job_phase m r0 (At_success n fs) r"
    using assms(1) At_success by (auto simp: step_ok_def job_in_def)
  have failed: "job_phase m r0 (At_failure n f) r" for f
    using job_phase_attempt [OF r(3), where pc' = "At_failure n f"] n by simp
  from r(1,2) show ?thesis
    by (rule transition_cases [where e = "in_env i" and st = SUCCEEDED and n = "Some (int (length fs))"
          and c = None and m = None])
      (use r failed At_success assms(5) in \<open>auto simp: exec_step_def step_ok_def job_in_def intro: job_phase_moved\<close>)
next
  case (At_failure n f)
  with assms failure_step_ok show ?thesis by (simp add: exec_step_def Let_def frame_ok_def numbers_ok_def)
next
  case At_stop
  with assms(1,5) finish_handler_job [where st = CANCELLED and s = "x_state x" and pc = At_stop]
  show ?thesis by (simp add: exec_step_def step_ok_def)
next
  case (At_backoff n)
  then have n: "1 \<le> n" using assms(2) by (simp add: frame_ok_def)
  obtain r where r: "invar (x_state x)" "st_jobs (view (x_state x)) t j = Some r" "job_phase m r0 (At_backoff n) r"
    using assms(1) At_backoff by (auto simp: step_ok_def job_in_def)
  have "job_phase m r0 (At_attempt (n + 1)) r" using r(3) n by (auto simp: job_phase_def)
  with r At_backoff show ?thesis
    by (auto simp: exec_step_def step_ok_def job_in_def intro: job_phase_exception)
next
  case (Finished e)
  with assms(1) show ?thesis by (simp add: exec_step_def)
qed

lemma step_ok_system:
  assumes "exec_system X t j x y" and "step_ok t j (ex_max_attempts X) r0 x" and "frame_ok X t ctx x"
    and "1 \<le> ex_max_attempts X" and "j_source r0 \<in> ex_products X" and "ex_repository X = R" and "ex_registry X = G"
  shows "step_ok t j (ex_max_attempts X) r0 y"
  using assms(1-3)
proof induction
  case (exec_own x y i)
  then have "frame_ok X t ctx y" using frame_system assms(4) by blast
  with exec_own show ?case by (intro step_ok_step [OF _ _ refl assms(5-7)]) auto
next
  case (exec_other x y c)
  then have y: "job_in t j (job_phase (ex_max_attempts X) r0 (x_pc y)) (x_state y)" by (simp add: step_ok_def)
  then obtain r where r: "invar (x_state y)" "st_jobs (view (x_state y)) t j = Some r"
    "job_phase (ex_max_attempts X) r0 (x_pc y) r" by (auto simp: job_in_def)
  obtain r' where "st_jobs (view (snd (perform R c (x_state y)))) t j = Some r'" "job_kept r r'"
    using perform_keeps [OF r(1) exec_other(2)] r(2) by (auto simp: store_keeps_def)
  with r(1,3) show ?case
    using perform_invar job_phase_kept assms(6) by (auto simp: step_ok_def job_in_def)
qed

lemma start_step_ok:
  assumes "invar s" and "r_get R t j s = Some r0" and "\<not> terminal (j_status r0)"
    and "j_status r0 = QUEUED \<longrightarrow> \<not> j_cancel_requested r0" and "0 \<le> m"
  shows "step_ok t j m r0 (exec_start ctx s)"
  using assms by (auto simp: step_ok_def job_in_def exec_start_def job_phase_def get)

text \<open>The facts the properties are made of: where a run ends, and that the end is final.\<close>

lemma executor_outcome:
  assumes "exec_system X t j (exec_start ctx s) y" and "invar s" and "r_get R t j s = Some r0"
    and "\<not> terminal (j_status r0)" and "j_status r0 = QUEUED \<longrightarrow> \<not> j_cancel_requested r0"
    and "1 \<le> ex_max_attempts X" and "j_source r0 \<in> ex_products X" and "ex_repository X = R" and "ex_registry X = G"
  shows "\<exists>r. invar (x_state y) \<and> r_get R t j (x_state y) = Some r \<and>
    job_phase (ex_max_attempts X) r0 (x_pc y) r"
proof -
  have "step_ok t j (ex_max_attempts X) r0 y"
    using assms(1) start_step_ok [OF assms(2-5)] frame_start [OF assms(6)] assms(6-9)
    by (rule step_ok_system) (use assms(6) in simp)
  then show ?thesis by (auto simp: step_ok_def job_in_def get)
qed

text \<open>
  An executor that finds its job of an unknown source, or asked to cancel, ends it before
  any attempt.
\<close>

definition early_phase :: "'s executor \<Rightarrow> job_record \<Rightarrow> exec_pc \<Rightarrow> job_record \<Rightarrow> bool" where
  "early_phase X r0 pc r \<longleftrightarrow> j_source r = j_source r0 \<and> j_attempt r = j_attempt r0 \<and>
     (j_source r0 \<notin> ex_products X \<or> j_cancel_requested r) \<and>
     (pc = At_start \<or> (pc = At_attempt 1 \<and> j_cancel_requested r) \<or> pc = At_cancelled_before 1 \<or>
      (\<exists>src. pc = At_unknown_source src) \<or> (\<exists>e. pc = Finished (Some e)) \<or>
      pc = Finished None \<and> terminal (j_status r))"

lemma early_phase_kept: "early_phase X r0 pc r \<Longrightarrow> job_kept r r' \<Longrightarrow> early_phase X r0 pc r'"
  by (auto simp: early_phase_def job_kept_def)

lemma early_ends:
  assumes "invar s" and "st_jobs (view s) t j = Some r" and "early_phase X r0 pc r" and "terminal st"
  shows "job_in t j (early_phase X r0 (x_pc (finish_outside (r_transition R e t j st n c m s) x)))
    (x_state (finish_outside (r_transition R e t j st n c m s) x))"
  using assms(1,2)
  by (rule transition_cases [where e = e and st = st and n = n and c = c and m = m])
    (use assms in \<open>auto simp: finish_outside_def job_in_def early_phase_def moved_job_def\<close>)

lemma early_step:
  assumes "job_in t j (early_phase X r0 (x_pc x)) (x_state x)" and "1 \<le> ex_max_attempts X" and "ex_repository X = R"
  shows "job_in t j (early_phase X r0 (x_pc (exec_step X t j i x))) (x_state (exec_step X t j i x))"
proof -
  obtain r where r: "invar (x_state x)" "st_jobs (view (x_state x)) t j = Some r" "early_phase X r0 (x_pc x) r"
    using assms(1) by (auto simp: job_in_def)
  then have found: "r_get R t j (x_state x) = Some r" by (simp add: get)
  from r(3) consider "x_pc x = At_start" | "x_pc x = At_attempt 1" "j_cancel_requested r"
    | "x_pc x = At_cancelled_before 1" | src where "x_pc x = At_unknown_source src" | e where "x_pc x = Finished e"
    by (auto simp: early_phase_def)
  then show ?thesis
  proof cases
    case 3
    with early_ends [OF r] assms(3) show ?thesis by (simp add: exec_step_def)
  next
    case 4
    with early_ends [OF r] assms(3) show ?thesis by (simp add: exec_step_def)
  qed (use r found assms in \<open>auto simp: exec_step_def Let_def job_in_def early_phase_def\<close>)
qed

lemma early_outcome:
  assumes "exec_system X t j (exec_start ctx s) y" and "invar s" and "r_get R t j s = Some r0"
    and "j_source r0 \<notin> ex_products X \<or> j_cancel_requested r0" and "1 \<le> ex_max_attempts X"
    and "ex_repository X = R"
  shows "job_in t j (early_phase X r0 (x_pc y)) (x_state y)"
  using assms(1)
proof (induction "exec_start ctx s" y rule: exec_system.induct)
  case exec_refl
  then show ?case using assms(2-4) by (auto simp: job_in_def exec_start_def early_phase_def get)
next
  case (exec_own y i)
  then show ?case using early_step assms(5,6) by blast
next
  case (exec_other y c)
  then obtain r where r: "invar (x_state y)" "st_jobs (view (x_state y)) t j = Some r" "early_phase X r0 (x_pc y) r"
    by (auto simp: job_in_def)
  obtain r' where "st_jobs (view (snd (perform R c (x_state y)))) t j = Some r'" "job_kept r r'"
    using perform_keeps [OF r(1) exec_other(3)] r(2) by (auto simp: store_keeps_def)
  with r(1,3) show ?case using perform_invar early_phase_kept assms(6) by (auto simp: job_in_def)
qed

lemma terminal_final:
  assumes "job_phase m r0 (x_pc y) r" and "invar (x_state y)" and "r_get R t j (x_state y) = Some r"
    and "terminal (j_status r)" and "ex_repository X = R"
  shows "r_get R t j (x_state (exec_step X t j i y)) = Some r"
proof -
  have not_running: "\<not> running_at (x_pc y)" using assms(1,4) by (auto simp: job_phase_def)
  have job: "st_jobs (view (x_state y)) t j = Some r" using assms(2,3) by (simp add: get)
  have claim: "r_get R t j (snd (r_mark_running R e t j rq (x_state y))) = Some r" for e rq
    using assms(2) job
    by (rule claim_cases [where e = e and rq = rq])
      (use assms(2-4) job in \<open>auto simp: get claimable_def split: if_splits\<close>)
  have known: "x_pc y \<noteq> At_unknown_source src" for src using assms(1) by (auto simp: job_phase_def)
  show ?thesis
  proof (cases "x_pc y")
    case (At_claim n)
    with assms(5) claim [of "in_env i" "n = 1"] show ?thesis
      by (auto simp: exec_step_def Let_def split: option.split sum.split prod.split)
  qed (use not_running known assms(3,5) in \<open>auto simp: exec_step_def Let_def split: option.split\<close>)
qed

end

section \<open>A job that is already running\<close>

text \<open>
  An executor that starts on a RUNNING job without a cancel request has nothing to claim:
  alone, it never changes the state.
\<close>

definition redelivered :: "'s executor \<Rightarrow> string \<Rightarrow> string \<Rightarrow> 's \<Rightarrow> bool" where
  "redelivered X t j s \<longleftrightarrow> (\<exists>r. r_get (ex_repository X) t j s = Some r \<and> j_status r = RUNNING \<and>
     \<not> j_cancel_requested r \<and> j_source r \<in> ex_products X)"

context job_contract
begin

lemma claim_running:
  assumes "invar s" and "r_get R t j s = Some r" and "j_status r = RUNNING"
  shows "fst (r_mark_running R e t j True s) \<in> {Inr None, Inl IntegrityError} \<and>
    view (snd (r_mark_running R e t j True s)) = view s \<and> invar (snd (r_mark_running R e t j True s))"
proof -
  have "st_jobs (view s) t j = Some r" using assms(1,2) by (simp add: get)
  then have "spec_mark_running e t j True (view s) = (Inr None, view s)"
    using assms(3) by (simp add: spec_mark_running_def claimable_def)
  with mark_running [OF assms(1), of e t j True] assms(1) show ?thesis
    by (auto simp: refines_def)
qed

lemma cancel_running:
  assumes "invar s" and "r_get R t j s = Some r" and "j_status r = RUNNING"
    and "r_request_cancel R e t j s = (Inr r', s')"
  shows "invar s' \<and> (\<exists>r1. r_get R t j s' = Some r1 \<and> j_status r1 = RUNNING \<and> j_cancel_requested r1)"
  using request_cancel [OF assms(1), of e t j] assms
  by (auto simp: refines_def spec_request_cancel_def get job_updates cancel_status_def)

definition idle_at :: "'s executor \<Rightarrow> string \<Rightarrow> string \<Rightarrow> 's exec_state \<Rightarrow> job_store \<Rightarrow> bool" where
  "idle_at X t j x a \<longleftrightarrow> invar (x_state x) \<and> view (x_state x) = a \<and> redelivered X t j (x_state x) \<and>
     (x_pc x \<in> {At_start, At_attempt 1, At_claim 1} \<or> (\<exists>r. x_pc x = Finished r))"

lemma idle_step:
  assumes "idle_at X t j x a" and "ex_repository X = R" and "1 \<le> ex_max_attempts X"
  shows "idle_at X t j (exec_step X t j i x) a"
proof -
  obtain r where r: "r_get R t j (x_state x) = Some r" "j_status r = RUNNING" "\<not> j_cancel_requested r"
    "j_source r \<in> ex_products X" "invar (x_state x)"
    using assms(1,2) by (auto simp: idle_at_def redelivered_def)
  show ?thesis
  proof (cases "x_pc x = At_claim 1")
    case True
    let ?out = "r_mark_running R (in_env i) t j True (x_state x)"
    have out: "fst ?out \<in> {Inr None, Inl IntegrityError}" "view (snd ?out) = view (x_state x)" "invar (snd ?out)"
      using claim_running [OF r(5,1,2), of "in_env i"] by auto
    then have "r_get R t j (snd ?out) = Some r" using r(1,5) by (simp add: get)
    with out True r assms show ?thesis
      by (cases ?out) (auto simp: exec_step_def idle_at_def redelivered_def)
  next
    case False
    with r assms show ?thesis
      by (auto simp: exec_step_def Let_def idle_at_def redelivered_def)
  qed
qed

lemma idle_run:
  assumes "idle_at X t j x a" and "ex_repository X = R" and "1 \<le> ex_max_attempts X"
  shows "idle_at X t j (exec_run X t j is x) a"
  using assms(1) unfolding exec_run_def
proof (induction "is" arbitrary: x)
  case (Cons i "is")
  then have "idle_at X t j (exec_step X t j i x) a" using assms(2,3) by (intro idle_step)
  with Cons.IH show ?case by simp
qed simp

end

end
