(* ===== verification/Lifecycle_Proofs.thy ===== *)
theory Lifecycle_Proofs
  imports Finding_Lifecycle Execution_Proofs
begin

text \<open>
  The finding registry: cursors round trip and pages enumerate; the constraints of the
  findings table are an invariant; storing deduplicates; tenants do not interfere; and the
  registry leaves the jobs alone, so the executor's locale can be interpreted on it.
\<close>

section \<open>Cursors\<close>

lemma nat_digits_ascii: "list_all is_ascii (nat_digits n)"
  unfolding list_all_iff
proof
  fix c assume "c \<in> set (nat_digits n)"
  then have "is_digit c" by (rule nat_digits_are_digits)
  then show "is_ascii c" by (simp add: is_digit_def is_ascii_def)
qed

lemma decode_encode_cursor:
  assumes "1 \<le> n" and "n < 10 ^ int_max_str_digits"
  shows "decode_cursor (encode_cursor n) = Inr n"
proof -
  have digits: "py_str_int n = nat_digits (nat n)" using assms(1) by (simp add: py_str_int_def)
  have "nat n < 10 ^ int_max_str_digits"
    using assms by (metis (no_types) nat_less_iff of_nat_numeral of_nat_power order_trans zero_le_one)
  then have "py_int (nat_digits (nat n)) = Some n"
    using assms(1) by (simp add: py_int_nat_digits)
  then show ?thesis
    using assms(1) by (simp add: decode_cursor_def encode_cursor_def b64_roundtrip digits nat_digits_ascii)
qed

section \<open>The findings table\<close>

definition findings_ok :: "database \<Rightarrow> bool" where
  "findings_ok d \<longleftrightarrow> distinct (map fr_row_id (db_findings d)) \<and>
     distinct (map (\<lambda>r. (fr_tenant_id r, fr_fingerprint r)) (db_findings d)) \<and>
     distinct (map (\<lambda>r. (fr_tenant_id r, fr_finding_id r)) (db_findings d)) \<and>
     (\<forall>r \<in> set (db_findings d). 1 \<le> fr_row_id r)"

definition same_keys :: "finding_row \<Rightarrow> finding_row \<Rightarrow> bool" where
  "same_keys r r' \<longleftrightarrow> fr_row_id r' = fr_row_id r \<and> fr_tenant_id r' = fr_tenant_id r \<and>
     fr_finding_id r' = fr_finding_id r \<and> fr_fingerprint r' = fr_fingerprint r"

lemma same_keys_updates [simp]:
  "same_keys r (merged_row L m seen job ts r)" "same_keys r (raced_row L m seen ts r)"
  by (simp_all add: same_keys_def merged_row_def raced_row_def)

lemma set_row_findings:
  assumes "findings_ok d" and "r \<in> set (db_findings d)" and "same_keys r r'"
  shows "db_findings (set_row r' d) = map (\<lambda>x. if x = r then r' else x) (db_findings d)"
proof -
  have "(fr_row_id x = fr_row_id r) = (x = r)" if "x \<in> set (db_findings d)" for x
    using assms(1,2) that by (auto simp: findings_ok_def distinct_map inj_on_def)
  then show ?thesis using assms(3) by (auto simp: set_row_def upd_where_def same_keys_def)
qed

lemma map_replace: "k r' = k r \<Longrightarrow> map k (map (\<lambda>x. if x = r then r' else x) xs) = map k xs"
  by (induction xs) auto

lemma findings_ok_set_row [inv_intros]:
  assumes "findings_ok d" and "r \<in> set (db_findings d)" and "same_keys r r'"
  shows "findings_ok (set_row r' d)"
proof -
  have keys: "fr_row_id r' = fr_row_id r" "(fr_tenant_id r', fr_fingerprint r') = (fr_tenant_id r, fr_fingerprint r)"
    "(fr_tenant_id r', fr_finding_id r') = (fr_tenant_id r, fr_finding_id r)"
    using assms(3) by (simp_all add: same_keys_def)
  show ?thesis
    using assms(1,2) keys(1)
    unfolding findings_ok_def set_row_findings [OF assms]
    by (auto simp only: map_replace [where k = fr_row_id, OF keys(1)]
        map_replace [where k = "\<lambda>r. (fr_tenant_id r, fr_fingerprint r)", OF keys(2)]
        map_replace [where k = "\<lambda>r. (fr_tenant_id r, fr_finding_id r)", OF keys(3)] set_map split: if_splits)
qed

lemma next_row_id_fresh:
  assumes "findings_ok d"
  shows "1 \<le> next_row_id d" and "r \<in> set (db_findings d) \<Longrightarrow> fr_row_id r < next_row_id d"
proof -
  show less: "r \<in> set (db_findings d) \<Longrightarrow> fr_row_id r < next_row_id d" for r
    using sql_max_bound [of "fr_row_id r" "map fr_row_id (db_findings d)"] by (simp add: next_row_id_def)
  show "1 \<le> next_row_id d"
  proof (cases "db_findings d")
    case Nil
    then show ?thesis by (simp add: next_row_id_def coalesce_def)
  next
    case (Cons r rs)
    then have "r \<in> set (db_findings d)" by simp
    with less [of r] assms show ?thesis by (fastforce simp: findings_ok_def)
  qed
qed

lemma next_row_id_tenants [simp]: "next_row_id (d\<lparr>db_tenants := ts\<rparr>) = next_row_id d"
  by (simp add: next_row_id_def)

lemma findings_ok_tenants [simp]: "findings_ok (d\<lparr>db_tenants := ts\<rparr>) = findings_ok d"
  by (simp add: findings_ok_def)

lemma findings_ok_audits [simp]: "findings_ok (d\<lparr>db_audit_events := xs\<rparr>) = findings_ok d"
  by (simp add: findings_ok_def)

lemma findings_ok_insert [inv_intros]:
  assumes "findings_ok d" and "insert_finding r d = Inr d'" and "fr_row_id r = next_row_id d"
  shows "findings_ok d'"
proof -
  have new: "fr_row_id x \<noteq> fr_row_id r"
    "fr_tenant_id x = fr_tenant_id r \<Longrightarrow> fr_finding_id x \<noteq> fr_finding_id r \<and> fr_fingerprint x \<noteq> fr_fingerprint r"
    if "x \<in> set (db_findings d)" for x
    using assms(2) that by (auto simp: insert_finding_def split: if_splits)
  have "d' = d\<lparr>db_findings := db_findings d @ [r]\<rparr>"
    using assms(2) by (simp add: insert_finding_def split: if_splits)
  moreover have "fr_row_id r \<notin> fr_row_id ` set (db_findings d)"
    using new(1) by force
  moreover have "(fr_tenant_id r, fr_fingerprint r) \<notin> (\<lambda>r. (fr_tenant_id r, fr_fingerprint r)) ` set (db_findings d)"
    "(fr_tenant_id r, fr_finding_id r) \<notin> (\<lambda>r. (fr_tenant_id r, fr_finding_id r)) ` set (db_findings d)"
    using new(2) by force+
  ultimately show ?thesis
    using assms(1,3) next_row_id_fresh(1) [OF assms(1)] by (simp add: findings_ok_def)
qed

text \<open>What a successful store did: a new row at the end, or one row replaced.\<close>

lemma store_first_cases:
  assumes "store_first L H e t f job sel d = Inr (r, d')"
  obtains ts row where "sel = None" and "d' = d\<lparr>db_tenants := db_tenants d @ ts, db_findings := db_findings d @ [row]\<rparr>"
      and "insert_finding row (d\<lparr>db_tenants := db_tenants d @ ts\<rparr>) = Inr d'"
      and "fr_row_id row = next_row_id d" and "fr_tenant_id row = t"
      and "fr_fingerprint row = finding_fingerprint L H f"
  | ts row m where "sel = Some row" and "d' = set_row (merged_row L m (seen_at e f) job (now e) row) (d\<lparr>db_tenants := db_tenants d @ ts\<rparr>)"
proof -
  obtain d1 where d1: "ensure_tenant t (now e) d = Inr d1"
    using assms by (auto simp: store_first_def bind_exn_Inr)
  then obtain ts where ts: "d1 = d\<lparr>db_tenants := db_tenants d @ ts\<rparr>" using ensure_tenant_Inr by blast
  show ?thesis
  proof (cases sel)
    case None
    let ?row = "new_finding_row L t (finding_fingerprint L H f) f (seen_at e f) job (now e) (next_row_id d1)"
    have ins: "insert_finding ?row d1 = Inr d'"
      using assms d1 None by (auto simp: store_first_def bind_exn_Inr Let_def)
    then have "d' = d1\<lparr>db_findings := db_findings d1 @ [?row]\<rparr>" by (simp add: insert_finding_def split: if_splits)
    with None ins ts show ?thesis by (intro that(1) [where ts = ts and row = ?row]) (simp_all add: new_finding_row_def)
  next
    case (Some row)
    with assms d1 ts show ?thesis
      by (auto simp: store_first_def bind_exn_Inr Let_def intro: that(2))
  qed
qed

definition selected :: "finding_row option \<Rightarrow> string \<Rightarrow> database \<Rightarrow> bool" where
  "selected sel t d \<longleftrightarrow> (case sel of None \<Rightarrow> True | Some r \<Rightarrow> r \<in> set (db_findings d) \<and> fr_tenant_id r = t)"

lemma store_retry_cases:
  assumes "store_retry L H e t f d = Inr (r, d')"
  obtains row m where "row \<in> set (db_findings d)" and "fr_tenant_id row = t"
    and "d' = set_row (raced_row L m (seen_at e f) (now e) row) d"
  using assms
  by (auto simp: store_retry_def bind_exn_Inr Let_def has_fingerprint_def split: option.splits dest!: find_SomeD)

text \<open>A store is one of: nothing, the first transaction, the retry.\<close>

lemma store_selected_cases:
  assumes "store_selected L H e t f job sel d = (v, d')"
  obtains "d' = d" | r where "store_first L H e t f job sel d = Inr (r, d')" | r where "store_retry L H e t f d = Inr (r, d')"
proof (cases "store_first L H e t f job sel d")
  case (Inl x)
  with assms that show ?thesis
    by (cases "store_retry L H e t f d") (auto simp: store_selected_def split: if_splits)
next
  case (Inr p)
  with assms that show ?thesis by (cases p) (auto simp: store_selected_def)
qed

lemma findings_ok_store [inv_intros]:
  assumes "findings_ok d" and "selected sel t d"
  shows "findings_ok (snd (store_selected L H e t f job sel d))"
proof (cases "store_selected L H e t f job sel d")
  case (Pair v d')
  then show ?thesis
  proof (cases rule: store_selected_cases)
    case 1
    with Pair assms(1) show ?thesis by simp
  next
    case (2 r)
    then show ?thesis
    proof (cases rule: store_first_cases)
      case (1 ts row)
      have "findings_ok d'"
        using assms(1) 1(4) by (intro findings_ok_insert [OF _ 1(3)]) simp_all
      with Pair show ?thesis by simp
    next
      case (2 ts row m)
      with Pair assms show ?thesis
        by (simp add: selected_def findings_ok_set_row [where r = row])
    qed
  next
    case (3 r)
    then show ?thesis
    proof (cases rule: store_retry_cases)
      case (1 row m)
      with Pair assms(1) show ?thesis by (simp add: findings_ok_set_row [where r = row])
    qed
  qed
qed

text \<open>The rows of another tenant are the same before and after.\<close>

lemma filter_replace:
  "\<not> P r \<Longrightarrow> \<not> P r' \<Longrightarrow> filter P (map (\<lambda>x. if x = r then r' else x) xs) = filter P xs"
  by (induction xs) auto

lemma set_row_other_tenant:
  assumes "findings_ok d" and "r \<in> set (db_findings d)" and "same_keys r r'" and "fr_tenant_id r \<noteq> t'"
  shows "filter (\<lambda>x. fr_tenant_id x = t') (db_findings (set_row r' d)) =
    filter (\<lambda>x. fr_tenant_id x = t') (db_findings d)"
proof -
  have "fr_tenant_id r' \<noteq> t'" using assms(3,4) by (simp add: same_keys_def)
  then show ?thesis
    unfolding set_row_findings [OF assms(1-3)] using assms(4)
    by (intro filter_replace) simp_all
qed

definition rows_of :: "string \<Rightarrow> database \<Rightarrow> finding_row list" where
  "rows_of t d = filter (\<lambda>r. fr_tenant_id r = t) (db_findings d)"

lemma store_other_tenant:
  assumes "findings_ok d" and "selected sel t d" and "t' \<noteq> t"
  shows "rows_of t' (snd (store_selected L H e t f job sel d)) = rows_of t' d"
proof (cases "store_selected L H e t f job sel d")
  case (Pair v d')
  then show ?thesis
  proof (cases rule: store_selected_cases)
    case 1
    with Pair show ?thesis by simp
  next
    case (2 r)
    then show ?thesis
    proof (cases rule: store_first_cases)
      case (1 ts row)
      with Pair assms(3) show ?thesis by (simp add: rows_of_def)
    next
      case (2 ts row m)
      with Pair assms set_row_other_tenant [of "d\<lparr>db_tenants := db_tenants d @ ts\<rparr>" row] show ?thesis
        by (simp add: selected_def rows_of_def)
    qed
  next
    case (3 r)
    then show ?thesis
    proof (cases rule: store_retry_cases)
      case (1 row m)
      with Pair assms set_row_other_tenant [of d row] show ?thesis by (simp add: rows_of_def)
    qed
  qed
qed

text \<open>The lifecycle update keeps the table's constraints and adds one audit row.\<close>

lemma update_lifecycle_ok:
  assumes "findings_ok d" and "update_lifecycle L e t fid st a actor d = (Inr (Some r), d')"
  shows "findings_ok d' \<and> length (db_audit_events d') = Suc (length (db_audit_events d)) \<and>
    (t' \<noteq> t \<longrightarrow> rows_of t' d' = rows_of t' d)"
proof -
  obtain row x where row: "row \<in> set (db_findings d)" "fr_tenant_id row = t"
    and x: "insert_audit x (set_row (updated_row e st a row) d) = Inr d'"
    using assms(2)
    by (auto simp: update_lifecycle_def commit_Inr bind_exn_Inr split: option.splits dest!: find_SomeD)
  define row' where "row' = updated_row e st a row"
  have keys: "same_keys row row'" by (simp add: row'_def updated_row_def same_keys_def)
  have d': "d' = set_row row' d\<lparr>db_audit_events := db_audit_events (set_row row' d) @ [x]\<rparr>"
    using x by (simp add: insert_audit_Inr row'_def)
  have audits: "db_audit_events (set_row row' d) = db_audit_events d" by (simp add: set_row_def)
  have "findings_ok d'" using assms(1) row keys d' by (simp add: findings_ok_set_row [where r = row])
  moreover have "rows_of t' d' = rows_of t' d" if "t' \<noteq> t"
    using set_row_other_tenant [OF assms(1) row(1) keys, of t'] row(2) that d' by (simp add: rows_of_def)
  ultimately show ?thesis using d' audits by simp
qed

text \<open>What the update leaves: the row with the new columns, and the audit row.\<close>

lemma set_updated_row:
  assumes "findings_ok d" and "row \<in> set (db_findings d)"
  shows "set_row (updated_row e st a row) d =
    d\<lparr>db_findings := upd_where (\<lambda>x. fr_tenant_id x = fr_tenant_id row \<and> fr_finding_id x = fr_finding_id row)
      (updated_row e st a) (db_findings d)\<rparr>"
proof -
  have "x = row" if "x \<in> set (db_findings d)"
    and "fr_row_id x = fr_row_id row \<or> fr_tenant_id x = fr_tenant_id row \<and> fr_finding_id x = fr_finding_id row" for x
    using assms that by (auto simp: findings_ok_def distinct_map inj_on_def)
  then have "(if fr_row_id x = fr_row_id row then updated_row e st a row else x) =
      (if fr_tenant_id x = fr_tenant_id row \<and> fr_finding_id x = fr_finding_id row then updated_row e st a x else x)"
    if "x \<in> set (db_findings d)" for x using that by auto
  then have "upd_where (\<lambda>x. fr_row_id x = fr_row_id row) (\<lambda>_. updated_row e st a row) (db_findings d) =
      upd_where (\<lambda>x. fr_tenant_id x = fr_tenant_id row \<and> fr_finding_id x = fr_finding_id row) (updated_row e st a) (db_findings d)"
    unfolding upd_where_def by (rule map_cong [OF refl])
  moreover have "fr_row_id (updated_row e st a row) = fr_row_id row" by (simp add: updated_row_def)
  ultimately show ?thesis by (simp add: set_row_def)
qed

lemma update_lifecycle_Inr:
  assumes "findings_ok d" and "update_lifecycle L e t fid st a actor d = (Inr (Some r), d')"
  shows "\<exists>row \<in> set (db_findings d). fr_tenant_id row = t \<and> fr_finding_id row = fid \<and>
    record_from_row L (updated_row e st a row) = Inr r \<and>
    d' = d\<lparr>db_findings := upd_where (\<lambda>x. fr_tenant_id x = t \<and> fr_finding_id x = fid) (updated_row e st a) (db_findings d),
      db_audit_events := db_audit_events d @
        [\<lparr>a_id = ''audit_'' @ uuid e 0, a_tenant_id = t, a_actor = actor, a_action = ''finding.updated'',
          a_resource_type = ''finding'', a_resource_id = Some fid, a_request_id = None, a_outcome = ''success'',
          a_details = JObj (lifecycle_changes st a row), a_created_at = now e\<rparr>]\<rparr>"
proof -
  obtain row where row: "row \<in> set (db_findings d)" "fr_tenant_id row = t" "fr_finding_id row = fid"
      "record_from_row L (updated_row e st a row) = Inr r"
    and x: "insert_audit
        \<lparr>a_id = ''audit_'' @ uuid e 0, a_tenant_id = t, a_actor = actor, a_action = ''finding.updated'',
          a_resource_type = ''finding'', a_resource_id = Some fid, a_request_id = None, a_outcome = ''success'',
          a_details = JObj (lifecycle_changes st a row), a_created_at = now e\<rparr> (set_row (updated_row e st a row) d) = Inr d'"
    using assms(2)
    by (auto simp: update_lifecycle_def commit_Inr bind_exn_Inr split: option.splits dest!: find_SomeD)
  show ?thesis using x row set_updated_row [OF assms(1) row(1), of e st a]
    by (intro bexI [OF _ row(1)]) (simp add: insert_audit_Inr)
qed

section \<open>Merging\<close>

lemma dict_fromkeys_append:
  "dict_fromkeys (xs @ ys) = dict_fromkeys xs @ filter (\<lambda>y. y \<notin> set xs) (dict_fromkeys ys)"
  by (induction xs) (auto simp: conj_commute intro!: filter_cong)

lemma dict_fromkeys_append_left [simp]: "dict_fromkeys (dict_fromkeys xs @ ys) = dict_fromkeys (xs @ ys)"
  by (simp add: dict_fromkeys_append)

lemma dict_fromkeys_append_right [simp]: "dict_fromkeys (xs @ dict_fromkeys ys) = dict_fromkeys (xs @ ys)"
  by (simp add: dict_fromkeys_append)

lemma merge_severity: "f_severity (merge_findings a b) = max (f_severity a) (f_severity b)"
  by (auto simp: merge_findings_def max_def less_eq_finding_severity_def severity_rank_inj)

lemma merge_columns [simp]:
  "f_id (merge_findings a b) = f_id a" "f_confidence (merge_findings a b) = max (f_confidence a) (f_confidence b)"
  "f_evidence (merge_findings a b) = dict_fromkeys (f_evidence a @ f_evidence b)"
  "f_related (merge_findings a b) = dict_fromkeys (f_related a @ f_related b)"
  "f_tags (merge_findings a b) = f_tags a |\<union>| f_tags b" "f_source (merge_findings a b) = f_source b"
  "f_title (merge_findings a b) = f_title b" "f_host (merge_findings a b) = f_host b"
  "f_cve (merge_findings a b) = f_cve b" "f_metadata (merge_findings a b) = f_metadata b"
  "f_description (merge_findings a b) = f_description b" "f_ts (merge_findings a b) = f_ts b"
  by (simp_all add: merge_findings_def)

lemma merge_assoc: "merge_findings (merge_findings a b) c = merge_findings a (merge_findings b c)"
  by (intro finding.equality)
    (simp_all add: merge_severity max.assoc sup_assoc)

section \<open>Deduplication\<close>

text \<open>Storing when the fingerprint is known, and when it is new.\<close>

lemma store_known:
  assumes "find (has_fingerprint t (finding_fingerprint L H f)) (db_findings d) = Some row"
    and "finding_from_row L row = Inr old" and "dict_roundtrip L" and "get_tenant t d \<noteq> None"
  shows "store_finding L H e t f job d =
    (Inr (merge_findings old f), set_row (merged_row L (merge_findings old f) (seen_at e f) job (now e) row) d)"
  using assms
  by (auto simp: store_finding_def store_selected_def store_first_def ensure_tenant_cases Let_def
      finding_from_row_def merged_row_def dict_roundtrip_def)

lemma store_new:
  assumes "find (has_fingerprint t (finding_fingerprint L H f)) (db_findings d) = None"
    and "\<forall>r \<in> set (db_findings d). fr_tenant_id r = t \<longrightarrow> fr_finding_id r \<noteq> f_id f"
    and "dict_roundtrip L" and "get_tenant t d \<noteq> None" and "findings_ok d"
  shows "store_finding L H e t f job d =
    (Inr f, d\<lparr>db_findings := db_findings d @
      [new_finding_row L t (finding_fingerprint L H f) f (seen_at e f) job (now e) (next_row_id d)]\<rparr>)"
proof -
  let ?row = "new_finding_row L t (finding_fingerprint L H f) f (seen_at e f) job (now e) (next_row_id d)"
  have "insert_finding ?row d = Inr (d\<lparr>db_findings := db_findings d @ [?row]\<rparr>)"
    using assms(1,2,4) next_row_id_fresh(2) [OF assms(5)]
    by (fastforce simp: insert_finding_def new_finding_row_def find_None has_fingerprint_def)
  moreover have "finding_from_row L ?row = Inr f"
    using assms(3) by (simp add: finding_from_row_def new_finding_row_def dict_roundtrip_def)
  ultimately show ?thesis using assms(1,4)
    by (simp add: store_finding_def store_selected_def store_first_def ensure_tenant_cases Let_def)
qed

fun store_all ::
  "core_lib \<Rightarrow> hashing \<Rightarrow> string \<Rightarrow> (call_env \<times> finding \<times> string option) list \<Rightarrow> database \<Rightarrow> database" where
  "store_all L H t [] d = d"
| "store_all L H t ((e, f, job) # fs) d = store_all L H t fs (snd (store_finding L H e t f job d))"

text \<open>What the row of a fingerprint says after the findings \<open>fs\<close> were stored.\<close>

definition row_summary ::
  "core_lib \<Rightarrow> string \<Rightarrow> string \<Rightarrow> (call_env \<times> finding \<times> string option) list \<Rightarrow> finding_row \<Rightarrow> bool" where
  "row_summary L t fp fs r \<longleftrightarrow> has_fingerprint t fp r \<and>
     fr_finding_id r = f_id (fst (snd (hd fs))) \<and>
     finding_from_row L r = Inr (foldl merge_findings (fst (snd (hd fs))) (map (\<lambda>(e, f, jb). f) (tl fs))) \<and>
     fr_severity r = Max ((\<lambda>(e, f, jb). f_severity f) ` set fs) \<and>
     fr_first_seen r = Min ((\<lambda>(e, f, jb). seen_at e f) ` set fs) \<and>
     fr_last_seen r = Max ((\<lambda>(e, f, jb). seen_at e f) ` set fs) \<and>
     fr_occurrences r = int (length fs)"

lemma foldl_merge_severity:
  "f_severity (foldl merge_findings a fs) = Max (insert (f_severity a) (f_severity ` set fs))"
proof (induction fs arbitrary: a)
  case (Cons f fs)
  then have "f_severity (foldl merge_findings a (f # fs)) =
      Max (insert (max (f_severity a) (f_severity f)) (f_severity ` set fs))" by (simp add: merge_severity)
  also have "\<dots> = Max (insert (f_severity a) (insert (f_severity f) (f_severity ` set fs)))"
    by (cases "fs = []") (simp_all add: max.assoc)
  finally show ?case by simp
qed simp

lemma row_summary_new:
  "dict_roundtrip L \<Longrightarrow>
    row_summary L t fp [(e, f, job)] (new_finding_row L t fp f (seen_at e f) job (now e) n)"
  by (simp add: row_summary_def new_finding_row_def has_fingerprint_def finding_from_row_def dict_roundtrip_def)

lemma row_summary_step:
  assumes "row_summary L t fp fs r" and "fs \<noteq> []" and "dict_roundtrip L" and "finding_from_row L r = Inr old"
  shows "row_summary L t fp (fs @ [(e, f, job)]) (merged_row L (merge_findings old f) (seen_at e f) job (now e) r)"
proof -
  obtain e0 f0 j0 fs' where fs: "fs = (e0, f0, j0) # fs'" using assms(2) by (cases fs) auto
  have old: "old = foldl merge_findings f0 (map (\<lambda>(e, f, jb). f) fs')"
    using assms(1,4) fs by (simp add: row_summary_def)
  have "f_severity old = Max ((\<lambda>(e, f, jb). f_severity f) ` set fs)"
    unfolding old foldl_merge_severity fs by (simp add: image_image case_prod_beta)
  moreover have "finite ((\<lambda>(e, f, jb). f_severity f) ` set fs)" "(\<lambda>(e, f, jb). f_severity f) ` set fs \<noteq> {}"
    using fs by auto
  ultimately have sev: "f_severity (merge_findings old f) = Max ((\<lambda>(e, f, jb). f_severity f) ` set (fs @ [(e, f, job)]))"
    by (simp add: merge_severity max.commute)
  have "(\<lambda>(e, f, jb). seen_at e f) ` set fs \<noteq> {}" using fs by auto
  with assms(1) have seen: "min (fr_first_seen r) (seen_at e f) = Min ((\<lambda>(e, f, jb). seen_at e f) ` set (fs @ [(e, f, job)]))"
    "max (fr_last_seen r) (seen_at e f) = Max ((\<lambda>(e, f, jb). seen_at e f) ` set (fs @ [(e, f, job)]))"
    by (simp_all add: row_summary_def min.commute max.commute)
  have "finding_from_row L (merged_row L (merge_findings old f) (seen_at e f) job (now e) r) = Inr (merge_findings old f)"
    using assms(3) by (simp add: finding_from_row_def merged_row_def dict_roundtrip_def)
  with assms(1) fs old sev seen show ?thesis
    by (simp add: row_summary_def merged_row_def has_fingerprint_def)
qed

lemma set_row_last:
  assumes "findings_ok (d\<lparr>db_findings := rows @ [r]\<rparr>)" and "same_keys r r'"
  shows "set_row r' (d\<lparr>db_findings := rows @ [r]\<rparr>) = d\<lparr>db_findings := rows @ [r']\<rparr>"
proof -
  have "r \<notin> set rows" using assms(1) by (auto simp: findings_ok_def)
  then have "db_findings (set_row r' (d\<lparr>db_findings := rows @ [r]\<rparr>)) = rows @ [r']"
    using set_row_findings [OF assms(1) _ assms(2)] by (auto intro: map_idI)
  then show ?thesis by (simp add: set_row_def)
qed

lemma store_all_known:
  assumes "row_summary L t fp seen r" and "seen \<noteq> []" and "dict_roundtrip L"
    and "findings_ok (d\<lparr>db_findings := rows @ [r]\<rparr>)" and "get_tenant t d \<noteq> None"
    and "\<forall>x \<in> set rows. \<not> has_fingerprint t fp x"
    and "\<forall>(e, f, job) \<in> set fs. finding_fingerprint L H f = fp"
  shows "\<exists>r'. store_all L H t fs (d\<lparr>db_findings := rows @ [r]\<rparr>) = d\<lparr>db_findings := rows @ [r']\<rparr> \<and>
    row_summary L t fp (seen @ fs) r'"
  using assms(1,2,4,7)
proof (induction fs arbitrary: seen r)
  case Nil
  then show ?case by auto
next
  case (Cons x fs)
  obtain e f job where x: "x = (e, f, job)" by (cases x) auto
  let ?d = "d\<lparr>db_findings := rows @ [r]\<rparr>"
  have fp: "finding_fingerprint L H f = fp" using Cons.prems(4) x by simp
  obtain old where old: "finding_from_row L r = Inr old" using Cons.prems(1) by (auto simp: row_summary_def)
  let ?r = "merged_row L (merge_findings old f) (seen_at e f) job (now e) r"
  have "find (has_fingerprint t fp) rows = None" using assms(6) by (simp add: find_None)
  moreover have "has_fingerprint t fp r" using Cons.prems(1) by (simp add: row_summary_def)
  ultimately have found: "find (has_fingerprint t (finding_fingerprint L H f)) (db_findings ?d) = Some r"
    by (simp add: find_append fp)
  have "store_finding L H e t f job ?d = (Inr (merge_findings old f), set_row ?r ?d)"
    using assms(5) by (intro store_known [OF found old assms(3)]) simp
  moreover have "set_row ?r ?d = d\<lparr>db_findings := rows @ [?r]\<rparr>"
    using Cons.prems(3) by (intro set_row_last) simp_all
  moreover have "findings_ok (d\<lparr>db_findings := rows @ [?r]\<rparr>)"
    using findings_ok_set_row [OF Cons.prems(3), of r ?r] calculation(2) by simp
  moreover have "row_summary L t fp (seen @ [x]) ?r"
    unfolding x using Cons.prems(1,2) assms(3) old by (rule row_summary_step)
  ultimately show ?case
    using Cons.IH [of "seen @ [x]" ?r] Cons.prems(4) x by simp
qed

text \<open>All findings of one fingerprint end in one new row that sums them up.\<close>

lemma store_all_dedup:
  assumes "fs \<noteq> []" and "\<forall>(e, f, job) \<in> set fs. finding_fingerprint L H f = fp"
    and "dict_roundtrip L" and "findings_ok d" and "get_tenant t d \<noteq> None"
    and "\<forall>x \<in> set (db_findings d). \<not> has_fingerprint t fp x"
    and "\<forall>x \<in> set (db_findings d). fr_tenant_id x = t \<longrightarrow> fr_finding_id x \<noteq> f_id (fst (snd (hd fs)))"
  shows "\<exists>r. db_findings (store_all L H t fs d) = db_findings d @ [r] \<and> row_summary L t fp fs r"
proof -
  obtain e f job fs' where fs: "fs = (e, f, job) # fs'" using assms(1) by (cases fs) auto
  have fp: "finding_fingerprint L H f = fp" using assms(2) fs by simp
  let ?row = "new_finding_row L t fp f (seen_at e f) job (now e) (next_row_id d)"
  let ?d = "d\<lparr>db_findings := db_findings d @ [?row]\<rparr>"
  have new: "store_finding L H e t f job d = (Inr f, ?d)"
    using store_new [of t L H f d] assms(3-7) fp fs by (simp add: find_None)
  have "selected (find (has_fingerprint t (finding_fingerprint L H f)) (db_findings d)) t d"
    using assms(6) fp by (simp add: selected_def find_None split: option.split)
      (metis find_None option.distinct(1))
  then have "findings_ok (snd (store_finding L H e t f job d))"
    unfolding store_finding_def using assms(4) by (intro findings_ok_store)
  then have ok: "findings_ok ?d" by (simp add: new)
  have "row_summary L t fp [(e, f, job)] ?row" using assms(3) by (rule row_summary_new)
  from store_all_known [OF this _ assms(3) ok assms(5,6), where fs = fs' and H = H] assms(2) fs new
  obtain r' where "store_all L H t fs d = d\<lparr>db_findings := db_findings d @ [r']\<rparr>"
    "row_summary L t fp ([(e, f, job)] @ fs') r'" by auto
  then show ?thesis using fs by auto
qed

section \<open>Pages\<close>

text \<open>Following the cursors from the first page on; the first argument bounds the pages.\<close>

fun all_pages ::
  "nat \<Rightarrow> core_lib \<Rightarrow> string \<Rightarrow> int \<Rightarrow> page_filter \<Rightarrow> database \<Rightarrow> string option \<Rightarrow> exn + lifecycle_record list" where
  "all_pages 0 L t limit q d c = Inr []"
| "all_pages (Suc k) L t limit q d c =
     bind_exn (list_page L t c limit q d) (\<lambda>(rs, more).
       case more of
         None \<Rightarrow> Inr rs
       | Some c' \<Rightarrow> bind_exn (all_pages k L t limit q d (Some c')) (\<lambda>rest. Inr (rs @ rest)))"

definition descending :: "finding_row list \<Rightarrow> bool" where
  "descending rs \<longleftrightarrow> sorted_wrt (\<lambda>x y. fr_row_id y < fr_row_id x) rs"

lemma page_rows_descending:
  assumes "findings_ok d"
  shows "descending (page_rows t q d)"
proof -
  let ?rs = "filter (page_matches t q) (db_findings d)"
  let ?s = "sort_key fr_row_id ?rs"
  have "distinct (map fr_row_id ?rs)"
    using assms by (auto simp: findings_ok_def distinct_map inj_on_def)
  moreover have "mset (map fr_row_id ?s) = mset (map fr_row_id ?rs)" by simp
  ultimately have dist: "distinct (map fr_row_id ?s)" using mset_eq_imp_distinct_iff by metis
  have "sorted_wrt (\<lambda>x y. fr_row_id x \<le> fr_row_id y) ?s"
    using sorted_sort_key [of fr_row_id ?rs] by (simp add: sorted_map)
  with dist have "sorted_wrt (\<lambda>x y. fr_row_id x < fr_row_id y) ?s"
    by (auto simp: sorted_wrt_iff_nth_less distinct_conv_nth order_less_le)
  then show ?thesis by (simp add: page_rows_def descending_def sorted_wrt_rev)
qed

lemma set_page_rows: "set (page_rows t q d) = {r \<in> set (db_findings d). page_matches t q r}"
  by (auto simp: page_rows_def)

lemma filter_below:
  assumes "descending (xs @ r # ys)"
  shows "filter (\<lambda>x. fr_row_id x < fr_row_id r) (xs @ r # ys) = ys"
proof -
  have "\<forall>x \<in> set xs. fr_row_id r < fr_row_id x" "\<forall>x \<in> set ys. fr_row_id x < fr_row_id r"
    using assms by (auto simp: descending_def sorted_wrt_append)
  then show ?thesis by (auto simp: filter_empty_conv filter_id_conv)
qed

lemma all_results_append:
  "all_results f (xs @ ys) = Inr zs \<longleftrightarrow>
    (\<exists>as bs. all_results f xs = Inr as \<and> all_results f ys = Inr bs \<and> zs = as @ bs)"
proof (induction xs arbitrary: zs)
  case (Cons x xs)
  then show ?case by (cases "f x") (auto simp: bind_exn_Inr)
qed simp

text \<open>One page of the rows that are left: its records, and the cursor of its last row.\<close>

lemma list_page_rows:
  assumes "0 < limit"
    and "(case cursor of None \<Rightarrow> Inr None | Some c \<Rightarrow> bind_exn (decode_cursor c) (\<lambda>n. Inr (Some n))) = Inr below"
    and "filter (\<lambda>r. opt_matches below (\<lambda>n. fr_row_id r < n)) (page_rows t q d) = ys"
    and "all_results (record_from_row L) (take (nat limit) ys) = Inr recs"
  shows "list_page L t cursor limit q d =
    Inr (recs, if nat limit < length ys then Some (encode_cursor (fr_row_id (last (take (nat limit) ys)))) else None)"
proof -
  have take: "sql_limit (limit + 1) ys = take (Suc (nat limit)) ys"
    using assms(1) by (simp add: sql_limit_def nat_add_distrib)
  have page: "py_prefix limit (take (Suc (nat limit)) ys) = take (nat limit) ys"
    using assms(1) by (simp add: py_prefix_def min_def)
  have more: "limit < int (length (take (Suc (nat limit)) ys)) \<longleftrightarrow> nat limit < length ys"
    using assms(1) by (auto simp: min_def)
  show ?thesis
    unfolding list_page_def assms(2) bind_exn_simps Let_def assms(3) take page more assms(4)
    using assms(1) by (cases ys) auto
qed

lemma all_pages_from:
  assumes "0 < limit" and "descending (xs @ ys)" and "page_rows t q d = xs @ ys"
    and "\<forall>r \<in> set (xs @ ys). 1 \<le> fr_row_id r \<and> fr_row_id r < 10 ^ int_max_str_digits"
    and "all_results (record_from_row L) ys = Inr recs"
    and "cursor = (if xs = [] then None else Some (encode_cursor (fr_row_id (last xs))))"
    and "length ys < k"
  shows "all_pages k L t limit q d cursor = Inr recs"
  using assms(2-)
proof (induction k arbitrary: xs ys recs cursor)
  case 0
  then show ?case by simp
next
  case (Suc k)
  let ?page = "take (nat limit) ys"
  obtain below where below:
    "(case cursor of None \<Rightarrow> Inr None | Some c \<Rightarrow> bind_exn (decode_cursor c) (\<lambda>n. Inr (Some n))) = Inr below"
    "filter (\<lambda>r. opt_matches below (\<lambda>n. fr_row_id r < n)) (page_rows t q d) = ys"
  proof (cases xs rule: rev_cases)
    case Nil
    with Suc.prems that [of None] show ?thesis by (simp add: opt_matches_def)
  next
    case (snoc us r)
    have "decode_cursor (encode_cursor (fr_row_id r)) = Inr (fr_row_id r)"
      using Suc.prems(3) snoc by (intro decode_encode_cursor) auto
    moreover have "filter (\<lambda>x. fr_row_id x < fr_row_id r) (page_rows t q d) = ys"
      using filter_below [of us r ys] Suc.prems(1,2) snoc by simp
    ultimately show ?thesis using snoc Suc.prems(5) that [of "Some (fr_row_id r)"]
      by (simp add: opt_matches_def)
  qed
  have "all_results (record_from_row L) (?page @ drop (nat limit) ys) = Inr recs"
    using Suc.prems(4) by simp
  then obtain r1 r2 where recs: "all_results (record_from_row L) ?page = Inr r1"
    "all_results (record_from_row L) (drop (nat limit) ys) = Inr r2" "recs = r1 @ r2"
    unfolding all_results_append by blast
  note page = list_page_rows [OF assms(1) below recs(1)]
  show ?case
  proof (cases "nat limit < length ys")
    case False
    then have "drop (nat limit) ys = []" by simp
    with recs have "recs = r1" by simp
    with page False show ?thesis by simp
  next
    case True
    have "?page \<noteq> []" using True assms(1) by (cases ys) auto
    have "all_pages k L t limit q d (Some (encode_cursor (fr_row_id (last ?page)))) = Inr r2"
    proof (rule Suc.IH [where xs = "xs @ ?page" and ys = "drop (nat limit) ys"])
      show "descending ((xs @ ?page) @ drop (nat limit) ys)" "page_rows t q d = (xs @ ?page) @ drop (nat limit) ys"
        "\<forall>r \<in> set ((xs @ ?page) @ drop (nat limit) ys). 1 \<le> fr_row_id r \<and> fr_row_id r < 10 ^ int_max_str_digits"
        using Suc.prems(1-3) by (simp_all only: append_assoc append_take_drop_id)
      show "Some (encode_cursor (fr_row_id (last ?page))) =
          (if xs @ ?page = [] then None else Some (encode_cursor (fr_row_id (last (xs @ ?page)))))"
        using \<open>?page \<noteq> []\<close> by simp
      show "length (drop (nat limit) ys) < k" using Suc.prems(6) True assms(1) by simp
    qed (fact recs(2))
    with page True recs(3) show ?thesis by simp
  qed
qed

section \<open>The registry and the jobs\<close>

lemma insert_links_frame:
  "insert_links t c fs d = Inr d' \<Longrightarrow> \<exists>ls. d' = d\<lparr>db_correlation_findings := db_correlation_findings d @ ls\<rparr>"
proof (induction fs arbitrary: d)
  case Nil
  then show ?case by (auto intro: exI [of _ "[]"])
next
  case (Cons f fs)
  then obtain d1 where "insert_correlation_finding \<lparr>cf_tenant_id = t, cf_correlation_id = c, cf_finding_id = f\<rparr> d = Inr d1"
    "insert_links t c fs d1 = Inr d'" by (auto simp: bind_exn_Inr)
  with Cons.IH [of d1] show ?case by (auto simp: insert_correlation_finding_def split: if_splits)
qed

text \<open>Writes to findings and correlations, and new tenants, keep what the job repository needs.\<close>

definition jobs_frame :: "database \<Rightarrow> database \<Rightarrow> bool" where
  "jobs_frame d d' \<longleftrightarrow> db_jobs d' = db_jobs d \<and> db_job_events d' = db_job_events d \<and>
     (\<forall>t. get_tenant t d \<noteq> None \<longrightarrow> get_tenant t d' \<noteq> None)"

lemma jobs_frame_refl [simp]: "jobs_frame d d"
  by (simp add: jobs_frame_def)

lemma jobs_frame_keeps: "sa_invar d \<Longrightarrow> jobs_frame d d' \<Longrightarrow> sa_invar d' \<and> sa_view d' = sa_view d"
  by (auto simp: jobs_frame_def sa_invar_def sa_view_def)

lemma jobs_frame_set_row: "jobs_frame d (set_row r (d\<lparr>db_tenants := db_tenants d @ ts\<rparr>))" "jobs_frame d (set_row r d)"
  by (auto simp: jobs_frame_def set_row_def get_tenant_def find_append split: option.split)

lemma jobs_frame_insert: "jobs_frame d (d\<lparr>db_tenants := db_tenants d @ ts, db_findings := rows\<rparr>)"
  by (auto simp: jobs_frame_def get_tenant_def find_append split: option.split)

lemma store_frame: "jobs_frame d (snd (store_selected L H e t f job sel d))"
proof -
  obtain v d' where res: "store_selected L H e t f job sel d = (v, d')" by fastforce
  then have "jobs_frame d d'"
  proof (cases rule: store_selected_cases)
    case (2 r)
    then show ?thesis by (cases rule: store_first_cases) (simp_all add: jobs_frame_set_row jobs_frame_insert)
  next
    case (3 r)
    then show ?thesis by (cases rule: store_retry_cases) (simp add: jobs_frame_set_row)
  qed simp
  with res show ?thesis by simp
qed

lemma add_correlation_frame: "jobs_frame d (snd (add_correlation L e t c d))"
proof (cases "add_correlation L e t c d")
  case (Pair v d')
  show ?thesis
  proof (cases v)
    case (Inl x)
    with Pair show ?thesis by (auto simp: add_correlation_def Let_def commit_def split: sum.splits)
  next
    case (Inr u)
    with Pair obtain d1 d2 where "ensure_tenant t (now e) d = Inr d1"
      and d2: "insert_correlation \<lparr>cr_id = ''corr_'' @ uuid e 0, cr_tenant_id = t, cr_rule_id = c_rule_id c,
          cr_rule_version = ''1'', cr_severity = severity_value L (c_severity c), cr_narrative = c_narrative c,
          cr_created_at = now e\<rparr> d1 = Inr d2" "insert_links t (''corr_'' @ uuid e 0) (c_findings c) d2 = Inr d'"
      by (simp add: add_correlation_def Let_def commit_Inr bind_exn_Inr del: append_Cons) blast
    then obtain new where "d1 = d\<lparr>db_tenants := db_tenants d @ new\<rparr>" using ensure_tenant_Inr by blast
    with d2(1) insert_links_frame [OF d2(2)] Pair show ?thesis
      by (auto simp: insert_correlation_def jobs_frame_def get_tenant_def find_append split: if_splits option.split)
  qed
qed

text \<open>The executor of the deployment: relational repository and registry.\<close>

definition deployed :: "core_lib \<Rightarrow> hashing \<Rightarrow> database executor \<Rightarrow> bool" where
  "deployed L H X \<longleftrightarrow> ex_repository X = sqlalchemy_repository L \<and> ex_registry X = sqlalchemy_registry L H \<and>
     1 \<le> ex_max_attempts X"

interpretation sqlalchemy_executor:
  executor_client "sqlalchemy_repository L" sa_invar sa_view sa_ready "sqlalchemy_registry L H" for L H
proof (unfold_locales, goal_cases)
  case (1 s e c f jb)
  have "snd (rg_add_for_job (sqlalchemy_registry L H) e c f jb s) = snd (store_finding L H e c f jb s)"
    by (simp add: sqlalchemy_registry_def split: sum.split prod.split)
  then show ?case using jobs_frame_keeps [OF 1 store_frame] by (simp add: store_finding_def)
next
  case (2 s e c co)
  then show ?case using jobs_frame_keeps [OF 2 add_correlation_frame] by (simp add: sqlalchemy_registry_def)
qed

end
