(* ===== verification/Identity_Proofs.thy ===== *)
theory Identity_Proofs
  imports Identity
begin

text \<open>
  Facts about the identity repository: stored secrets verify exactly the secret they were
  made from (up to collisions of scrypt), an issued key or session authenticates until it
  expires, and over any sequence of calls revocation is permanent, the lifetime of a session
  is bounded, and a user is unique for an issuer and subject.
\<close>

section \<open>Secrets\<close>

lemma b64_no_dollar: "CHR ''$'' \<notin> set (b64_unpadded bs)"
  using b64_unpadded_chars b64_char_not_dollar by fastforce

lemma split_dollar: "CHR ''$'' \<notin> set a \<Longrightarrow> split_max (CHR ''$'') (Suc n) (a @ CHR ''$'' # b) = a # split_max (CHR ''$'') n b"
  by (simp add: partition_at_notin)

lemma py_str_int_digits: "0 \<le> i \<Longrightarrow> c \<in> set (py_str_int i) \<Longrightarrow> is_digit c"
  by (auto simp: py_str_int_def dest: nat_digits_are_digits)

lemma digits_no_dollar: "0 \<le> i \<Longrightarrow> CHR ''$'' \<notin> set (py_str_int i)"
  by (auto dest!: py_str_int_digits simp: is_digit_def)

lemma py_int_str_int:
  assumes "0 \<le> i" and "i < 10 ^ int_max_str_digits"
  shows "py_int (py_str_int i) = Some i"
proof -
  have "nat i < 10 ^ int_max_str_digits"
    using assms by (metis nat_less_iff of_nat_numeral of_nat_power)
  with assms(1) show ?thesis by (simp add: py_str_int_def py_int_nat_digits)
qed

lemma small_cost: "k < 100000 \<Longrightarrow> k < (10::int) ^ int_max_str_digits"
proof -
  assume "k < 100000"
  also have "(100000::int) = 10 ^ 5" by simp
  also have "\<dots> \<le> 10 ^ int_max_str_digits"
    by (rule power_increasing) (simp_all add: int_max_str_digits_def)
  finally show ?thesis .
qed

lemma hash_secret_parts:
  "split_max (CHR ''$'') 5 (hash_secret C salt secret) =
    [''scrypt'', py_str_int scrypt_n, py_str_int scrypt_r, py_str_int scrypt_p, b64_unpadded salt,
     b64_unpadded (scrypt_digest C secret salt)]"
proof -
  have "hash_secret C salt secret = ''scrypt'' @ CHR ''$'' # py_str_int scrypt_n @ CHR ''$'' # py_str_int scrypt_r @
      CHR ''$'' # py_str_int scrypt_p @ CHR ''$'' # b64_unpadded salt @ CHR ''$'' # b64_unpadded (scrypt_digest C secret salt)"
    by (simp add: hash_secret_def)
  moreover have "CHR ''$'' \<notin> set (py_str_int scrypt_n)" "CHR ''$'' \<notin> set (py_str_int scrypt_r)"
    "CHR ''$'' \<notin> set (py_str_int scrypt_p)"
    by (simp_all add: digits_no_dollar scrypt_n_def scrypt_r_def scrypt_p_def)
  moreover have "CHR ''$'' \<notin> set ''scrypt''" by simp
  moreover have "(5::nat) = Suc (Suc (Suc (Suc (Suc 0))))" by simp
  ultimately show ?thesis
    using b64_no_dollar [of salt] by (simp only: split_dollar split_max.simps(1) not_False_eq_True)
qed

lemma verify_hash_secret:
  "verify_secret C s (hash_secret C salt s') \<longleftrightarrow> scrypt_digest C s salt = scrypt_digest C s' salt"
proof -
  have "py_int (py_str_int scrypt_n) = Some scrypt_n" "py_int (py_str_int scrypt_r) = Some scrypt_r"
    "py_int (py_str_int scrypt_p) = Some scrypt_p"
    by (intro py_int_str_int small_cost; simp add: scrypt_n_def scrypt_r_def scrypt_p_def)+
  then show ?thesis
    unfolding verify_secret_def hash_secret_parts by (simp add: b64_roundtrip)
qed

section \<open>Tokens\<close>

text \<open>The documented shape of what the \<^verbatim>\<open>secrets\<close> module draws.\<close>

definition env_shape :: "secret_env \<Rightarrow> bool" where
  "env_shape e \<longleftrightarrow> length (token_hex e) = 24 \<and> list_all is_hex_lower (token_hex e) \<and>
     length (token_urlsafe e) = 43 \<and> list_all url_token_char (token_urlsafe e)"

lemma hex_no_dot: "list_all is_hex_lower s \<Longrightarrow> CHR ''.'' \<notin> set s"
  by (auto simp: list_all_iff is_hex_lower_def is_digit_def)

lemma parse_key_issued:
  assumes "env_shape e" and "length p = 4" and "CHR ''.'' \<notin> set p"
  shows "parse_key p (p @ token_hex e @ ''.'' @ token_urlsafe e) = Some (p @ token_hex e, token_urlsafe e)"
proof -
  have "CHR ''.'' \<notin> set (p @ token_hex e)"
    using assms hex_no_dot [of "token_hex e"] by (simp add: env_shape_def)
  then have "partition_at (CHR ''.'') ((p @ token_hex e) @ CHR ''.'' # token_urlsafe e) =
      (p @ token_hex e, True, token_urlsafe e)" by (rule partition_at_notin)
  moreover have "is_key_prefix p (p @ token_hex e)" using assms by (simp add: is_key_prefix_def env_shape_def)
  ultimately show ?thesis using assms by (simp add: parse_key_def env_shape_def)
qed

lemma session_token_issued: "env_shape e \<Longrightarrow> is_session_token (''igs_'' @ token_urlsafe e)"
  by (simp add: is_session_token_def env_shape_def startswith_def)

section \<open>What an issued key is good for\<close>

lemma insert_api_key_Inr:
  "insert_api_key r d = Inr d' \<longleftrightarrow>
     (\<forall>x \<in> set (db_api_keys d). k_id x \<noteq> k_id r \<and> k_key_prefix x \<noteq> k_key_prefix r) \<and>
     get_tenant (k_tenant_id r) d \<noteq> None \<and> d' = d\<lparr>db_api_keys := db_api_keys d @ [r]\<rparr>"
  by (auto simp: insert_api_key_def)

lemma issue_api_key_Inr:
  assumes "issue_api_key C e t role scopes expires actor d = (Inr k, d')"
  obtains scs expiry a where "normalize_scopes scopes = Inr scs" and "normalize_expiry expires = Inr expiry"
    and "role \<in> set roles" and "case expiry of None \<Rightarrow> True | Some x \<Rightarrow> now e < x"
    and "\<exists>tenant. get_tenant t d = Some tenant \<and> t_status tenant = ''active''"
    and "\<forall>x \<in> set (db_api_keys d). k_id x \<noteq> ''key_'' @ uuid e 0 \<and> k_key_prefix x \<noteq> ''igw_'' @ token_hex e"
    and "k = \<lparr>ik_id = ''key_'' @ uuid e 0, ik_tenant_id = t, ik_role = role, ik_scopes = scs,
      ik_expires_at = expiry, ik_token = ''igw_'' @ token_hex e @ ''.'' @ token_urlsafe e\<rparr>"
    and "d' = d\<lparr>db_api_keys := db_api_keys d @
      [\<lparr>k_id = ''key_'' @ uuid e 0, k_tenant_id = t, k_key_prefix = ''igw_'' @ token_hex e,
        k_secret_hash = hash_secret C (token_salt e) (token_urlsafe e), k_role = role, k_scopes = scs,
        k_expires_at = expiry, k_revoked_at = None, k_created_at = now e\<rparr>],
      db_audit_events := db_audit_events d @ [a]\<rparr>"
proof -
  from assms obtain scs expiry where step: "role \<in> set roles" "normalize_scopes scopes = Inr scs"
    "normalize_expiry expires = Inr expiry" "\<not> (case expiry of None \<Rightarrow> False | Some x \<Rightarrow> x \<le> now e)"
    by (auto simp: issue_api_key_def commit_Inr bind_exn_Inr validate_role_def Let_def split: if_splits)
  show ?thesis
    using assms step
    by (intro that [of scs expiry])
      (auto simp: issue_api_key_def commit_Inr bind_exn_Inr validate_role_def Let_def insert_api_key_Inr
        identity_audit_def insert_audit_Inr split: option.splits if_splits)
qed

text \<open>Right after it was issued, a key authenticates until it expires.\<close>

lemma issued_key_authenticates:
  assumes "issue_api_key C e t role scopes expires actor d = (Inr k, d')" and "env_shape e"
  shows "authenticate_api_key C e' (ik_token k) d' =
    (if (case ik_expires_at k of None \<Rightarrow> False | Some x \<Rightarrow> x \<le> now e') then None
     else Some \<lparr>ap_tenant_id = t, ap_role = role, ap_scopes = ik_scopes k, ap_api_key_id = ik_id k\<rparr>)"
  using assms(1)
proof (cases rule: issue_api_key_Inr)
  case (1 scs expiry a)
  let ?row = "\<lparr>k_id = ''key_'' @ uuid e 0, k_tenant_id = t, k_key_prefix = ''igw_'' @ token_hex e,
    k_secret_hash = hash_secret C (token_salt e) (token_urlsafe e), k_role = role, k_scopes = scs,
    k_expires_at = expiry, k_revoked_at = None, k_created_at = now e\<rparr>"
  have parsed: "parse_api_key (ik_token k) = Some (''igw_'' @ token_hex e, token_urlsafe e)"
    unfolding parse_api_key_def 1(7) using parse_key_issued [OF assms(2), of "''igw_''"] by simp
  have keys: "db_api_keys d' = db_api_keys d @ [?row]" using 1(8) by simp
  have "find (has_prefix (''igw_'' @ token_hex e)) (db_api_keys d) = None"
    using 1(6) by (simp add: find_None has_prefix_def)
  then have found: "find (has_prefix (''igw_'' @ token_hex e)) (db_api_keys d') = Some ?row"
    by (simp add: keys find_append has_prefix_def)
  have "get_tenant t d' = get_tenant t d" using 1(8) by simp
  with 1(3,5) have usable: "api_key_usable (now e') ?row d' \<longleftrightarrow>
      \<not> (case expiry of None \<Rightarrow> False | Some x \<Rightarrow> x \<le> now e')"
    by (auto simp: api_key_usable_def split: option.split)
  show ?thesis
    unfolding authenticate_api_key_def parsed option.case prod.case found
    using usable 1(7) by (auto simp: verify_hash_secret)
qed

section \<open>Runs\<close>

datatype identity_call =
    Id_create_tenant call_env string string string int string
  | Id_set_tenant_status call_env string string string
  | Id_upsert_user call_env string string "string option" "string option"
  | Id_set_membership call_env string string string string
  | Id_set_membership_status call_env string string string string
  | Id_record_auth_event call_env string string string string "string option" json
  | Id_issue_api_key crypto secret_env string string "string list" "py_datetime option" string
  | Id_revoke_api_key call_env string string string
  | Id_issue_client crypto secret_env string "string list"
  | Id_rotate_client crypto secret_env string
  | Id_authenticate_client crypto call_env string "string option"
  | Id_revoke_client call_env string
  | Id_issue_session crypto secret_env string string string int string "string option"
  | Id_authenticate_session crypto call_env string
  | Id_revoke_session call_env string string string "string option"
  | Id_cleanup call_env "py_datetime option"

fun identity_perform :: "identity_call \<Rightarrow> database \<Rightarrow> database" where
  "identity_perform (Id_create_tenant e t slug name days actor) d = snd (create_tenant e t slug name days actor d)"
| "identity_perform (Id_set_tenant_status e t st actor) d = snd (set_tenant_status e t st actor d)"
| "identity_perform (Id_upsert_user e i s m n) d = snd (upsert_user e i s m n d)"
| "identity_perform (Id_set_membership e t u r actor) d = snd (set_membership e t u r actor d)"
| "identity_perform (Id_set_membership_status e t u st actor) d = snd (set_membership_status e t u st actor d)"
| "identity_perform (Id_record_auth_event e t actor a out rq j) d = snd (record_auth_event e t actor a out rq j d)"
| "identity_perform (Id_issue_api_key C e t r scs x actor) d = snd (issue_api_key C e t r scs x actor d)"
| "identity_perform (Id_revoke_api_key e t i actor) d = snd (revoke_api_key e t i actor d)"
| "identity_perform (Id_issue_client C e n is) d = snd (issue_identity_client C e n is d)"
| "identity_perform (Id_rotate_client C e i) d = snd (rotate_identity_client C e i d)"
| "identity_perform (Id_authenticate_client C e tok i) d = snd (authenticate_identity_client C e tok i d)"
| "identity_perform (Id_revoke_client e i) d = snd (revoke_identity_client e i d)"
| "identity_perform (Id_issue_session C e i t u n actor rq) d = snd (issue_user_session C e i t u n actor rq d)"
| "identity_perform (Id_authenticate_session C e tok) d = snd (authenticate_user_session C e tok d)"
| "identity_perform (Id_revoke_session e t i actor rq) d = snd (revoke_user_session e t i actor rq d)"
| "identity_perform (Id_cleanup e b) d = snd (cleanup_expired_user_sessions e b d)"

definition identity_run :: "identity_call list \<Rightarrow> database \<Rightarrow> database" where
  "identity_run cs d = fold identity_perform cs d"

text \<open>What a committed transaction does to a table, from what it does when it returns.\<close>

lemma commit_preserves:
  assumes "P d" and "\<And>v d'. m = Inr (v, d') \<Longrightarrow> P d'"
  shows "P (snd (commit m d))"
  using assms by (cases m) (auto simp: commit_def)

text \<open>How a call changes the three tables of credentials.\<close>

definition keys_step :: "database \<Rightarrow> database \<Rightarrow> bool" where
  "keys_step d d' \<longleftrightarrow> db_api_keys d' = db_api_keys d \<or>
     (\<exists>r. db_api_keys d' = db_api_keys d @ [r] \<and> (\<forall>x \<in> set (db_api_keys d). k_id x \<noteq> k_id r)) \<or>
     (\<exists>P ts. db_api_keys d' = upd_where P (\<lambda>r. r\<lparr>k_revoked_at := Some ts\<rparr>) (db_api_keys d))"

definition clients_step :: "database \<Rightarrow> database \<Rightarrow> bool" where
  "clients_step d d' \<longleftrightarrow> db_clients d' = db_clients d \<or>
     (\<exists>r. db_clients d' = db_clients d @ [r] \<and> (\<forall>x \<in> set (db_clients d). i_id x \<noteq> i_id r)) \<or>
     (\<exists>P a b. db_clients d' = upd_where P (\<lambda>r. r\<lparr>i_last_used_at := a, i_updated_at := b\<rparr>) (db_clients d)) \<or>
     (\<exists>P ts. db_clients d' = upd_where P
        (\<lambda>r. r\<lparr>i_active := False, i_revoked_at := Some ts, i_updated_at := ts\<rparr>) (db_clients d))"

definition sessions_step :: "database \<Rightarrow> database \<Rightarrow> bool" where
  "sessions_step d d' \<longleftrightarrow> db_sessions d' = db_sessions d \<or>
     (\<exists>r. db_sessions d' = db_sessions d @ [r] \<and>
        (\<forall>x \<in> set (db_sessions d). s_id x \<noteq> s_id r \<and> s_token_hash x \<noteq> s_token_hash r) \<and>
        s_expires_at r \<le> s_created_at r + max_session_ttl * 1000000) \<or>
     (\<exists>P a. db_sessions d' = upd_where P (\<lambda>r. r\<lparr>s_last_seen_at := a\<rparr>) (db_sessions d)) \<or>
     (\<exists>P ts. db_sessions d' = upd_where P (\<lambda>r. r\<lparr>s_revoked_at := Some ts\<rparr>) (db_sessions d)) \<or>
     (\<exists>P. db_sessions d' = filter P (db_sessions d))"

definition credentials_step :: "database \<Rightarrow> database \<Rightarrow> bool" where
  "credentials_step d d' \<longleftrightarrow> keys_step d d' \<and> clients_step d d' \<and> sessions_step d d'"

lemma credentials_same:
  "db_api_keys d' = db_api_keys d \<Longrightarrow> db_clients d' = db_clients d \<Longrightarrow> db_sessions d' = db_sessions d \<Longrightarrow>
    credentials_step d d'"
  by (simp add: credentials_step_def keys_step_def clients_step_def sessions_step_def)

lemmas step_inversion = commit_Inr bind_exn_Inr Let_def identity_audit_def insert_audit_Inr

lemma tenant_calls_step:
  "credentials_step d (snd (create_tenant e t slug name days actor d))"
  "credentials_step d (snd (set_tenant_status e t st actor d))"
  "credentials_step d (snd (record_auth_event e t actor a out rq j d))"
  unfolding create_tenant_def set_tenant_status_def record_auth_event_def
  by (rule commit_preserves; force intro!: credentials_same simp: step_inversion insert_tenant_Inr
      split: if_splits option.splits)+

lemma membership_calls_step:
  "credentials_step d (snd (set_membership e t u r actor d))"
  "credentials_step d (snd (set_membership_status e t u st actor d))"
  unfolding set_membership_def set_membership_status_def
  by (rule commit_preserves; force intro!: credentials_same simp: step_inversion insert_membership_def
      split: if_splits option.splits)+

lemma user_calls_step: "credentials_step d (snd (upsert_user e i s m n d))"
proof -
  have "credentials_step d (snd (upsert_selected e i' s' m n sel d))" for i' s' sel
    by (rule credentials_same)
      (auto simp: upsert_selected_def upsert_first_def upsert_retry_def commit_def insert_user_def bind_exn_def
        Let_def split: sum.split prod.split option.split)
  then show ?thesis by (auto simp: upsert_user_def credentials_same split: sum.split)
qed

lemma key_calls_step:
  "credentials_step d (snd (issue_api_key C e t r scs x actor d))"
  "credentials_step d (snd (revoke_api_key e' t i actor d))"
proof -
  show "credentials_step d (snd (issue_api_key C e t r scs x actor d))"
  proof (cases "issue_api_key C e t r scs x actor d")
    case (Pair v d')
    show ?thesis
    proof (cases v)
      case (Inl y)
      with Pair show ?thesis
        by (auto simp: issue_api_key_def commit_def credentials_same split: sum.splits)
    next
      case (Inr k)
      with Pair have "issue_api_key C e t r scs x actor d = (Inr k, d')" by simp
      then show ?thesis
        by (cases rule: issue_api_key_Inr)
          (use Pair in \<open>auto simp: credentials_step_def keys_step_def clients_step_def sessions_step_def\<close>)
    qed
  qed
  show "credentials_step d (snd (revoke_api_key e' t i actor d))"
    unfolding revoke_api_key_def
    by (rule commit_preserves, simp add: credentials_same)
      (auto simp: step_inversion credentials_same split: option.splits if_splits,
       auto simp: credentials_step_def keys_step_def clients_step_def sessions_step_def)
qed

lemma insert_client_Inr:
  "insert_client r d = Inr d' \<Longrightarrow>
     (\<forall>x \<in> set (db_clients d). i_id x \<noteq> i_id r \<and> i_key_prefix x \<noteq> i_key_prefix r) \<and>
     d' = d\<lparr>db_clients := db_clients d @ [r]\<rparr>"
  by (auto simp: insert_client_def split: if_splits)

lemma insert_client_step: "insert_client r d = Inr d' \<Longrightarrow> credentials_step d d'"
  by (drule insert_client_Inr) (auto simp: credentials_step_def keys_step_def clients_step_def sessions_step_def)

lemma client_calls_step:
  "credentials_step d (snd (issue_identity_client C e n is d))"
  "credentials_step d (snd (rotate_identity_client C e i d))"
  "credentials_step d (snd (authenticate_identity_client C e' tok iss d))"
  "credentials_step d (snd (revoke_identity_client e' i d))"
proof -
  show "credentials_step d (snd (issue_identity_client C e n is d))"
    unfolding issue_identity_client_def
    by (rule commit_preserves, simp add: credentials_same)
      (auto simp: bind_exn_Inr new_identity_client_def intro: insert_client_step)
  show "credentials_step d (snd (rotate_identity_client C e i d))"
    unfolding rotate_identity_client_def
    by (rule commit_preserves, simp add: credentials_same)
      (auto simp: bind_exn_Inr new_identity_client_def split: option.splits if_splits intro: insert_client_step)
  have used: "credentials_step d (d\<lparr>db_clients := upd_where P
      (\<lambda>r. r\<lparr>i_last_used_at := Some ts, i_updated_at := ts\<rparr>) (db_clients d)\<rparr>)" for P ts
    by (auto simp: credentials_step_def keys_step_def clients_step_def sessions_step_def)
  then show "credentials_step d (snd (authenticate_identity_client C e' tok iss d))"
    by (auto simp: authenticate_identity_client_def credentials_same split: option.split)
  have revoked: "credentials_step d (d\<lparr>db_clients := upd_where P
      (\<lambda>r. r\<lparr>i_active := False, i_revoked_at := Some ts, i_updated_at := ts\<rparr>) (db_clients d)\<rparr>)" for P ts
    by (auto simp: credentials_step_def keys_step_def clients_step_def sessions_step_def)
  then show "credentials_step d (snd (revoke_identity_client e' i d))"
    by (auto simp: revoke_identity_client_def credentials_same split: option.split)
qed

lemma insert_session_Inr:
  "insert_session r d = Inr d' \<Longrightarrow>
     (\<forall>x \<in> set (db_sessions d). s_id x \<noteq> s_id r \<and> s_token_hash x \<noteq> s_token_hash r) \<and>
     d' = d\<lparr>db_sessions := db_sessions d @ [r]\<rparr>"
  by (auto simp: insert_session_def split: if_splits)

text \<open>What issuing a session checked, and the row it wrote.\<close>

lemma issue_user_session_Inr:
  assumes "issue_user_session C e i t u n actor rq d = (Inr k, d')"
  obtains a m where "1 \<le> n" and "n \<le> max_session_ttl" and "client_live i d"
    and "\<exists>tenant. get_tenant t d = Some tenant \<and> t_status tenant = ''active''"
    and "get_user u d \<noteq> None" and "get_membership_row t u d = Some m" and "m_status m = ''active''" and "m_role m \<in> set roles"
    and "\<forall>x \<in> set (db_sessions d). s_id x \<noteq> ''ses_'' @ uuid e 0 \<and> s_token_hash x \<noteq> token_sha256 C (''igs_'' @ token_urlsafe e)"
    and "k = \<lparr>is_id = ''ses_'' @ uuid e 0, is_tenant_id = t, is_user_id = u, is_identity_client_id = i,
      is_expires_at = now e + n * 1000000, is_token = ''igs_'' @ token_urlsafe e\<rparr>"
    and "d' = d\<lparr>db_sessions := db_sessions d @
      [\<lparr>s_id = ''ses_'' @ uuid e 0, s_token_hash = token_sha256 C (''igs_'' @ token_urlsafe e), s_user_id = u,
        s_tenant_id = t, s_identity_client_id = i, s_created_at = now e, s_expires_at = now e + n * 1000000,
        s_last_seen_at = None, s_revoked_at = None\<rparr>],
      db_audit_events := db_audit_events d @ [a]\<rparr>"
proof -
  let ?row = "\<lparr>s_id = ''ses_'' @ uuid e 0, s_token_hash = token_sha256 C (''igs_'' @ token_urlsafe e), s_user_id = u,
        s_tenant_id = t, s_identity_client_id = i, s_created_at = now e, s_expires_at = now e + n * 1000000,
        s_last_seen_at = None, s_revoked_at = None\<rparr>"
  have ttl: "1 \<le> n \<and> n \<le> max_session_ttl"
    using assms by (auto simp: issue_user_session_def commit_Inr bind_exn_Inr normalize_session_ttl_def split: if_splits)
  then have ttl': "normalize_session_ttl n = Inr (n * 1000000)" by (simp add: normalize_session_ttl_def)
  obtain tenant m where checks: "client_live i d" "get_tenant t d = Some tenant" "t_status tenant = ''active''"
    "get_user u d \<noteq> None" "get_membership_row t u d = Some m" "m_status m = ''active''" "m_role m \<in> set roles"
    using assms unfolding issue_user_session_def ttl' commit_Inr bind_exn_simps Let_def
    by (auto split: if_splits option.splits)
  obtain d1 a where ins: "insert_session ?row d = Inr d1" "insert_audit a d1 = Inr d'"
    and k: "k = \<lparr>is_id = ''ses_'' @ uuid e 0, is_tenant_id = t, is_user_id = u, is_identity_client_id = i,
      is_expires_at = now e + n * 1000000, is_token = ''igs_'' @ token_urlsafe e\<rparr>"
    using assms checks unfolding issue_user_session_def ttl' commit_Inr bind_exn_simps Let_def identity_audit_def
    by (auto simp: bind_exn_Inr)
  show ?thesis
    using ttl checks k insert_session_Inr [OF ins(1)] ins(2)
    by (intro that [of m a]) (auto simp: insert_audit_Inr)
qed

lemma session_calls_step:
  "credentials_step d (snd (issue_user_session C e i t u n actor rq d))"
  "credentials_step d (snd (authenticate_user_session C e' tok d))"
  "credentials_step d (snd (revoke_user_session e' t i actor rq d))"
  "credentials_step d (snd (cleanup_expired_user_sessions e' b d))"
proof -
  show "credentials_step d (snd (issue_user_session C e i t u n actor rq d))"
  proof (cases "issue_user_session C e i t u n actor rq d")
    case (Pair v d')
    show ?thesis
    proof (cases v)
      case (Inl y)
      with Pair show ?thesis
        by (auto simp: issue_user_session_def commit_def credentials_same split: sum.splits)
    next
      case (Inr k)
      with Pair have "issue_user_session C e i t u n actor rq d = (Inr k, d')" by simp
      then show ?thesis
        by (cases rule: issue_user_session_Inr)
          (use Pair in \<open>auto simp: credentials_step_def keys_step_def clients_step_def sessions_step_def\<close>)
    qed
  qed
  have "credentials_step d (d\<lparr>db_sessions := upd_where P (\<lambda>r. r\<lparr>s_last_seen_at := a\<rparr>) (db_sessions d)\<rparr>)" for P a
    by (auto simp: credentials_step_def keys_step_def clients_step_def sessions_step_def)
  then show "credentials_step d (snd (authenticate_user_session C e' tok d))"
    by (auto simp: authenticate_user_session_def credentials_same split: option.split)
  show "credentials_step d (snd (revoke_user_session e' t i actor rq d))"
    unfolding revoke_user_session_def
    by (rule commit_preserves, simp add: credentials_same)
      (auto simp: step_inversion credentials_same split: option.splits if_splits,
       auto simp: credentials_step_def keys_step_def clients_step_def sessions_step_def)
  show "credentials_step d (snd (cleanup_expired_user_sessions e' b d))"
    unfolding cleanup_expired_user_sessions_def
    by (rule commit_preserves, simp add: credentials_same)
      (auto simp: step_inversion credentials_step_def keys_step_def clients_step_def sessions_step_def)
qed

lemma identity_step: "credentials_step d (identity_perform c d)"
  by (cases c) (simp_all add: tenant_calls_step membership_calls_step user_calls_step key_calls_step
      client_calls_step session_calls_step)

text \<open>Whatever every such step preserves, every run preserves.\<close>

lemma identity_run_induct:
  assumes "P d" and "\<And>d d'. P d \<Longrightarrow> credentials_step d d' \<Longrightarrow> P d'"
  shows "P (identity_run cs d)"
  using assms(1) unfolding identity_run_def
  by (induction cs arbitrary: d) (auto intro: assms(2) identity_step)

section \<open>Revocation is permanent\<close>

definition key_revoked :: "string \<Rightarrow> database \<Rightarrow> bool" where
  "key_revoked i d \<longleftrightarrow> i \<in> k_id ` set (db_api_keys d) \<and>
     (\<forall>r \<in> set (db_api_keys d). k_id r = i \<longrightarrow> k_revoked_at r \<noteq> None)"

lemma key_revoked_step: "key_revoked i d \<Longrightarrow> credentials_step d d' \<Longrightarrow> key_revoked i d'"
  unfolding credentials_step_def keys_step_def
  by (elim conjE disjE exE) (auto simp: key_revoked_def ball_upd_where image_upd_where)

lemma key_revoked_authenticate:
  "key_revoked i d \<Longrightarrow> authenticate_api_key C e tok d = Some p \<Longrightarrow> ap_api_key_id p \<noteq> i"
  by (auto simp: authenticate_api_key_def key_revoked_def api_key_usable_def
      split: option.splits prod.splits if_splits dest!: find_SomeD)

definition unique_ids :: "database \<Rightarrow> bool" where
  "unique_ids d \<longleftrightarrow> distinct (map k_id (db_api_keys d)) \<and> distinct (map i_id (db_clients d)) \<and>
     distinct (map s_id (db_sessions d)) \<and>
     (\<forall>r \<in> set (db_sessions d). s_expires_at r \<le> s_created_at r + max_session_ttl * 1000000)"

lemma unique_ids_step: "unique_ids d \<Longrightarrow> credentials_step d d' \<Longrightarrow> unique_ids d'"
proof -
  assume ok: "unique_ids d" and step: "credentials_step d d'"
  have "distinct (map k_id (db_api_keys d'))"
    using step ok unfolding credentials_step_def keys_step_def
    by (elim conjE disjE exE) (auto simp: unique_ids_def map_upd_where)
  moreover have "distinct (map i_id (db_clients d'))"
    using step ok unfolding credentials_step_def clients_step_def
    by (elim conjE disjE exE) (auto simp: unique_ids_def map_upd_where)
  moreover have "distinct (map s_id (db_sessions d')) \<and>
      (\<forall>r \<in> set (db_sessions d'). s_expires_at r \<le> s_created_at r + max_session_ttl * 1000000)"
    using step ok unfolding credentials_step_def sessions_step_def
    by (elim conjE disjE exE) (auto simp: unique_ids_def map_upd_where set_upd_where distinct_map_filter)
  ultimately show ?thesis by (simp add: unique_ids_def)
qed

lemma unique_ids_empty [simp]: "unique_ids empty_db"
  by (simp add: unique_ids_def empty_db_def)

lemma unique_ids_run: "unique_ids d \<Longrightarrow> unique_ids (identity_run cs d)"
  by (rule identity_run_induct) (auto intro: unique_ids_step)

lemma revoke_api_key_revokes:
  assumes "revoke_api_key e t i actor d = (Inr True, d')" and "unique_ids d"
  shows "key_revoked i d'"
proof -
  obtain row where row: "row \<in> set (db_api_keys d)" "is_api_key t i row"
    and cases: "(k_revoked_at row \<noteq> None \<and> d' = d) \<or>
      (\<exists>as. d' = d\<lparr>db_api_keys := upd_where (is_api_key t i) (\<lambda>r. r\<lparr>k_revoked_at := Some (now e)\<rparr>) (db_api_keys d),
        db_audit_events := as\<rparr>)"
    using assms(1) by (force simp: revoke_api_key_def step_inversion split: option.splits if_splits dest: find_SomeD)
  have only: "r = row" if "r \<in> set (db_api_keys d)" "k_id r = i" for r
    using assms(2) row that by (auto simp: unique_ids_def distinct_map inj_on_def is_api_key_def)
  have there: "i \<in> k_id ` set (db_api_keys d)" using row by (force simp: is_api_key_def)
  have "is_api_key t i r" if "r \<in> set (db_api_keys d)" "k_id r = i" for r
    using only [OF that] row(2) by simp
  then have all: "\<forall>r \<in> set (upd_where (is_api_key t i) (\<lambda>r. r\<lparr>k_revoked_at := Some (now e)\<rparr>) (db_api_keys d)).
      k_id r = i \<longrightarrow> k_revoked_at r \<noteq> None" by (auto simp: ball_upd_where)
  from cases show ?thesis
  proof
    assume "k_revoked_at row \<noteq> None \<and> d' = d"
    with there only show ?thesis unfolding key_revoked_def by metis
  next
    assume "\<exists>as. d' = d\<lparr>db_api_keys := upd_where (is_api_key t i) (\<lambda>r. r\<lparr>k_revoked_at := Some (now e)\<rparr>) (db_api_keys d),
        db_audit_events := as\<rparr>"
    with there all show ?thesis unfolding key_revoked_def by (auto simp: image_upd_where)
  qed
qed

definition client_revoked :: "string \<Rightarrow> database \<Rightarrow> bool" where
  "client_revoked i d \<longleftrightarrow> i \<in> i_id ` set (db_clients d) \<and>
     (\<forall>r \<in> set (db_clients d). i_id r = i \<longrightarrow> i_revoked_at r \<noteq> None)"

lemma client_revoked_step: "client_revoked i d \<Longrightarrow> credentials_step d d' \<Longrightarrow> client_revoked i d'"
  unfolding credentials_step_def clients_step_def
  by (elim conjE disjE exE) (auto simp: client_revoked_def ball_upd_where image_upd_where)

lemma client_revoked_not_live: "client_revoked i d \<Longrightarrow> \<not> client_live i d"
  by (auto simp: client_revoked_def client_live_def get_client_def split: option.splits dest!: find_SomeD)

lemma revoke_identity_client_revokes:
  assumes "revoke_identity_client e i d = (True, d')" and "unique_ids d"
  shows "client_revoked i d'"
proof -
  obtain row where row: "row \<in> set (db_clients d)" "i_id row = i"
    and cases: "(i_revoked_at row \<noteq> None \<and> d' = d) \<or>
      d' = d\<lparr>db_clients := upd_where (\<lambda>r. i_id r = i)
        (\<lambda>r. r\<lparr>i_active := False, i_revoked_at := Some (now e), i_updated_at := now e\<rparr>) (db_clients d)\<rparr>"
    using assms(1) by (auto simp: revoke_identity_client_def get_client_def split: option.splits if_splits dest!: find_SomeD)
  have only: "r = row" if "r \<in> set (db_clients d)" "i_id r = i" for r
    using assms(2) row that by (auto simp: unique_ids_def distinct_map inj_on_def)
  have there: "i \<in> i_id ` set (db_clients d)" using row by force
  have all: "\<forall>r \<in> set (upd_where (\<lambda>r. i_id r = i)
      (\<lambda>r. r\<lparr>i_active := False, i_revoked_at := Some (now e), i_updated_at := now e\<rparr>) (db_clients d)).
      i_id r = i \<longrightarrow> i_revoked_at r \<noteq> None" by (auto simp: ball_upd_where)
  from cases show ?thesis
  proof
    assume "i_revoked_at row \<noteq> None \<and> d' = d"
    with there only show ?thesis unfolding client_revoked_def by metis
  next
    assume "d' = d\<lparr>db_clients := upd_where (\<lambda>r. i_id r = i)
        (\<lambda>r. r\<lparr>i_active := False, i_revoked_at := Some (now e), i_updated_at := now e\<rparr>) (db_clients d)\<rparr>"
    with there all show ?thesis unfolding client_revoked_def by (simp add: image_upd_where)
  qed
qed

lemma session_needs_client:
  "authenticate_user_session C e tok d = (Some p, d') \<Longrightarrow> client_live (sp_identity_client_id p) d"
  by (auto simp: authenticate_user_session_def session_role_def split: if_splits option.splits)

lemma client_revoked_no_auth:
  "client_revoked i d \<Longrightarrow> authenticate_identity_client C e tok iss d = (Some p, d') \<Longrightarrow> ip_identity_client_id p \<noteq> i"
  by (auto simp: authenticate_identity_client_def client_revoked_def
      split: option.splits prod.splits if_splits dest!: find_SomeD)

text \<open>Sessions: revoked ones are gone for good, since a session id is never used again while
  the row is there, and a deleted row does not authenticate.\<close>

definition session_row_revoked :: "string \<Rightarrow> database \<Rightarrow> bool" where
  "session_row_revoked h d \<longleftrightarrow> (\<forall>r \<in> set (db_sessions d). s_token_hash r = h \<longrightarrow> s_revoked_at r \<noteq> None)"

lemma session_lifetime:
  assumes "unique_ids d" and "authenticate_user_session C e tok d = (Some p, d')"
  shows "\<exists>r \<in> set (db_sessions d). s_id r = sp_session_id p \<and> s_token_hash r = token_sha256 C tok \<and>
    now e < s_created_at r + max_session_ttl * 1000000"
  using assms
  by (force simp: authenticate_user_session_def session_role_def unique_ids_def
      split: if_splits option.splits dest!: find_SomeD)

text \<open>Right after it was issued, a session authenticates until it expires, with the role of the membership.\<close>

lemma issued_session_authenticates:
  assumes "issue_user_session C e i t u n actor rq d = (Inr k, d')" and "env_shape e"
  shows "fst (authenticate_user_session C e' (is_token k) d') =
    (if is_expires_at k \<le> now e' then None
     else Some \<lparr>sp_tenant_id = t, sp_user_id = u, sp_role = m_role (the (get_membership_row t u d)),
       sp_session_id = is_id k, sp_identity_client_id = i\<rparr>)"
  using assms(1)
proof (cases rule: issue_user_session_Inr)
  case (1 a m)
  let ?row = "\<lparr>s_id = ''ses_'' @ uuid e 0, s_token_hash = token_sha256 C (''igs_'' @ token_urlsafe e), s_user_id = u,
        s_tenant_id = t, s_identity_client_id = i, s_created_at = now e, s_expires_at = now e + n * 1000000,
        s_last_seen_at = None, s_revoked_at = None\<rparr>"
  have tok: "is_session_token (is_token k)"
    unfolding 1(10) using session_token_issued [OF assms(2)] by simp
  have "find (\<lambda>r. s_token_hash r = token_sha256 C (is_token k)) (db_sessions d) = None"
    using 1(9,10) by (simp add: find_None)
  then have found: "find (\<lambda>r. s_token_hash r = token_sha256 C (is_token k)) (db_sessions d') = Some ?row"
    using 1(10,11) by (simp add: find_append)
  have "get_tenant t d' = get_tenant t d" "get_membership_row t u d' = get_membership_row t u d"
    "client_live i d' = client_live i d"
    using 1(11) by (simp_all add: get_membership_row_def client_live_def get_client_def)
  with 1(3,4,6-8) have "session_role (now e') ?row d' = (if now e + n * 1000000 \<le> now e' then None else Some (m_role m))"
    by (auto simp: session_role_def)
  with tok found 1(6,10) show ?thesis by (simp add: authenticate_user_session_def)
qed

section \<open>Users\<close>

lemma upsert_user_Inr:
  assumes "upsert_user e i s m n d = (Inr r, d')"
  shows "\<exists>x. find (is_user (py_strip i) (py_strip s)) (db_users d') = Some x \<and> u_id x = u_id r \<and>
    u_email x = m \<and> u_display_name x = n"
proof -
  let ?P = "is_user (py_strip i) (py_strip s)"
  have valid: "validate_user (py_strip i) (py_strip s) m n = Inr ()"
    using assms by (auto simp: upsert_user_def split: sum.splits)
  have keeps: "?P (profile_of m n ts x) = ?P x" for x ts by (simp add: is_user_def profile_of_def)
  show ?thesis
  proof (cases "find ?P (db_users d)")
    case None
    with assms valid show ?thesis
      by (auto simp: upsert_user_def upsert_selected_def upsert_first_def upsert_retry_def insert_user_def Let_def
          find_append is_user_def split: if_splits)
  next
    case (Some row)
    have "find ?P (upd_where (\<lambda>x. u_id x = u_id row) (profile_of m n (now e)) (db_users d)) =
        Some (profile_of m n (now e) row)"
      using Some by (simp add: find_upd_where keeps)
    with assms valid Some show ?thesis
      by (auto simp: upsert_user_def upsert_selected_def upsert_first_def profile_of_def)
  qed
qed

lemma upsert_user_same:
  assumes "upsert_user e i s m n d = (Inr r, d')" and "upsert_user e' i s m' n' d' = (v, d'')"
    and "validate_user (py_strip i) (py_strip s) m' n' = Inr ()"
  shows "\<exists>r'. v = Inr r' \<and> u_id r' = u_id r \<and> length (db_users d'') = length (db_users d')"
  using upsert_user_Inr [OF assms(1)] assms(2,3)
  by (auto simp: upsert_user_def upsert_selected_def upsert_first_def profile_of_def)

end
