(* ===== verification/Api_Proofs.thy ===== *)
theory Api_Proofs
  imports Api_V1 Execution_Proofs Lifecycle_Proofs Identity_Proofs
begin

text \<open>
  What the handlers of \<^verbatim>\<open>api_v1.py\<close> guarantee: the events a stream has sent are a prefix of
  the events of the job after the requested one, a stream over a finished job replays all
  of them and ends, the framing of the chunks, and the outcomes of the identity exchange
  and of creating a scan. The lemmas on jobs are proved in the contract of the repository.
\<close>

section \<open>Events only grow\<close>

lemma spec_events:
  "prefix (st_events a t j) (st_events (snd (spec_mark_running e t' j' rq a)) t j)"
  "prefix (st_events a t j) (st_events (snd (spec_transition e t' j' st n c m a)) t j)"
  "prefix (st_events a t j) (st_events (snd (spec_append_event e t' j' kind p a)) t j)"
  "prefix (st_events a t j) (st_events (spec_set_dispatch_id e t' j' d a) t j)"
  "prefix (st_events a t j) (st_events (snd (spec_request_cancel e t' j' a)) t j)"
  "prefix (st_events a t j) (st_events (snd (spec_insert e t' src pl key a)) t j)"
  by (auto simp: spec_mark_running_def spec_transition_def spec_append_event_def spec_set_dispatch_id_def
      spec_request_cancel_def spec_insert_def Let_def split: option.split)

lemma refines_events:
  "refines invar view rdy s spec out \<Longrightarrow> prefix (st_events (view s) t j) (st_events (snd spec) t j) \<Longrightarrow>
    prefix (st_events (view s) t j) (st_events (view (snd out)) t j)"
  by (auto simp: refines_def)

section \<open>The stream\<close>

fun chunk_event :: "sse_chunk \<Rightarrow> job_event option" where
  "chunk_event (Event_chunk e) = Some e"
| "chunk_event Heartbeat_chunk = None"

definition sent_events :: "sse_state \<Rightarrow> job_event list" where
  "sent_events x = List.map_filter chunk_event (ss_sent x)"

text \<open>
  The stream has sent the first events after \<open>after\<close>, its sequence is the number of the last
  of them, and what it is about to yield are the ones that follow.
\<close>

definition sse_ok :: "nat \<Rightarrow> job_event list \<Rightarrow> sse_state \<Rightarrow> bool" where
  "sse_ok after evs x \<longleftrightarrow>
     (\<exists>k. length (sent_events x) = k \<and> ss_sequence x = int (after + k) \<and>
         sent_events x = take k (drop after evs) \<and>
         (\<forall>es. ss_pc x = Sse_yield es \<longrightarrow> prefix es (drop (after + k) evs)))"

lemma sse_okI:
  assumes "k \<le> length (drop after evs)" and "ss_sequence x = int (after + k)"
    and "sent_events x = take k (drop after evs)"
    and "\<And>es. ss_pc x = Sse_yield es \<Longrightarrow> prefix es (drop (after + k) evs)"
  shows "sse_ok after evs x"
  unfolding sse_ok_def using assms by (intro exI [of _ k]) auto

lemma sse_okE:
  assumes "sse_ok after evs x"
  obtains k where "length (sent_events x) = k" and "k \<le> length (drop after evs)"
    and "ss_sequence x = int (after + k)" and "sent_events x = take k (drop after evs)"
    and "\<And>es. ss_pc x = Sse_yield es \<Longrightarrow> prefix es (drop (after + k) evs)"
proof -
  obtain k where k: "length (sent_events x) = k" "ss_sequence x = int (after + k)"
    "sent_events x = take k (drop after evs)"
    "\<And>es. ss_pc x = Sse_yield es \<Longrightarrow> prefix es (drop (after + k) evs)"
    using assms unfolding sse_ok_def by blast
  have "length (take k (drop after evs)) = k" using k(1) unfolding k(3) .
  then have "k \<le> length (drop after evs)" by simp
  with k that show ?thesis by blast
qed

lemma sse_ok_start: "sse_ok after evs (sse_start (int after))"
  by (rule sse_okI [of 0]) (simp_all add: sse_start_def sent_events_def map_filter_def)

lemma sent_events_simps [simp]:
  "sent_events (x\<lparr>ss_sent := ss_sent x @ [Event_chunk e]\<rparr>) = sent_events x @ [e]"
  "sent_events (x\<lparr>ss_sent := ss_sent x @ [Heartbeat_chunk]\<rparr>) = sent_events x"
  "sent_events (x\<lparr>ss_pc := pc\<rparr>) = sent_events x"
  "sent_events (x\<lparr>ss_idle := i\<rparr>) = sent_events x"
  "sent_events (x\<lparr>ss_sequence := n\<rparr>) = sent_events x"
  by (simp_all add: sent_events_def map_filter_def)

lemma sse_ok_prefix:
  assumes "sse_ok after evs x" and "prefix evs evs'"
  shows "sse_ok after evs' x"
proof -
  obtain new where evs': "evs' = evs @ new" using assms(2) by (auto simp: prefix_def)
  from assms(1) show ?thesis
  proof (cases rule: sse_okE)
    case (1 k)
    show ?thesis
    proof (rule sse_okI [of k])
      show "sent_events x = take k (drop after evs')" using 1(2,4) by (simp add: evs')
      show "prefix es (drop (after + k) evs')" if "ss_pc x = Sse_yield es" for es
        using 1(5) [OF that] by (auto simp: evs' intro: prefix_order.trans)
    qed (use 1 in \<open>simp_all add: evs'\<close>)
  qed
qed

context job_contract
begin

lemma perform_events:
  assumes "invar s"
  shows "prefix (st_events (view s) t j) (st_events (view (snd (perform R c s))) t j)"
proof (cases c)
  case (Call_create e t' src p key)
  show ?thesis
  proof (cases "\<exists>k r. key = Some k \<and> r_find_by_idempotency_key R t' k s = Some r")
    case True
    with assms Call_create show ?thesis by (auto simp: create_found)
  next
    case False
    then have "\<And>k. key = Some k \<Longrightarrow> r_find_by_idempotency_key R t' k s = None" by auto
    with create_new [OF assms this, where e = e and src = src and p = p] Call_create show ?thesis
      by (auto intro: refines_events spec_events)
  qed
next
  case (Call_mark_running e t' j' rq)
  with refines_events [OF mark_running [OF assms] spec_events(1)] show ?thesis by simp
next
  case (Call_transition e t' j' st n cd m)
  with refines_events [OF transition [OF assms] spec_events(2)] show ?thesis by simp
next
  case (Call_append_event e t' j' kind p)
  with refines_events [OF append_event [OF assms] spec_events(3)] show ?thesis by simp
next
  case (Call_request_cancel e t' j')
  with refines_events [OF request_cancel [OF assms] spec_events(5)] show ?thesis by simp
next
  case (Call_set_dispatch_id e t' j' d)
  with set_dispatch_id [OF assms] show ?thesis by (simp add: spec_events)
qed simp_all

lemma event_number:
  assumes "invar s" and "n < length (st_events (view s) t j)"
  shows "ev_sequence (st_events (view s) t j ! n) = int (Suc n)"
proof -
  have "map ev_sequence (st_events (view s) t j) = map int [Suc 0..<Suc (length (st_events (view s) t j))]"
    using wf [OF assms(1)] by (simp add: wf_store_def)
  then have "map ev_sequence (st_events (view s) t j) ! n = map int [Suc 0..<Suc (length (st_events (view s) t j))] ! n"
    by simp
  with assms(2) show ?thesis by (simp del: upt_Suc)
qed

lemma sse_page:
  assumes "invar s" and "ss_sequence x = int n"
  shows "r_list_events R t j (ss_sequence x) events_page_limit s = take 1000 (drop n (st_events (view s) t j))"
  using assms by (simp add: list_events sql_limit_def events_page_limit_def)

lemma sse_yield_ok:
  assumes "invar s" and "sse_ok after (st_events (view s) t j) x" and "ss_pc x = Sse_yield (e # es)"
  shows "sse_ok after (st_events (view s) t j) (sse_step R t j s x)"
proof -
  define evs where "evs = st_events (view s) t j"
  from assms(2) obtain k where k: "k \<le> length (drop after evs)" "ss_sequence x = int (after + k)"
    "sent_events x = take k (drop after evs)" and pre: "prefix (e # es) (drop (after + k) evs)"
    unfolding evs_def using assms(3) by (blast elim: sse_okE)
  from pre obtain new where evs: "drop (after + k) evs = e # es @ new" by (auto simp: prefix_def)
  then have len: "after + k < length evs" by (cases "after + k < length evs") auto
  have e: "e = evs ! (after + k)" using evs len by (metis hd_drop_conv_nth list.sel(1))
  have "ev_sequence e = int (after + Suc k)"
    unfolding e evs_def using event_number [OF assms(1)] len by (simp add: evs_def)
  moreover have "take (Suc k) (drop after evs) = take k (drop after evs) @ [e]"
    using len e by (simp add: take_Suc_conv_app_nth add.commute)
  moreover have "drop (after + Suc k) evs = es @ new"
    using arg_cong [OF evs, of tl] by (simp add: drop_Suc tl_drop)
  ultimately have "sse_ok after evs (sse_step R t j s x)"
    using k len by (intro sse_okI [of "Suc k"]) (auto simp: sse_step_def assms(3) sent_events_def map_filter_def)
  then show ?thesis by (simp add: evs_def)
qed

lemma sse_step_ok:
  assumes "invar s" and "sse_ok after (st_events (view s) t j) x"
  shows "sse_ok after (st_events (view s) t j) (sse_step R t j s x)"
proof -
  define evs where "evs = st_events (view s) t j"
  from assms(2) obtain k where k: "k \<le> length (drop after evs)" "ss_sequence x = int (after + k)"
    "sent_events x = take k (drop after evs)"
    unfolding evs_def by (blast elim: sse_okE)
  have stay: "sse_ok after evs y"
    if "ss_sequence y = ss_sequence x" "sent_events y = sent_events x"
      "\<And>es. ss_pc y = Sse_yield es \<Longrightarrow> prefix es (drop (after + k) evs)" for y
    using k that by (intro sse_okI [of k]) auto
  have "sse_ok after evs (sse_step R t j s x)"
  proof (cases "ss_pc x")
    case Sse_list
    have page: "r_list_events R t j (ss_sequence x) events_page_limit s = take 1000 (drop (after + k) evs)"
      unfolding evs_def using assms(1) k(2) by (rule sse_page)
    show ?thesis
    proof (rule stay)
      show "prefix es (drop (after + k) evs)" if "ss_pc (sse_step R t j s x) = Sse_yield es" for es
      proof -
        have "es = take 1000 (drop (after + k) evs)"
          using that page by (auto simp: sse_step_def Sse_list split: list.splits)
        then show ?thesis by (simp add: take_is_prefix)
      qed
    qed (simp_all add: sse_step_def Sse_list split: list.split)
  next
    case (Sse_yield es)
    then show ?thesis
    proof (cases es)
      case Nil
      with Sse_yield show ?thesis by (intro stay) (simp_all add: sse_step_def)
    next
      case (Cons e es')
      with Sse_yield sse_yield_ok [OF assms] show ?thesis by (simp add: evs_def)
    qed
  next
    case (Sse_get had)
    then show ?thesis
      by (intro stay) (auto simp: sse_step_def sse_idle_step_def Let_def sent_events_def map_filter_def split: option.splits if_splits)
  next
    case Sse_done
    with assms(2) show ?thesis by (simp add: sse_step_def evs_def)
  qed
  then show ?thesis by (simp add: evs_def)
qed

lemma sse_system_ok:
  assumes "sse_system R t j w w'" and "invar (fst w)" and "sse_ok after (st_events (view (fst w)) t j) (snd w)"
  shows "invar (fst w') \<and> sse_ok after (st_events (view (fst w')) t j) (snd w')"
  using assms
proof (induction rule: sse_system.induct)
  case (sse_own w s x)
  then show ?case by (simp add: sse_step_ok)
next
  case (sse_other w s x c)
  then show ?case using perform_invar sse_ok_prefix [OF _ perform_events] by auto
qed simp

text \<open>What a stream has sent is a prefix of the job's events after the one it started from.\<close>

lemma sse_sends_prefix:
  assumes "invar s" and "0 \<le> after" and "sse_system R t j (s, sse_start after) (s', x)"
  shows "prefix (sent_events x) (r_list_events R t j after (-1) s')"
proof -
  have "sse_ok (nat after) (st_events (view s) t j) (sse_start after)"
    using sse_ok_start [of "nat after"] assms(2) by simp
  with sse_system_ok [OF assms(3)] assms(1)
  have "invar s'" "sse_ok (nat after) (st_events (view s') t j) x" by simp_all
  then obtain k where "sent_events x = take k (drop (nat after) (st_events (view s') t j))"
    by (blast elim: sse_okE)
  with list_events [OF \<open>invar s'\<close>] show ?thesis by (simp add: sql_limit_def take_is_prefix)
qed

text \<open>Steps over an unchanging repository, from reading a page until the next reading.\<close>

lemma sse_yields:
  "ss_pc x = Sse_yield es \<Longrightarrow> sse_run R t j s (length es) x =
    x\<lparr>ss_sequence := (if es = [] then ss_sequence x else ev_sequence (last es)), ss_pc := Sse_yield [],
      ss_sent := ss_sent x @ map Event_chunk es\<rparr>"
  by (induction es arbitrary: x) (auto simp: sse_step_def)

lemma sse_round:
  assumes "ss_pc x = Sse_list" and "r_list_events R t j (ss_sequence x) events_page_limit s = es" and "es \<noteq> []"
    and "r_get R t j s \<noteq> None"
  shows "sse_run R t j s (length es + 3) x =
    x\<lparr>ss_sequence := ev_sequence (last es), ss_idle := 0, ss_sent := ss_sent x @ map Event_chunk es\<rparr>"
proof -
  have split: "sse_run R t j s (m + n) y = sse_run R t j s n (sse_run R t j s m y)" for m n y
    by (induction m arbitrary: y) simp_all
  have "sse_step R t j s x = x\<lparr>ss_pc := Sse_yield es\<rparr>"
    using assms(1-3) by (auto simp: sse_step_def split: list.split)
  then have "sse_run R t j s (1 + length es) x =
      x\<lparr>ss_sequence := ev_sequence (last es), ss_pc := Sse_yield [], ss_sent := ss_sent x @ map Event_chunk es\<rparr>"
    using sse_yields [of "x\<lparr>ss_pc := Sse_yield es\<rparr>" es] assms(3) by simp
  then have "sse_run R t j s (1 + length es + 2) x = sse_run R t j s 2
      (x\<lparr>ss_sequence := ev_sequence (last es), ss_pc := Sse_yield [], ss_sent := ss_sent x @ map Event_chunk es\<rparr>)"
    by (simp only: split)
  also have "\<dots> = x\<lparr>ss_sequence := ev_sequence (last es), ss_idle := 0, ss_sent := ss_sent x @ map Event_chunk es\<rparr>"
    using assms(1,4) by (auto simp: sse_step_def sse_idle_step_def numeral_2_eq_2)
  finally show ?thesis by (simp add: numeral_3_eq_3)
qed

text \<open>
  Over a job that is terminal the stream ends, and it has then sent every event after the
  one it started from.
\<close>

lemma sse_drains:
  assumes "invar s" and "r_get R t j s = Some r" and "terminal (j_status r)"
    and "ss_pc x = Sse_list" and "ss_sequence x = int n"
  shows "\<exists>m. ss_pc (sse_run R t j s m x) = Sse_done \<and>
    sent_events (sse_run R t j s m x) = sent_events x @ drop n (st_events (view s) t j)"
  using assms(4,5)
proof (induction "length (st_events (view s) t j) - n" arbitrary: x n rule: less_induct)
  case less
  define evs where "evs = st_events (view s) t j"
  have split: "sse_run R t j s (m + n) y = sse_run R t j s n (sse_run R t j s m y)" for m n y
    by (induction m arbitrary: y) simp_all
  have page: "r_list_events R t j (ss_sequence x) events_page_limit s = take 1000 (drop n evs)"
    unfolding evs_def using assms(1) less.prems(2) by (rule sse_page)
  show ?case
  proof (cases "n < length evs")
    case False
    with page have "sse_run R t j s 2 x = x\<lparr>ss_pc := Sse_done\<rparr>"
      using assms(2,3) less.prems(1) by (simp add: sse_step_def numeral_2_eq_2)
    with False show ?thesis by (intro exI [of _ 2]) (simp add: evs_def)
  next
    case True
    define es where "es = take 1000 (drop n evs)"
    define y where "y = sse_run R t j s (length es + 3) x"
    have es: "es \<noteq> []" "length es \<noteq> 0" "n + length es \<le> length evs"
      using True by (auto simp: es_def)
    have y: "y = x\<lparr>ss_sequence := ev_sequence (last es), ss_idle := 0, ss_sent := ss_sent x @ map Event_chunk es\<rparr>"
      unfolding y_def using less.prems(1) page es(1) assms(2) by (intro sse_round) (simp_all add: es_def)
    have "last es = evs ! (n + length es - 1)"
      using es by (simp add: last_conv_nth) (simp add: es_def)
    moreover have "n + length es - 1 < length evs" using es(2,3) by linarith
    ultimately have "ev_sequence (last es) = int (Suc (n + length es - 1))"
      using event_number [OF assms(1), of "n + length es - 1" t j] es by (simp add: evs_def)
    then have seq: "ss_sequence y = int (n + length es)" using es(2) by (simp add: y)
    have sent: "sent_events y = sent_events x @ es"
      by (simp add: y sent_events_def map_filter_def o_def)
    have "length (st_events (view s) t j) - (n + length es) < length (st_events (view s) t j) - n"
      using es(2,3) unfolding evs_def by linarith
    from less.hyps [OF this, of y] seq less.prems(1) obtain m where
      "ss_pc (sse_run R t j s m y) = Sse_done"
      "sent_events (sse_run R t j s m y) = sent_events y @ drop (n + length es) evs"
      by (auto simp: y evs_def)
    moreover have "es @ drop (n + length es) evs = drop n evs"
    proof -
      have "es = take (length es) (drop n evs)"
        by (cases "length (drop n evs) \<le> 1000") (simp_all add: es_def min_def)
      then show ?thesis by (metis append_take_drop_id drop_drop add.commute)
    qed
    ultimately show ?thesis
      using split [of "length es + 3" m x] sent by (intro exI [of _ "length es + 3 + m"]) (simp add: y_def evs_def)
  qed
qed

end

section \<open>The frame of a chunk\<close>

text \<open>A character that ends a line of the stream.\<close>

definition ends_line :: "char \<Rightarrow> bool" where
  "ends_line c \<longleftrightarrow> code c = 10 \<or> code c = 13"

lemma digits_end_no_line: "c \<in> set (py_str_int i) \<Longrightarrow> \<not> ends_line c"
proof -
  assume "c \<in> set (py_str_int i)"
  then have "is_digit c \<or> c = CHR ''-''"
    by (auto simp: py_str_int_def dest: nat_digits_are_digits split: if_splits)
  then show ?thesis by (auto simp: ends_line_def is_digit_def)
qed

lemma escape_ends_no_line: "x \<in> set (json_escape_char c) \<Longrightarrow> \<not> ends_line x"
proof -
  have hex: "code (hex_digit n) \<noteq> 10 \<and> code (hex_digit n) \<noteq> 13" if "n < 16" for n
    using that by (simp add: hex_digit_def)
  have "code c div 16 < 16" "code c mod 16 < 16"
    using nat_of_char_less_256 [of c] by (simp_all add: less_mult_imp_div_less)
  then show "x \<in> set (json_escape_char c) \<Longrightarrow> \<not> ends_line x"
    using hex by (auto simp: json_escape_char_def ends_line_def split: if_splits)
qed

lemma json_string_ends_no_line: "x \<in> set (json_string s) \<Longrightarrow> \<not> ends_line x"
  unfolding json_string_def using escape_ends_no_line by (auto simp: ends_line_def)

lemma join_with_set: "x \<in> set (join_with sep xs) \<Longrightarrow> x \<in> set sep \<or> (\<exists>y \<in> set xs. x \<in> set y)"
  by (induction sep xs rule: join_with.induct) auto

text \<open>A printed document is one line, if the printed floats are.\<close>

definition floats_on_line :: "(rat \<Rightarrow> string) \<Rightarrow> bool" where
  "floats_on_line frepr \<longleftrightarrow> (\<forall>q. \<forall>c \<in> set (frepr q). \<not> ends_line c)"

lemma dumps_ends_no_line:
  "floats_on_line frepr \<Longrightarrow> x \<in> set (dumps frepr v) \<Longrightarrow> \<not> ends_line x"
  "floats_on_line frepr \<Longrightarrow> y \<in> set (dumps_items frepr vs) \<Longrightarrow> x \<in> set y \<Longrightarrow> \<not> ends_line x"
  "floats_on_line frepr \<Longrightarrow> y \<in> set (dumps_fields frepr fs) \<Longrightarrow> x \<in> set y \<Longrightarrow> \<not> ends_line x"
proof (induction frepr v and frepr vs and frepr fs arbitrary: x and x y and x y
    rule: dumps_dumps_items_dumps_fields.induct)
  case (2 frepr b)
  then show ?case by (auto simp: ends_line_def split: if_splits)
next
  case (4 frepr q)
  then show ?case by (simp add: floats_on_line_def)
next
  case (6 frepr xs)
  then show ?case by (auto simp: ends_line_def dest!: join_with_set)
next
  case (7 frepr fs)
  then show ?case by (auto simp: ends_line_def dest!: join_with_set)
next
  case (11 frepr k v fs)
  have "\<not> ends_line z" if "z \<in> set (json_string k @ '': '' @ dumps frepr v)" for z
    using that 11(1) [OF 11(3)] json_string_ends_no_line [of z k] by (auto simp: ends_line_def)
  with 11 show ?case by auto
qed (auto simp: ends_line_def dest: digits_end_no_line json_string_ends_no_line)

text \<open>The chunk of an event whose kind is one line has exactly the four line ends of its frame.\<close>

lemma chunk_lines:
  assumes "floats_on_line frepr" and "\<forall>c \<in> set (ev_kind e). \<not> ends_line c"
  shows "filter ends_line (chunk_text frepr (Event_chunk e)) = replicate 4 line_feed"
proof -
  have skip: "filter ends_line (xs @ ys) = filter ends_line ys" if "\<forall>c \<in> set xs. \<not> ends_line c" for xs ys
    using that by (simp add: filter_empty_conv)
  have lf: "filter ends_line ([line_feed] @ ys) = line_feed # filter ends_line ys" for ys
    by (simp add: ends_line_def line_feed_def)
  have parts: "filter ends_line (''id: '' @ ys) = filter ends_line ys"
    "filter ends_line (''event: '' @ ys) = filter ends_line ys"
    "filter ends_line (''data: '' @ ys) = filter ends_line ys"
    "filter ends_line (py_str_int i @ ys) = filter ends_line ys"
    "filter ends_line (ev_kind e @ ys) = filter ends_line ys"
    "filter ends_line (dumps frepr v @ ys) = filter ends_line ys" for ys i v
    using assms(2) dumps_ends_no_line(1) [OF assms(1)] digits_end_no_line
    by (intro skip; auto simp: ends_line_def)+
  have "filter ends_line [line_feed, line_feed] = [line_feed, line_feed]"
    by (simp add: ends_line_def line_feed_def)
  moreover have "replicate 4 line_feed = [line_feed, line_feed, line_feed, line_feed]"
    by (simp add: eval_nat_numeral)
  ultimately show ?thesis by (simp only: chunk_text.simps parts lf)
qed

section \<open>The identity exchange\<close>

lemma response_status [simp]:
  "rs_status (json_response n body hs) = n"
  "rs_status (error_response n c m rid j rt hs) = n"
  "rs_status (simple_error r n c m) = n"
  "rs_status (job_error r j' n c m) = n"
  by (simp_all add: json_response_def error_response_def simple_error_def job_error_def)

lemma named_response_status [simp]:
  "rs_status (validation_error r) = 422" "rs_status (unauthenticated r) = 401"
  "rs_status (access_denied r) = 403" "rs_status (auth_unavailable r) = 503"
  by (simp_all add: validation_error_def unauthenticated_def access_denied_def auth_unavailable_def)

lemma refuse_exchange_Inr:
  "refuse_exchange e t actor reason rid resp d = (Inr resp', d') \<Longrightarrow>
    resp' = resp \<and> db_sessions d' = db_sessions d"
  by (auto simp: refuse_exchange_def record_exchange_failure_def record_auth_event_def identity_audit_def
      commit_Inr bind_exn_Inr insert_audit_Inr split: prod.splits sum.splits if_splits)

text \<open>What an answer with status 200 went through, whatever other processes did meanwhile.\<close>

lemma exchange_session_granted:
  assumes "exchange_session C E W r b client user d = (Inr resp, d')" and "rs_status resp = 200"
  obtains issued d1 p where
    "issue_user_session C (E 2) client (xb_requested_tenant_id b) (u_id user) default_session_ttl
       (''identity_client:'' @ client) (Some (api_request_id r)) (W 2 d) = (Inr issued, d1)"
    and "authenticate_user_session C (base_env (E 3)) (is_token issued) (W 3 d1) = (Some p, d')"
    and "rs_body resp = exchange_content issued (sp_role p)"
proof -
  obtain v d1 where v: "issue_user_session C (E 2) client (xb_requested_tenant_id b) (u_id user) default_session_ttl
       (''identity_client:'' @ client) (Some (api_request_id r)) (W 2 d) = (v, d1)" by fastforce
  show ?thesis
  proof (cases v)
    case (Inl x)
    with v assms show ?thesis
      by (cases x) (auto simp: exchange_session_def Let_def dest: refuse_exchange_Inr)
  next
    case (Inr issued)
    obtain q d2 where q: "authenticate_user_session C (base_env (E 3)) (is_token issued) (W 3 d1) = (q, d2)"
      by fastforce
    show ?thesis
    proof (cases q)
      case None
      with v Inr q assms show ?thesis
        by (auto simp: exchange_session_def Let_def split: prod.splits sum.splits)
    next
      case (Some p)
      with v Inr q assms that show ?thesis
        by (auto simp: exchange_session_def Let_def json_response_def)
    qed
  qed
qed

lemma exchange_allowed_granted:
  assumes "exchange_allowed C E W r b d = (Inr resp, d')" and "rs_status resp = 200"
  obtains client d1 user d2 where
    "authenticate_identity_client C (base_env (E 0)) (case request_token r of None \<Rightarrow> [] | Some s \<Rightarrow> s)
       (Some (xb_issuer b)) (W 0 d) = (Some client, d1)"
    and "upsert_user (base_env (E 1)) (xb_issuer b) (xb_subject b) (xb_email b) (xb_display_name b) (W 1 d1) =
       (Inr user, d2)"
    and "exchange_session C E W r b (ip_identity_client_id client) user d2 = (Inr resp, d')"
proof -
  obtain c d1 where c: "authenticate_identity_client C (base_env (E 0))
       (case request_token r of None \<Rightarrow> [] | Some s \<Rightarrow> s) (Some (xb_issuer b)) (W 0 d) = (c, d1)" by fastforce
  show ?thesis
  proof (cases c)
    case None
    with c assms show ?thesis by (auto simp: exchange_allowed_def Let_def dest: refuse_exchange_Inr)
  next
    case (Some client)
    obtain v d2 where v: "upsert_user (base_env (E 1)) (xb_issuer b) (xb_subject b) (xb_email b)
        (xb_display_name b) (W 1 d1) = (v, d2)" by fastforce
    show ?thesis
    proof (cases v)
      case (Inl x)
      with Some c v assms show ?thesis by (cases x) (auto simp: exchange_allowed_def Let_def)
    next
      case (Inr user)
      with Some c v assms that show ?thesis by (auto simp: exchange_allowed_def Let_def)
    qed
  qed
qed

lemma exchange_identity_granted:
  assumes "exchange_identity C E W tm r b w = (Inr resp, w')" and "rs_status resp = 200"
  obtains d d' where "exchange_body_ok b" and "aw_db w = Some d" and "aw_db w' = Some d'"
    and "fst (fst (check tm (exchange_rate_key r (request_token r)) (aw_limiter w)))"
    and "exchange_allowed C E W r b d = (Inr resp, d')"
  using assms
  by (auto simp: exchange_identity_def Let_def dest!: refuse_exchange_Inr
      split: if_splits prod.splits option.splits)

text \<open>Alone on the database: the token of the answer authenticates as what was requested.\<close>

lemma session_role_seen:
  "session_role ts (r\<lparr>s_last_seen_at := x\<rparr>) (d\<lparr>db_sessions := y\<rparr>) = session_role ts r d"
proof -
  have "client_live i (d\<lparr>db_sessions := y\<rparr>) = client_live i d" for i
    by (simp add: client_live_def get_client_def)
  moreover have "get_membership_row t u (d\<lparr>db_sessions := y\<rparr>) = get_membership_row t u d" for t u
    by (simp add: get_membership_row_def)
  ultimately show ?thesis by (simp add: session_role_def split: option.split)
qed

lemma authenticate_again:
  assumes "authenticate_user_session C e tok d = (Some p, d')"
  shows "authenticate_user_session C e tok d' = (Some p, d')"
proof -
  obtain row role where row: "is_session_token tok"
    "find (\<lambda>r. s_token_hash r = token_sha256 C tok) (db_sessions d) = Some row"
    "session_role (now e) row d = Some role"
    and p: "p = \<lparr>sp_tenant_id = s_tenant_id row, sp_user_id = s_user_id row, sp_role = role,
      sp_session_id = s_id row, sp_identity_client_id = s_identity_client_id row\<rparr>"
    and d': "d' = d\<lparr>db_sessions := upd_where (\<lambda>r. s_id r = s_id row)
      (\<lambda>r. r\<lparr>s_last_seen_at := Some (now e)\<rparr>) (db_sessions d)\<rparr>"
    using assms by (auto simp: authenticate_user_session_def split: if_splits option.splits)
  let ?f = "\<lambda>r. r\<lparr>s_last_seen_at := Some (now e)\<rparr>"
  have "find (\<lambda>r. s_token_hash r = token_sha256 C tok) (db_sessions d') = Some (?f row)"
    using row(2) by (simp add: d' find_upd_where)
  moreover have "session_role (now e) (?f row) d' = Some role"
    using row(3) by (simp add: d' session_role_seen)
  moreover have "upd_where (\<lambda>r. s_id r = s_id row) ?f (db_sessions d') = db_sessions d'"
    by (simp add: d' upd_where_def o_def)
  ultimately show ?thesis using row(1) p by (simp add: authenticate_user_session_def d')
qed

lemma authenticate_client_Some:
  assumes "authenticate_identity_client C e tok (Some issuer) d = (Some p, d')"
  obtains row where "row \<in> set (db_clients d)" and "i_id row = ip_identity_client_id p"
    and "i_active row" and "i_revoked_at row = None" and "py_strip issuer \<in> set (i_allowed_issuers row)"
    and "db_users d' = db_users d"
    and "\<exists>secret. parse_identity_client_key tok = Some (i_key_prefix row, secret) \<and> verify_secret C secret (i_secret_hash row)"
  using assms
  by (auto simp: authenticate_identity_client_def split: option.splits prod.splits if_splits dest!: find_SomeD)

lemma authenticate_issued:
  assumes "issue_user_session C e i t u n actor rq d = (Inr k, d')"
    and "authenticate_user_session C e' (is_token k) d' = (Some p, d'')"
  shows "sp_tenant_id p = t \<and> sp_user_id p = u \<and> sp_session_id p = is_id k \<and> sp_identity_client_id p = i \<and>
    is_tenant_id k = t \<and> is_user_id k = u \<and> is_expires_at k = now e + n * 1000000 \<and>
    db_users d'' = db_users d"
  using assms(1)
proof (cases rule: issue_user_session_Inr)
  case (1 a m)
  have "find (\<lambda>r. s_token_hash r = token_sha256 C (is_token k)) (db_sessions d) = None"
    using 1(9,10) by (simp add: find_None)
  with assms(2) 1(10,11) show ?thesis
    by (auto simp: authenticate_user_session_def find_append split: if_splits option.splits)
qed

lemma exchange_alone:
  assumes "exchange_identity C E (\<lambda>_ d. d) tm r b w = (Inr resp, w')" and "rs_status resp = 200"
  shows "\<exists>d d' issued p client user. aw_db w = Some d \<and> aw_db w' = Some d' \<and>
    rs_body resp = exchange_content issued (sp_role p) \<and>
    fst (authenticate_user_session C (base_env (E 3)) (is_token issued) d') = Some p \<and>
    sp_tenant_id p = xb_requested_tenant_id b \<and> is_tenant_id issued = xb_requested_tenant_id b \<and>
    is_expires_at issued = now (E 2) + default_session_ttl * 1000000 \<and>
    client \<in> set (db_clients d) \<and> i_id client = sp_identity_client_id p \<and>
    (\<exists>token secret. request_token r = Some token \<and>
      parse_identity_client_key token = Some (i_key_prefix client, secret) \<and> verify_secret C secret (i_secret_hash client)) \<and>
    i_active client \<and> i_revoked_at client = None \<and> py_strip (xb_issuer b) \<in> set (i_allowed_issuers client) \<and>
    user \<in> set (db_users d') \<and> u_id user = sp_user_id p \<and> u_issuer user = py_strip (xb_issuer b) \<and>
    u_subject user = py_strip (xb_subject b)"
proof -
  obtain d d' where w: "aw_db w = Some d" "aw_db w' = Some d'"
    and allowed: "exchange_allowed C E (\<lambda>_ d. d) r b d = (Inr resp, d')"
    using assms by (rule exchange_identity_granted)
  obtain client d1 user d2 where
    client: "authenticate_identity_client C (base_env (E 0)) (case request_token r of None \<Rightarrow> [] | Some s \<Rightarrow> s)
       (Some (xb_issuer b)) d = (Some client, d1)"
    and user: "upsert_user (base_env (E 1)) (xb_issuer b) (xb_subject b) (xb_email b) (xb_display_name b) d1 =
       (Inr user, d2)"
    and session: "exchange_session C E (\<lambda>_ d. d) r b (ip_identity_client_id client) user d2 = (Inr resp, d')"
    using allowed assms(2) by (rule exchange_allowed_granted)
  obtain issued d3 p where
    issued: "issue_user_session C (E 2) (ip_identity_client_id client) (xb_requested_tenant_id b) (u_id user)
       default_session_ttl (''identity_client:'' @ ip_identity_client_id client) (Some (api_request_id r)) d2 =
       (Inr issued, d3)"
    and auth: "authenticate_user_session C (base_env (E 3)) (is_token issued) d3 = (Some p, d')"
    and body: "rs_body resp = exchange_content issued (sp_role p)"
    using session assms(2) by (rule exchange_session_granted)
  note p = authenticate_issued [OF issued auth]
  obtain x where "find (is_user (py_strip (xb_issuer b)) (py_strip (xb_subject b))) (db_users d2) = Some x"
    "u_id x = u_id user"
    using upsert_user_Inr [OF user] by blast
  then have x: "x \<in> set (db_users d')" "u_id x = sp_user_id p" "u_issuer x = py_strip (xb_issuer b)"
    "u_subject x = py_strip (xb_subject b)"
    using p by (auto simp: is_user_def dest!: find_SomeD)
  obtain row where row: "row \<in> set (db_clients d)" "i_id row = ip_identity_client_id client"
    "i_active row" "i_revoked_at row = None" "py_strip (xb_issuer b) \<in> set (i_allowed_issuers row)"
      "\<exists>secret. parse_identity_client_key (case request_token r of None \<Rightarrow> [] | Some s \<Rightarrow> s) =
        Some (i_key_prefix row, secret) \<and> verify_secret C secret (i_secret_hash row)"
    using client by (rule authenticate_client_Some)
  have "parse_identity_client_key [] = None" by (simp add: parse_identity_client_key_def parse_key_def)
  then have sent: "\<exists>token secret. request_token r = Some token \<and>
      parse_identity_client_key token = Some (i_key_prefix row, secret) \<and> verify_secret C secret (i_secret_hash row)"
    using row(6) by (cases "request_token r") auto
  have again: "fst (authenticate_user_session C (base_env (E 3)) (is_token issued) d') = Some p"
    using authenticate_again [OF auth] by simp
  show ?thesis
    by (rule exI [of _ d], rule exI [of _ d'], rule exI [of _ issued], rule exI [of _ p],
        rule exI [of _ row], rule exI [of _ x])
      (use w body again p row(1-5) sent x in simp)
qed

section \<open>Creating a scan\<close>

definition keyed :: "string \<Rightarrow> string \<Rightarrow> string option \<Rightarrow> job_store \<Rightarrow> bool" where
  "keyed t j k a \<longleftrightarrow> (\<exists>r. st_jobs a t j = Some r \<and> j_idempotency_key r = k)"

lemma spec_keyed:
  "keyed t j k a \<Longrightarrow> keyed t j k (snd (spec_mark_running e t' j' rq a))"
  "keyed t j k a \<Longrightarrow> keyed t j k (snd (spec_transition e t' j' st n c m a))"
  "keyed t j k a \<Longrightarrow> keyed t j k (snd (spec_append_event e t' j' kind p a))"
  "keyed t j k a \<Longrightarrow> keyed t j k (spec_set_dispatch_id e t' j' d a)"
  "keyed t j k a \<Longrightarrow> keyed t j k (snd (spec_request_cancel e t' j' a))"
  "keyed t j k a \<Longrightarrow> keyed t j k (snd (spec_insert e t' src pl key a))"
  by (auto simp: keyed_def spec_mark_running_def spec_transition_def spec_append_event_def
      spec_set_dispatch_id_def spec_request_cancel_def spec_insert_def Let_def job_id_used_def split: option.split)

lemma refines_keyed:
  "refines invar view rdy s spec out \<Longrightarrow> (keyed t j k (view s) \<Longrightarrow> keyed t j k (snd spec)) \<Longrightarrow>
    keyed t j k (view s) \<Longrightarrow> keyed t j k (view (snd out))"
  by (auto simp: refines_def)

text \<open>A dispatcher changes the repository only through its calls.\<close>

definition dispatches :: "'s job_repository \<Rightarrow> 's dispatcher \<Rightarrow> bool" where
  "dispatches R D \<longleftrightarrow> (\<forall>job q s. \<exists>cs. snd (ds_submit D job q s) = snd (perform_all R cs s))"

context job_contract
begin

lemma create_keyed:
  assumes "invar s" and "keyed t j k (view s)"
  shows "keyed t j k (view (snd (r_create R e t' src p key s)))"
proof (cases "\<exists>i r. key = Some i \<and> r_find_by_idempotency_key R t' i s = Some r")
  case True
  with assms show ?thesis by (auto simp: create_found)
next
  case False
  then have "\<And>i. key = Some i \<Longrightarrow> r_find_by_idempotency_key R t' i s = None" by auto
  with create_new [OF assms(1) this, where e = e and src = src and p = p] assms(2) show ?thesis
    by (auto intro: refines_keyed spec_keyed)
qed

lemma perform_keyed:
  assumes "invar s" and "keyed t j k (view s)"
  shows "keyed t j k (view (snd (perform R c s)))"
proof (cases c)
  case (Call_create e t' src p key)
  with assms create_keyed show ?thesis by simp
next
  case (Call_mark_running e t' j' rq)
  with refines_keyed [OF mark_running [OF assms(1)] spec_keyed(1)] assms(2) show ?thesis by simp
next
  case (Call_transition e t' j' st n cd m)
  with refines_keyed [OF transition [OF assms(1)] spec_keyed(2)] assms(2) show ?thesis by simp
next
  case (Call_append_event e t' j' kind p)
  with refines_keyed [OF append_event [OF assms(1)] spec_keyed(3)] assms(2) show ?thesis by simp
next
  case (Call_request_cancel e t' j')
  with refines_keyed [OF request_cancel [OF assms(1)] spec_keyed(5)] assms(2) show ?thesis by simp
next
  case (Call_set_dispatch_id e t' j' d)
  with set_dispatch_id [OF assms(1)] assms(2) show ?thesis by (simp add: spec_keyed)
qed (simp_all add: assms)

lemma perform_all_keyed:
  "invar s \<Longrightarrow> keyed t j k (view s) \<Longrightarrow> keyed t j k (view (snd (perform_all R cs s)))"
proof (induction cs arbitrary: s)
  case (Cons c cs)
  then show ?case using perform_invar [of s c] perform_keyed [of s t j k c] by simp
qed simp

text \<open>The state a create leaves, by what the client gets to know of the job.\<close>

definition has_job :: "string \<Rightarrow> string \<Rightarrow> string \<Rightarrow> 's \<Rightarrow> bool" where
  "has_job t j k s \<longleftrightarrow> invar s \<and> keyed t j (Some k) (view s)"

lemma has_job_found:
  assumes "has_job t j k s"
  obtains r where "r_find_by_idempotency_key R t k s = Some r" and "j_id r = j"
proof -
  obtain r where r: "invar s" "st_jobs (view s) t j = Some r" "j_idempotency_key r = Some k"
    using assms by (auto simp: has_job_def keyed_def)
  moreover have "j_id r = j" using wf [OF r(1)] r(2) by (blast dest: wf_store_job)
  ultimately show ?thesis using that find_complete by blast
qed

lemma create_has_job:
  assumes "invar s" and "r_create R e t src p (Some k) s = (Inr (job, b), s')"
  shows "has_job t (j_id job) k s'"
proof (cases "r_find_by_idempotency_key R t k s")
  case (Some r)
  with assms find_some [OF assms(1) Some] show ?thesis
    by (auto simp: create_found has_job_def keyed_def)
next
  case None
  then have "refines invar view (ready e t s) s (spec_insert e t src p (Some k) (view s)) (Inr (job, b), s')"
    using create_new [of s "Some k" t e src p] assms by simp
  then show ?thesis
    by (auto simp: refines_def spec_insert_def Let_def has_job_def keyed_def split: if_splits)
qed

lemma has_job_perform: "has_job t j k s \<Longrightarrow> has_job t j k (snd (perform R c s))"
  by (simp add: has_job_def perform_invar perform_keyed)

lemma has_job_submit: "dispatches R D \<Longrightarrow> has_job t j k s \<Longrightarrow> has_job t j k (snd (ds_submit D job q s))"
  unfolding dispatches_def has_job_def by (metis perform_all_invar perform_all_keyed)

lemma has_job_dispatch:
  assumes "dispatches R D" and "has_job t j k s" and "dispatch_job R D e t q job s = (res, s')"
  shows "has_job t j k s'" and "res = Inr job' \<Longrightarrow> j_id job' = j_id job"
proof -
  obtain v s1 where v: "ds_submit D job q s = (v, s1)" by fastforce
  then have s1: "has_job t j k s1" using has_job_submit [OF assms(1,2)] by (metis snd_conv)
  have s2: "has_job t j k (r_set_dispatch_id R e t (j_id job) i s1)" for i
    using has_job_perform [OF s1, of "Call_set_dispatch_id e t (j_id job) i"] by simp
  show "has_job t j k s'"
    using assms(3) v s1 s2 by (auto simp: dispatch_job_def Let_def split: sum.splits option.splits)
  have same: "j_id r = j_id job" if "r_get R t (j_id job) (r_set_dispatch_id R e t (j_id job) i s1) = Some r" for r i
  proof -
    have inv: "invar (r_set_dispatch_id R e t (j_id job) i s1)" using s2 by (simp add: has_job_def)
    have "st_jobs (view (r_set_dispatch_id R e t (j_id job) i s1)) t (j_id job) = Some r"
      using that unfolding get [OF inv] .
    then show ?thesis using wf_store_job [OF wf [OF inv]] by simp
  qed
  assume "res = Inr job'"
  then obtain i where "r_get R t (j_id job) (r_set_dispatch_id R e t (j_id job) i s1) = Some job'"
    using assms(3) v by (auto simp: dispatch_job_def Let_def split: sum.splits option.splits)
  then show "j_id job' = j_id job" by (rule same)
qed

lemma has_job_transition:
  assumes "has_job t j k s" and "fst (r_transition R e t j st n c m s) = Inr job"
  shows "j_id job = j"
proof -
  obtain r where r: "invar s" "st_jobs (view s) t j = Some r" using assms(1) by (auto simp: has_job_def keyed_def)
  have "j_id r = j" using wf [OF r(1)] r(2) by (blast dest: wf_store_job)
  with transition [OF r(1), of e t j st n c m] r(2) assms(2) show ?thesis
    by (auto simp: refines_def spec_transition_def moved_job_def)
qed

text \<open>
  A scan created under a key is what every later request with that key is answered with, and
  that request changes nothing and is not dispatched: also after the dispatch failed.
\<close>

lemma create_scan_has_job:
  assumes "invar s" and "dispatches R D" and "aq_idempotency_key r = Some k"
    and "create_scan L R D queues txt E r b s = (Inr resp, s')" and "rs_status resp \<in> {200, 202, 503}"
  obtains j where "has_job (aq_tenant_id r) j k s'"
    and "if rs_status resp = 503
      then resp = error_response 503 ''DISPATCH_FAILED'' ''The scan could not be queued'' (Some (api_request_id r)) (Some j) True []
      else rs_headers resp = [(''Location'', ''/v1/scans/'' @ j)]"
proof -
  let ?t = "aq_tenant_id r"
  obtain q where q: "queues (sb_source b) = Some q" and ok: "valid_idempotency_key (Some k)"
    using assms(3-5) by (auto simp: create_scan_def Let_def split: option.splits if_splits)
  obtain v s1 where v: "r_create R (E 0) ?t (sb_source b) (sb_payload b) (Some k) s = (v, s1)" by fastforce
  show ?thesis
  proof (cases v)
    case (Inl x)
    with v q ok assms(3,4) show ?thesis by (simp add: create_scan_def)
  next
    case (Inr jc)
    obtain job created where jc: "jc = (job, created)" by fastforce
    have s1: "has_job ?t (j_id job) k s1"
      using v Inr jc assms(1) by (intro create_has_job) simp_all
    show ?thesis
    proof (cases created)
      case False
      with v Inr jc q ok assms(3,4) s1 show ?thesis
        by (intro that [of "j_id job"]) (auto simp: create_scan_def scan_response_def json_response_def)
    next
      case True
      obtain w s2 where w: "dispatch_job R D (E 1) ?t q job s1 = (w, s2)" by fastforce
      note s2 = has_job_dispatch(1) [OF assms(2) s1 w]
      have moved: "has_job ?t (j_id job) k (snd (r_transition R e ?t i st n c m s2))" for e i st n c m
        using has_job_perform [OF s2, of "Call_transition e ?t i st n c m"] by simp
      show ?thesis
      proof (cases w)
        case (Inr job1)
        with has_job_dispatch(2) [OF assms(2) s1 w] have "j_id job1 = j_id job" by simp
        with True v \<open>v = Inr jc\<close> jc w Inr q ok assms(3,4) s2 show ?thesis
          by (intro that [of "j_id job"]) (auto simp: create_scan_def scan_response_def json_response_def)
      next
        case (Inl x)
        obtain u s3 where u: "r_transition R (E 2) ?t (j_id job) FAILED None (Some ''DISPATCH_FAILED'')
            (Some (txt x)) s2 = (u, s3)" by fastforce
        then have s3: "has_job ?t (j_id job) k s3" using moved by (metis snd_conv)
        have "create_scan L R D queues txt E r b s =
            (case u of Inl y \<Rightarrow> (Inl y, s3)
             | Inr failed \<Rightarrow> (Inr (error_response 503 ''DISPATCH_FAILED'' ''The scan could not be queued''
                 (Some (api_request_id r)) (Some (j_id failed)) True []), s3))"
          using True v \<open>v = Inr jc\<close> jc w Inl u q ok assms(3) by (simp add: create_scan_def)
        with assms(4) obtain job2 where job2: "u = Inr job2" "s' = s3"
          "resp = error_response 503 ''DISPATCH_FAILED'' ''The scan could not be queued''
             (Some (api_request_id r)) (Some (j_id job2)) True []"
          by (cases u) auto
        moreover have "j_id job2 = j_id job"
          using has_job_transition [OF s2, of "E 2" FAILED None "Some ''DISPATCH_FAILED''" "Some (txt x)"] u job2(1) by simp
        moreover have "rs_status resp = 503" by (simp add: job2(3) error_response_def json_response_def)
        ultimately show ?thesis using s3 by (intro that [of "j_id job"]) simp_all
      qed
    qed
  qed
qed

lemma create_scan_again:
  assumes "has_job (aq_tenant_id r) j k s" and "aq_idempotency_key r = Some k" and "valid_idempotency_key (Some k)"
    and "queues (sb_source b) \<noteq> None"
  shows "\<exists>job. create_scan L R D queues txt E r b s = (Inr (scan_response L False job), s) \<and> j_id job = j"
proof -
  obtain job where job: "r_find_by_idempotency_key R (aq_tenant_id r) k s = Some job" "j_id job = j"
    using assms(1) by (rule has_job_found)
  have "r_create R (E 0) (aq_tenant_id r) (sb_source b) (sb_payload b) (Some k) s = (Inr (job, False), s)"
    using assms(1) job(1) by (intro create_found) (simp_all add: has_job_def)
  with assms(2-4) job(2) show ?thesis by (auto simp: create_scan_def)
qed

end

end
