(* ===== verification/Persistence.thy ===== *)
theory Persistence
  imports Finding_Lifecycle
begin

text \<open>
  The SQLite finding registry of \<^verbatim>\<open>persistence.py\<close>: two tables with an autoincrementing
  sequence number, bounded for every tenant by deleting the oldest rows. The payload columns
  hold the documents whose JSON text the code stores and reads back.
\<close>

record 'p registry_row =
  g_seq :: int
  g_tenant :: string
  g_key :: string
  g_payload :: 'p

type_synonym document = "(string \<times> json) list"

record registry_db =
  g_findings :: "document registry_row list"
  g_correlations :: "document registry_row list"
  g_next_finding :: int
  g_next_correlation :: int
  g_max_size :: int

definition new_registry :: "int \<Rightarrow> registry_db" where
  "new_registry max_size =
     \<lparr>g_findings = [], g_correlations = [], g_next_finding = 1, g_next_correlation = 1,
      g_max_size = max_size\<rparr>"

text \<open>\<^verbatim>\<open>_prune\<close>: what \<open>DELETE ... AND seq NOT IN (newest)\<close> leaves.\<close>

definition newest_seqs :: "string \<Rightarrow> int \<Rightarrow> 'p registry_row list \<Rightarrow> int list" where
  "newest_seqs t n rows = sql_limit n (rev (sort (map g_seq (filter (\<lambda>r. g_tenant r = t) rows))))"

definition prune :: "string \<Rightarrow> int \<Rightarrow> 'p registry_row list \<Rightarrow> 'p registry_row list" where
  "prune t n rows = filter (\<lambda>r. \<not> (g_tenant r = t \<and> g_seq r \<notin> set (newest_seqs t n rows))) rows"

definition is_row :: "string \<Rightarrow> string \<Rightarrow> 'p registry_row \<Rightarrow> bool" where
  "is_row t k r \<longleftrightarrow> g_tenant r = t \<and> g_key r = k"

text \<open>\<open>INSERT ... ON CONFLICT (tenant_id, finding_id) DO UPDATE\<close>.\<close>

definition upsert_finding :: "string \<Rightarrow> string \<Rightarrow> document \<Rightarrow> registry_db \<Rightarrow> registry_db" where
  "upsert_finding t k p s =
     (if find (is_row t k) (g_findings s) = None
      then s\<lparr>g_findings := g_findings s @ [\<lparr>g_seq = g_next_finding s, g_tenant = t, g_key = k, g_payload = p\<rparr>],
             g_next_finding := g_next_finding s + 1\<rparr>
      else s\<lparr>g_findings := upd_where (is_row t k) (\<lambda>r. r\<lparr>g_payload := p\<rparr>) (g_findings s)\<rparr>)"

definition registry_store :: "core_lib \<Rightarrow> string \<Rightarrow> finding \<Rightarrow> registry_db \<Rightarrow> registry_db" where
  "registry_store L t f s =
     (let s1 = upsert_finding t (f_id f) (finding_to_dict L f) s
      in s1\<lparr>g_findings := prune t (g_max_size s1) (g_findings s1)\<rparr>)"

definition correlation_document :: "core_lib \<Rightarrow> correlation \<Rightarrow> document" where
  "correlation_document L c =
     [(''rule_id'', JStr (c_rule_id c)),
      (''findings'', JArr (map JStr (c_findings c))),
      (''severity'', JStr (severity_value L (c_severity c))),
      (''narrative'', JStr (c_narrative c))]"

fun str_items :: "json list \<Rightarrow> string list option" where
  "str_items [] = Some []"
| "str_items (JStr s # xs) = map_option ((#) s) (str_items xs)"
| "str_items (_ # xs) = None"

text \<open>The document is one the registry wrote; other shapes are a TypeError here.\<close>

definition correlation_of_document :: "core_lib \<Rightarrow> document \<Rightarrow> exn + correlation" where
  "correlation_of_document L v =
     (case (map_of v ''rule_id'', map_of v ''findings'', map_of v ''severity'', map_of v ''narrative'') of
        (Some (JStr r), Some (JArr fs), Some (JStr sv), Some (JStr n)) \<Rightarrow>
          (case str_items fs of
             None \<Rightarrow> Inl (TypeError ''correlation payload'')
           | Some ids \<Rightarrow> bind_exn (severity_of L sv) (\<lambda>sev.
               Inr \<lparr>c_rule_id = r, c_findings = ids, c_severity = sev, c_narrative = n\<rparr>))
      | _ \<Rightarrow> Inl (TypeError ''correlation payload''))"

definition registry_add_correlation :: "core_lib \<Rightarrow> string \<Rightarrow> correlation \<Rightarrow> registry_db \<Rightarrow> registry_db" where
  "registry_add_correlation L t c s =
     (let s1 = s\<lparr>g_correlations := g_correlations s @
              [\<lparr>g_seq = g_next_correlation s, g_tenant = t, g_key = [], g_payload = correlation_document L c\<rparr>],
              g_next_correlation := g_next_correlation s + 1\<rparr>
      in s1\<lparr>g_correlations := prune t (g_max_size s1) (g_correlations s1)\<rparr>)"

section \<open>Reading\<close>

definition tenant_rows :: "string \<Rightarrow> 'p registry_row list \<Rightarrow> 'p registry_row list" where
  "tenant_rows t rows = sort_key g_seq (filter (\<lambda>r. g_tenant r = t) rows)"

definition registry_findings :: "core_lib \<Rightarrow> string \<Rightarrow> registry_db \<Rightarrow> exn + finding list" where
  "registry_findings L t s = all_results (\<lambda>r. finding_from_dict L (g_payload r)) (tenant_rows t (g_findings s))"

definition registry_correlations :: "core_lib \<Rightarrow> string \<Rightarrow> registry_db \<Rightarrow> exn + correlation list" where
  "registry_correlations L t s =
     all_results (\<lambda>r. correlation_of_document L (g_payload r)) (tenant_rows t (g_correlations s))"

text \<open>The loop of \<open>query\<close>; the limit is checked after a finding was appended.\<close>

record registry_query =
  rq_source :: "finding_source option"
  rq_severity :: "finding_severity option"
  rq_host :: "string option"
  rq_cve :: "string option"
  rq_since :: "py_datetime option"

definition too_old :: "py_datetime option \<Rightarrow> finding \<Rightarrow> exn + bool" where
  "too_old since f =
     (case (since, f_ts f) of
        (Some s, Some ts) \<Rightarrow>
          if is_naive s = is_naive ts then Inr (instant ts < instant s)
          else Inl (TypeError ''can't compare offset-naive and offset-aware datetimes'')
      | _ \<Rightarrow> Inr False)"

fun query_loop ::
  "core_lib \<Rightarrow> registry_query \<Rightarrow> int \<Rightarrow> document registry_row list \<Rightarrow> finding list \<Rightarrow> exn + finding list" where
  "query_loop L q limit [] acc = Inr acc"
| "query_loop L q limit (r # rs) acc =
     bind_exn (finding_from_dict L (g_payload r)) (\<lambda>f.
     if \<not> opt_matches (rq_source q) (\<lambda>v. f_source f = v) then query_loop L q limit rs acc
     else if \<not> opt_matches (rq_severity q) (\<lambda>v. f_severity f = v) then query_loop L q limit rs acc
     else if \<not> opt_matches (rq_host q) (\<lambda>v. f_host f = Some v) then query_loop L q limit rs acc
     else if \<not> opt_matches (rq_cve q) (\<lambda>v. f_cve f = Some v) then query_loop L q limit rs acc
     else bind_exn (too_old (rq_since q) f) (\<lambda>old.
       if old then query_loop L q limit rs acc
       else if limit \<le> int (length (acc @ [f])) then Inr (acc @ [f])
       else query_loop L q limit rs (acc @ [f])))"

definition registry_query ::
  "core_lib \<Rightarrow> string \<Rightarrow> registry_query \<Rightarrow> int \<Rightarrow> registry_db \<Rightarrow> exn + finding list" where
  "registry_query L t q limit s = query_loop L q limit (rev (tenant_rows t (g_findings s))) []"

section \<open>Lemmas\<close>

definition seqs_ok :: "'p registry_row list \<Rightarrow> int \<Rightarrow> bool" where
  "seqs_ok rows n \<longleftrightarrow> sorted_wrt (<) (map g_seq rows) \<and> (\<forall>r \<in> set rows. g_seq r < n)"

definition registry_ok :: "registry_db \<Rightarrow> bool" where
  "registry_ok s \<longleftrightarrow> seqs_ok (g_findings s) (g_next_finding s) \<and>
     seqs_ok (g_correlations s) (g_next_correlation s) \<and>
     distinct (map (\<lambda>r. (g_tenant r, g_key r)) (g_findings s))"

definition last_n :: "int \<Rightarrow> 'a list \<Rightarrow> 'a list" where
  "last_n n xs = (if n < 0 then xs else drop (length xs - nat n) xs)"

lemma seqs_ok_filter: "seqs_ok rows n \<Longrightarrow> seqs_ok (filter P rows) n"
  by (auto simp: seqs_ok_def sorted_wrt_map intro: sorted_wrt_filter)

lemma filter_member_drop:
  assumes "distinct (map k xs)"
  shows "filter (\<lambda>r. k r \<in> set (map k (drop m xs))) xs = drop m xs"
proof -
  have "distinct (map k (take m xs @ drop m xs))" using assms by simp
  then have disj: "k ` set (take m xs) \<inter> k ` set (drop m xs) = {}" by (simp only: map_append distinct_append set_map)
  have "filter (\<lambda>r. k r \<in> set (map k (drop m xs))) (take m xs @ drop m xs) = drop m xs"
    unfolding filter_append using disj by (auto simp: filter_empty_conv filter_id_conv)
  then show ?thesis by (simp only: append_take_drop_id)
qed

text \<open>Pruning keeps the newest rows of the tenant and all rows of the others.\<close>

lemma prune_rows:
  assumes "seqs_ok rows n"
  shows "filter (\<lambda>r. g_tenant r = t) (prune t m rows) = last_n m (filter (\<lambda>r. g_tenant r = t) rows)"
    and "t' \<noteq> t \<Longrightarrow> filter (\<lambda>r. g_tenant r = t') (prune t m rows) = filter (\<lambda>r. g_tenant r = t') rows"
proof -
  let ?own = "filter (\<lambda>r. g_tenant r = t) rows"
  have "seqs_ok ?own n" using assms by (rule seqs_ok_filter)
  then have strict: "sorted_wrt (<) (map g_seq ?own)" by (simp add: seqs_ok_def)
  then have "sorted (map g_seq ?own)" by (rule strict_sorted_imp_sorted)
  then have "newest_seqs t m rows = sql_limit m (rev (map g_seq ?own))"
    by (simp add: newest_seqs_def sorted_sort_id)
  then have seqs: "set (newest_seqs t m rows) = set (map g_seq (last_n m ?own))"
    by (auto simp: sql_limit_def last_n_def take_rev drop_map)
  have "filter (\<lambda>r. g_tenant r = t) (prune t m rows) = filter (\<lambda>r. g_seq r \<in> set (map g_seq (last_n m ?own))) ?own"
    unfolding prune_def seqs by (auto intro: filter_cong)
  also have "\<dots> = last_n m ?own"
    using strict [unfolded strict_sorted_iff] filter_member_drop [of g_seq ?own]
    by (cases "m < 0") (simp_all add: last_n_def, auto intro: filter_cong)
  finally show "filter (\<lambda>r. g_tenant r = t) (prune t m rows) = last_n m ?own" .
  show "filter (\<lambda>r. g_tenant r = t') (prune t m rows) = filter (\<lambda>r. g_tenant r = t') rows" if "t' \<noteq> t"
    unfolding prune_def filter_filter using that by (intro filter_cong) auto
qed

lemma prune_subset: "set (prune t m rows) \<subseteq> set rows"
  by (auto simp: prune_def)

lemma seqs_ok_prune [inv_intros]: "seqs_ok rows n \<Longrightarrow> seqs_ok (prune t m rows) n"
  unfolding prune_def by (rule seqs_ok_filter)

lemma seqs_ok_append [inv_intros]:
  "seqs_ok rows n \<Longrightarrow> g_seq r = n \<Longrightarrow> seqs_ok (rows @ [r]) (n + 1)"
  by (auto simp: seqs_ok_def sorted_wrt_append)

lemma seqs_ok_update: "seqs_ok rows n \<Longrightarrow> seqs_ok (upd_where P (\<lambda>r. r\<lparr>g_payload := p\<rparr>) rows) n"
  by (auto simp: seqs_ok_def map_upd_where set_upd_where)

text \<open>The rows of a tenant after a finding was stored: the newest \<open>max_size\<close> of the rows
  with the finding's payload in its old place, or at the end when it is new.\<close>

definition put_row :: "string \<Rightarrow> document \<Rightarrow> int \<Rightarrow> string \<Rightarrow> document registry_row list \<Rightarrow> document registry_row list" where
  "put_row k p n t own =
     (if find (is_row t k) own = None then own @ [\<lparr>g_seq = n, g_tenant = t, g_key = k, g_payload = p\<rparr>]
      else upd_where (is_row t k) (\<lambda>r. r\<lparr>g_payload := p\<rparr>) own)"

lemma upsert_ok:
  assumes "registry_ok s"
  shows "registry_ok (upsert_finding t k p s)"
proof (cases "find (is_row t k) (g_findings s)")
  case None
  then have "(t, k) \<notin> (\<lambda>r. (g_tenant r, g_key r)) ` set (g_findings s)"
    by (auto simp: find_None is_row_def)
  with None assms show ?thesis by (auto simp: upsert_finding_def registry_ok_def inv_intros)
next
  case (Some r)
  with assms show ?thesis
    by (simp add: upsert_finding_def registry_ok_def seqs_ok_update map_upd_where)
qed

lemma distinct_map_prune: "distinct (map k rows) \<Longrightarrow> distinct (map k (prune t m rows))"
  by (auto simp: prune_def distinct_map inj_on_def)

lemma registry_store_ok: "registry_ok s \<Longrightarrow> registry_ok (registry_store L t f s)"
  using upsert_ok [of s t "f_id f" "finding_to_dict L f"]
  by (auto simp: registry_store_def Let_def registry_ok_def inv_intros distinct_map_prune)

lemma find_filter_tenant: "find (is_row t k) (filter (\<lambda>r. g_tenant r = t) rows) = find (is_row t k) rows"
  by (induction rows) (auto simp: is_row_def)

lemma upsert_rows:
  "filter (\<lambda>r. g_tenant r = t) (g_findings (upsert_finding t k p s)) =
     put_row k p (g_next_finding s) t (filter (\<lambda>r. g_tenant r = t) (g_findings s))"
  "t' \<noteq> t \<Longrightarrow> filter (\<lambda>r. g_tenant r = t') (g_findings (upsert_finding t k p s)) =
     filter (\<lambda>r. g_tenant r = t') (g_findings s)"
proof -
  show "filter (\<lambda>r. g_tenant r = t) (g_findings (upsert_finding t k p s)) =
      put_row k p (g_next_finding s) t (filter (\<lambda>r. g_tenant r = t) (g_findings s))"
    by (simp add: upsert_finding_def put_row_def find_filter_tenant filter_upd_where)
  have "upd_where (is_row t k) (\<lambda>r. r\<lparr>g_payload := p\<rparr>) (filter (\<lambda>r. g_tenant r = t') (g_findings s)) =
      filter (\<lambda>r. g_tenant r = t') (g_findings s)" if "t' \<noteq> t"
    by (rule upd_where_none) (use that in \<open>auto simp: is_row_def\<close>)
  then show "t' \<noteq> t \<Longrightarrow> filter (\<lambda>r. g_tenant r = t') (g_findings (upsert_finding t k p s)) =
      filter (\<lambda>r. g_tenant r = t') (g_findings s)"
    by (simp add: upsert_finding_def filter_upd_where)
qed

lemma upsert_max_size [simp]: "g_max_size (upsert_finding t k p s) = g_max_size s"
  by (simp add: upsert_finding_def)

lemma registry_store_rows:
  assumes "registry_ok s"
  shows "filter (\<lambda>r. g_tenant r = t) (g_findings (registry_store L t f s)) =
      last_n (g_max_size s) (put_row (f_id f) (finding_to_dict L f) (g_next_finding s) t
        (filter (\<lambda>r. g_tenant r = t) (g_findings s)))"
    and "t' \<noteq> t \<Longrightarrow> filter (\<lambda>r. g_tenant r = t') (g_findings (registry_store L t f s)) =
      filter (\<lambda>r. g_tenant r = t') (g_findings s)"
proof -
  have "seqs_ok (g_findings (upsert_finding t (f_id f) (finding_to_dict L f) s))
      (g_next_finding (upsert_finding t (f_id f) (finding_to_dict L f) s))"
    using upsert_ok [OF assms] by (simp add: registry_ok_def)
  note pruned = prune_rows [OF this]
  show "filter (\<lambda>r. g_tenant r = t) (g_findings (registry_store L t f s)) =
      last_n (g_max_size s) (put_row (f_id f) (finding_to_dict L f) (g_next_finding s) t
        (filter (\<lambda>r. g_tenant r = t) (g_findings s)))"
    by (simp add: registry_store_def Let_def pruned(1) upsert_rows)
  show "t' \<noteq> t \<Longrightarrow> filter (\<lambda>r. g_tenant r = t') (g_findings (registry_store L t f s)) =
      filter (\<lambda>r. g_tenant r = t') (g_findings s)"
    by (simp add: registry_store_def Let_def pruned(2) upsert_rows)
qed

text \<open>A run of the registry: the writes in order.\<close>

datatype registry_call = Reg_store string finding | Reg_correlation string correlation

fun registry_perform :: "core_lib \<Rightarrow> registry_call \<Rightarrow> registry_db \<Rightarrow> registry_db" where
  "registry_perform L (Reg_store t f) s = registry_store L t f s"
| "registry_perform L (Reg_correlation t c) s = registry_add_correlation L t c s"

lemma registry_perform_ok: "registry_ok s \<Longrightarrow> registry_ok (registry_perform L c s)"
  by (cases c) (simp_all add: registry_store_ok, auto simp: registry_add_correlation_def Let_def registry_ok_def inv_intros)

lemma registry_run_ok: "registry_ok s \<Longrightarrow> registry_ok (fold (registry_perform L) cs s)"
  by (induction cs arbitrary: s) (auto simp: registry_perform_ok)

lemma registry_run_max_size [simp]: "g_max_size (fold (registry_perform L) cs s) = g_max_size s"
proof (induction cs arbitrary: s)
  case (Cons c cs)
  moreover have "g_max_size (registry_perform L c s) = g_max_size s"
    by (cases c) (simp_all add: registry_store_def registry_add_correlation_def Let_def)
  ultimately show ?case by simp
qed simp

lemma new_registry_ok [simp]: "registry_ok (new_registry n)"
  by (simp add: registry_ok_def new_registry_def seqs_ok_def)

text \<open>A correlation written is read back.\<close>

lemma str_items_JStr [simp]: "str_items (map JStr xs) = Some xs"
  by (induction xs) simp_all

lemma severity_of_value:
  assumes "inj (severity_value L)"
  shows "severity_of L (severity_value L x) = Inr x"
proof -
  have "find (\<lambda>y. severity_value L y = severity_value L x) [INFO, LOW, MEDIUM, HIGH, CRITICAL] = Some x"
    using assms by (cases x) (auto simp: inj_def)
  then show ?thesis by (simp add: severity_of_def)
qed

lemma correlation_document_roundtrip:
  "inj (severity_value L) \<Longrightarrow> correlation_of_document L (correlation_document L c) = Inr c"
  by (simp add: correlation_of_document_def correlation_document_def severity_of_value)

end
