(* ===== verification/Correlations.thy ===== *)
theory Correlations
  imports Core_Model
begin

text \<open>
  The correlation rule of \<^verbatim>\<open>correlations.py\<close>: findings on one host from different products
  within a time window. The window and the differences are microseconds; the program
  compares them as \<^verbatim>\<open>total_seconds()\<close> floats, which order the same up to 2 ^ 53
  microseconds (285 years). The comprehension's conditions are evaluated in the order of
  the code, and the first TypeError of a naive and an aware time ends it.
\<close>

definition within_window :: "finding \<Rightarrow> finding \<Rightarrow> int \<Rightarrow> exn + bool" where
  "within_window a b window =
     (case (f_ts a, f_ts b) of
        (Some x, Some y) \<Rightarrow> bind_exn (datetime_diff x y) (\<lambda>d. Inr (\<bar>d\<bar> \<le> window))
      | _ \<Rightarrow> Inr True)"

definition same_host_other_source :: "finding \<Rightarrow> finding \<Rightarrow> bool" where
  "same_host_other_source n f \<longleftrightarrow> f_id f \<noteq> f_id n \<and> f_host f = f_host n \<and> f_source f \<noteq> f_source n"

fun related_findings :: "int \<Rightarrow> finding \<Rightarrow> finding list \<Rightarrow> exn + finding list" where
  "related_findings w n [] = Inr []"
| "related_findings w n (f # fs) =
     (if same_host_other_source n f then
        bind_exn (within_window n f w) (\<lambda>b.
        bind_exn (related_findings w n fs) (\<lambda>rs. Inr (if b then f # rs else rs)))
      else related_findings w n fs)"

text \<open>\<^verbatim>\<open>max(findings, key=rank)\<close> keeps the first finding of the highest rank.\<close>

fun max_by_rank :: "finding \<Rightarrow> finding list \<Rightarrow> finding" where
  "max_by_rank best [] = best"
| "max_by_rank best (f # fs) =
     max_by_rank (if severity_rank (f_severity best) < severity_rank (f_severity f) then f else best) fs"

fun max_severity :: "finding list \<Rightarrow> exn + finding_severity" where
  "max_severity [] = Inl (ValueError ''findings must not be empty'')"
| "max_severity (f # fs) = Inr (f_severity (max_by_rank f fs))"

definition rule_id :: string where
  "rule_id = ''integ-same-host-multi-source''"

definition correlate :: "core_lib \<Rightarrow> int \<Rightarrow> finding \<Rightarrow> finding list \<Rightarrow> exn + correlation list" where
  "correlate L window n existing =
     (if \<not> (f_host n \<noteq> None \<and> f_host n \<noteq> Some []) then Inr []
      else
        bind_exn (related_findings window n existing) (\<lambda>related.
        if related = [] then Inr []
        else
          bind_exn (max_severity (n # related)) (\<lambda>sev.
          Inr [\<lparr>c_rule_id = rule_id,
                c_findings = map f_id (n # related),
                c_severity = sev,
                c_narrative = ''Multi-source findings on '' @ the (f_host n) @ '': '' @
                  join_with '', '' (map (\<lambda>f. source_value L (f_source f)) (n # related))\<rparr>])))"

text \<open>The constructor of the rule.\<close>

definition same_host_rule ::
  "core_lib \<Rightarrow> int \<Rightarrow> exn + (finding \<Rightarrow> finding list \<Rightarrow> exn + correlation list)" where
  "same_host_rule L window =
     (if window < 0 then Inl (ValueError ''window must be non-negative'') else Inr (correlate L window))"

section \<open>What the rule selects\<close>

text \<open>Two times are comparable unless one is naive and the other aware.\<close>

definition comparable :: "finding \<Rightarrow> finding \<Rightarrow> bool" where
  "comparable a b \<longleftrightarrow> (case (f_ts a, f_ts b) of (Some x, Some y) \<Rightarrow> is_naive x = is_naive y | _ \<Rightarrow> True)"

definition close_in_time :: "int \<Rightarrow> finding \<Rightarrow> finding \<Rightarrow> bool" where
  "close_in_time w a b \<longleftrightarrow>
     (case (f_ts a, f_ts b) of (Some x, Some y) \<Rightarrow> \<bar>instant x - instant y\<bar> \<le> w | _ \<Rightarrow> True)"

definition related_to :: "int \<Rightarrow> finding \<Rightarrow> finding \<Rightarrow> bool" where
  "related_to w n f \<longleftrightarrow> same_host_other_source n f \<and> close_in_time w n f"

lemma within_window_comparable: "comparable a b \<Longrightarrow> within_window a b w = Inr (close_in_time w a b)"
  by (auto simp: within_window_def comparable_def close_in_time_def datetime_diff_def split: option.split)

lemma within_window_incomparable:
  "\<not> comparable a b \<Longrightarrow> within_window a b w = Inl (TypeError ''can't subtract offset-naive and offset-aware datetimes'')"
  by (auto simp: within_window_def comparable_def datetime_diff_def split: option.splits)

lemma related_findings_comparable:
  "\<forall>f \<in> set fs. same_host_other_source n f \<longrightarrow> comparable n f \<Longrightarrow>
    related_findings w n fs = Inr (filter (related_to w n) fs)"
  by (induction fs) (auto simp: within_window_comparable related_to_def)

lemma related_findings_incomparable:
  "f \<in> set fs \<Longrightarrow> same_host_other_source n f \<Longrightarrow> \<not> comparable n f \<Longrightarrow>
    related_findings w n fs = Inl (TypeError ''can't subtract offset-naive and offset-aware datetimes'')"
proof (induction fs)
  case (Cons g gs)
  show ?case
  proof (cases "same_host_other_source n g \<and> \<not> comparable n g")
    case True
    then show ?thesis by (simp add: within_window_incomparable)
  next
    case False
    with Cons have "related_findings w n gs = Inl (TypeError ''can't subtract offset-naive and offset-aware datetimes'')"
      by auto
    with False show ?thesis by (auto simp: within_window_comparable)
  qed
qed simp

text \<open>The severity of a correlation is the highest of its findings.\<close>

lemma max_by_rank_severity:
  "f_severity (max_by_rank best fs) = fold (\<lambda>f s. max s (f_severity f)) fs (f_severity best)"
proof (induction fs arbitrary: best)
  case (Cons f fs)
  have "f_severity (if severity_rank (f_severity best) < severity_rank (f_severity f) then f else best) =
      max (f_severity best) (f_severity f)"
    by (auto simp: max_def less_eq_finding_severity_def severity_rank_inj)
  with Cons show ?case by simp
qed simp

lemma fold_max_severity: "fold (\<lambda>f s. max s (f_severity f)) fs a = Max (insert a (f_severity ` set fs))"
proof (induction fs arbitrary: a)
  case (Cons f fs)
  have "fold (\<lambda>f s. max s (f_severity f)) (f # fs) a = Max (insert (max a (f_severity f)) (f_severity ` set fs))"
    using Cons by simp
  also have "\<dots> = Max (insert a (insert (f_severity f) (f_severity ` set fs)))"
    by (cases "fs = []") (simp_all add: max.assoc)
  finally show ?case by simp
qed simp

lemma max_severity_Max: "max_severity (n # fs) = Inr (Max (f_severity ` set (n # fs)))"
  by (simp add: max_by_rank_severity fold_max_severity)

lemma related_to_sym: "related_to w a b \<longleftrightarrow> related_to w b a"
  by (auto simp: related_to_def same_host_other_source_def close_in_time_def abs_minus_commute split: option.split)

end
