(* ===== verification/Samples.thy ===== *)
theory Samples
  imports Api_Proofs Persistence Correlations
begin

text \<open>
  Concrete inputs at which the properties are applied: environments, a serialisation that
  meets the documented round trip of \<^verbatim>\<open>shared_llm_core\<close>, hash functions, findings and jobs.
\<close>

section \<open>Environments\<close>

definition sample_env :: "time \<Rightarrow> string \<Rightarrow> call_env" where
  "sample_env ts u = \<lparr>now = ts, uuid = (\<lambda>n. u @ replicate n (CHR ''x''))\<rparr>"

lemma sample_env_simps [simp]: "now (sample_env ts u) = ts" "uuid (sample_env ts u) n = u @ replicate n (CHR ''x'')"
  by (simp_all add: sample_env_def)

section \<open>A serialisation of findings\<close>

fun sample_source :: "finding_source \<Rightarrow> string" where
  "sample_source SOC = ''soc''"
| "sample_source VULN = ''vuln''"
| "sample_source LAB = ''lab''"
| "sample_source CODE = ''code''"
| "sample_source REVERSE = ''reverse''"
| "sample_source FIRMWARE = ''firmware''"
| "sample_source EXTERNAL = ''external''"

fun sample_severity :: "finding_severity \<Rightarrow> string" where
  "sample_severity INFO = ''info''"
| "sample_severity LOW = ''low''"
| "sample_severity MEDIUM = ''medium''"
| "sample_severity HIGH = ''high''"
| "sample_severity CRITICAL = ''critical''"

definition source_of :: "string \<Rightarrow> finding_source" where
  "source_of s = the (find (\<lambda>x. sample_source x = s) [SOC, VULN, LAB, CODE, REVERSE, FIRMWARE, EXTERNAL])"

definition severity_of :: "string \<Rightarrow> finding_severity" where
  "severity_of s = the (find (\<lambda>x. sample_severity x = s) [INFO, LOW, MEDIUM, HIGH, CRITICAL])"

fun str_of :: "json \<Rightarrow> string" where
  "str_of (JStr s) = s"
| "str_of _ = []"

fun opt_of :: "json \<Rightarrow> string option" where
  "opt_of (JStr s) = Some s"
| "opt_of _ = None"

fun sample_time :: "py_datetime option \<Rightarrow> json" where
  "sample_time None = JNull"
| "sample_time (Some (Naive w)) = JArr [JInt w]"
| "sample_time (Some (Aware w off)) = JArr [JInt w, JInt off]"

fun time_of :: "json \<Rightarrow> py_datetime option" where
  "time_of (JArr [JInt w]) = Some (Naive w)"
| "time_of (JArr [JInt w, JInt off]) = Some (Aware w off)"
| "time_of _ = None"

definition sample_to_dict :: "finding \<Rightarrow> (string \<times> json) list" where
  "sample_to_dict f =
     [(''id'', JStr (f_id f)), (''source'', JStr (sample_source (f_source f))),
      (''severity'', JStr (sample_severity (f_severity f))), (''confidence'', JFloat (f_confidence f)),
      (''title'', JStr (f_title f)), (''description'', JStr (f_description f)),
      (''host'', json_opt (f_host f)), (''cve'', json_opt (f_cve f)), (''ts'', sample_time (f_ts f)),
      (''evidence'', JArr (map JStr (f_evidence f))), (''related'', JArr (map JStr (f_related f))),
      (''tags'', JArr (map JStr (sorted_list_of_fset (f_tags f)))), (''metadata'', JObj (f_metadata f))]"

fun sample_from_dict :: "(string \<times> json) list \<Rightarrow> exn + finding" where
  "sample_from_dict
     [(a, i), (b, src), (c, sev), (d, JFloat conf), (e, ti), (f, de), (g, h), (k, cve), (l, ts),
      (m, JArr ev), (n, JArr rel), (p, JArr tags), (q, JObj md)] =
     Inr \<lparr>f_id = str_of i, f_source = source_of (str_of src), f_severity = severity_of (str_of sev),
          f_confidence = conf, f_title = str_of ti, f_description = str_of de, f_host = opt_of h,
          f_cve = opt_of cve, f_ts = time_of ts, f_evidence = map str_of ev, f_related = map str_of rel,
          f_tags = fset_of_list (map str_of tags), f_metadata = md\<rparr>"
| "sample_from_dict _ = Inl (ValueError ''finding'')"

definition sample_core :: core_lib where
  "sample_core = \<lparr>source_value = sample_source, severity_value = sample_severity,
     finding_to_dict = sample_to_dict, finding_from_dict = sample_from_dict\<rparr>"

lemma source_of_source [simp]: "source_of (sample_source x) = x"
  by (cases x) (simp_all add: source_of_def)

lemma severity_of_severity [simp]: "severity_of (sample_severity x) = x"
  by (cases x) (simp_all add: severity_of_def)

lemma time_of_time [simp]: "time_of (sample_time x) = x"
  by (cases x rule: sample_time.cases) simp_all

lemma opt_of_json_opt [simp]: "opt_of (json_opt x) = x"
  by (cases x) (simp_all add: json_opt_def)

lemma map_str_of [simp]: "map str_of (map JStr xs) = xs"
  by (simp add: o_def)

lemma sample_roundtrip: "dict_roundtrip sample_core"
  by (simp add: dict_roundtrip_def sample_core_def sample_to_dict_def del: map_map)

section \<open>Hash functions\<close>

text \<open>Injective stand-ins; nothing is assumed of the hashes but what a property states.\<close>

definition sample_hashing :: hashing where
  "sample_hashing = \<lparr>sha256_hex = (\<lambda>s. s), float_repr = (\<lambda>q. ''1.0'')\<rparr>"

definition sample_crypto :: crypto where
  "sample_crypto = \<lparr>scrypt_digest = (\<lambda>secret salt. secret @ salt), token_sha256 = (\<lambda>s. s)\<rparr>"

definition sample_secrets :: "time \<Rightarrow> string \<Rightarrow> secret_env" where
  "sample_secrets ts u = call_env.extend (sample_env ts u)
     \<lparr>token_hex = replicate 24 (CHR ''a''), token_urlsafe = replicate 43 (CHR ''B''),
      token_salt = replicate 16 (CHR ''s'')\<rparr>"

section \<open>Findings and jobs\<close>

definition sample_finding :: "string \<Rightarrow> finding_source \<Rightarrow> finding_severity \<Rightarrow> string \<Rightarrow> finding" where
  "sample_finding i src sev title =
     \<lparr>f_id = i, f_source = src, f_severity = sev, f_confidence = 1, f_title = title, f_description = [],
      f_host = Some ''h1'', f_cve = None, f_ts = Some (Aware 1000000 0), f_evidence = [], f_related = [],
      f_tags = {||}, f_metadata = []\<rparr>"

end
