(* ===== verification/Job_Properties.thy ===== *)
theory Job_Properties
  imports Samples
begin

text \<open>
  The properties of the job repositories, over every state their calls can reach, each with
  a witness: both backends give the same answers, their tables stay consistent, requests are
  idempotent, claims exclusive, cancelled jobs are never run, events are numbered without
  gaps and can be read in pages, and listings are complete and ordered.
\<close>

section \<open>Sample stores\<close>

definition sample_job :: job_record where
  "sample_job = new_job ''job_a'' ''acme'' LAB JNull (Some ''k'') 5"

definition sample_store :: sqlite_db where
  "sample_store = \<lparr>sq_jobs = [sample_job],
     sq_events = [new_event ''acme'' ''job_a'' ''status'' (status_payload QUEUED) 5 1]\<rparr>"

definition sample_running :: sqlite_db where
  "sample_running = \<lparr>sq_jobs = [running_job 6 sample_job],
     sq_events = sq_events sample_store @ [new_event ''acme'' ''job_a'' ''status'' (status_payload RUNNING) 6 2]\<rparr>"

lemma sample_create:
  "r_create sqlite_repository (sample_env 5 ''a'') ''acme'' LAB JNull (Some ''k'') sq_empty =
    (Inr (sample_job, True), sample_store)"
  by (simp add: sqlite_repository_def sq_create_def sq_insert_def sq_find_by_idempotency_key_def sq_empty_def
      job_conflict_def sq_append_event_locked_def sq_get_def is_job_def log_event_def next_sequence_def
      is_event_of_def sample_job_def sample_store_def Let_def coalesce_def)

lemma sample_claim:
  "r_mark_running sqlite_repository (sample_env 6 ''b'') ''acme'' ''job_a'' True sample_store =
    (Inr (Some (running_job 6 sample_job)), sample_running)"
  by (simp add: sqlite_repository_def sq_mark_running_def sample_store_def sample_running_def claimable_def is_job_def
      sample_job_def sq_append_event_locked_def sq_required_def sq_get_def log_event_def next_sequence_def
      is_event_of_def upd_where_def new_event_def coalesce_def)

lemma sample_sql_create:
  "fst (r_create (sqlalchemy_repository sample_core) (sample_env 5 ''a'') ''acme'' LAB JNull (Some ''k'') empty_db) =
    Inr (sample_job, True)"
proof -
  have "refines sa_invar sa_view (sa_ready (sample_env 5 ''a'') ''acme'' empty_db) empty_db
      (spec_insert (sample_env 5 ''a'') ''acme'' LAB JNull (Some ''k'') (sa_view empty_db))
      (r_create (sqlalchemy_repository sample_core) (sample_env 5 ''a'') ''acme'' LAB JNull (Some ''k'') empty_db)"
    by (intro sqlalchemy.create_new sa_invar_empty)
      (simp add: sqlalchemy_repository_def sa_find_by_idempotency_key_def empty_db_def)
  moreover have "sa_ready (sample_env 5 ''a'') ''acme'' empty_db"
    by (simp add: sa_ready_def slug_free_def empty_db_def)
  ultimately show ?thesis
    by (auto simp: refines_def spec_insert_def Let_def job_id_used_def sa_view_def empty_db_def table_view_def
        sample_job_def)
qed

definition sample_sql :: database where
  "sample_sql = snd (r_create (sqlalchemy_repository sample_core) (sample_env 5 ''a'') ''acme'' LAB JNull
     (Some ''k'') empty_db)"

lemma sample_sql_created:
  "r_create (sqlalchemy_repository sample_core) (sample_env 5 ''a'') ''acme'' LAB JNull (Some ''k'') empty_db =
    (Inr (sample_job, True), sample_sql)"
  using sample_sql_create by (simp add: sample_sql_def prod_eq_iff)

text \<open>The states the calls of clients lead to from an empty database.\<close>

definition sqlite_after :: "job_call list \<Rightarrow> sqlite_db" where
  "sqlite_after cs = snd (perform_all sqlite_repository cs sq_empty)"

definition sql_after :: "core_lib \<Rightarrow> job_call list \<Rightarrow> database" where
  "sql_after L cs = snd (perform_all (sqlalchemy_repository L) cs empty_db)"

lemma sqlite_after_invar [simp]: "sq_invar (sqlite_after cs)"
  unfolding sqlite_after_def by (rule sqlite.perform_all_invar [OF sq_invar_empty])

lemma sql_after_invar [simp]: "sa_invar (sql_after L cs)"
  unfolding sql_after_def by (rule sqlalchemy.perform_all_invar [OF sa_invar_empty])

section \<open>Properties\<close>

text \<open>
  C1: The two job repositories are interchangeable. On the same sequence of calls from empty
  databases, the SQLite repository and the SQLAlchemy repository return the same answers,
  exceptions and events included, as long as the audit ids drawn are fresh and the tenants
  can be created.
\<close>

theorem backends_same_answers:
  assumes "run_ready sa_ready (sqlalchemy_repository L) cs empty_db"
  shows "fst (perform_all sqlite_repository cs sq_empty) = fst (perform_all (sqlalchemy_repository L) cs empty_db)"
proof -
  have "backends.related sq_empty empty_db"
    using sq_invar_empty sa_invar_empty
    by (simp add: backends.related_def sq_view_def sa_view_def sq_empty_def empty_db_def table_view_def)
  from backends.perform_all_agree [OF this run_ready_True assms] show ?thesis by simp
qed

theorem backends_same_answers_witness:
  "fst (perform_all sqlite_repository
      [Call_create (sample_env 5 ''a'') ''acme'' LAB JNull (Some ''k''), Call_get ''acme'' ''job_a''] sq_empty) =
    fst (perform_all (sqlalchemy_repository sample_core)
      [Call_create (sample_env 5 ''a'') ''acme'' LAB JNull (Some ''k''), Call_get ''acme'' ''job_a''] empty_db)"
  by (rule backends_same_answers) (simp add: sa_ready_def empty_db_def slug_free_def)

text \<open>
  C9: Whatever calls clients make, in both repositories a job has one tenant, an idempotency
  key has at most one job in its tenant, and the events of a job are numbered 1, 2, 3 and so
  on without a gap.
\<close>

theorem job_stores_consistent:
  "wf_store (sq_view (sqlite_after cs)) \<and> wf_store (sa_view (sql_after L cs))"
  using sqlite.wf [OF sqlite_after_invar] sqlalchemy.wf [OF sql_after_invar] by simp

text \<open>
  A create with an idempotency key is answered, at any later time and whatever calls
  came between, by the same job: the second create returns the job of the first one, says
  that it was not created, and changes nothing.
\<close>

theorem create_once_per_key:
  assumes "r_create (sqlalchemy_repository L) e t src p (Some k) (sql_after L cs) = (Inr (r, created), d)"
  shows "\<exists>r'. r_create (sqlalchemy_repository L) e' t src' p' (Some k)
      (snd (perform_all (sqlalchemy_repository L) cs' d)) =
    (Inr (r', False), snd (perform_all (sqlalchemy_repository L) cs' d)) \<and> j_id r' = j_id r"
proof -
  have "sqlalchemy.has_job t (j_id r) k d"
    using sql_after_invar assms by (rule sqlalchemy.create_has_job)
  then have has: "sqlalchemy.has_job t (j_id r) k (snd (perform_all (sqlalchemy_repository L) cs' d))"
    using sqlalchemy.perform_all_invar sqlalchemy.perform_all_keyed by (auto simp: sqlalchemy.has_job_def)
  then obtain r' where r': "j_id r' = j_id r"
    "r_find_by_idempotency_key (sqlalchemy_repository L) t k (snd (perform_all (sqlalchemy_repository L) cs' d)) = Some r'"
    by (rule sqlalchemy.has_job_found) blast
  have "r_create (sqlalchemy_repository L) e' t src' p' (Some k)
      (snd (perform_all (sqlalchemy_repository L) cs' d)) =
    (Inr (r', False), snd (perform_all (sqlalchemy_repository L) cs' d))"
    using has by (intro sqlalchemy.create_found r'(2)) (simp add: sqlalchemy.has_job_def)
  with r'(1) show ?thesis by blast
qed

theorem create_once_per_key_witness:
  "\<exists>r'. r_create (sqlalchemy_repository sample_core) (sample_env 9 ''z'') ''acme'' CODE JNull (Some ''k'')
      (snd (perform_all (sqlalchemy_repository sample_core)
        [Call_request_cancel (sample_env 8 ''y'') ''acme'' ''job_a''] sample_sql)) =
    (Inr (r', False), snd (perform_all (sqlalchemy_repository sample_core)
        [Call_request_cancel (sample_env 8 ''y'') ''acme'' ''job_a''] sample_sql)) \<and> j_id r' = j_id sample_job"
  by (rule create_once_per_key [where cs = "[]" and e = "sample_env 5 ''a''" and src = LAB and p = JNull and created = True])
    (simp add: sql_after_def sample_sql_created)

text \<open>
  C8: Of the workers that claim a queued job only one gets it: after a successful claim,
  and any calls that are not claims or transitions of this job, every further first claim
  fails.
\<close>

theorem claim_only_once:
  assumes "r_mark_running (sqlalchemy_repository L) e t j True (sql_after L cs) = (Inr (Some r), d)"
    and "\<forall>c \<in> set cs'. \<not> moves t j c"
  shows "fst (r_mark_running (sqlalchemy_repository L) e' t j True
    (snd (perform_all (sqlalchemy_repository L) cs' d))) \<in> {Inr None, Inl IntegrityError}"
  using sql_after_invar assms by (rule sqlalchemy.claim_exclusive)

lemma sample_sql_after:
  "sql_after sample_core [Call_create (sample_env 5 ''a'') ''acme'' LAB JNull (Some ''k'')] = sample_sql"
  by (simp add: sql_after_def perform_all.simps(2) sample_sql_created)

lemma sample_sql_claim:
  "fst (r_mark_running (sqlalchemy_repository sample_core) (sample_env 6 ''b'') ''acme'' ''job_a'' True sample_sql) =
    Inr (Some (running_job 6 sample_job))"
  by code_simp

theorem claim_only_once_witness:
  "fst (r_mark_running (sqlalchemy_repository sample_core) (sample_env 9 ''z'') ''acme'' ''job_a'' True
      (snd (perform_all (sqlalchemy_repository sample_core)
        [Call_append_event (sample_env 7 ''c'') ''acme'' ''job_a'' ''progress'' JNull]
        (snd (r_mark_running (sqlalchemy_repository sample_core) (sample_env 6 ''b'') ''acme'' ''job_a'' True
          sample_sql))))) \<in> {Inr None, Inl IntegrityError}"
  by (rule claim_only_once [where cs = "[Call_create (sample_env 5 ''a'') ''acme'' LAB JNull (Some ''k'')]"
        and e = "sample_env 6 ''b''" and r = "running_job 6 sample_job"])
    (simp_all add: sample_sql_after sample_sql_claim prod_eq_iff)

text \<open>
  A queued job that a client cancels is CANCELLED at once and is never run: no claim,
  first or repeated, succeeds after it, whatever calls of other actors come between.
\<close>

theorem cancelled_job_never_claimed:
  assumes "r_get sqlite_repository t j (sqlite_after cs) = Some r0" and "j_status r0 = QUEUED"
    and "r_request_cancel sqlite_repository e t j (sqlite_after cs) = (Inr r, s)"
    and "\<forall>c \<in> set cs'. \<not> moves t j c"
  shows "j_status r = CANCELLED \<and>
    (\<exists>r'. r_get sqlite_repository t j (snd (perform_all sqlite_repository cs' s)) = Some r' \<and>
       j_status r' = CANCELLED) \<and>
    fst (r_mark_running sqlite_repository e' t j rq (snd (perform_all sqlite_repository cs' s))) = Inr None"
proof -
  let ?s = "sqlite_after cs" and ?s' = "snd (perform_all sqlite_repository cs' s)"
  have r0: "st_jobs (sq_view ?s) t j = Some r0" using assms(1) by (simp add: sqlite.get)
  have "refines sq_invar sq_view True ?s (spec_request_cancel e t j (sq_view ?s)) (Inr r, s)"
    using sqlite.request_cancel [OF sqlite_after_invar [of cs], where e = e and t = t and j = j] assms(3) by simp
  then have s: "sq_invar s" "r = cancelled_job (now e) r0" "st_jobs (sq_view s) t j = Some r"
    using r0 assms(2) by (auto simp: refines_def spec_request_cancel_def)
  then have r: "j_status r = CANCELLED" by (simp add: assms(2) cancel_status_def)
  obtain r' where r': "st_jobs (sq_view ?s') t j = Some r'" "j_status r' = CANCELLED"
    using sqlite.terminal_kept [OF s(1) assms(4) s(3)] r by auto
  have inv: "sq_invar ?s'" using s(1) by (rule sqlite.perform_all_invar)
  have "fst (spec_mark_running e' t j rq (sq_view ?s')) = Inr None"
    using r' by (simp add: spec_mark_running_def claimable_def)
  with sqlite.mark_running [OF inv, where e = e' and t = t and j = j and rq = rq]
  have "fst (r_mark_running sqlite_repository e' t j rq ?s') = Inr None" by (simp add: refines_def)
  with r r' show ?thesis by (simp add: sqlite.get [OF inv])
qed

lemma sample_sqlite_after:
  "sqlite_after [Call_create (sample_env 5 ''a'') ''acme'' LAB JNull (Some ''k'')] = sample_store"
  by (simp add: sqlite_after_def perform_all.simps(2) sample_create)

definition sample_cancelled :: sqlite_db where
  "sample_cancelled = \<lparr>sq_jobs = [cancelled_job 7 sample_job],
     sq_events = sq_events sample_store @
       [new_event ''acme'' ''job_a'' ''cancel_requested'' (status_payload CANCELLED) 7 2]\<rparr>"

theorem cancelled_job_never_claimed_witness:
  "fst (r_mark_running sqlite_repository (sample_env 9 ''z'') ''acme'' ''job_a'' True
    (snd (perform_all sqlite_repository
      [Call_set_dispatch_id (sample_env 8 ''y'') ''acme'' ''job_a'' ''d''] sample_cancelled))) = Inr None"
proof -
  have there: "r_get sqlite_repository ''acme'' ''job_a'' sample_store = Some sample_job" by code_simp
  have queued: "j_status sample_job = QUEUED" by code_simp
  have cancelled: "r_request_cancel sqlite_repository (sample_env 7 ''c'') ''acme'' ''job_a'' sample_store =
      (Inr (cancelled_job 7 sample_job), sample_cancelled)" by code_simp
  have others: "\<forall>c \<in> set [Call_set_dispatch_id (sample_env 8 ''y'') ''acme'' ''job_a'' ''d'']. \<not> moves ''acme'' ''job_a'' c"
    by simp
  show ?thesis
    using cancelled_job_never_claimed [OF there [folded sample_sqlite_after] queued
        cancelled [folded sample_sqlite_after] others] by blast
qed

text \<open>
  Reading the events of a job in pages loses and repeats nothing: in every reachable
  state all its events are the first \<open>n\<close> of them followed by what is listed after sequence
  \<open>n\<close>, and the \<open>n\<close>-th event carries the sequence number \<open>n\<close>.
\<close>

theorem event_pages_complete:
  "let R = sqlite_repository; s = sqlite_after cs; evs = r_list_events R t j 0 (-1) s
   in evs = take n evs @ r_list_events R t j (int n) (-1) s \<and>
      map ev_sequence evs = map int [Suc 0..<Suc (length evs)]"
  using sqlite.events_resume [OF sqlite_after_invar, where t = t and j = j and after = "int n"]
    sqlite.wf [OF sqlite_after_invar]
  by (simp add: Let_def wf_store_def sqlite.list_events [OF sqlite_after_invar] sql_limit_def del: upt_Suc)

text \<open>
  A listing shows the newest jobs of the tenant that match the filters, strictly newest
  first and at most 200 of them, and none is left out within that limit.
\<close>

theorem job_listing_complete:
  "\<exists>xs. listing {r. \<exists>j. st_jobs (sa_view (sql_after L cs)) t j = Some r \<and> job_matches t status src r} xs \<and>
     r_list_jobs (sqlalchemy_repository L) t status src n (sql_after L cs) = take (nat (page_limit n)) xs \<and>
     page_limit n \<le> 200"
proof -
  obtain xs where "listing {r. \<exists>j. st_jobs (sa_view (sql_after L cs)) t j = Some r \<and> job_matches t status src r} xs"
    "r_list_jobs (sqlalchemy_repository L) t status src n (sql_after L cs) = sql_limit (page_limit n) xs"
    using sqlalchemy.list_jobs [OF sql_after_invar] by blast
  moreover have "0 \<le> page_limit n" "page_limit n \<le> 200" by (simp_all add: page_limit_def)
  ultimately show ?thesis by (auto simp: sql_limit_def)
qed

text \<open>
  Two creates with one key that both find no job before they insert end with one job:
  the locked part of the second one, run when the job of the first is there, rolls back and
  returns that job as not created.
\<close>

theorem create_race_one_job:
  assumes "sq_find_by_idempotency_key t k (sqlite_after cs) = Some r"
  shows "sq_insert e t src p (Some k) (sqlite_after cs) = (Inr (r, False), sqlite_after cs)"
proof -
  have "r \<in> set (sq_jobs (sqlite_after cs))" "j_tenant_id r = t" "j_idempotency_key r = Some k"
    using assms by (auto simp: sq_find_by_idempotency_key_def has_key_def dest: find_SomeD)
  then have "job_conflict (new_job (''job_'' @ uuid e 0) t src p (Some k) (now e)) (sq_jobs (sqlite_after cs))"
    by (auto simp: job_conflict_def)
  with assms show ?thesis by (simp add: sq_insert_def Let_def)
qed

theorem create_race_one_job_witness:
  "sq_insert (sample_env 9 ''z'') ''acme'' CODE JNull (Some ''k'') sample_store = (Inr (sample_job, False), sample_store)"
  using create_race_one_job [of "''acme''" "''k''" "[Call_create (sample_env 5 ''a'') ''acme'' LAB JNull (Some ''k'')]"]
  by (simp add: sample_sqlite_after sq_find_by_idempotency_key_def sample_store_def has_key_def sample_job_def)

end
