(* ===== verification/Executor_Properties.thy ===== *)
theory Executor_Properties
  imports Job_Properties
begin

text \<open>
  The properties of the executor over the SQLAlchemy repository and registry, while the API,
  other jobs' executors and other tenants call the repository between its steps: how a job
  ends, that the end is final, termination, the tenant binding, and three ways in which a
  job is left RUNNING.
\<close>

section \<open>The executor of the deployment and sample inputs\<close>

definition sample_executor :: "database executor" where
  "sample_executor =
     \<lparr>ex_repository = sqlalchemy_repository sample_core, ex_registry = sqlalchemy_registry sample_core sample_hashing,
      ex_products = {LAB}, ex_correlations = [], ex_max_attempts = 2, ex_core = sample_core,
      ex_exn_text = (\<lambda>x. ''error'')\<rparr>"

definition sample_input :: "time \<Rightarrow> string \<Rightarrow> scan_outcome option \<Rightarrow> exec_input" where
  "sample_input ts u out =
     \<lparr>in_env = sample_env ts u, in_stopped = False, in_scan = out, in_cancelled_scan = Scan_cancelled\<rparr>"

definition sample_error :: product_error where
  "sample_error = \<lparr>pe_code = ''E'', pe_message = ''m'', pe_retryable = True, pe_timeout = False\<rparr>"

text \<open>An executor that failed its first attempt and waits before the next one.\<close>

definition sample_backoff :: "database exec_state" where
  "sample_backoff = exec_run sample_executor ''acme'' ''job_a''
     [sample_input 6 ''s'' None, sample_input 6 ''s'' None, sample_input 6 ''s'' None,
      sample_input 7 ''t'' (Some (Scan_product_error sample_error)), sample_input 8 ''v'' None]
     (exec_start ''_system'' sample_sql)"

lemma sample_deployed: "deployed sample_core sample_hashing sample_executor"
  by (simp add: deployed_def sample_executor_def)

text \<open>Positions hold functions; the tests on them are evaluated.\<close>

fun at_backoff :: "int \<Rightarrow> exec_pc \<Rightarrow> bool" where
  "at_backoff n (At_backoff k) \<longleftrightarrow> k = n"
| "at_backoff n pc \<longleftrightarrow> False"

fun at_claim :: "int \<Rightarrow> exec_pc \<Rightarrow> bool" where
  "at_claim n (At_claim k) \<longleftrightarrow> k = n"
| "at_claim n pc \<longleftrightarrow> False"

fun finished :: "exn option \<Rightarrow> exec_pc \<Rightarrow> bool" where
  "finished r (Finished r') \<longleftrightarrow> r = r'"
| "finished r pc \<longleftrightarrow> False"

lemma pc_tests: "at_backoff n pc \<longleftrightarrow> pc = At_backoff n" "at_claim n pc \<longleftrightarrow> pc = At_claim n"
  "finished r pc \<longleftrightarrow> pc = Finished r"
  by (cases pc; auto)+

lemma sample_backoff_pc: "at_backoff 1 (x_pc sample_backoff)"
  by code_simp

lemma exec_system_run: "exec_system X t j x y \<Longrightarrow> exec_system X t j x (exec_run X t j is y)"
  unfolding exec_run_def by (induction "is" arbitrary: y) (auto intro: exec_own)

lemma sample_backoff_system:
  "exec_system sample_executor ''acme'' ''job_a'' (exec_start ''_system'' sample_sql) sample_backoff"
  unfolding sample_backoff_def by (rule exec_system_run [OF exec_refl])

lemma sample_sql_invar: "sa_invar sample_sql"
  using sql_after_invar [of sample_core "[Call_create (sample_env 5 ''a'') ''acme'' LAB JNull (Some ''k'')]"]
  by (simp add: sample_sql_after)

lemma sample_sql_get: "r_get (sqlalchemy_repository sample_core) ''acme'' ''job_a'' sample_sql = Some sample_job"
  by code_simp

section \<open>Properties\<close>

text \<open>
  C3: How a job ends. When an executor that found the job queued returns normally, the job is
  SUCCEEDED, FAILED, CANCELLED or TIMED_OUT, or a client asked to cancel it while it was
  RUNNING; and the executor counted at most \<open>max_attempts\<close> attempts. Between its steps come any
  calls of the API, of other jobs' executors and of other tenants, but none that claims or
  moves this job: a second executor of the same job at the same time is excluded.
\<close>

theorem executor_ends_job:
  assumes "deployed L H X" and "sa_invar d"
    and "exec_system X t j (exec_start ctx d) y" and "x_pc y = Finished None"
    and "r_get (sqlalchemy_repository L) t j d = Some r0" and "j_status r0 = QUEUED"
  shows "\<exists>r. r_get (sqlalchemy_repository L) t j (x_state y) = Some r \<and>
    (terminal (j_status r) \<or> j_status r = RUNNING \<and> j_cancel_requested r) \<and>
    j_attempt r \<le> j_attempt r0 + ex_max_attempts X"
proof -
  have X: "1 \<le> ex_max_attempts X" "ex_repository X = sqlalchemy_repository L"
    "ex_registry X = sqlalchemy_registry L H" using assms(1) by (simp_all add: deployed_def)
  show ?thesis
  proof (cases "j_source r0 \<notin> ex_products X \<or> j_cancel_requested r0")
    case True
    have "sqlalchemy_executor.job_in t j (sqlalchemy_executor.early_phase X r0 (x_pc y)) (x_state y)"
      using assms(3,2,5) True X(1,2) by (rule sqlalchemy_executor.early_outcome)
    with assms(4) X(1) show ?thesis
      by (auto simp: sqlalchemy_executor.job_in_def sqlalchemy_executor.early_phase_def sqlalchemy.get)
  next
    case False
    have "\<exists>r. sa_invar (x_state y) \<and> r_get (sqlalchemy_repository L) t j (x_state y) = Some r \<and>
        job_phase (ex_max_attempts X) r0 (x_pc y) r"
      using assms(3,2,5) by (rule sqlalchemy_executor.executor_outcome) (use assms(6) False X in auto)
    with assms(4,6) show ?thesis by (auto simp: job_phase_def well_ended_def)
  qed
qed

definition sample_success :: "database exec_state" where
  "sample_success = exec_run sample_executor ''acme'' ''job_a''
     [sample_input 6 ''s'' None, sample_input 6 ''s'' None, sample_input 6 ''s'' None,
      sample_input 7 ''t'' (Some (Scan_findings [sample_finding ''f1'' LAB HIGH ''x''])),
      sample_input 8 ''v'' None, sample_input 8 ''v'' None, sample_input 9 ''w'' None, sample_input 9 ''w'' None,
      sample_input 9 ''w'' None, sample_input 10 ''z'' None]
     (exec_start ''_system'' sample_sql)"

lemma sample_success_pc: "finished None (x_pc sample_success)"
  by code_simp

theorem executor_ends_job_witness:
  "\<exists>r. r_get (sqlalchemy_repository sample_core) ''acme'' ''job_a'' (x_state sample_success) = Some r \<and>
    (terminal (j_status r) \<or> j_status r = RUNNING \<and> j_cancel_requested r) \<and>
    j_attempt r \<le> j_attempt sample_job + ex_max_attempts sample_executor"
proof (rule executor_ends_job [OF sample_deployed sample_sql_invar _ _ sample_sql_get])
  show "exec_system sample_executor ''acme'' ''job_a'' (exec_start ''_system'' sample_sql) sample_success"
    unfolding sample_success_def by (rule exec_system_run [OF exec_refl])
  show "x_pc sample_success = Finished None" using sample_success_pc by (simp add: pc_tests)
qed (simp_all add: sample_job_def new_job_def sample_executor_def)

text \<open>
  The end is final for its executor: a step of an executor whose job is terminal, in
  any interleaving, leaves the job as it is.
\<close>

theorem terminal_job_kept:
  assumes "deployed L H X" and "sa_invar d" and "exec_system X t j (exec_start ctx d) y"
    and "r_get (sqlalchemy_repository L) t j d = Some r0" and "\<not> terminal (j_status r0)"
    and "j_status r0 = QUEUED \<longrightarrow> \<not> j_cancel_requested r0" and "j_source r0 \<in> ex_products X"
    and "r_get (sqlalchemy_repository L) t j (x_state y) = Some r" and "terminal (j_status r)"
  shows "r_get (sqlalchemy_repository L) t j (x_state (exec_step X t j i y)) = Some r"
proof -
  have X: "1 \<le> ex_max_attempts X" "ex_repository X = sqlalchemy_repository L"
    "ex_registry X = sqlalchemy_registry L H" using assms(1) by (simp_all add: deployed_def)
  obtain r' where "sa_invar (x_state y)" "r_get (sqlalchemy_repository L) t j (x_state y) = Some r'"
    "job_phase (ex_max_attempts X) r0 (x_pc y) r'"
    using sqlalchemy_executor.executor_outcome [OF assms(3,2,4-6) X(1) assms(7) X(2,3)] by blast
  with assms(8,9) X(2) show ?thesis by (intro sqlalchemy_executor.terminal_final) auto
qed

theorem terminal_job_kept_witness:
  "r_get (sqlalchemy_repository sample_core) ''acme'' ''job_a''
      (x_state (exec_step sample_executor ''acme'' ''job_a'' (sample_input 11 ''q'' None) sample_success)) =
    r_get (sqlalchemy_repository sample_core) ''acme'' ''job_a'' (x_state sample_success)"
proof -
  have ended: "map_option j_status (r_get (sqlalchemy_repository sample_core) ''acme'' ''job_a''
      (x_state sample_success)) = Some SUCCEEDED" by code_simp
  then obtain r where r: "r_get (sqlalchemy_repository sample_core) ''acme'' ''job_a'' (x_state sample_success) = Some r"
    "j_status r = SUCCEEDED" by auto
  have "exec_system sample_executor ''acme'' ''job_a'' (exec_start ''_system'' sample_sql) sample_success"
    unfolding sample_success_def by (rule exec_system_run [OF exec_refl])
  from terminal_job_kept [OF sample_deployed sample_sql_invar this sample_sql_get _ _ _ r(1)] r(2)
  have "r_get (sqlalchemy_repository sample_core) ''acme'' ''job_a''
      (x_state (exec_step sample_executor ''acme'' ''job_a'' (sample_input 11 ''q'' None) sample_success)) = Some r"
    by (simp add: sample_job_def new_job_def sample_executor_def)
  with r(1) show ?thesis by simp
qed

text \<open>
  C23: The executor terminates. An executor whose scans end, each after any number of polls,
  reaches the end of \<^verbatim>\<open>execute\<close> after finitely many steps, whatever the repository, the registry
  and the rules answer and whatever others do to the shared state after each of its steps.
\<close>

theorem executor_terminates:
  assumes "1 \<le> ex_max_attempts X" and "\<forall>k. \<exists>k' \<ge> k. in_scan (f k') \<noteq> None"
  shows "\<exists>n r. x_pc (exec_among X t j f g n (exec_start ctx s)) = Finished r"
  using frame_start [OF assms(1)] assms by (rule exec_finishes)

theorem executor_terminates_witness:
  "\<exists>n r. x_pc (exec_among sample_executor ''acme'' ''job_a''
    (\<lambda>k. sample_input (int k) ''s'' (if even k then Some Scan_cancelled else None)) (\<lambda>k d. d) n
    (exec_start ''_system'' sample_sql)) = Finished r"
proof (rule executor_terminates)
  show "1 \<le> ex_max_attempts sample_executor" by (simp add: sample_executor_def)
  have "even (2 * k) \<and> k \<le> 2 * k" for k :: nat by simp
  then show "\<forall>k. \<exists>k' \<ge> k. in_scan (sample_input (int k') ''s'' (if even k' then Some Scan_cancelled else None)) \<noteq> None"
    by (metis exec_input.select_convs(3) option.distinct(1) sample_input_def)
qed

text \<open>
  C24: Everything an attempt does to the registry it does as the tenant of its job, and the
  tenant that was bound before is bound again whenever the executor is outside an attempt,
  also at its end by an exception.
\<close>

theorem tenant_bound_in_attempt:
  assumes "1 \<le> ex_max_attempts X" and "exec_system X t j (exec_start ctx s) y"
  shows "x_tenant y = (if in_attempt (x_pc y) then t else ctx)"
  using frame_system [OF assms(2) frame_start [OF assms(1)] assms(1)]
  by (simp add: frame_ok_def binding_ok_def)

theorem tenant_bound_in_attempt_witness: "x_tenant sample_backoff = ''acme''"
  using tenant_bound_in_attempt [OF _ sample_backoff_system] sample_backoff_pc
  by (simp add: pc_tests sample_executor_def)

text \<open>
  C37: A job that is RUNNING when an executor starts on it, as after the crash of the worker
  that ran it, of a source with a registered product and without a cancel request, is not run
  again and not ended: alone, the executor never changes a job record or its events,
  whatever its inputs are.
\<close>

theorem running_job_stays:
  assumes "deployed L H X" and "sa_invar d" and "r_get (sqlalchemy_repository L) t j d = Some r"
    and "j_status r = RUNNING" and "\<not> j_cancel_requested r" and "j_source r \<in> ex_products X"
  shows "sa_view (x_state (exec_run X t j is (exec_start ctx d))) = sa_view d"
proof -
  have "sqlalchemy.idle_at X t j (exec_start ctx d) (sa_view d)"
    using assms by (auto simp: sqlalchemy.idle_at_def redelivered_def exec_start_def deployed_def)
  then have "sqlalchemy.idle_at X t j (exec_run X t j is (exec_start ctx d)) (sa_view d)"
    by (rule sqlalchemy.idle_run) (use assms(1) in \<open>auto simp: deployed_def\<close>)
  then show ?thesis by (simp add: sqlalchemy.idle_at_def)
qed

definition sample_sql_running :: database where
  "sample_sql_running = snd (r_mark_running (sqlalchemy_repository sample_core) (sample_env 6 ''b'') ''acme'' ''job_a''
     True sample_sql)"

lemma sample_sql_running_invar: "sa_invar sample_sql_running"
  using sqlalchemy.perform_invar [OF sample_sql_invar, of sample_core "Call_mark_running (sample_env 6 ''b'') ''acme'' ''job_a'' True"]
  by (simp add: sample_sql_running_def)

lemma sample_sql_running_get:
  "r_get (sqlalchemy_repository sample_core) ''acme'' ''job_a'' sample_sql_running = Some (running_job 6 sample_job)"
  by code_simp

theorem running_job_stays_witness:
  "sa_view (x_state (exec_run sample_executor ''acme'' ''job_a''
      [sample_input 7 ''s'' None, sample_input 7 ''s'' None, sample_input 7 ''s'' None]
      (exec_start ''_system'' sample_sql_running))) = sa_view sample_sql_running"
  by (rule running_job_stays [OF sample_deployed sample_sql_running_invar sample_sql_running_get])
    (simp_all add: sample_job_def new_job_def sample_executor_def job_updates)

lemma sa_mark_running_unclaimed:
  assumes "sa_invar d" and "sa_get t j d = Some r" and "\<not> claimable t j rq r"
  shows "sa_mark_running e t j rq d = (Inr None, d)"
proof -
  have "length (filter (claimable t j rq) (db_jobs d)) = 0"
    using assms by (auto simp: claim_rowcount sa_invar_def sa_get_def job_from_row_def split: option.splits)
  then have "filter (claimable t j rq) (db_jobs d) = []" by simp
  then have "upd_where (claimable t j rq) (running_job (now e)) (db_jobs d) = db_jobs d"
    by (auto simp: upd_where_def filter_empty_conv intro: map_idI)
  with \<open>filter (claimable t j rq) (db_jobs d) = []\<close> show ?thesis by (simp add: sa_mark_running_def Let_def)
qed

text \<open>
  C36: A cancel request can be lost. When a client's cancel of a job that was queued succeeds
  after the executor checked the job at the head of a further attempt and before it claims
  it, the executor's next step ends it normally without writing; and the job is RUNNING with
  the request set, and stays so under any calls that do not claim or move it.
\<close>

theorem cancel_lost_between_attempts:
  assumes "deployed L H X" and "sa_invar d" and "exec_system X t j (exec_start ctx d) y"
    and "r_get (sqlalchemy_repository L) t j d = Some r0" and "j_status r0 = QUEUED"
    and "x_pc y = At_claim n" and "1 < n"
    and "r_request_cancel (sqlalchemy_repository L) e t j (x_state y) = (Inr r, d')"
    and "\<forall>c \<in> set cs. \<not> moves t j c"
  shows "x_pc (exec_step X t j i (y\<lparr>x_state := d'\<rparr>)) = Finished None \<and>
    x_state (exec_step X t j i (y\<lparr>x_state := d'\<rparr>)) = d' \<and>
    (\<exists>r'. r_get (sqlalchemy_repository L) t j (snd (perform_all (sqlalchemy_repository L) cs d')) = Some r' \<and>
      j_status r' = RUNNING \<and> j_cancel_requested r')"
proof -
  have X: "1 \<le> ex_max_attempts X" "ex_repository X = sqlalchemy_repository L"
    "ex_registry X = sqlalchemy_registry L H" using assms(1) by (simp_all add: deployed_def)
  have known: "\<not> (j_source r0 \<notin> ex_products X \<or> j_cancel_requested r0)"
    using sqlalchemy_executor.early_outcome [OF assms(3,2,4) _ X(1,2)] assms(6)
    by (auto simp: sqlalchemy_executor.job_in_def sqlalchemy_executor.early_phase_def)
  have "\<exists>r. sa_invar (x_state y) \<and> r_get (sqlalchemy_repository L) t j (x_state y) = Some r \<and>
      job_phase (ex_max_attempts X) r0 (x_pc y) r"
    using assms(3,2,4) by (rule sqlalchemy_executor.executor_outcome) (use assms(5) known X in auto)
  then obtain ry where inv: "sa_invar (x_state y)" and ry: "r_get (sqlalchemy_repository L) t j (x_state y) = Some ry"
    "j_status ry = RUNNING" using assms(6,7) by (auto simp: job_phase_def)
  obtain r1 where r1: "r_get (sqlalchemy_repository L) t j d' = Some r1" "j_status r1 = RUNNING"
    "j_cancel_requested r1" and inv': "sa_invar d'"
    using sqlalchemy.cancel_running [OF inv ry assms(8)] by blast
  have "sa_mark_running (in_env i) t j False d' = (Inr None, d')"
    by (rule sa_mark_running_unclaimed [OF inv', where r = r1])
      (use r1 in \<open>auto simp: sqlalchemy_repository_def claimable_def\<close>)
  then have "r_mark_running (ex_repository X) (in_env i) t j (n = 1) d' = (Inr None, d')"
    using assms(7) X(2) by (simp add: sqlalchemy_repository_def)
  moreover obtain r' where "r_get (sqlalchemy_repository L) t j
      (snd (perform_all (sqlalchemy_repository L) cs d')) = Some r'" "job_kept r1 r'"
    using sqlalchemy.perform_all_keeps [OF inv' assms(9), of L] sqlalchemy.perform_all_invar [OF inv', of L cs] inv' r1(1)
    by (auto simp: store_keeps_def sqlalchemy.get)
  ultimately show ?thesis using assms(6) r1 by (auto simp: exec_step_def Let_def job_kept_def)
qed

text \<open>The second attempt of the sample job, checked and not yet claimed.\<close>

definition sample_second :: "database exec_state" where
  "sample_second = exec_run sample_executor ''acme'' ''job_a''
    [sample_input 9 ''w'' None, sample_input 9 ''w'' None] sample_backoff"

lemma sample_second_pc: "at_claim 2 (x_pc sample_second)"
  by code_simp

theorem cancel_lost_between_attempts_witness:
  "\<exists>r'. r_get (sqlalchemy_repository sample_core) ''acme'' ''job_a''
      (snd (perform_all (sqlalchemy_repository sample_core) [Call_get ''acme'' ''job_a'']
        (snd (r_request_cancel (sqlalchemy_repository sample_core) (sample_env 10 ''d'') ''acme'' ''job_a''
          (x_state sample_second))))) = Some r' \<and> j_status r' = RUNNING \<and> j_cancel_requested r'"
proof -
  let ?out = "r_request_cancel (sqlalchemy_repository sample_core) (sample_env 10 ''d'') ''acme'' ''job_a''
    (x_state sample_second)"
  have "\<not> isl (fst ?out)" by code_simp
  then obtain r where out: "?out = (Inr r, snd ?out)" by (cases ?out; cases "fst ?out") auto
  have sys: "exec_system sample_executor ''acme'' ''job_a'' (exec_start ''_system'' sample_sql) sample_second"
    unfolding sample_second_def by (rule exec_system_run [OF sample_backoff_system])
  have pc: "x_pc sample_second = At_claim 2" using sample_second_pc by (simp add: pc_tests)
  show ?thesis
    using cancel_lost_between_attempts [OF sample_deployed sample_sql_invar sys sample_sql_get _ pc _ out,
        where cs = "[Call_get ''acme'' ''job_a'']"]
    by (simp add: sample_job_def new_job_def)
qed

text \<open>
  A worker that is stopped while it waits between two attempts leaves its job RUNNING
  without a cancel request, and no later execution of the job, alone, changes that.
\<close>

theorem stopped_in_backoff_stays_running:
  "\<exists>y. exec_system sample_executor ''acme'' ''job_a'' (exec_start ''_system'' sample_sql) y \<and>
     x_pc y = Finished (Some AsyncCancelledError) \<and>
     (\<forall>is ctx. map_option j_status (r_get (ex_repository sample_executor) ''acme'' ''job_a''
        (x_state (exec_run sample_executor ''acme'' ''job_a'' is (exec_start ctx (x_state y))))) = Some RUNNING)"
proof -
  define stop where "stop = (sample_input 9 ''w'' None)\<lparr>in_stopped := True\<rparr>"
  define y where "y = exec_step sample_executor ''acme'' ''job_a'' stop sample_backoff"
  have sys: "exec_system sample_executor ''acme'' ''job_a'' (exec_start ''_system'' sample_sql) y"
    unfolding y_def by (rule exec_own [OF sample_backoff_system])
  have "finished (Some AsyncCancelledError) (x_pc y)" unfolding y_def stop_def by code_simp
  moreover have "map_option (\<lambda>r. (j_status r, j_cancel_requested r, j_source r))
      (r_get (sqlalchemy_repository sample_core) ''acme'' ''job_a'' (x_state y)) = Some (RUNNING, False, LAB)"
    unfolding y_def stop_def by code_simp
  then obtain r where r: "r_get (sqlalchemy_repository sample_core) ''acme'' ''job_a'' (x_state y) = Some r"
    "j_status r = RUNNING" "\<not> j_cancel_requested r" "j_source r = LAB" by auto
  obtain inv: "sa_invar (x_state y)"
    using sqlalchemy_executor.executor_outcome [OF sys sample_sql_invar sample_sql_get] sample_deployed
    by (auto simp: deployed_def sample_job_def new_job_def sample_executor_def)
  have stay: "sqlalchemy.idle_at sample_executor ''acme'' ''job_a''
      (exec_run sample_executor ''acme'' ''job_a'' is (exec_start ctx (x_state y))) (sa_view (x_state y))" for "is" ctx
    using r inv by (intro sqlalchemy.idle_run [where L = sample_core])
      (auto simp: sqlalchemy.idle_at_def redelivered_def exec_start_def sample_executor_def)
  have "map_option j_status (r_get (ex_repository sample_executor) ''acme'' ''job_a''
      (x_state (exec_run sample_executor ''acme'' ''job_a'' is (exec_start ctx (x_state y))))) = Some RUNNING" for "is" ctx
    using stay [of "is" ctx] r(1,2) inv
    by (auto simp: sqlalchemy.idle_at_def sample_executor_def sqlalchemy.get)
  ultimately show ?thesis using sys by (auto simp: pc_tests)
qed

end
