(* ===== verification/Finding_Properties.thy ===== *)
theory Finding_Properties
  imports Executor_Properties
begin

text \<open>
  The properties of findings: what the correlation rule selects, the merge and the
  deduplication, cursors and pages, the constraints of the table and the separation of
  tenants, lifecycle updates and their audit trail, the bound of the SQLite registry, and
  two defects of the stores with the states that show them.
\<close>

section \<open>Sample stores\<close>

definition finding_a :: finding where
  "finding_a = sample_finding ''f1'' LAB HIGH ''weak''"

definition finding_b :: finding where
  "finding_b = sample_finding ''f2'' VULN LOW ''port''"

text \<open>The database after the first finding was stored.\<close>

definition sample_findings :: database where
  "sample_findings = snd (store_finding sample_core sample_hashing (sample_env 20 ''e'') ''acme'' finding_a
     (Some ''job_a'') sample_sql)"

section \<open>Properties\<close>

text \<open>
  C11: The correlation rule is sound and complete. For a finding on a host, with comparable
  times, it yields exactly one correlation when there are findings on the same host from
  another product within the window, and none otherwise; the correlation names the new
  finding and all of those in order, and carries the highest severity among them.
\<close>

theorem correlation_exact:
  assumes "f_host n = Some h" and "h \<noteq> []"
    and "\<forall>f \<in> set existing. same_host_other_source n f \<longrightarrow> comparable n f"
  shows "\<exists>text_of. correlate L w n existing =
    Inr (if filter (related_to w n) existing = [] then []
         else [\<lparr>c_rule_id = rule_id, c_findings = map f_id (n # filter (related_to w n) existing),
                c_severity = Max (f_severity ` set (n # filter (related_to w n) existing)),
                c_narrative = text_of\<rparr>])"
proof -
  have "related_findings w n existing = Inr (filter (related_to w n) existing)"
    using assms(3) by (rule related_findings_comparable)
  with assms(1,2) show ?thesis
    by (auto simp: correlate_def max_severity_Max simp del: max_severity.simps)
qed

theorem correlation_exact_witness:
  "(\<exists>text_of. correlate sample_core 1000000 finding_a [finding_b] =
    Inr (if filter (related_to 1000000 finding_a) [finding_b] = [] then []
         else [\<lparr>c_rule_id = rule_id,
                c_findings = map f_id (finding_a # filter (related_to 1000000 finding_a) [finding_b]),
                c_severity = Max (f_severity ` set (finding_a # filter (related_to 1000000 finding_a) [finding_b])),
                c_narrative = text_of\<rparr>])) \<and>
    filter (related_to 1000000 finding_a) [finding_b] = [finding_b]"
proof
  show "\<exists>text_of. correlate sample_core 1000000 finding_a [finding_b] =
    Inr (if filter (related_to 1000000 finding_a) [finding_b] = [] then []
         else [\<lparr>c_rule_id = rule_id,
                c_findings = map f_id (finding_a # filter (related_to 1000000 finding_a) [finding_b]),
                c_severity = Max (f_severity ` set (finding_a # filter (related_to 1000000 finding_a) [finding_b])),
                c_narrative = text_of\<rparr>])"
    by (rule correlation_exact [where h = "''h1''"])
      (simp_all add: finding_a_def finding_b_def sample_finding_def comparable_def)
  show "filter (related_to 1000000 finding_a) [finding_b] = [finding_b]"
    by (simp add: finding_a_def finding_b_def sample_finding_def related_to_def same_host_other_source_def
        close_in_time_def)
qed

text \<open>
  Mixing times with and without a time zone breaks the rule: if a finding of another
  product on the host of the new one has a time that is not comparable with the new one's,
  the rule raises a TypeError instead of a result, whatever else is stored.
\<close>

theorem correlation_mixed_times:
  assumes "f_host n = Some h" and "h \<noteq> []" and "f \<in> set existing" and "same_host_other_source n f"
    and "\<not> comparable n f"
  shows "correlate L w n existing = Inl (TypeError ''can't subtract offset-naive and offset-aware datetimes'')"
  using related_findings_incomparable [OF assms(3-5), of w] assms(1,2) by (simp add: correlate_def)

theorem correlation_mixed_times_witness:
  "correlate sample_core 0 (finding_a\<lparr>f_ts := Some (Naive 5)\<rparr>) [finding_b] =
    Inl (TypeError ''can't subtract offset-naive and offset-aware datetimes'')"
  by (rule correlation_mixed_times [where h = "''h1''" and f = finding_b])
    (simp_all add: finding_a_def finding_b_def sample_finding_def same_host_other_source_def comparable_def)


lemma sample_sql_findings [simp]: "db_findings sample_sql = []"
proof -
  have "length (db_findings sample_sql) = 0" by code_simp
  then show ?thesis by simp
qed



text \<open>
  Merging does not depend on grouping: merging a finding into the merge of two is the
  same as merging the merge of the last two into the first, so a batch and its pieces give
  one result.
\<close>

theorem merge_associative: "merge_findings (merge_findings a b) c = merge_findings a (merge_findings b c)"
  by (rule merge_assoc)

text \<open>
  Cursors round-trip: a cursor that was handed out for a row id decodes to that id, up
  to the 4300 digits Python's \<^verbatim>\<open>int\<close> reads.
\<close>

theorem cursor_roundtrip:
  assumes "1 \<le> n" and "n < 10 ^ int_max_str_digits"
  shows "decode_cursor (encode_cursor n) = Inr n"
  using assms by (rule decode_encode_cursor)

theorem cursor_roundtrip_witness: "decode_cursor (encode_cursor 42) = Inr 42"
proof (rule cursor_roundtrip)
  have "(10::int) ^ 2 \<le> 10 ^ int_max_str_digits"
    by (rule power_increasing) (simp_all add: int_max_str_digits_def)
  then show "42 < (10::int) ^ int_max_str_digits" by simp
qed simp

text \<open>
  C28: Following the cursors lists every finding of the tenant that matches the filter, each
  once, newest row first, whatever the page size: pages neither skip nor repeat rows.
\<close>

theorem pages_list_everything:
  assumes "findings_ok d" and "0 < limit"
    and "\<forall>r \<in> set (page_rows t q d). fr_row_id r < 10 ^ int_max_str_digits"
    and "all_results (record_from_row L) (page_rows t q d) = Inr recs"
    and "length (page_rows t q d) < k"
  shows "all_pages k L t limit q d None = Inr recs \<and>
    set (page_rows t q d) = {r \<in> set (db_findings d). page_matches t q r} \<and>
    distinct (page_rows t q d)"
proof -
  have desc: "descending (page_rows t q d)" using assms(1) by (rule page_rows_descending)
  have "all_pages k L t limit q d None = Inr recs"
    by (rule all_pages_from [where xs = "[]" and ys = "page_rows t q d"])
      (use assms desc in \<open>auto simp: findings_ok_def set_page_rows\<close>)
  moreover have "distinct (page_rows t q d)"
    using desc unfolding descending_def distinct_conv_nth sorted_wrt_iff_nth_less
    by (metis less_irrefl linorder_neqE_nat)
  ultimately show ?thesis by (simp add: set_page_rows)
qed

definition no_filter :: page_filter where
  "no_filter = \<lparr>pf_source = None, pf_severity = None, pf_status = None\<rparr>"

definition sample_row :: "int \<Rightarrow> string \<Rightarrow> finding_row" where
  "sample_row n i = new_finding_row sample_core ''acme'' i (finding_a\<lparr>f_id := i\<rparr>) 5 None 5 n"

definition sample_table :: database where
  "sample_table = empty_db\<lparr>db_tenants := [default_tenant ''acme'' 5],
     db_findings := [sample_row 1 ''f1'', sample_row 2 ''f2'']\<rparr>"

lemma sample_table_ok: "findings_ok sample_table"
  by (simp add: findings_ok_def sample_table_def empty_db_def sample_row_def new_finding_row_def)

lemma sample_table_rows: "page_rows ''acme'' no_filter sample_table = [sample_row 2 ''f2'', sample_row 1 ''f1'']"
  by (simp add: page_rows_def sample_table_def empty_db_def page_matches_def no_filter_def sample_row_def
      new_finding_row_def opt_matches_def)

lemma sample_row_record:
  "record_from_row sample_core (sample_row n i) =
    Inr \<lparr>lr_finding = finding_a\<lparr>f_id := i\<rparr>, lr_fingerprint = i, lr_status = OPEN, lr_first_seen = 5,
      lr_last_seen = 5, lr_occurrences = 1, lr_job_id = None, lr_assigned_to = None, lr_cursor = encode_cursor n\<rparr>"
  using sample_roundtrip
  by (simp add: record_from_row_def finding_from_row_def sample_row_def new_finding_row_def dict_roundtrip_def finding_status_of_def)

theorem pages_list_everything_witness:
  "\<exists>recs. all_pages 3 sample_core ''acme'' 1 no_filter sample_table None = Inr recs \<and> length recs = 2"
proof -
  let ?recs = "map (\<lambda>(n, i). \<lparr>lr_finding = finding_a\<lparr>f_id := i\<rparr>, lr_fingerprint = i, lr_status = OPEN,
    lr_first_seen = 5, lr_last_seen = 5, lr_occurrences = 1, lr_job_id = None, lr_assigned_to = None,
    lr_cursor = encode_cursor n\<rparr>) [(2, ''f2''), (1, ''f1'')]"
  have "(10::int) ^ 1 \<le> 10 ^ int_max_str_digits"
    by (rule power_increasing) (simp_all add: int_max_str_digits_def)
  then have "\<forall>r \<in> set (page_rows ''acme'' no_filter sample_table). fr_row_id r < 10 ^ int_max_str_digits"
    by (simp add: sample_table_rows) (simp add: sample_row_def new_finding_row_def)
  moreover have "all_results (record_from_row sample_core) (page_rows ''acme'' no_filter sample_table) = Inr ?recs"
    by (simp add: sample_table_rows sample_row_record)
  ultimately have "all_pages 3 sample_core ''acme'' 1 no_filter sample_table None = Inr ?recs"
    using pages_list_everything [OF sample_table_ok, of 1 "''acme''" no_filter sample_core ?recs 3]
    by (simp add: sample_table_rows)
  then show ?thesis by simp
qed

text \<open>
  Storing a finding keeps the constraints of the table (row ids, fingerprints and finding
  ids unique in their scope) and touches no row of another tenant, also when the row its
  first transaction read is out of date.
\<close>

theorem store_keeps_table:
  assumes "findings_ok d" and "selected sel t d"
  shows "findings_ok (snd (store_selected L H e t f job sel d)) \<and>
    (t' \<noteq> t \<longrightarrow> rows_of t' (snd (store_selected L H e t f job sel d)) = rows_of t' d)"
  using assms findings_ok_store store_other_tenant by blast

theorem store_keeps_table_witness:
  "findings_ok (snd (store_selected sample_core sample_hashing (sample_env 20 ''e'') ''beta'' finding_b None None
      sample_table)) \<and>
    rows_of ''acme'' (snd (store_selected sample_core sample_hashing (sample_env 20 ''e'') ''beta'' finding_b None None
      sample_table)) = rows_of ''acme'' sample_table"
  using store_keeps_table [OF sample_table_ok, of None "''beta''" sample_core sample_hashing "sample_env 20 ''e''"
      finding_b None "''acme''"]
  by (simp add: selected_def)

text \<open>
  C29: A lifecycle update that finds its finding sets what it was asked to set, in the stored
  row and in the record it returns, dates the row, and writes one audit row with the actor
  and the changes; nothing else of the database changes. So the constraints of the table
  hold, and no row of another finding or tenant is touched.
\<close>

theorem lifecycle_update_audited:
  assumes "findings_ok d" and "update_lifecycle L e t fid st a actor d = (Inr (Some r), d')"
  shows "findings_ok d' \<and> (t' \<noteq> t \<longrightarrow> rows_of t' d' = rows_of t' d) \<and>
    (case st of None \<Rightarrow> True | Some s \<Rightarrow> lr_status r = s) \<and>
    (case a of None \<Rightarrow> True | Some x \<Rightarrow> lr_assigned_to r = x) \<and>
    (\<exists>row \<in> set (db_findings d). fr_tenant_id row = t \<and> fr_finding_id row = fid \<and>
      d' = d\<lparr>
        db_findings := upd_where (\<lambda>x. fr_tenant_id x = t \<and> fr_finding_id x = fid)
          (\<lambda>x. x\<lparr>fr_status := (case st of None \<Rightarrow> fr_status x | Some s \<Rightarrow> finding_status_value s),
            fr_assigned_to := (case a of None \<Rightarrow> fr_assigned_to x | Some y \<Rightarrow> y), fr_updated_at := now e\<rparr>) (db_findings d),
        db_audit_events := db_audit_events d @
          [\<lparr>a_id = ''audit_'' @ uuid e 0, a_tenant_id = t, a_actor = actor, a_action = ''finding.updated'',
            a_resource_type = ''finding'', a_resource_id = Some fid, a_request_id = None, a_outcome = ''success'',
            a_details = JObj (lifecycle_changes st a row), a_created_at = now e\<rparr>]\<rparr>)"
proof -
  obtain row where row: "row \<in> set (db_findings d)" "fr_tenant_id row = t" "fr_finding_id row = fid"
      "record_from_row L (updated_row e st a row) = Inr r"
    and d': "d' = d\<lparr>db_findings := upd_where (\<lambda>x. fr_tenant_id x = t \<and> fr_finding_id x = fid) (updated_row e st a) (db_findings d),
      db_audit_events := db_audit_events d @
        [\<lparr>a_id = ''audit_'' @ uuid e 0, a_tenant_id = t, a_actor = actor, a_action = ''finding.updated'',
          a_resource_type = ''finding'', a_resource_id = Some fid, a_request_id = None, a_outcome = ''success'',
          a_details = JObj (lifecycle_changes st a row), a_created_at = now e\<rparr>]\<rparr>"
    using update_lifecycle_Inr [OF assms] by blast
  have "(case st of None \<Rightarrow> True | Some s \<Rightarrow> lr_status r = s) \<and> (case a of None \<Rightarrow> True | Some x \<Rightarrow> lr_assigned_to r = x)"
    using row(4) by (auto simp: record_from_row_def bind_exn_Inr updated_row_def split: option.splits)
  moreover have "findings_ok d' \<and> (t' \<noteq> t \<longrightarrow> rows_of t' d' = rows_of t' d)"
    using update_lifecycle_ok [OF assms] by blast
  ultimately show ?thesis using row(1-3) d' unfolding updated_row_def [abs_def] by blast
qed

theorem lifecycle_update_audited_witness:
  "\<exists>r d'. update_lifecycle sample_core (sample_env 30 ''g'') ''acme'' ''f1'' (Some RESOLVED) (Some (Some ''ann''))
      ''role:admin'' sample_table = (Inr (Some r), d') \<and> findings_ok d' \<and> lr_status r = RESOLVED \<and>
    lr_assigned_to r = Some ''ann''"
proof -
  obtain r d' where run: "update_lifecycle sample_core (sample_env 30 ''g'') ''acme'' ''f1'' (Some RESOLVED)
      (Some (Some ''ann'')) ''role:admin'' sample_table = (Inr (Some r), d')"
    using sample_roundtrip
    by (simp add: update_lifecycle_def sample_table_def empty_db_def sample_row_def new_finding_row_def set_row_def
        insert_audit_def get_tenant_def default_tenant_def record_from_row_def finding_from_row_def updated_row_def
        finding_status_of_def dict_roundtrip_def)
  with lifecycle_update_audited [OF sample_table_ok run] show ?thesis by simp
qed

section \<open>The bound of the SQLite registry\<close>

lemma registry_perform_bound:
  assumes "registry_ok s" and "0 \<le> g_max_size s"
    and "int (length (filter (\<lambda>r. g_tenant r = t) (g_findings s))) \<le> g_max_size s"
  shows "int (length (filter (\<lambda>r. g_tenant r = t) (g_findings (registry_perform L c s)))) \<le> g_max_size s"
proof (cases c)
  case (Reg_store t' f)
  then show ?thesis
    using registry_store_rows [OF assms(1)] assms(2,3) by (cases "t' = t") (auto simp: last_n_def)
next
  case (Reg_correlation t' co)
  then show ?thesis using assms(3) by (simp add: registry_add_correlation_def Let_def)
qed

lemma registry_run_bound:
  assumes "registry_ok s" and "0 \<le> g_max_size s"
    and "int (length (filter (\<lambda>r. g_tenant r = t) (g_findings s))) \<le> g_max_size s"
  shows "int (length (filter (\<lambda>r. g_tenant r = t) (g_findings (fold (registry_perform L) cs s)))) \<le> g_max_size s"
  using assms
proof (induction cs arbitrary: s)
  case (Cons c cs)
  have "g_max_size (registry_perform L c s) = g_max_size s" using registry_run_max_size [of L "[c]" s] by simp
  with Cons.IH [of "registry_perform L c s"] Cons.prems registry_perform_ok [of s L c]
    registry_perform_bound [OF Cons.prems, of L c] show ?case by simp
qed simp

lemma last_n_put_row:
  assumes "int (length own) \<le> n" and "0 < n"
  shows "\<exists>r \<in> set (last_n n (put_row k p i t own)). g_tenant r = t \<and> g_key r = k \<and> g_payload r = p"
proof (cases "find (is_row t k) own")
  case None
  have "last_n n (own @ [\<lparr>g_seq = i, g_tenant = t, g_key = k, g_payload = p\<rparr>]) =
      drop (Suc (length own) - nat n) own @ [\<lparr>g_seq = i, g_tenant = t, g_key = k, g_payload = p\<rparr>]"
    using assms(2) by (simp add: last_n_def)
  with None show ?thesis by (simp add: put_row_def)
next
  case (Some r)
  then have "r \<in> set own" "is_row t k r" by (auto dest: find_SomeD)
  then have "r\<lparr>g_payload := p\<rparr> \<in> set (upd_where (is_row t k) (\<lambda>r. r\<lparr>g_payload := p\<rparr>) own)"
    by (force simp: set_upd_where)
  moreover have "last_n n (put_row k p i t own) = upd_where (is_row t k) (\<lambda>r. r\<lparr>g_payload := p\<rparr>) own"
    using Some assms by (simp add: put_row_def last_n_def upd_where_def)
  moreover have "g_tenant (r\<lparr>g_payload := p\<rparr>) = t" "g_key (r\<lparr>g_payload := p\<rparr>) = k"
    using \<open>is_row t k r\<close> by (simp_all add: is_row_def)
  ultimately show ?thesis by (metis registry_row.select_convs(4) registry_row.update_convs(4) registry_row.surjective)
qed

text \<open>
  C32: The SQLite registry is bounded: after any writes every tenant has at most
  \<open>max_size\<close> findings, and the last finding written is one of them.
\<close>

theorem registry_bounded:
  assumes "0 < n"
  shows "int (length (filter (\<lambda>r. g_tenant r = t) (g_findings (fold (registry_perform L) cs (new_registry n))))) \<le> n \<and>
    (\<exists>r \<in> set (g_findings (registry_store L t f (fold (registry_perform L) cs (new_registry n)))).
       g_tenant r = t \<and> g_key r = f_id f \<and> g_payload r = finding_to_dict L f)"
proof
  have size: "g_max_size (new_registry n) = n" by (simp add: new_registry_def)
  show bound: "int (length (filter (\<lambda>r. g_tenant r = t) (g_findings (fold (registry_perform L) cs (new_registry n))))) \<le> n"
    using registry_run_bound [where s = "new_registry n" and L = L and cs = cs and t = t] assms
    by (simp add: size) (simp add: new_registry_def)
  let ?s = "fold (registry_perform L) cs (new_registry n)"
  let ?own = "filter (\<lambda>r. g_tenant r = t) (g_findings ?s)"
  have ok: "registry_ok ?s" by (simp add: registry_run_ok)
  have rows: "filter (\<lambda>r. g_tenant r = t) (g_findings (registry_store L t f ?s)) =
      last_n n (put_row (f_id f) (finding_to_dict L f) (g_next_finding ?s) t ?own)"
    using registry_store_rows(1) [OF ok, of t L f] by (simp add: size)
  have "\<exists>r \<in> set (last_n n (put_row (f_id f) (finding_to_dict L f) (g_next_finding ?s) t ?own)).
      g_tenant r = t \<and> g_key r = f_id f \<and> g_payload r = finding_to_dict L f"
    using bound assms by (rule last_n_put_row)
  then show "\<exists>r \<in> set (g_findings (registry_store L t f ?s)).
       g_tenant r = t \<and> g_key r = f_id f \<and> g_payload r = finding_to_dict L f"
    unfolding rows [symmetric] by auto
qed

theorem registry_bounded_witness:
  "int (length (filter (\<lambda>r. g_tenant r = ''acme'') (g_findings (fold (registry_perform sample_core)
    [Reg_store ''acme'' finding_a, Reg_store ''acme'' finding_b] (new_registry 1))))) \<le> 1"
  by (rule conjunct1 [OF registry_bounded]) simp

section \<open>Two defects\<close>

text \<open>
  C35: A finding whose insert loses a race is merged into the payload of the winning row but
  not into its columns: there is a run after which the finding reads as CRITICAL and the
  severity column, which filters use, still says HIGH.
\<close>

theorem raced_store_stale_severity:
  "\<exists>r f. db_findings (snd (store_selected sample_core sample_hashing (sample_env 30 ''g'') ''acme''
       (finding_a\<lparr>f_id := ''f9'', f_severity := CRITICAL\<rparr>) None None sample_findings)) = [r] \<and>
     finding_from_row sample_core r = Inr f \<and> f_severity f = CRITICAL \<and> fr_severity r = HIGH"
proof -
  let ?d = "snd (store_selected sample_core sample_hashing (sample_env 30 ''g'') ''acme''
       (finding_a\<lparr>f_id := ''f9'', f_severity := CRITICAL\<rparr>) None None sample_findings)"
  have "map (\<lambda>r. (fr_severity r, case finding_from_row sample_core r of Inl x \<Rightarrow> None | Inr f \<Rightarrow> Some (f_severity f)))
      (db_findings ?d) = [(HIGH, Some CRITICAL)]"
    by code_simp
  then show ?thesis by (auto split: sum.splits)
qed

definition sample_two :: database where
  "sample_two = snd (store_finding sample_core sample_hashing (sample_env 21 ''h'') ''acme'' finding_b None sample_findings)"

definition correlating_executor :: "database executor" where
  "correlating_executor = sample_executor\<lparr>ex_correlations := [correlate sample_core 1000000]\<rparr>"

definition sample_duplicate :: "database exec_state" where
  "sample_duplicate = exec_run correlating_executor ''acme'' ''job_a''
     ([sample_input 30 ''s'' None, sample_input 30 ''s'' None, sample_input 30 ''s'' None,
       sample_input 31 ''t'' (Some (Scan_findings [finding_a\<lparr>f_id := ''f9''\<rparr>])),
       sample_input 32 ''u'' None, sample_input 33 ''v'' None, sample_input 34 ''w'' None, sample_input 35 ''p'' None,
       sample_input 36 ''q'' None, sample_input 37 ''r'' None, sample_input 38 ''k'' None, sample_input 39 ''l'' None,
       sample_input 40 ''m'' None])
     (exec_start ''_system'' sample_two)"

text \<open>
  A correlation can name a finding that does not exist. When a job reports a finding that
  is a duplicate of a stored one, the correlation of the new report is recorded under the id
  of the report, for which the table has no row: there is a run of the executor that ends so.
\<close>

theorem duplicate_correlation_dangles:
  "\<exists>y l. exec_system correlating_executor ''acme'' ''job_a'' (exec_start ''_system'' sample_two) y \<and>
     x_pc y = Finished None \<and> l \<in> set (db_correlation_findings (x_state y)) \<and> cf_tenant_id l = ''acme'' \<and>
     (\<forall>r \<in> set (db_findings (x_state y)). fr_finding_id r \<noteq> cf_finding_id l)"
proof -
  have sys: "exec_system correlating_executor ''acme'' ''job_a'' (exec_start ''_system'' sample_two) sample_duplicate"
    unfolding sample_duplicate_def by (rule exec_system_run [OF exec_refl])
  have "finished None (x_pc sample_duplicate)" by code_simp
  moreover have "map (\<lambda>l. (cf_tenant_id l, cf_finding_id l)) (db_correlation_findings (x_state sample_duplicate)) =
      [(''acme'', ''f9''), (''acme'', ''f2'')]" by code_simp
  moreover have "map fr_finding_id (db_findings (x_state sample_duplicate)) = [''f1'', ''f2'']" by code_simp
  ultimately show ?thesis using sys
    by (intro exI [of _ sample_duplicate] exI [of _ "hd (db_correlation_findings (x_state sample_duplicate))"])
      (auto simp: pc_tests map_eq_Cons_conv)
qed

end
