(* ===== verification/Schema.thy ===== *)
theory Schema
  imports Py_Json
begin

text \<open>
  The schema of the relational database: the migrations of \<^verbatim>\<open>migrations/versions\<close> as lists of
  operations, and the tables the row classes of \<^verbatim>\<open>db_models.py\<close> declare. An operation is
  carried out or refused by the rules of the database (PostgreSQL's, the stricter of the two
  the program supports). Alembic's bookkeeping of revisions is left out.
\<close>

section \<open>Tables\<close>

datatype column_type = String_ty nat | Text_ty | Integer_ty | Float_ty | Boolean_ty | Timestamp_ty | Json_ty

text \<open>A default the server fills in: a literal text, or the SQL constant \<^verbatim>\<open>false\<close>.\<close>

datatype server_default = Default_text string | Default_false

datatype on_delete = Cascade | Set_null | Restrict

record column =
  co_name :: string
  co_type :: column_type
  co_nullable :: bool
  co_default :: "server_default option"
  co_auto :: bool

definition column :: "string \<Rightarrow> column_type \<Rightarrow> column" where
  "column n ty = \<lparr>co_name = n, co_type = ty, co_nullable = False, co_default = None, co_auto = False\<rparr>"

definition nullable :: "column \<Rightarrow> column" where
  "nullable c = c\<lparr>co_nullable := True\<rparr>"

definition defaulted :: "server_default \<Rightarrow> column \<Rightarrow> column" where
  "defaulted v c = c\<lparr>co_default := Some v\<rparr>"

definition autoincremented :: "column \<Rightarrow> column" where
  "autoincremented c = c\<lparr>co_auto := True\<rparr>"

record foreign_key =
  fk_name :: string
  fk_columns :: "string list"
  fk_table :: string
  fk_references :: "string list"
  fk_on_delete :: on_delete

definition foreign :: "string \<Rightarrow> string list \<Rightarrow> string \<Rightarrow> string list \<Rightarrow> on_delete \<Rightarrow> foreign_key" where
  "foreign n cs t rs od = \<lparr>fk_name = n, fk_columns = cs, fk_table = t, fk_references = rs, fk_on_delete = od\<rparr>"

text \<open>Keys and indexes are names with the columns.\<close>

record table =
  tb_name :: string
  tb_columns :: "column list"
  tb_primary :: "string \<times> string list"
  tb_unique :: "(string \<times> string list) list"
  tb_foreign :: "foreign_key list"
  tb_indexes :: "(string \<times> string list) list"

definition table ::
  "string \<Rightarrow> column list \<Rightarrow> string \<times> string list \<Rightarrow> (string \<times> string list) list \<Rightarrow> foreign_key list \<Rightarrow> table" where
  "table n cs pk us fs = \<lparr>tb_name = n, tb_columns = cs, tb_primary = pk, tb_unique = us, tb_foreign = fs, tb_indexes = []\<rparr>"

type_synonym schema = "table list"

section \<open>Operations\<close>

datatype operation =
    Create_table table
  | Create_index string string "string list"
  | Drop_table string
  | Add_column string column
  | Drop_column string string

definition find_table :: "string \<Rightarrow> schema \<Rightarrow> table option" where
  "find_table n s = find (\<lambda>t. tb_name t = n) s"

definition column_names :: "table \<Rightarrow> string list" where
  "column_names t = map co_name (tb_columns t)"

text \<open>The column lists of the primary key and the unique constraints, which a foreign key may name.\<close>

definition key_columns :: "table \<Rightarrow> string list list" where
  "key_columns t = snd (tb_primary t) # map snd (tb_unique t)"

definition references_ok :: "schema \<Rightarrow> table \<Rightarrow> foreign_key \<Rightarrow> bool" where
  "references_ok s t f \<longleftrightarrow> set (fk_columns f) \<subseteq> set (column_names t) \<and>
     (case find_table (fk_table f) (s @ [t]) of
        None \<Rightarrow> False
      | Some target \<Rightarrow> list_ex (\<lambda>k. set k = set (fk_references f)) (key_columns target))"

definition table_ok :: "schema \<Rightarrow> table \<Rightarrow> bool" where
  "table_ok s t \<longleftrightarrow> distinct (column_names t) \<and>
     list_all (\<lambda>k. set k \<subseteq> set (column_names t)) (key_columns t) \<and>
     list_all (\<lambda>k. set (snd k) \<subseteq> set (column_names t)) (tb_indexes t) \<and> list_all (references_ok s t) (tb_foreign t)"

text \<open>The columns of a table that a key, a foreign key or an index uses.\<close>

definition used_columns :: "table \<Rightarrow> string list" where
  "used_columns t = concat (key_columns t) @ concat (map fk_columns (tb_foreign t)) @ concat (map snd (tb_indexes t))"

definition index_names :: "schema \<Rightarrow> string list" where
  "index_names s = concat (map (\<lambda>t. map fst (tb_indexes t)) s)"

definition replace_table :: "table \<Rightarrow> schema \<Rightarrow> schema" where
  "replace_table t s = upd_where (\<lambda>x. tb_name x = tb_name t) (\<lambda>_. t) s"

text \<open>\<open>None\<close> is a refusal.\<close>

fun apply_op :: "operation \<Rightarrow> schema \<Rightarrow> schema option" where
  "apply_op (Create_table t) s =
     (if find_table (tb_name t) s = None \<and> tb_indexes t = [] \<and> table_ok s t then Some (s @ [t]) else None)"
| "apply_op (Create_index n i cs) s =
     (case find_table n s of
        None \<Rightarrow> None
      | Some t \<Rightarrow>
          if set cs \<subseteq> set (column_names t) \<and> i \<notin> set (index_names s)
          then Some (replace_table (t\<lparr>tb_indexes := tb_indexes t @ [(i, cs)]\<rparr>) s) else None)"
| "apply_op (Drop_table n) s =
     (if find_table n s \<noteq> None \<and> list_all (\<lambda>t. tb_name t = n \<or> list_all (\<lambda>f. fk_table f \<noteq> n) (tb_foreign t)) s
      then Some (filter (\<lambda>t. tb_name t \<noteq> n) s) else None)"
| "apply_op (Add_column n c) s =
     (case find_table n s of
        None \<Rightarrow> None
      | Some t \<Rightarrow>
          if co_name c \<notin> set (column_names t) \<and> (co_nullable c \<or> co_default c \<noteq> None)
          then Some (replace_table (t\<lparr>tb_columns := tb_columns t @ [c]\<rparr>) s) else None)"
| "apply_op (Drop_column n c) s =
     (case find_table n s of
        None \<Rightarrow> None
      | Some t \<Rightarrow>
          if c \<in> set (column_names t) \<and> c \<notin> set (used_columns t) \<and>
             list_all (\<lambda>u. list_all (\<lambda>f. fk_table f = n \<longrightarrow> c \<notin> set (fk_references f)) (tb_foreign u)) s
          then Some (replace_table (t\<lparr>tb_columns := filter (\<lambda>x. co_name x \<noteq> c) (tb_columns t)\<rparr>) s) else None)"

fun run_ops :: "operation list \<Rightarrow> schema \<Rightarrow> schema option" where
  "run_ops [] s = Some s"
| "run_ops (x # xs) s = (case apply_op x s of None \<Rightarrow> None | Some s1 \<Rightarrow> run_ops xs s1)"

section \<open>The migrations\<close>

definition m2_account_tables :: "operation list" where
  "m2_account_tables =
    [Create_table (table ''tenants''
       [column ''id'' (String_ty 128),
        column ''slug'' (String_ty 128),
        column ''name'' (String_ty 255),
        defaulted (Default_text ''active'') (column ''status'' (String_ty 32)),
        defaulted (Default_text ''90'') (column ''retention_days'' Integer_ty),
        column ''created_at'' Timestamp_ty,
        column ''updated_at'' Timestamp_ty]
       (''pk_tenants'', [''id'']) [(''uq_tenants_slug'', [''slug''])]
       []),
     Create_table (table ''users''
       [column ''id'' (String_ty 128),
        column ''issuer'' (String_ty 512),
        column ''subject'' (String_ty 255),
        nullable (column ''email'' (String_ty 320)),
        nullable (column ''display_name'' (String_ty 255)),
        column ''created_at'' Timestamp_ty,
        column ''updated_at'' Timestamp_ty]
       (''pk_users'', [''id'']) [(''uq_users_issuer_subject'', [''issuer'', ''subject''])]
       []),
     Create_table (table ''memberships''
       [column ''tenant_id'' (String_ty 128),
        column ''user_id'' (String_ty 128),
        column ''role'' (String_ty 32),
        column ''created_at'' Timestamp_ty]
       (''pk_memberships'', [''tenant_id'', ''user_id'']) []
       [foreign ''fk_memberships_tenant_id_tenants'' [''tenant_id''] ''tenants'' [''id''] Cascade,
        foreign ''fk_memberships_user_id_users'' [''user_id''] ''users'' [''id''] Cascade]),
     Create_table (table ''api_keys''
       [column ''id'' (String_ty 128),
        column ''tenant_id'' (String_ty 128),
        column ''key_prefix'' (String_ty 32),
        column ''secret_hash'' (String_ty 255),
        defaulted (Default_text ''viewer'') (column ''role'' (String_ty 32)),
        column ''scopes'' Json_ty,
        nullable (column ''expires_at'' Timestamp_ty),
        nullable (column ''revoked_at'' Timestamp_ty),
        column ''created_at'' Timestamp_ty]
       (''pk_api_keys'', [''id'']) [(''uq_api_keys_prefix'', [''key_prefix''])]
       [foreign ''fk_api_keys_tenant_id_tenants'' [''tenant_id''] ''tenants'' [''id''] Cascade]),
     Create_index ''api_keys'' ''ix_api_keys_tenant_prefix'' [''tenant_id'', ''key_prefix'']]"

definition m2_job_tables :: "operation list" where
  "m2_job_tables =
    [Create_table (table ''jobs''
       [column ''id'' (String_ty 64),
        column ''tenant_id'' (String_ty 128),
        column ''source'' (String_ty 32),
        column ''status'' (String_ty 32),
        column ''queue'' (String_ty 32),
        column ''input'' Json_ty,
        defaulted (Default_text ''0'') (column ''progress'' Float_ty),
        nullable (column ''timeout_at'' Timestamp_ty),
        nullable (column ''created_by'' (String_ty 255)),
        nullable (column ''idempotency_key'' (String_ty 128)),
        nullable (column ''dispatch_id'' (String_ty 128)),
        defaulted (Default_text ''0'') (column ''attempt'' Integer_ty),
        defaulted Default_false (column ''cancel_requested'' Boolean_ty),
        defaulted (Default_text ''0'') (column ''result_count'' Integer_ty),
        nullable (column ''error_code'' (String_ty 128)),
        nullable (column ''error_message'' Text_ty),
        column ''created_at'' Timestamp_ty,
        column ''updated_at'' Timestamp_ty]
       (''pk_jobs'', [''id'']) [(''uq_jobs_tenant_id'', [''tenant_id'', ''id'']), (''uq_jobs_tenant_idempotency'', [''tenant_id'', ''idempotency_key''])]
       [foreign ''fk_jobs_tenant_id_tenants'' [''tenant_id''] ''tenants'' [''id''] Cascade]),
     Create_index ''jobs'' ''ix_jobs_tenant_status_created'' [''tenant_id'', ''status'', ''created_at''],
     Create_table (table ''job_events''
       [autoincremented (column ''row_id'' Integer_ty),
        column ''tenant_id'' (String_ty 128),
        column ''job_id'' (String_ty 64),
        column ''sequence'' Integer_ty,
        column ''kind'' (String_ty 64),
        column ''payload'' Json_ty,
        column ''created_at'' Timestamp_ty]
       (''pk_job_events'', [''row_id'']) [(''uq_job_events_sequence'', [''tenant_id'', ''job_id'', ''sequence''])]
       [foreign ''fk_job_events_tenant_id_job_id_jobs'' [''tenant_id'', ''job_id''] ''jobs'' [''tenant_id'', ''id''] Cascade]),
     Create_index ''job_events'' ''ix_job_events_tenant_job_sequence'' [''tenant_id'', ''job_id'', ''sequence'']]"

definition m2_finding_tables :: "operation list" where
  "m2_finding_tables =
    [Create_table (table ''findings''
       [autoincremented (column ''row_id'' Integer_ty),
        column ''tenant_id'' (String_ty 128),
        column ''finding_id'' (String_ty 128),
        column ''fingerprint'' (String_ty 64),
        column ''source'' (String_ty 32),
        column ''severity'' (String_ty 32),
        column ''confidence'' Float_ty,
        defaulted (Default_text ''open'') (column ''status'' (String_ty 32)),
        nullable (column ''asset'' (String_ty 1024)),
        nullable (column ''cve'' (String_ty 128)),
        column ''title'' (String_ty 1024),
        column ''description'' Text_ty,
        column ''first_seen'' Timestamp_ty,
        column ''last_seen'' Timestamp_ty,
        defaulted (Default_text ''1'') (column ''occurrences'' Integer_ty),
        nullable (column ''job_id'' (String_ty 64)),
        nullable (column ''assigned_to'' (String_ty 255)),
        column ''payload'' Json_ty,
        column ''created_at'' Timestamp_ty,
        column ''updated_at'' Timestamp_ty]
       (''pk_findings'', [''row_id'']) [(''uq_findings_tenant_finding'', [''tenant_id'', ''finding_id'']), (''uq_findings_tenant_fingerprint'', [''tenant_id'', ''fingerprint''])]
       [foreign ''fk_findings_tenant_id_tenants'' [''tenant_id''] ''tenants'' [''id''] Cascade]),
     Create_index ''findings'' ''ix_findings_tenant_severity_last_seen'' [''tenant_id'', ''severity'', ''last_seen''],
     Create_index ''findings'' ''ix_findings_tenant_source_last_seen'' [''tenant_id'', ''source'', ''last_seen''],
     Create_table (table ''correlations''
       [column ''id'' (String_ty 64),
        column ''tenant_id'' (String_ty 128),
        column ''rule_id'' (String_ty 255),
        defaulted (Default_text ''1'') (column ''rule_version'' (String_ty 64)),
        column ''severity'' (String_ty 32),
        column ''narrative'' Text_ty,
        column ''created_at'' Timestamp_ty]
       (''pk_correlations'', [''id'']) [(''uq_correlations_tenant_id'', [''tenant_id'', ''id''])]
       [foreign ''fk_correlations_tenant_id_tenants'' [''tenant_id''] ''tenants'' [''id''] Cascade]),
     Create_index ''correlations'' ''ix_correlations_tenant_created'' [''tenant_id'', ''created_at''],
     Create_table (table ''correlation_findings''
       [column ''tenant_id'' (String_ty 128),
        column ''correlation_id'' (String_ty 64),
        column ''finding_id'' (String_ty 128)]
       (''pk_correlation_findings'', [''tenant_id'', ''correlation_id'', ''finding_id'']) []
       [foreign ''fk_correlation_findings_tenant_id_correlation_id_correlations'' [''tenant_id'', ''correlation_id''] ''correlations'' [''tenant_id'', ''id''] Cascade])]"

definition m2_audit_table :: "operation list" where
  "m2_audit_table =
    [Create_table (table ''audit_events''
       [column ''id'' (String_ty 64),
        column ''tenant_id'' (String_ty 128),
        column ''actor'' (String_ty 255),
        column ''action'' (String_ty 128),
        column ''resource_type'' (String_ty 128),
        nullable (column ''resource_id'' (String_ty 128)),
        nullable (column ''request_id'' (String_ty 128)),
        column ''outcome'' (String_ty 32),
        column ''details'' Json_ty,
        column ''created_at'' Timestamp_ty]
       (''pk_audit_events'', [''id'']) []
       [foreign ''fk_audit_events_tenant_id_tenants'' [''tenant_id''] ''tenants'' [''id''] Cascade]),
     Create_index ''audit_events'' ''ix_audit_events_tenant_created'' [''tenant_id'', ''created_at'']]"

definition m2_upgrade :: "operation list" where
  "m2_upgrade = m2_account_tables @ m2_job_tables @ m2_finding_tables @ m2_audit_table"

definition m2_downgrade :: "operation list" where
  "m2_downgrade =
    [Drop_table ''audit_events'',
     Drop_table ''correlation_findings'',
     Drop_table ''correlations'',
     Drop_table ''findings'',
     Drop_table ''job_events'',
     Drop_table ''jobs'',
     Drop_table ''api_keys'',
     Drop_table ''memberships'',
     Drop_table ''users'',
     Drop_table ''tenants'']"

definition m3_upgrade :: "operation list" where
  "m3_upgrade =
    [Add_column ''memberships'' (defaulted (Default_text ''active'') (column ''status'' (String_ty 32))),
     Create_table (table ''identity_clients''
       [column ''id'' (String_ty 128),
        column ''name'' (String_ty 255),
        column ''key_prefix'' (String_ty 32),
        column ''secret_hash'' (String_ty 255),
        column ''allowed_issuers'' Json_ty,
        defaulted (Default_text ''true'') (column ''active'' Boolean_ty),
        nullable (column ''rotated_from_id'' (String_ty 128)),
        column ''created_at'' Timestamp_ty,
        column ''updated_at'' Timestamp_ty,
        nullable (column ''last_used_at'' Timestamp_ty),
        nullable (column ''revoked_at'' Timestamp_ty)]
       (''pk_identity_clients'', [''id'']) [(''uq_identity_clients_key_prefix'', [''key_prefix''])]
       [foreign ''fk_identity_clients_rotated_from_id_identity_clients'' [''rotated_from_id''] ''identity_clients'' [''id''] Set_null]),
     Create_index ''identity_clients'' ''ix_identity_clients_active_created'' [''active'', ''created_at''],
     Create_table (table ''user_sessions''
       [column ''id'' (String_ty 128),
        column ''token_hash'' (String_ty 64),
        column ''user_id'' (String_ty 128),
        column ''tenant_id'' (String_ty 128),
        column ''identity_client_id'' (String_ty 128),
        column ''created_at'' Timestamp_ty,
        column ''expires_at'' Timestamp_ty,
        nullable (column ''last_seen_at'' Timestamp_ty),
        nullable (column ''revoked_at'' Timestamp_ty)]
       (''pk_user_sessions'', [''id'']) [(''uq_user_sessions_token_hash'', [''token_hash''])]
       [foreign ''fk_user_sessions_identity_client_id_identity_clients'' [''identity_client_id''] ''identity_clients'' [''id''] Restrict,
        foreign ''fk_user_sessions_tenant_id_tenants'' [''tenant_id''] ''tenants'' [''id''] Cascade,
        foreign ''fk_user_sessions_user_id_users'' [''user_id''] ''users'' [''id''] Cascade]),
     Create_index ''user_sessions'' ''ix_user_sessions_expires_revoked'' [''expires_at'', ''revoked_at''],
     Create_index ''user_sessions'' ''ix_user_sessions_tenant_user'' [''tenant_id'', ''user_id'']]"

definition m3_downgrade :: "operation list" where
  "m3_downgrade =
    [Drop_table ''user_sessions'',
     Drop_table ''identity_clients'',
     Drop_column ''memberships'' ''status'']"

section \<open>The tables of the row classes\<close>

text \<open>
  A unique constraint without a name, a foreign key and a primary key are named by the naming
  convention of the metadata.
\<close>

record orm_table =
  ot_name :: string
  ot_columns :: "column list"
  ot_primary :: "string list"
  ot_unique :: "(string option \<times> string list) list"
  ot_foreign :: "(string list \<times> string \<times> string list \<times> on_delete) list"
  ot_indexes :: "(string \<times> string list) list"

definition column_0_N_name :: "string list \<Rightarrow> string" where
  "column_0_N_name cs = join_with ''_'' cs"

definition pk_convention :: "string \<Rightarrow> string" where
  "pk_convention t = ''pk_'' @ t"

definition uq_convention :: "string \<Rightarrow> string list \<Rightarrow> string" where
  "uq_convention t cs = ''uq_'' @ t @ ''_'' @ column_0_N_name cs"

definition fk_convention :: "string \<Rightarrow> string list \<Rightarrow> string \<Rightarrow> string" where
  "fk_convention t cs target = ''fk_'' @ t @ ''_'' @ column_0_N_name cs @ ''_'' @ target"

definition named_table :: "orm_table \<Rightarrow> table" where
  "named_table o1 =
     (let n = ot_name o1
      in \<lparr>tb_name = n, tb_columns = ot_columns o1, tb_primary = (pk_convention n, ot_primary o1),
          tb_unique = map (\<lambda>(u, cs). (case u of None \<Rightarrow> uq_convention n cs | Some x \<Rightarrow> x, cs)) (ot_unique o1),
          tb_foreign = map (\<lambda>(cs, t, rs, od). foreign (fk_convention n cs t) cs t rs od) (ot_foreign o1),
          tb_indexes = ot_indexes o1\<rparr>)"

definition tenants_table :: orm_table where
  "tenants_table = \<lparr>ot_name = ''tenants'',
     ot_columns =
       [column ''id'' (String_ty 128),
        column ''slug'' (String_ty 128),
        column ''name'' (String_ty 255),
        defaulted (Default_text ''active'') (column ''status'' (String_ty 32)),
        defaulted (Default_text ''90'') (column ''retention_days'' Integer_ty),
        column ''created_at'' Timestamp_ty,
        column ''updated_at'' Timestamp_ty],
     ot_primary = [''id''], ot_unique = [(None, [''slug''])],
     ot_foreign = [],
     ot_indexes = []\<rparr>"

definition users_table :: orm_table where
  "users_table = \<lparr>ot_name = ''users'',
     ot_columns =
       [column ''id'' (String_ty 128),
        column ''issuer'' (String_ty 512),
        column ''subject'' (String_ty 255),
        nullable (column ''email'' (String_ty 320)),
        nullable (column ''display_name'' (String_ty 255)),
        column ''created_at'' Timestamp_ty,
        column ''updated_at'' Timestamp_ty],
     ot_primary = [''id''], ot_unique = [(Some ''uq_users_issuer_subject'', [''issuer'', ''subject''])],
     ot_foreign = [],
     ot_indexes = []\<rparr>"

definition memberships_table :: orm_table where
  "memberships_table = \<lparr>ot_name = ''memberships'',
     ot_columns =
       [column ''tenant_id'' (String_ty 128),
        column ''user_id'' (String_ty 128),
        column ''role'' (String_ty 32),
        defaulted (Default_text ''active'') (column ''status'' (String_ty 32)),
        column ''created_at'' Timestamp_ty],
     ot_primary = [''tenant_id'', ''user_id''], ot_unique = [],
     ot_foreign = [([''tenant_id''], ''tenants'', [''id''], Cascade),
        ([''user_id''], ''users'', [''id''], Cascade)],
     ot_indexes = []\<rparr>"

definition api_keys_table :: orm_table where
  "api_keys_table = \<lparr>ot_name = ''api_keys'',
     ot_columns =
       [column ''id'' (String_ty 128),
        column ''tenant_id'' (String_ty 128),
        column ''key_prefix'' (String_ty 32),
        column ''secret_hash'' (String_ty 255),
        defaulted (Default_text ''viewer'') (column ''role'' (String_ty 32)),
        column ''scopes'' Json_ty,
        nullable (column ''expires_at'' Timestamp_ty),
        nullable (column ''revoked_at'' Timestamp_ty),
        column ''created_at'' Timestamp_ty],
     ot_primary = [''id''], ot_unique = [(Some ''uq_api_keys_prefix'', [''key_prefix''])],
     ot_foreign = [([''tenant_id''], ''tenants'', [''id''], Cascade)],
     ot_indexes = [(''ix_api_keys_tenant_prefix'', [''tenant_id'', ''key_prefix''])]\<rparr>"

definition identity_clients_table :: orm_table where
  "identity_clients_table = \<lparr>ot_name = ''identity_clients'',
     ot_columns =
       [column ''id'' (String_ty 128),
        column ''name'' (String_ty 255),
        column ''key_prefix'' (String_ty 32),
        column ''secret_hash'' (String_ty 255),
        column ''allowed_issuers'' Json_ty,
        defaulted (Default_text ''true'') (column ''active'' Boolean_ty),
        nullable (column ''rotated_from_id'' (String_ty 128)),
        column ''created_at'' Timestamp_ty,
        column ''updated_at'' Timestamp_ty,
        nullable (column ''last_used_at'' Timestamp_ty),
        nullable (column ''revoked_at'' Timestamp_ty)],
     ot_primary = [''id''], ot_unique = [(Some ''uq_identity_clients_key_prefix'', [''key_prefix''])],
     ot_foreign = [([''rotated_from_id''], ''identity_clients'', [''id''], Set_null)],
     ot_indexes = [(''ix_identity_clients_active_created'', [''active'', ''created_at''])]\<rparr>"

definition user_sessions_table :: orm_table where
  "user_sessions_table = \<lparr>ot_name = ''user_sessions'',
     ot_columns =
       [column ''id'' (String_ty 128),
        column ''token_hash'' (String_ty 64),
        column ''user_id'' (String_ty 128),
        column ''tenant_id'' (String_ty 128),
        column ''identity_client_id'' (String_ty 128),
        column ''created_at'' Timestamp_ty,
        column ''expires_at'' Timestamp_ty,
        nullable (column ''last_seen_at'' Timestamp_ty),
        nullable (column ''revoked_at'' Timestamp_ty)],
     ot_primary = [''id''], ot_unique = [(Some ''uq_user_sessions_token_hash'', [''token_hash''])],
     ot_foreign = [([''user_id''], ''users'', [''id''], Cascade),
        ([''tenant_id''], ''tenants'', [''id''], Cascade),
        ([''identity_client_id''], ''identity_clients'', [''id''], Restrict)],
     ot_indexes = [(''ix_user_sessions_expires_revoked'', [''expires_at'', ''revoked_at'']), (''ix_user_sessions_tenant_user'', [''tenant_id'', ''user_id''])]\<rparr>"

definition jobs_table :: orm_table where
  "jobs_table = \<lparr>ot_name = ''jobs'',
     ot_columns =
       [column ''id'' (String_ty 64),
        column ''tenant_id'' (String_ty 128),
        column ''source'' (String_ty 32),
        column ''status'' (String_ty 32),
        column ''queue'' (String_ty 32),
        column ''input'' Json_ty,
        defaulted (Default_text ''0'') (column ''progress'' Float_ty),
        nullable (column ''timeout_at'' Timestamp_ty),
        nullable (column ''created_by'' (String_ty 255)),
        nullable (column ''idempotency_key'' (String_ty 128)),
        nullable (column ''dispatch_id'' (String_ty 128)),
        defaulted (Default_text ''0'') (column ''attempt'' Integer_ty),
        defaulted (Default_text ''false'') (column ''cancel_requested'' Boolean_ty),
        defaulted (Default_text ''0'') (column ''result_count'' Integer_ty),
        nullable (column ''error_code'' (String_ty 128)),
        nullable (column ''error_message'' Text_ty),
        column ''created_at'' Timestamp_ty,
        column ''updated_at'' Timestamp_ty],
     ot_primary = [''id''], ot_unique = [(Some ''uq_jobs_tenant_id'', [''tenant_id'', ''id'']), (Some ''uq_jobs_tenant_idempotency'', [''tenant_id'', ''idempotency_key''])],
     ot_foreign = [([''tenant_id''], ''tenants'', [''id''], Cascade)],
     ot_indexes = [(''ix_jobs_tenant_status_created'', [''tenant_id'', ''status'', ''created_at''])]\<rparr>"

definition job_events_table :: orm_table where
  "job_events_table = \<lparr>ot_name = ''job_events'',
     ot_columns =
       [autoincremented (column ''row_id'' Integer_ty),
        column ''tenant_id'' (String_ty 128),
        column ''job_id'' (String_ty 64),
        column ''sequence'' Integer_ty,
        column ''kind'' (String_ty 64),
        column ''payload'' Json_ty,
        column ''created_at'' Timestamp_ty],
     ot_primary = [''row_id''], ot_unique = [(Some ''uq_job_events_sequence'', [''tenant_id'', ''job_id'', ''sequence''])],
     ot_foreign = [([''tenant_id'', ''job_id''], ''jobs'', [''tenant_id'', ''id''], Cascade)],
     ot_indexes = [(''ix_job_events_tenant_job_sequence'', [''tenant_id'', ''job_id'', ''sequence''])]\<rparr>"

definition findings_table :: orm_table where
  "findings_table = \<lparr>ot_name = ''findings'',
     ot_columns =
       [autoincremented (column ''row_id'' Integer_ty),
        column ''tenant_id'' (String_ty 128),
        column ''finding_id'' (String_ty 128),
        column ''fingerprint'' (String_ty 64),
        column ''source'' (String_ty 32),
        column ''severity'' (String_ty 32),
        column ''confidence'' Float_ty,
        defaulted (Default_text ''open'') (column ''status'' (String_ty 32)),
        nullable (column ''asset'' (String_ty 1024)),
        nullable (column ''cve'' (String_ty 128)),
        column ''title'' (String_ty 1024),
        column ''description'' Text_ty,
        column ''first_seen'' Timestamp_ty,
        column ''last_seen'' Timestamp_ty,
        defaulted (Default_text ''1'') (column ''occurrences'' Integer_ty),
        nullable (column ''job_id'' (String_ty 64)),
        nullable (column ''assigned_to'' (String_ty 255)),
        column ''payload'' Json_ty,
        column ''created_at'' Timestamp_ty,
        column ''updated_at'' Timestamp_ty],
     ot_primary = [''row_id''], ot_unique = [(Some ''uq_findings_tenant_finding'', [''tenant_id'', ''finding_id'']), (Some ''uq_findings_tenant_fingerprint'', [''tenant_id'', ''fingerprint''])],
     ot_foreign = [([''tenant_id''], ''tenants'', [''id''], Cascade)],
     ot_indexes = [(''ix_findings_tenant_severity_last_seen'', [''tenant_id'', ''severity'', ''last_seen'']), (''ix_findings_tenant_source_last_seen'', [''tenant_id'', ''source'', ''last_seen''])]\<rparr>"

definition correlations_table :: orm_table where
  "correlations_table = \<lparr>ot_name = ''correlations'',
     ot_columns =
       [column ''id'' (String_ty 64),
        column ''tenant_id'' (String_ty 128),
        column ''rule_id'' (String_ty 255),
        defaulted (Default_text ''1'') (column ''rule_version'' (String_ty 64)),
        column ''severity'' (String_ty 32),
        column ''narrative'' Text_ty,
        column ''created_at'' Timestamp_ty],
     ot_primary = [''id''], ot_unique = [(Some ''uq_correlations_tenant_id'', [''tenant_id'', ''id''])],
     ot_foreign = [([''tenant_id''], ''tenants'', [''id''], Cascade)],
     ot_indexes = [(''ix_correlations_tenant_created'', [''tenant_id'', ''created_at''])]\<rparr>"

definition correlation_findings_table :: orm_table where
  "correlation_findings_table = \<lparr>ot_name = ''correlation_findings'',
     ot_columns =
       [column ''tenant_id'' (String_ty 128),
        column ''correlation_id'' (String_ty 64),
        column ''finding_id'' (String_ty 128)],
     ot_primary = [''tenant_id'', ''correlation_id'', ''finding_id''], ot_unique = [],
     ot_foreign = [([''tenant_id'', ''correlation_id''], ''correlations'', [''tenant_id'', ''id''], Cascade)],
     ot_indexes = []\<rparr>"

definition audit_events_table :: orm_table where
  "audit_events_table = \<lparr>ot_name = ''audit_events'',
     ot_columns =
       [column ''id'' (String_ty 64),
        column ''tenant_id'' (String_ty 128),
        column ''actor'' (String_ty 255),
        column ''action'' (String_ty 128),
        column ''resource_type'' (String_ty 128),
        nullable (column ''resource_id'' (String_ty 128)),
        nullable (column ''request_id'' (String_ty 128)),
        column ''outcome'' (String_ty 32),
        column ''details'' Json_ty,
        column ''created_at'' Timestamp_ty],
     ot_primary = [''id''], ot_unique = [],
     ot_foreign = [([''tenant_id''], ''tenants'', [''id''], Cascade)],
     ot_indexes = [(''ix_audit_events_tenant_created'', [''tenant_id'', ''created_at''])]\<rparr>"

definition metadata :: "orm_table list" where
  "metadata =
     [tenants_table, users_table, memberships_table, api_keys_table, identity_clients_table, user_sessions_table,
      jobs_table, job_events_table, findings_table, correlations_table, correlation_findings_table, audit_events_table]"

section \<open>Comparison\<close>

text \<open>
  The order of tables, columns, constraints and indexes is left open. The text \<^verbatim>\<open>'false'\<close> as the
  default of a boolean column is the constant for PostgreSQL, which casts it; in SQLite the
  constant is the number 0 and the text stays a text.
\<close>

datatype dialect = Postgres | Sqlite

definition plain_default :: "dialect \<Rightarrow> column \<Rightarrow> column" where
  "plain_default dl c =
     (if dl = Postgres \<and> co_type c = Boolean_ty \<and> co_default c = Some (Default_text ''false'')
      then c\<lparr>co_default := Some Default_false\<rparr> else c)"

definition same_elements :: "'a list \<Rightarrow> 'a list \<Rightarrow> bool" where
  "same_elements xs ys \<longleftrightarrow> list_all (\<lambda>x. List.member ys x) xs \<and> list_all (\<lambda>y. List.member xs y) ys"

definition same_table :: "dialect \<Rightarrow> table \<Rightarrow> table \<Rightarrow> bool" where
  "same_table dl t u \<longleftrightarrow> tb_name t = tb_name u \<and>
     same_elements (map (plain_default dl) (tb_columns t)) (map (plain_default dl) (tb_columns u)) \<and>
     tb_primary t = tb_primary u \<and> same_elements (tb_unique t) (tb_unique u) \<and>
     same_elements (tb_foreign t) (tb_foreign u) \<and> same_elements (tb_indexes t) (tb_indexes u)"

definition same_schema :: "dialect \<Rightarrow> schema \<Rightarrow> schema \<Rightarrow> bool" where
  "same_schema dl s s' \<longleftrightarrow> list_all (\<lambda>t. list_ex (same_table dl t) s') s \<and> list_all (\<lambda>u. list_ex (\<lambda>t. same_table dl t u) s) s'"

text \<open>The declared tables with another default of one column.\<close>

definition with_default :: "string \<Rightarrow> string \<Rightarrow> server_default \<Rightarrow> schema \<Rightarrow> schema" where
  "with_default n c v s =
     map (\<lambda>t. if tb_name t = n
       then t\<lparr>tb_columns := map (\<lambda>x. if co_name x = c then defaulted v x else x) (tb_columns t)\<rparr> else t) s"

end
