(* ===== verification/Dispatch.thy ===== *)
theory Dispatch
  imports Api_Proofs
begin

text \<open>
  The dispatchers of \<^verbatim>\<open>dispatch.py\<close>. The inline one keeps the tasks it started on the event
  loop: a task is an execution of a job that has not ended, under the dispatch id as its
  name. The Celery one sends the job to a broker, which is a parameter, and revokes it there;
  a revoked task is not terminated if it runs. Neither touches the repository: a worker does,
  later.
\<close>

section \<open>Inline\<close>

text \<open>\<open>it_tasks\<close> is the dictionary of the tasks: dispatch id, job id and tenant.\<close>

record inline_tasks =
  it_tasks :: "(string \<times> string \<times> string) list"

definition no_tasks :: inline_tasks where
  "no_tasks = \<lparr>it_tasks = []\<rparr>"

definition inline_id :: "call_env \<Rightarrow> string" where
  "inline_id e = ''inline_'' @ uuid e 0"

definition inline_submit :: "call_env \<Rightarrow> job_record \<Rightarrow> inline_tasks \<Rightarrow> string \<times> inline_tasks" where
  "inline_submit e job ts =
     (inline_id e, ts\<lparr>it_tasks := filter (\<lambda>x. fst x \<noteq> inline_id e) (it_tasks ts) @
        [(inline_id e, j_id job, j_tenant_id job)]\<rparr>)"

text \<open>The callback of a task that is done.\<close>

definition inline_done :: "string \<Rightarrow> inline_tasks \<Rightarrow> inline_tasks" where
  "inline_done i ts = ts\<lparr>it_tasks := filter (\<lambda>x. fst x \<noteq> i) (it_tasks ts)\<rparr>"

text \<open>What the handlers see of the inline dispatcher.\<close>

definition inline_dispatcher :: "call_env \<Rightarrow> 's dispatcher" where
  "inline_dispatcher e = \<lparr>ds_submit = (\<lambda>job queue s. (Inr (inline_id e), s)), ds_cancel = (\<lambda>job s. (Inr (), s))\<rparr>"

section \<open>Celery\<close>

text \<open>
  \<open>send\<close> is \<^verbatim>\<open>send_task\<close> with its name, arguments and queue and yields the id of the task;
  \<open>revoke\<close> is \<^verbatim>\<open>control.revoke\<close> of a task id; \<open>connect\<close> is what \<^verbatim>\<open>ensure_connection\<close> does.
\<close>

record broker =
  bk_send :: "string \<Rightarrow> string list \<Rightarrow> string \<Rightarrow> exn + string"
  bk_revoke :: "string \<Rightarrow> exn + unit"
  bk_connect :: "exn + unit"

definition execute_job_task :: string where
  "execute_job_task = ''shared_integration.execute_job''"

definition celery_submit :: "broker \<Rightarrow> job_record \<Rightarrow> string \<Rightarrow> exn + string" where
  "celery_submit B job queue = bk_send B execute_job_task [j_id job, j_tenant_id job] queue"

definition celery_cancel :: "broker \<Rightarrow> job_record \<Rightarrow> exn + unit" where
  "celery_cancel B job = (if truthy (j_dispatch_id job) then bk_revoke B (the (j_dispatch_id job)) else Inr ())"

definition celery_ready :: "broker \<Rightarrow> bool" where
  "celery_ready B = (case bk_connect B of Inr _ \<Rightarrow> True | Inl _ \<Rightarrow> False)"

definition celery_dispatcher :: "broker \<Rightarrow> 's dispatcher" where
  "celery_dispatcher B = \<lparr>ds_submit = (\<lambda>job queue s. (celery_submit B job queue, s)),
     ds_cancel = (\<lambda>job s. (celery_cancel B job, s))\<rparr>"

section \<open>Lemmas\<close>

text \<open>Both are dispatchers in the sense of the handlers' lemmas.\<close>

lemma celery_dispatches [simp]: "dispatches R (celery_dispatcher B)"
  unfolding dispatches_def celery_dispatcher_def
  by (auto intro: exI [of _ "[]"])

lemma inline_dispatches [simp]: "dispatches R (inline_dispatcher e)"
  unfolding dispatches_def inline_dispatcher_def
  by (auto intro: exI [of _ "[]"])

text \<open>A task is in the table from its submission until it is done, and no other is touched.\<close>

lemma inline_submit_tasks:
  assumes "inline_submit e job ts = (i, ts')"
  shows "(i, j_id job, j_tenant_id job) \<in> set (it_tasks ts')"
    and "x \<in> set (it_tasks ts) \<Longrightarrow> fst x \<noteq> i \<Longrightarrow> x \<in> set (it_tasks (inline_done i ts'))"
    and "i \<notin> fst ` set (it_tasks (inline_done i ts'))"
  using assms by (auto simp: inline_submit_def inline_done_def)

end
