(* ===== verification/Access_Properties.thy ===== *)
theory Access_Properties
  imports Samples Rbac Rate_Limiter
begin

text \<open>
  What the identity repository, the middleware and the rate limiter guarantee: stored
  secrets, the life of an API key, a session and an identity client over any calls of the
  repository, who is let through to which path, and how often an exchange may be tried.
\<close>

section \<open>Accounts\<close>

text \<open>A tenant with a member, an API key, an identity client and a session.\<close>

definition sample_members :: database where
  "sample_members = identity_run
     [Id_create_tenant (sample_env 100 ''t1'') ''acme'' ''acme'' ''Acme'' 30 ''root'',
      Id_upsert_user (sample_env 101 ''ann'') ''https://idp'' ''ann'' None None,
      Id_set_membership (sample_env 102 ''m1'') ''acme'' ''usr_ann'' ''analyst'' ''root''] empty_db"

abbreviation portal_call :: identity_call where
  "portal_call \<equiv> Id_issue_client sample_crypto (sample_secrets 103 ''c1'') ''portal'' [''https://idp'']"

definition sample_accounts :: database where
  "sample_accounts = identity_perform portal_call sample_members"

lemma sample_members_tables:
  "db_clients sample_members = []" "db_api_keys sample_members = []" "db_sessions sample_members = []"
  "map_option t_status (get_tenant ''acme'' sample_members) = Some ''active''"
  "map_option u_id (get_user ''usr_ann'' sample_members) = Some ''usr_ann''"
  "map_option (\<lambda>m. (m_status m, m_role m)) (get_membership_row ''acme'' ''usr_ann'' sample_members) =
     Some (''active'', ''analyst'')"
proof -
  have "length (db_clients sample_members) = 0" "length (db_api_keys sample_members) = 0"
    "length (db_sessions sample_members) = 0" by code_simp+
  then show "db_clients sample_members = []" "db_api_keys sample_members = []" "db_sessions sample_members = []"
    by simp_all
qed code_simp+

lemma portal_valid:
  "normalize_client_name ''portal'' = Inr ''portal''" "normalize_issuers [''https://idp''] = Inr [''https://idp'']"
  by code_simp+

lemma sample_accounts_client:
  "sample_accounts = sample_members\<lparr>db_clients :=
     [fst (new_identity_client sample_crypto (sample_secrets 103 ''c1'') ''portal'' [''https://idp''] None)]\<rparr>"
  by (simp add: sample_accounts_def issue_identity_client_def portal_valid insert_client_def sample_members_tables
      new_identity_client_def)

definition sample_key :: "(exn + issued_api_key) \<times> database" where
  "sample_key = issue_api_key sample_crypto (sample_secrets 104 ''k1'') ''acme'' ''analyst'' [''gateway:read''] None
     ''root'' sample_accounts"

definition sample_session :: "(exn + issued_session) \<times> database" where
  "sample_session = issue_user_session sample_crypto (sample_secrets 105 ''s1'') ''idc_c1'' ''acme'' ''usr_ann'' 300
     ''portal'' None sample_accounts"

lemma sample_shape: "env_shape (sample_secrets ts u)"
  by (simp add: env_shape_def sample_secrets_def call_env.extend_def sample_env_def list_all_length
      is_hex_lower_def url_token_char_def is_alnum_ascii_def is_digit_def is_lower_az_def is_upper_az_def)

section \<open>Secrets and API keys\<close>

text \<open>
  A stored secret verifies a presented one exactly when the scrypt digests under the
  stored salt agree: the encoding of parameters, salt and digest in one string loses nothing.
\<close>

theorem stored_secret_verifies:
  "verify_secret C presented (hash_secret C salt secret) \<longleftrightarrow> scrypt_digest C presented salt = scrypt_digest C secret salt"
  by (rule verify_hash_secret)

text \<open>
  An API key that was just issued authenticates as its tenant, role and scopes until it
  expires and not at or after that moment.
\<close>

theorem issued_key_lifetime:
  assumes "issue_api_key C e t role scopes expires actor d = (Inr k, d')" and "env_shape e"
  shows "authenticate_api_key C e' (ik_token k) d' =
    (if (case ik_expires_at k of None \<Rightarrow> False | Some x \<Rightarrow> x \<le> now e') then None
     else Some \<lparr>ap_tenant_id = t, ap_role = role, ap_scopes = ik_scopes k, ap_api_key_id = ik_id k\<rparr>)"
  using assms by (rule issued_key_authenticates)

lemma sample_secrets_simps [simp]: "now (sample_secrets ts u) = ts"
  "uuid (sample_secrets ts u) n = u @ replicate n (CHR ''x'')"
  by (simp_all add: sample_secrets_def call_env.extend_def sample_env_def)

lemma sample_audit_ids: "r \<in> set (db_audit_events sample_members) \<Longrightarrow> a_id r \<in> {''audit_t1'', ''audit_m1''}"
proof -
  have "map a_id (db_audit_events sample_members) = [''audit_t1'', ''audit_m1'']" by code_simp
  then have "a_id ` set (db_audit_events sample_members) = {''audit_t1'', ''audit_m1''}"
    by (metis list.set_map list.simps(15) empty_set)
  then show "r \<in> set (db_audit_events sample_members) \<Longrightarrow> a_id r \<in> {''audit_t1'', ''audit_m1''}" by blast
qed

lemma sample_insert_audit:
  assumes "a_id r \<notin> {''audit_t1'', ''audit_m1''}" and "a_tenant_id r = ''acme''"
    and "db_audit_events d = db_audit_events sample_members @ later" and "\<forall>x \<in> set later. a_id x \<noteq> a_id r"
    and "db_tenants d = db_tenants sample_members"
  shows "insert_audit r d = Inr (d\<lparr>db_audit_events := db_audit_events d @ [r]\<rparr>)"
proof -
  have "a_id x \<noteq> a_id r" if "x \<in> set (db_audit_events sample_members)" for x
    using sample_audit_ids [OF that] assms(1) by metis
  then show ?thesis using assms(2-5) sample_members_tables(4) by (auto simp: insert_audit_def get_tenant_def)
qed

lemma sample_key_state:
  "\<exists>k row a. fst sample_key = Inr k \<and> ik_expires_at k = None \<and>
     snd sample_key = sample_accounts\<lparr>db_api_keys := [row], db_audit_events := db_audit_events sample_members @ [a]\<rparr> \<and>
     is_api_key ''acme'' ''key_k1'' row \<and> k_revoked_at row = None \<and> a_id a = ''audit_k1x''"
proof -
  obtain tenant where tenant: "get_tenant ''acme'' sample_accounts = Some tenant" "t_status tenant = ''active''"
    using sample_members_tables(4) by (auto simp: sample_accounts_client get_tenant_def)
  moreover have "validate_role ''analyst'' = Inr ()" "normalize_scopes [''gateway:read''] = Inr [''gateway:read'']"
    by code_simp+
  moreover have "db_api_keys sample_accounts = []" "db_audit_events sample_accounts = db_audit_events sample_members"
    "db_tenants sample_accounts = db_tenants sample_members"
    by (simp_all add: sample_accounts_client sample_members_tables)
  ultimately show ?thesis
    by (simp add: sample_key_def issue_api_key_def Let_def normalize_expiry_def insert_api_key_def
        identity_audit_def sample_insert_audit [where later = "[]"] is_api_key_def)
      (intro exI conjI, rule refl, simp_all)
qed

theorem issued_key_lifetime_witness:
  "\<exists>k. fst sample_key = Inr k \<and>
    authenticate_api_key sample_crypto (sample_env 200 ''x'') (ik_token k) (snd sample_key) =
      Some \<lparr>ap_tenant_id = ''acme'', ap_role = ''analyst'', ap_scopes = ik_scopes k, ap_api_key_id = ik_id k\<rparr>"
proof -
  obtain k where k: "fst sample_key = Inr k" "ik_expires_at k = None" using sample_key_state by blast
  then have issued: "issue_api_key sample_crypto (sample_secrets 104 ''k1'') ''acme'' ''analyst'' [''gateway:read'']
      None ''root'' sample_accounts = (Inr k, snd sample_key)"
    by (simp add: sample_key_def prod_eq_iff)
  show ?thesis
    using issued_key_lifetime [OF issued sample_shape, of "sample_env 200 ''x''"] k by simp
qed

text \<open>
  C12: Revoking an API key is final: whatever calls came before and whatever calls come after,
  no token authenticates as the revoked key.
\<close>

theorem revoked_key_refused:
  assumes "revoke_api_key e t i actor (identity_run cs empty_db) = (Inr True, d)"
  shows "map_option ap_api_key_id (authenticate_api_key C e' token (identity_run cs' d)) \<noteq> Some i"
proof -
  have "key_revoked i d"
    using assms unique_ids_run [OF unique_ids_empty] by (rule revoke_api_key_revokes)
  then have "key_revoked i (identity_run cs' d)"
    by (rule identity_run_induct [where P = "key_revoked i"]) (rule key_revoked_step)
  then show ?thesis using key_revoked_authenticate by (auto split: option.splits)
qed

definition sample_calls :: "identity_call list" where
  "sample_calls =
     [Id_create_tenant (sample_env 100 ''t1'') ''acme'' ''acme'' ''Acme'' 30 ''root'',
      Id_upsert_user (sample_env 101 ''ann'') ''https://idp'' ''ann'' None None,
      Id_set_membership (sample_env 102 ''m1'') ''acme'' ''usr_ann'' ''analyst'' ''root'', portal_call]"

definition key_call :: identity_call where
  "key_call = Id_issue_api_key sample_crypto (sample_secrets 104 ''k1'') ''acme'' ''analyst'' [''gateway:read''] None ''root''"

lemma sample_runs:
  "identity_run sample_calls empty_db = sample_accounts"
  "identity_run (sample_calls @ [key_call]) empty_db = snd sample_key"
  by (simp_all add: identity_run_def sample_calls_def sample_accounts_def sample_members_def key_call_def sample_key_def)

lemma sample_key_revoked:
  "\<exists>d. revoke_api_key (sample_env 110 ''r1'') ''acme'' ''key_k1'' ''root'' (snd sample_key) = (Inr True, d)"
proof -
  obtain row a where after: "snd sample_key =
      sample_accounts\<lparr>db_api_keys := [row], db_audit_events := db_audit_events sample_members @ [a]\<rparr>"
    and row: "is_api_key ''acme'' ''key_k1'' row" "k_revoked_at row = None" "a_id a = ''audit_k1x''"
    using sample_key_state by blast
  have "db_tenants sample_accounts = db_tenants sample_members" by (simp add: sample_accounts_client)
  with row show ?thesis
    by (simp add: after revoke_api_key_def identity_audit_def sample_insert_audit [where later = "[a]"])
qed

theorem revoked_key_refused_witness:
  "\<exists>d. revoke_api_key (sample_env 110 ''r1'') ''acme'' ''key_k1'' ''root''
      (identity_run (sample_calls @ [key_call]) empty_db) = (Inr True, d) \<and>
    map_option ap_api_key_id (authenticate_api_key sample_crypto (sample_env 111 ''x'')
      (''igw_'' @ replicate 24 (CHR ''a'') @ ''.'' @ replicate 43 (CHR ''B'')) (identity_run [] d)) \<noteq> Some ''key_k1''"
proof -
  obtain d where "revoke_api_key (sample_env 110 ''r1'') ''acme'' ''key_k1'' ''root''
      (identity_run (sample_calls @ [key_call]) empty_db) = (Inr True, d)"
    using sample_key_revoked by (auto simp: sample_runs)
  with revoked_key_refused [OF this] show ?thesis by blast
qed

section \<open>Sessions and identity clients\<close>

text \<open>A session can be issued as long as tenant, membership, user and client are there.\<close>

lemma sample_issue:
  assumes "db_tenants d = db_tenants sample_members" and "db_memberships d = db_memberships sample_members"
    and "db_audit_events d = db_audit_events sample_members" and "db_sessions d = []"
    and "client_live ''idc_c1'' d" and "get_user ''usr_ann'' d \<noteq> None"
    and "''audit_'' @ u @ ''x'' \<notin> {''audit_t1'', ''audit_m1''}"
  shows "\<exists>k. fst (issue_user_session sample_crypto (sample_secrets ts u) ''idc_c1'' ''acme'' ''usr_ann'' 300 actor rq d) =
      Inr k \<and> is_id k = ''ses_'' @ u \<and> is_expires_at k = ts + 300000000 \<and> is_token k = ''igs_'' @ replicate 43 (CHR ''B'')"
proof -
  obtain tenant where tenant: "get_tenant ''acme'' d = Some tenant" "t_status tenant = ''active''"
    using sample_members_tables(4) assms(1) by (auto simp: get_tenant_def)
  moreover obtain m where "get_membership_row ''acme'' ''usr_ann'' d = Some m" "m_status m = ''active''"
    "m_role m = ''analyst''"
    using sample_members_tables(6) assms(2) by (auto simp: get_membership_row_def)
  moreover obtain x where "get_user ''usr_ann'' d = Some x" using assms(6) by blast
  moreover have "get_client ''idc_c1'' d \<noteq> None" using assms(5) by (auto simp: client_live_def split: option.splits)
  moreover have "normalize_session_ttl 300 = Inr 300000000" by code_simp
  moreover have "token_urlsafe (sample_secrets ts u) = replicate 43 (CHR ''B'')"
    by (simp add: sample_secrets_def call_env.extend_def sample_env_def)
  moreover note audit = sample_insert_audit [where later = "[]"]
  ultimately show ?thesis
    using assms by (simp add: issue_user_session_def Let_def insert_session_def roles_def identity_audit_def audit)
qed

lemma sample_session_state:
  "\<exists>k. fst sample_session = Inr k \<and> is_id k = ''ses_s1'' \<and> is_expires_at k = 300000105 \<and>
    is_token k = ''igs_'' @ replicate 43 (CHR ''B'')"
  using sample_issue [of sample_accounts "''s1''" 105 "''portal''" None] sample_members_tables
  by (auto simp: sample_session_def sample_accounts_client client_live_def get_client_def get_user_def
      new_identity_client_def)

text \<open>
  C13: A session that was just issued authenticates until it expires, as its user and tenant
  and with the role of the user's membership, and not at or after that moment.
\<close>

theorem issued_session_lifetime:
  assumes "issue_user_session C e i t u n actor rq d = (Inr k, d')" and "env_shape e"
  shows "fst (authenticate_user_session C e' (is_token k) d') =
      (if is_expires_at k \<le> now e' then None
       else Some \<lparr>sp_tenant_id = t, sp_user_id = u, sp_role = m_role (the (get_membership_row t u d)),
         sp_session_id = is_id k, sp_identity_client_id = i\<rparr>) \<and>
    is_expires_at k = now e + n * 1000000 \<and> 1 \<le> n \<and> n \<le> 15 * 60"
proof -
  have "is_expires_at k = now e + n * 1000000 \<and> 1 \<le> n \<and> n \<le> max_session_ttl"
    using assms(1) by (cases rule: issue_user_session_Inr) simp
  with issued_session_authenticates [OF assms] show ?thesis by (simp add: max_session_ttl_def)
qed

theorem issued_session_lifetime_witness:
  "\<exists>k. fst sample_session = Inr k \<and>
    map_option sp_session_id (fst (authenticate_user_session sample_crypto (sample_env 200 ''x'') (is_token k)
      (snd sample_session))) = Some ''ses_s1''"
proof -
  obtain k where k: "fst sample_session = Inr k" "is_id k = ''ses_s1''" "is_expires_at k = 300000105"
    using sample_session_state by blast
  then have issued: "issue_user_session sample_crypto (sample_secrets 105 ''s1'') ''idc_c1'' ''acme'' ''usr_ann'' 300
     ''portal'' None sample_accounts = (Inr k, snd sample_session)"
    by (simp add: sample_session_def prod_eq_iff)
  show ?thesis
    using issued_session_lifetime [OF issued sample_shape, of "sample_env 200 ''x''"] k by simp
qed

text \<open>
  C14: Revoking an identity client is final and takes its sessions with it: after any further
  calls neither the client's key nor any session it exchanged authenticates.
\<close>

theorem revoked_client_locked_out:
  assumes "revoke_identity_client e i (identity_run cs empty_db) = (True, d)"
  shows "map_option ip_identity_client_id (fst (authenticate_identity_client C e' token issuer (identity_run cs' d))) \<noteq> Some i \<and>
    map_option sp_identity_client_id (fst (authenticate_user_session C e' token (identity_run cs' d))) \<noteq> Some i"
proof -
  have "client_revoked i d"
    using assms unique_ids_run [OF unique_ids_empty] by (rule revoke_identity_client_revokes)
  then have gone: "client_revoked i (identity_run cs' d)"
    by (rule identity_run_induct [where P = "client_revoked i"]) (rule client_revoked_step)
  have "map_option ip_identity_client_id (fst (authenticate_identity_client C e' token issuer (identity_run cs' d))) \<noteq> Some i"
    by (cases "authenticate_identity_client C e' token issuer (identity_run cs' d)")
      (auto dest: client_revoked_no_auth [OF gone])
  moreover have "map_option sp_identity_client_id (fst (authenticate_user_session C e' token (identity_run cs' d))) \<noteq> Some i"
    using client_revoked_not_live [OF gone] session_needs_client
    by (cases "authenticate_user_session C e' token (identity_run cs' d)") auto
  ultimately show ?thesis by blast
qed

theorem revoked_client_locked_out_witness:
  "\<exists>d. revoke_identity_client (sample_env 120 ''r2'') ''idc_c1'' (identity_run sample_calls empty_db) = (True, d) \<and>
    map_option ip_identity_client_id (fst (authenticate_identity_client sample_crypto (sample_env 121 ''x'')
      (''igb_'' @ replicate 24 (CHR ''a'') @ ''.'' @ replicate 43 (CHR ''B'')) None (identity_run [] d))) \<noteq> Some ''idc_c1''"
proof -
  obtain d where "revoke_identity_client (sample_env 120 ''r2'') ''idc_c1'' (identity_run sample_calls empty_db) = (True, d)"
    by (simp add: sample_runs sample_accounts_client revoke_identity_client_def get_client_def new_identity_client_def)
  with revoked_client_locked_out [OF this] show ?thesis by blast
qed

text \<open>
  Whatever calls came before, a session token that authenticates belongs to a stored
  session of an active client that was created less than fifteen minutes ago, and whose
  tenant and membership are active.
\<close>

theorem session_short_lived:
  assumes "fst (authenticate_user_session C e token (identity_run cs empty_db)) = Some p"
  shows "\<exists>r \<in> set (db_sessions (identity_run cs empty_db)). s_id r = sp_session_id p \<and>
      s_token_hash r = token_sha256 C token \<and> now e < s_created_at r + 15 * 60 * 1000000 \<and>
      s_revoked_at r = None \<and> client_live (s_identity_client_id r) (identity_run cs empty_db) \<and>
      map_option t_status (get_tenant (s_tenant_id r) (identity_run cs empty_db)) = Some ''active'' \<and>
      map_option m_status (get_membership_row (s_tenant_id r) (s_user_id r) (identity_run cs empty_db)) = Some ''active''"
proof -
  let ?d = "identity_run cs empty_db"
  obtain row where row: "find (\<lambda>r. s_token_hash r = token_sha256 C token) (db_sessions ?d) = Some row"
    and role: "session_role (now e) row ?d = Some (sp_role p)" and id: "s_id row = sp_session_id p"
    using assms by (auto simp: authenticate_user_session_def split: if_splits option.splits)
  have there: "row \<in> set (db_sessions ?d)" "s_token_hash row = token_sha256 C token"
    using row by (auto dest: find_SomeD)
  then have "s_expires_at row \<le> s_created_at row + max_session_ttl * 1000000"
    using unique_ids_run [OF unique_ids_empty, of cs] by (simp add: unique_ids_def)
  with role have "now e < s_created_at row + 15 * 60 * 1000000"
    by (auto simp: session_role_def max_session_ttl_def split: if_splits)
  with there id role show ?thesis
    by (intro bexI [of _ row]) (auto simp: session_role_def split: if_splits option.splits)
qed

definition session_call :: identity_call where
  "session_call = Id_issue_session sample_crypto (sample_secrets 105 ''s1'') ''idc_c1'' ''acme'' ''usr_ann'' 300 ''portal'' None"

theorem session_short_lived_witness:
  "\<exists>p (r :: session_row). fst (authenticate_user_session sample_crypto (sample_env 200 ''x'') (''igs_'' @ replicate 43 (CHR ''B''))
      (identity_run (sample_calls @ [session_call]) empty_db)) = Some p \<and> s_id r = sp_session_id p \<and>
    (200::int) < s_created_at r + 15 * 60 * 1000000"
proof -
  have run: "identity_run (sample_calls @ [session_call]) empty_db = snd sample_session"
    using sample_runs(1) by (simp add: identity_run_def session_call_def sample_session_def)
  obtain k where k: "fst sample_session = Inr k" "is_expires_at k = 300000105"
    and token: "is_token k = ''igs_'' @ replicate 43 (CHR ''B'')"
    using sample_session_state by blast
  then have issued: "issue_user_session sample_crypto (sample_secrets 105 ''s1'') ''idc_c1'' ''acme'' ''usr_ann'' 300
     ''portal'' None sample_accounts = (Inr k, snd sample_session)"
    by (simp add: sample_session_def prod_eq_iff)
  obtain p where p: "fst (authenticate_user_session sample_crypto (sample_env 200 ''x'') (''igs_'' @ replicate 43 (CHR ''B''))
      (identity_run (sample_calls @ [session_call]) empty_db)) = Some p"
    using issued_session_authenticates [OF issued sample_shape, of "sample_env 200 ''x''"] k token run
    by (simp del: append.simps replicate.simps)
  from session_short_lived [OF p] obtain r :: session_row where "s_id r = sp_session_id p" "now (sample_env 200 ''x'') < s_created_at r + 15 * 60 * 1000000"
    by blast
  with p show ?thesis by (intro exI [of _ p] exI [of _ r]) simp
qed

text \<open>
  An issuer and a subject name one user: a second exchange for them finds the user of the
  first one, with the profile brought up to date, and adds no row.
\<close>

theorem one_user_per_subject:
  assumes "upsert_user e i s m n d = (Inr r, d')" and "upsert_user e' i s m' n' d' = (v, d'')"
    and "validate_user (py_strip i) (py_strip s) m' n' = Inr ()"
  shows "\<exists>r'. v = Inr r' \<and> u_id r' = u_id r \<and> length (db_users d'') = length (db_users d')"
  using assms by (rule upsert_user_same)

theorem one_user_per_subject_witness:
  "\<exists>r r'. fst (upsert_user (sample_env 1 ''a'') ''https://idp'' ''bob'' None None empty_db) = Inr r \<and>
    fst (upsert_user (sample_env 2 ''b'') ''https://idp'' ''bob'' (Some ''b@x'') None
      (snd (upsert_user (sample_env 1 ''a'') ''https://idp'' ''bob'' None None empty_db))) = Inr r' \<and>
    u_id r' = u_id r"
proof -
  have "case fst (upsert_user (sample_env 1 ''a'') ''https://idp'' ''bob'' None None empty_db) of Inr r \<Rightarrow> True | _ \<Rightarrow> False"
    by code_simp
  then obtain r where r: "fst (upsert_user (sample_env 1 ''a'') ''https://idp'' ''bob'' None None empty_db) = Inr r"
    by (auto split: sum.splits)
  have valid: "validate_user (py_strip ''https://idp'') (py_strip ''bob'') (Some ''b@x'') None = Inr ()" by code_simp
  have first: "upsert_user (sample_env 1 ''a'') ''https://idp'' ''bob'' None None empty_db =
      (Inr r, snd (upsert_user (sample_env 1 ''a'') ''https://idp'' ''bob'' None None empty_db))"
    using r by (simp add: prod_eq_iff)
  show ?thesis
    using one_user_per_subject [OF first surjective_pairing valid, of "sample_env 2 ''b''"] r by blast
qed

section \<open>Access\<close>

text \<open>
  C5: What the middleware lets through. On a path that is not open, with access control
  configured, the application is called only as a principal that the bearer token of the
  request authenticated, statically or by the repository; an administration path needs the
  role \<^verbatim>\<open>admin\<close>, a viewer only reads, and the scopes of an API key allow the request.
\<close>

theorem middleware_sound:
  assumes "decide principals auth r d = (Inr (Call_as p), d')" and "\<not> open_path (rq_path r)"
    and "principals \<noteq> [] \<or> auth \<noteq> None"
  shows "\<exists>h token. header ''authorization'' r = Some h \<and> bearer_token h = Some token \<and>
    ((token, p) \<in> set principals \<or> (\<exists>f. auth = Some f \<and> f token d = (Some p, d'))) \<and>
    (startswith ''/v1/admin/'' (rq_path r) \<longrightarrow> p_role p = ''admin'') \<and>
    (p_role p = ''viewer'' \<longrightarrow> py_upper (rq_method r) \<in> set safe_methods) \<and>
    scope_allows p (py_upper (rq_method r)) (rq_path r)"
proof -
  note called = decide_called [OF assms]
  have "authenticate_request principals auth r d = (Inr (Some p), d')" using called by (rule conjunct1)
  then obtain token where "header ''authorization'' r \<noteq> None"
    and "bearer_token (the (header ''authorization'' r)) = Some token"
    and "(token, p) \<in> set principals \<or> (\<exists>f. auth = Some f \<and> f token d = (Some p, d'))"
    by (rule authenticate_request_some)
  moreover from this(1) obtain h where "header ''authorization'' r = Some h" by blast
  ultimately show ?thesis using called [THEN conjunct2] by (intro exI [of _ h] exI [of _ token]) simp
qed

definition sample_request :: "string \<Rightarrow> string \<Rightarrow> string \<Rightarrow> http_request" where
  "sample_request verb path token = \<lparr>rq_is_http = True, rq_path = path, rq_method = verb,
     rq_headers = [(''Authorization'', ''Bearer '' @ token)]\<rparr>"

theorem middleware_sound_witness:
  "\<exists>h token. header ''authorization'' (sample_request ''POST'' ''/v1/scans'' ''static-token-0001'') = Some h \<and>
    bearer_token h = Some token \<and>
    decide [(''static-token-0001'', plain_principal ''acme'' ''analyst'')] None
      (sample_request ''POST'' ''/v1/scans'' ''static-token-0001'') empty_db =
      (Inr (Call_as (plain_principal ''acme'' ''analyst'')), empty_db) \<and>
    scope_allows (plain_principal ''acme'' ''analyst'') ''POST'' ''/v1/scans''"
proof -
  let ?r = "sample_request ''POST'' ''/v1/scans'' ''static-token-0001''"
  have upper: "py_upper ''POST'' = ''POST''" by code_simp
  have open_path: "\<not> open_path (rq_path ?r)" by code_simp
  have header: "header ''authorization'' ?r = Some ''Bearer static-token-0001''" by code_simp
  have token: "bearer_token ''Bearer static-token-0001'' = Some ''static-token-0001''" by code_simp
  have digest: "compare_digest ''static-token-0001'' ''static-token-0001'' = Inr True" by code_simp
  have admin: "\<not> startswith ''/v1/admin/'' ''/v1/scans''" by code_simp
  have called: "decide [(''static-token-0001'', plain_principal ''acme'' ''analyst'')] None ?r empty_db =
      (Inr (Call_as (plain_principal ''acme'' ''analyst'')), empty_db)"
    unfolding decide_def authenticate_request_def header
    by (simp add: token digest upper sample_request_def public_paths_def route_auth_paths_def admin
        plain_principal_def scope_allows_def)
  from middleware_sound [OF called open_path] header called token upper show ?thesis
    by (auto simp: sample_request_def)
qed

text \<open>
  A bearer token with a character outside ASCII does not get the answer 401: where static
  tokens are configured, comparing it with the first of them raises a \<^verbatim>\<open>TypeError\<close> that leaves
  the middleware.
\<close>

theorem non_ascii_token_raises:
  assumes "rq_is_http r" and "\<not> open_path (rq_path r)"
    and "header ''authorization'' r = Some h" and "bearer_token h = Some token"
    and "\<not> list_all is_ascii token" and "principals \<noteq> []"
  shows "\<exists>m. decide principals auth r d = (Inl (TypeError m), d)"
proof -
  obtain configured p ps where "principals = (configured, p) # ps" using assms(6) by (cases principals) auto
  then have "\<exists>m. static_principal token principals = Inl (TypeError m)" using assms(5) by (simp add: compare_digest_def)
  then show ?thesis using assms by (auto simp: decide_def open_path_def authenticate_request_def)
qed

theorem non_ascii_token_raises_witness:
  "\<exists>m. decide [(''static-token-0001'', plain_principal ''acme'' ''analyst'')] None
    (sample_request ''GET'' ''/v1/scans'' [CHR 0xE9]) empty_db = (Inl (TypeError m), empty_db)"
proof (rule non_ascii_token_raises)
  show "rq_is_http (sample_request ''GET'' ''/v1/scans'' [CHR 0xE9])" by code_simp
  show "\<not> open_path (rq_path (sample_request ''GET'' ''/v1/scans'' [CHR 0xE9]))" by code_simp
  show "header ''authorization'' (sample_request ''GET'' ''/v1/scans'' [CHR 0xE9]) = Some (''Bearer '' @ [CHR 0xE9])" by code_simp
  show "bearer_token (''Bearer '' @ [CHR 0xE9]) = Some [CHR 0xE9]" by code_simp
  show "\<not> list_all is_ascii [CHR 0xE9]" by code_simp
qed simp

section \<open>The rate limit\<close>

text \<open>
  C19: The rate limit is exact. In any run of attempts in time order, the next attempt is let
  through if and only if fewer than \<open>n\<close> attempts of its queue were let through in the window
  before it; so in every window of every queue at most \<open>n\<close> are let through, and the limiter
  never holds more than its bound of keys.
\<close>

theorem limiter_exact:
  assumes "make_limiter n w m = Inr l" and "sorted (map fst as)" and "\<forall>a \<in> set as. fst a \<le> tm"
  shows "(fst (fst (check tm key (snd (attempt_all as l)))) \<longleftrightarrow>
      int (length (in_window l tm (queue_key tm key (snd (attempt_all as l))) (fst (attempt_all as l)))) < n) \<and>
    int (length (filter (\<lambda>e. fst e = k \<and> at_end - window_us l < snd e \<and> snd e \<le> at_end) (fst (attempt_all as l)))) \<le> n \<and>
    int (length (l_attempts (snd (attempt_all as l)))) \<le> m"
  using attempt_exact [OF assms] attempts_bounded [OF assms(1,2)] attempt_all_window [OF assms] by blast

definition limiter_sample :: limiter where
  "limiter_sample = \<lparr>l_max_attempts = 2, l_window_seconds = 1, l_max_keys = 2, l_attempts = [(overflow_key, [])]\<rparr>"

definition sample_attempts :: "(int \<times> string) list" where
  "sample_attempts = [(0, ''a''), (100, ''a''), (200, ''a''), (1000050, ''a'')]"

theorem limiter_exact_witness:
  "fst (fst (check 1000060 ''a'' (snd (attempt_all sample_attempts limiter_sample)))) \<longleftrightarrow>
    int (length (in_window limiter_sample 1000060
      (queue_key 1000060 ''a'' (snd (attempt_all sample_attempts limiter_sample)))
      (fst (attempt_all sample_attempts limiter_sample)))) < 2"
proof -
  have l: "make_limiter 2 1 2 = Inr limiter_sample" by (simp add: make_limiter_def limiter_sample_def)
  have times: "sorted (map fst sample_attempts)" "\<forall>a \<in> set sample_attempts. fst a \<le> 1000060"
    by (simp_all add: sample_attempts_def)
  show ?thesis using limiter_exact [OF l times, of "''a''"] by blast
qed

end
