(* ===== verification/Api_Properties.thy ===== *)
theory Api_Properties
  imports Job_Properties Dispatch Access_Properties
begin

text \<open>
  What a client of the version 1 API can rely on: the event stream of a job, the creation of
  a scan under an idempotency key, and the exchange of an identity for a session.
\<close>

section \<open>The event stream\<close>

text \<open>
  C15: Whatever calls of executors and clients come between its steps, an event stream has at
  every moment sent, in order and without gap or repetition, the first of the job's events
  after the one the client named.
\<close>

theorem stream_sends_prefix:
  assumes "0 \<le> after"
    and "sse_system sqlite_repository t j (sqlite_after cs, sse_start after) (s, x)"
  shows "prefix (sent_events x) (r_list_events sqlite_repository t j after (-1) s)"
  using sqlite_after_invar assms by (rule sqlite.sse_sends_prefix)

definition sample_streaming :: sse_state where
  "sample_streaming = sse_run sqlite_repository ''acme'' ''job_a'' sample_store 2 (sse_start 0)"

lemma sse_system_run: "sse_system R t j w (s, x) \<Longrightarrow> sse_system R t j w (s, sse_run R t j s n x)"
  by (induction n arbitrary: x) (auto intro: sse_own)

theorem stream_sends_prefix_witness:
  "prefix (sent_events sample_streaming) (r_list_events sqlite_repository ''acme'' ''job_a'' 0 (-1) sample_running) \<and>
    length (sent_events sample_streaming) = 1"
proof
  have "sse_system sqlite_repository ''acme'' ''job_a'' (sample_store, sse_start 0) (sample_store, sample_streaming)"
    unfolding sample_streaming_def by (rule sse_system_run [OF sse_refl])
  then have "sse_system sqlite_repository ''acme'' ''job_a'' (sample_store, sse_start 0)
      (snd (perform sqlite_repository (Call_mark_running (sample_env 6 ''b'') ''acme'' ''job_a'' True) sample_store),
       sample_streaming)"
    by (rule sse_other)
  then have "sse_system sqlite_repository ''acme'' ''job_a''
      (sqlite_after [Call_create (sample_env 5 ''a'') ''acme'' LAB JNull (Some ''k'')], sse_start 0)
      (sample_running, sample_streaming)"
    by (simp add: sample_sqlite_after sample_claim)
  then show "prefix (sent_events sample_streaming) (r_list_events sqlite_repository ''acme'' ''job_a'' 0 (-1) sample_running)"
    by (rule stream_sends_prefix [rotated]) simp
  show "length (sent_events sample_streaming) = 1" by code_simp
qed

text \<open>
  C16: The stream of a job that has ended sends every event after the one the client named
  and then ends by itself.
\<close>

theorem stream_replays_ended_job:
  assumes "r_get (sqlalchemy_repository L) t j (sql_after L cs) = Some r" and "terminal (j_status r)"
  shows "\<exists>m. ss_pc (sse_run (sqlalchemy_repository L) t j (sql_after L cs) m (sse_start (int n))) = Sse_done \<and>
    sent_events (sse_run (sqlalchemy_repository L) t j (sql_after L cs) m (sse_start (int n))) =
      r_list_events (sqlalchemy_repository L) t j (int n) (-1) (sql_after L cs)"
proof -
  have start: "ss_pc (sse_start (int n)) = Sse_list" "ss_sequence (sse_start (int n)) = int n"
    "sent_events (sse_start (int n)) = []"
    by (simp_all add: sse_start_def sent_events_def map_filter_def)
  show ?thesis
    using sqlalchemy.sse_drains [OF sql_after_invar assms start(1,2)]
    by (simp add: start(3) sqlalchemy.list_events [OF sql_after_invar] sql_limit_def)
qed

definition cancel_call :: job_call where
  "cancel_call = Call_request_cancel (sample_env 7 ''c'') ''acme'' ''job_a''"

lemma sample_sql_cancelled:
  "\<exists>r. r_get (sqlalchemy_repository sample_core) ''acme'' ''job_a''
      (sql_after sample_core [Call_create (sample_env 5 ''a'') ''acme'' LAB JNull (Some ''k''), cancel_call]) = Some r \<and>
    terminal (j_status r)"
proof -
  have "map_option (\<lambda>r. terminal (j_status r)) (r_get (sqlalchemy_repository sample_core) ''acme'' ''job_a''
      (sql_after sample_core [Call_create (sample_env 5 ''a'') ''acme'' LAB JNull (Some ''k''), cancel_call])) = Some True"
    by code_simp
  then show ?thesis by auto
qed

theorem stream_replays_ended_job_witness:
  "\<exists>m. ss_pc (sse_run (sqlalchemy_repository sample_core) ''acme'' ''job_a''
      (sql_after sample_core [Call_create (sample_env 5 ''a'') ''acme'' LAB JNull (Some ''k''), cancel_call]) m
      (sse_start (int 0))) = Sse_done"
  using sample_sql_cancelled stream_replays_ended_job by blast

text \<open>
  C40: The stream can miss the end of a job. If the executor ends the job after the stream
  found no new event and before it reads the job, the stream ends without having sent the
  event of the final status: there is such a run.
\<close>

theorem final_event_lost:
  "\<exists>s x. sse_system sqlite_repository ''acme'' ''job_a'' (sample_running, sse_start 2) (s, x) \<and>
     ss_pc x = Sse_done \<and> sent_events x = [] \<and>
     length (r_list_events sqlite_repository ''acme'' ''job_a'' 2 (-1) s) = 1"
proof -
  let ?R = "sqlite_repository"
  define s where "s = snd (perform ?R
    (Call_transition (sample_env 9 ''d'') ''acme'' ''job_a'' SUCCEEDED (Some 0) None None) sample_running)"
  define x where "x = sse_run ?R ''acme'' ''job_a'' s 1 (sse_run ?R ''acme'' ''job_a'' sample_running 1 (sse_start 2))"
  have "sse_system ?R ''acme'' ''job_a'' (sample_running, sse_start 2)
      (sample_running, sse_run ?R ''acme'' ''job_a'' sample_running 1 (sse_start 2))"
    by (rule sse_system_run [OF sse_refl])
  then have "sse_system ?R ''acme'' ''job_a'' (sample_running, sse_start 2)
      (s, sse_run ?R ''acme'' ''job_a'' sample_running 1 (sse_start 2))"
    unfolding s_def by (rule sse_other)
  then have "sse_system ?R ''acme'' ''job_a'' (sample_running, sse_start 2) (s, x)"
    unfolding x_def by (rule sse_system_run)
  moreover have "ss_pc x = Sse_done" unfolding x_def s_def by code_simp
  moreover have "length (sent_events x) = 0" unfolding x_def s_def by code_simp
  moreover have "length (r_list_events ?R ''acme'' ''job_a'' 2 (-1) s) = 1" unfolding s_def by code_simp
  ultimately show ?thesis by blast
qed

section \<open>Creating a scan\<close>

text \<open>
  C7: A scan is created once. After a request with an idempotency key was answered with 200,
  202 or 503, and after any calls of other clients and of workers, every further request of
  the tenant with that key, for whichever source with a registered product (for another one
  the answer is 404), is answered with 200 and the job that the first answer named, in its
  \<^verbatim>\<open>Location\<close> header or in the error, changes nothing and starts nothing.
\<close>

theorem scan_created_once:
  assumes "dispatches (sqlalchemy_repository L) D" and "aq_idempotency_key r = Some k"
    and "create_scan L (sqlalchemy_repository L) D queues txt E r b (sql_after L cs) = (Inr resp, d)"
    and "rs_status resp \<in> {200, 202, 503}"
    and "aq_idempotency_key r' = Some k" and "aq_tenant_id r' = aq_tenant_id r" and "queues (sb_source b') \<noteq> None"
  shows "\<exists>job. create_scan L (sqlalchemy_repository L) D queues txt E' r' b'
      (snd (perform_all (sqlalchemy_repository L) cs' d)) =
        (Inr (scan_response L False job), snd (perform_all (sqlalchemy_repository L) cs' d)) \<and>
    (if rs_status resp = 503
     then resp = error_response 503 ''DISPATCH_FAILED'' ''The scan could not be queued'' (Some (api_request_id r))
       (Some (j_id job)) True []
     else rs_headers resp = [(''Location'', ''/v1/scans/'' @ j_id job)])"
proof -
  obtain j where j: "sqlalchemy.has_job (aq_tenant_id r) j k d"
    "if rs_status resp = 503
     then resp = error_response 503 ''DISPATCH_FAILED'' ''The scan could not be queued'' (Some (api_request_id r)) (Some j) True []
     else rs_headers resp = [(''Location'', ''/v1/scans/'' @ j)]"
    using sql_after_invar assms(1-4) by (rule sqlalchemy.create_scan_has_job)
  have valid: "valid_idempotency_key (Some k)"
    using assms(2-4) by (auto simp: create_scan_def Let_def split: if_splits)
  have "sqlalchemy.has_job (aq_tenant_id r') j k (snd (perform_all (sqlalchemy_repository L) cs' d))"
    using j(1) sqlalchemy.perform_all_invar sqlalchemy.perform_all_keyed assms(6) by (auto simp: sqlalchemy.has_job_def)
  from sqlalchemy.create_scan_again [where queues = queues, OF this assms(5) valid assms(7)] j(2) show ?thesis by blast
qed

definition down_broker :: broker where
  "down_broker = \<lparr>bk_send = (\<lambda>n as q. Inl (RuntimeError ''broker down'')), bk_revoke = (\<lambda>i. Inr ()),
     bk_connect = Inl (RuntimeError ''broker down'')\<rparr>"

definition scan_request :: api_request where
  "scan_request = \<lparr>aq_request_id = ''req_1'', aq_tenant_id = ''acme'', aq_role = ''analyst'', aq_authorization = None,
     aq_client_host = None, aq_idempotency_key = Some ''k'', aq_last_event_id = None\<rparr>"

definition lab_scan :: scan_body where
  "lab_scan = \<lparr>sb_source = LAB, sb_payload = JObj []\<rparr>"

definition scan_envs :: "nat \<Rightarrow> call_env" where
  "scan_envs n = sample_env (5 + int n) (''a'' @ replicate (7 * n) (CHR ''z''))"

definition sample_scan :: "(exn + response) \<times> database" where
  "sample_scan = create_scan sample_core (sqlalchemy_repository sample_core) (celery_dispatcher down_broker)
     (\<lambda>_. Some ''sandbox'') (\<lambda>_. ''down'') scan_envs scan_request lab_scan (sql_after sample_core [])"

lemma sample_scan_failed: "\<exists>resp. fst sample_scan = Inr resp \<and> rs_status resp = 503"
proof -
  have "case fst sample_scan of Inr resp \<Rightarrow> rs_status resp = 503 | _ \<Rightarrow> False" by code_simp
  then show ?thesis by (auto split: sum.splits)
qed

theorem scan_created_once_witness:
  "\<exists>resp job. fst sample_scan = Inr resp \<and> rs_status resp = 503 \<and>
    create_scan sample_core (sqlalchemy_repository sample_core) (celery_dispatcher down_broker)
      (\<lambda>_. Some ''sandbox'') (\<lambda>_. ''down'') scan_envs scan_request lab_scan
      (snd (perform_all (sqlalchemy_repository sample_core) [] (snd sample_scan))) =
      (Inr (scan_response sample_core False job), snd sample_scan)"
proof -
  obtain resp where resp: "fst sample_scan = Inr resp" "rs_status resp = 503" using sample_scan_failed by blast
  have run: "create_scan sample_core (sqlalchemy_repository sample_core) (celery_dispatcher down_broker)
     (\<lambda>_. Some ''sandbox'') (\<lambda>_. ''down'') scan_envs scan_request lab_scan (sql_after sample_core []) = (Inr resp, snd sample_scan)"
    using resp(1) by (simp add: sample_scan_def prod_eq_iff)
  have key: "aq_idempotency_key scan_request = Some ''k''" by (simp add: scan_request_def)
  show ?thesis
    using scan_created_once [OF celery_dispatches key run _ key, where cs' = "[]" and E' = scan_envs and b' = lab_scan] resp
    by auto
qed

definition error_field :: "string \<Rightarrow> json \<Rightarrow> json option" where
  "error_field k v =
     (case v of
        JObj fs \<Rightarrow> (case map_of fs ''error'' of Some (JObj es) \<Rightarrow> map_of es k | _ \<Rightarrow> None)
      | _ \<Rightarrow> None)"

text \<open>
  C39: The answer to a dispatch that failed says that the request can be retried, and it
  cannot: a retry with the same key is answered with the failed job and never reaches the
  dispatcher, whichever dispatcher there is by then. There is such a run.
\<close>

theorem failed_dispatch_not_retried:
  "\<exists>resp job. fst sample_scan = Inr resp \<and> rs_status resp = 503 \<and>
     error_field ''retryable'' (rs_body resp) = Some (JBool True) \<and>
     j_status job = FAILED \<and>
     (\<forall>D. create_scan sample_core (sqlalchemy_repository sample_core) D (\<lambda>_. Some ''sandbox'') (\<lambda>_. ''down'')
        scan_envs scan_request lab_scan (snd sample_scan) =
        (Inr (scan_response sample_core False job), snd sample_scan))"
proof -
  let ?R = "sqlalchemy_repository sample_core"
  obtain resp where resp: "fst sample_scan = Inr resp" "rs_status resp = 503" using sample_scan_failed by blast
  have "case fst sample_scan of Inr resp \<Rightarrow> error_field ''retryable'' (rs_body resp) = Some (JBool True) | _ \<Rightarrow> False"
    by code_simp
  with resp(1) have body: "error_field ''retryable'' (rs_body resp) = Some (JBool True)" by simp
  have run: "create_scan sample_core ?R (celery_dispatcher down_broker) (\<lambda>_. Some ''sandbox'') (\<lambda>_. ''down'')
      scan_envs scan_request lab_scan (sql_after sample_core []) = (Inr resp, snd sample_scan)"
    using resp(1) by (simp add: sample_scan_def prod_eq_iff)
  have key: "aq_idempotency_key scan_request = Some ''k''" "aq_tenant_id scan_request = ''acme''"
    by (simp_all add: scan_request_def)
  have "rs_status resp \<in> {200, 202, 503}" using resp(2) by simp
  with sqlalchemy.create_scan_has_job [OF sql_after_invar celery_dispatches key(1) run]
  obtain j where "sqlalchemy.has_job ''acme'' j ''k'' (snd sample_scan)" using key(2) by auto
  then obtain job where inv: "sa_invar (snd sample_scan)"
    and job: "r_find_by_idempotency_key ?R ''acme'' ''k'' (snd sample_scan) = Some job"
    by (metis sqlalchemy.has_job_def sqlalchemy.has_job_found)
  have "map_option j_status (r_find_by_idempotency_key ?R ''acme'' ''k'' (snd sample_scan)) = Some FAILED" by code_simp
  with job have failed: "j_status job = FAILED" by simp
  have valid: "valid_idempotency_key (Some ''k'')" by code_simp
  have "create_scan sample_core ?R D (\<lambda>_. Some ''sandbox'') (\<lambda>_. ''down'') scan_envs scan_request lab_scan (snd sample_scan) =
      (Inr (scan_response sample_core False job), snd sample_scan)" for D
    using sqlalchemy.create_found [OF inv job, of "scan_envs 0" LAB "JObj []"] key valid
    by (simp add: create_scan_def lab_scan_def)
  with resp body failed show ?thesis by blast
qed

section \<open>The exchange\<close>

text \<open>
  C17: What an exchange that is answered with 200 grants, when no other process writes to the
  database between the handler's steps. The session token of the answer authenticates as the
  requested tenant and as the user of the named issuer and subject, it lasts five minutes,
  and the bearer token of the request was the key of an identity client, with a secret that
  verifies against the client's hash, that was active, not revoked and allowed to speak for
  that issuer.
\<close>

theorem exchange_grants_session:
  assumes "exchange_identity C E (\<lambda>_ d. d) tm r b w = (Inr resp, w')" and "rs_status resp = 200"
  shows "\<exists>d d' issued p client user. aw_db w = Some d \<and> aw_db w' = Some d' \<and>
    rs_body resp = exchange_content issued (sp_role p) \<and>
    fst (authenticate_user_session C (base_env (E 3)) (is_token issued) d') = Some p \<and>
    sp_tenant_id p = xb_requested_tenant_id b \<and> is_tenant_id issued = xb_requested_tenant_id b \<and>
    is_expires_at issued = now (E 2) + 5 * 60 * 1000000 \<and>
    client \<in> set (db_clients d) \<and> i_id client = sp_identity_client_id p \<and>
    (\<exists>token secret. request_token r = Some token \<and>
      parse_identity_client_key token = Some (i_key_prefix client, secret) \<and> verify_secret C secret (i_secret_hash client)) \<and>
    i_active client \<and> i_revoked_at client = None \<and> py_strip (xb_issuer b) \<in> set (i_allowed_issuers client) \<and>
    user \<in> set (db_users d') \<and> u_id user = sp_user_id p \<and> u_issuer user = py_strip (xb_issuer b) \<and>
    u_subject user = py_strip (xb_subject b)"
  using exchange_alone [OF assms] unfolding default_session_ttl_def .

definition portal_token :: string where
  "portal_token = ''igb_'' @ replicate 24 (CHR ''a'') @ ''.'' @ replicate 43 (CHR ''B'')"

definition exchange_envs :: "nat \<Rightarrow> secret_env" where
  "exchange_envs n = sample_secrets (300 + int n) ''x1''"

definition exchange_request :: api_request where
  "exchange_request = scan_request\<lparr>aq_authorization := Some (''Bearer '' @ portal_token)\<rparr>"

definition exchange_ann :: exchange_body where
  "exchange_ann = \<lparr>xb_issuer = ''https://idp'', xb_subject = ''ann'', xb_email = None, xb_display_name = None,
     xb_requested_tenant_id = ''acme''\<rparr>"

text \<open>The tables that issuing a session reads are those of the sample.\<close>

definition like_members :: "database \<Rightarrow> bool" where
  "like_members d \<longleftrightarrow> db_tenants d = db_tenants sample_members \<and> db_memberships d = db_memberships sample_members \<and>
     db_audit_events d = db_audit_events sample_members \<and> db_sessions d = []"

lemma portal_authenticates:
  "\<exists>p d. authenticate_identity_client sample_crypto e portal_token (Some ''https://idp'') sample_accounts = (Some p, d) \<and>
     ip_identity_client_id p = ''idc_c1'' \<and> client_live ''idc_c1'' d \<and>
     like_members d \<and> db_users d = db_users sample_members"
proof -
  have "parse_identity_client_key portal_token = Some (''igb_'' @ token_hex (sample_secrets 103 ''c1''), token_urlsafe (sample_secrets 103 ''c1''))"
    using parse_key_issued [OF sample_shape, of "''igb_''" 103 "''c1''"]
    by (simp add: parse_identity_client_key_def portal_token_def sample_secrets_def call_env.extend_def sample_env_def
        del: replicate.simps)
  moreover have "py_strip ''https://idp'' = ''https://idp''" by code_simp
  ultimately show ?thesis
    by (simp add: authenticate_identity_client_def sample_accounts_client new_identity_client_def verify_hash_secret
        client_live_def get_client_def like_members_def sample_members_tables)
qed

lemma exchange_ann_user:
  assumes "like_members d" and "db_users d = db_users sample_members" and "client_live ''idc_c1'' d"
  shows "\<exists>r d'. upsert_user e ''https://idp'' ''ann'' None None d = (Inr r, d') \<and> u_id r = ''usr_ann'' \<and>
    like_members d' \<and> client_live ''idc_c1'' d' \<and> get_user ''usr_ann'' d' \<noteq> None"
proof -
  have "map_option u_id (find (is_user ''https://idp'' ''ann'') (db_users sample_members)) = Some ''usr_ann''" by code_simp
  then obtain row where row: "find (is_user ''https://idp'' ''ann'') (db_users sample_members) = Some row" "u_id row = ''usr_ann''"
    by auto
  have strip: "py_strip ''https://idp'' = ''https://idp''" "py_strip ''ann'' = ''ann''" by code_simp+
  have valid: "validate_user ''https://idp'' ''ann'' None None = Inr ()" by code_simp
  have "upsert_user e ''https://idp'' ''ann'' None None d = (Inr (profile_of None None (now e) row),
      d\<lparr>db_users := upd_where (\<lambda>r. u_id r = ''usr_ann'') (profile_of None None (now e)) (db_users d)\<rparr>)"
    using row valid assms(2) by (simp add: upsert_user_def strip upsert_selected_def upsert_first_def)
  moreover have "find (\<lambda>r. u_id r = ''usr_ann'')
      (upd_where (\<lambda>r. u_id r = ''usr_ann'') (profile_of None None (now e)) (db_users d)) \<noteq> None"
    using row assms(2) by (auto simp: find_None_iff set_upd_where profile_of_def dest!: find_SomeD)
  ultimately show ?thesis
    using assms(1,3) row(2) by (auto simp: like_members_def client_live_def get_client_def get_user_def profile_of_def)
qed

lemma exchange_ann_granted:
  "\<exists>resp w'. exchange_identity sample_crypto exchange_envs (\<lambda>_ d. d) 0 exchange_request exchange_ann
      \<lparr>aw_limiter = limiter_sample, aw_db = Some sample_accounts\<rparr> = (Inr resp, w') \<and> rs_status resp = 200"
proof -
  obtain p d1 where p: "authenticate_identity_client sample_crypto (base_env (exchange_envs 0)) portal_token
      (Some ''https://idp'') sample_accounts = (Some p, d1)" "ip_identity_client_id p = ''idc_c1''"
    and d1: "client_live ''idc_c1'' d1" "like_members d1" "db_users d1 = db_users sample_members"
    using portal_authenticates by blast
  obtain r d2 where r: "upsert_user (base_env (exchange_envs 1)) ''https://idp'' ''ann'' None None d1 = (Inr r, d2)"
    "u_id r = ''usr_ann''" and d2: "like_members d2" "client_live ''idc_c1'' d2" "get_user ''usr_ann'' d2 \<noteq> None"
    using exchange_ann_user [OF d1(2,3,1)] by blast
  obtain k where k: "fst (issue_user_session sample_crypto (sample_secrets 302 ''x1'') ''idc_c1'' ''acme'' ''usr_ann'' 300
      ''identity_client:idc_c1'' (Some ''req_1'') d2) = Inr k" "is_expires_at k = 302 + 300000000"
    using sample_issue [of d2 "''x1''" 302 "''identity_client:idc_c1''" "Some ''req_1''"] d2 by (auto simp: like_members_def)
  then obtain d3 where issued: "issue_user_session sample_crypto (exchange_envs 2) ''idc_c1'' ''acme'' ''usr_ann'' 300
      ''identity_client:idc_c1'' (Some ''req_1'') d2 = (Inr k, d3)"
    by (auto simp: exchange_envs_def prod_eq_iff)
  have "env_shape (exchange_envs 2)" by (simp add: exchange_envs_def sample_shape)
  from issued_session_authenticates [OF issued this, of "base_env (exchange_envs 3)"] k(2)
  obtain q d4 where auth: "authenticate_user_session sample_crypto (base_env (exchange_envs 3)) (is_token k) d3 = (Some q, d4)"
    by (cases "authenticate_user_session sample_crypto (base_env (exchange_envs 3)) (is_token k) d3")
      (simp add: exchange_envs_def base_env_def sample_secrets_def sample_env_def call_env.defs)
  have token: "request_token exchange_request = Some portal_token" by code_simp
  have ok: "exchange_body_ok exchange_ann" by code_simp
  have rid: "api_request_id exchange_request = ''req_1''" by code_simp
  have room: "fst (fst (check 0 (exchange_rate_key exchange_request (Some portal_token)) limiter_sample))" by code_simp
  then obtain v l where room: "check 0 (exchange_rate_key exchange_request (Some portal_token)) limiter_sample = ((True, v), l)"
    by (metis prod.collapse)
  have ann: "xb_issuer exchange_ann = ''https://idp''" "xb_subject exchange_ann = ''ann''" "xb_email exchange_ann = None"
    "xb_display_name exchange_ann = None" "xb_requested_tenant_id exchange_ann = ''acme''"
    by (simp_all add: exchange_ann_def)
  show ?thesis
    using p r issued auth
    by (simp add: exchange_identity_def ok token rid room ann exchange_allowed_def exchange_session_def
        default_session_ttl_def Let_def)
qed

theorem exchange_grants_session_witness:
  "\<exists>resp w' d' issued p. exchange_identity sample_crypto exchange_envs (\<lambda>_ d. d) 0 exchange_request exchange_ann
      \<lparr>aw_limiter = limiter_sample, aw_db = Some sample_accounts\<rparr> = (Inr resp, w') \<and> rs_status resp = 200 \<and>
    aw_db w' = Some d' \<and> rs_body resp = exchange_content issued (sp_role p) \<and>
    fst (authenticate_user_session sample_crypto (base_env (exchange_envs 3)) (is_token issued) d') = Some p \<and>
    sp_tenant_id p = ''acme''"
proof -
  obtain resp w' where granted: "exchange_identity sample_crypto exchange_envs (\<lambda>_ d. d) 0 exchange_request exchange_ann
      \<lparr>aw_limiter = limiter_sample, aw_db = Some sample_accounts\<rparr> = (Inr resp, w')" "rs_status resp = 200"
    using exchange_ann_granted by blast
  have "xb_requested_tenant_id exchange_ann = ''acme''" by (simp add: exchange_ann_def)
  with exchange_grants_session [OF granted] granted show ?thesis by auto
qed

end
