(* ===== verification/Migration.thy ===== *)
theory Migration
  imports Persistence Sqlite_Jobs Sql_Jobs
begin

text \<open>
  The migration of a legacy SQLite gateway database (\<^verbatim>\<open>migration_tools.py\<close>): the tables the
  SQLite repositories write are read in order and copied into the relational database in one
  transaction; rows that are already there are skipped. The source is the state of the
  modelled SQLite repositories. An insert is checked when it is made, the code's at the next
  flush: where a constraint and a later check both fail, the exception differs and the
  rollback is the same.
\<close>

section \<open>The source\<close>

text \<open>The rows of the legacy tables; \<open>None\<close> is a table the source does not have.\<close>

record legacy_db =
  lg_jobs :: "job_record list option"
  lg_events :: "job_event list option"
  lg_findings :: "document registry_row list option"
  lg_correlations :: "document registry_row list option"

definition legacy_of :: "sqlite_db \<Rightarrow> registry_db \<Rightarrow> legacy_db" where
  "legacy_of s g = \<lparr>lg_jobs = Some (sq_jobs s), lg_events = Some (sq_events s),
     lg_findings = Some (g_findings g), lg_correlations = Some (g_correlations g)\<rparr>"

definition has_legacy_tables :: "legacy_db \<Rightarrow> bool" where
  "has_legacy_tables g \<longleftrightarrow> lg_jobs g \<noteq> None \<or> lg_events g \<noteq> None \<or> lg_findings g \<noteq> None \<or> lg_correlations g \<noteq> None"

record source_rows =
  so_jobs :: "job_record list"
  so_events :: "job_event list"
  so_findings :: "document registry_row list"
  so_correlations :: "document registry_row list"

definition table_rows :: "'a list option \<Rightarrow> 'a list" where
  "table_rows x = (case x of None \<Rightarrow> [] | Some xs \<Rightarrow> xs)"

definition read_source :: "legacy_db \<Rightarrow> source_rows" where
  "read_source g = \<lparr>
     so_jobs = sort_key (\<lambda>r. (j_created_at r, j_id r)) (table_rows (lg_jobs g)),
     so_events = sort_key (\<lambda>r. (ev_tenant_id r, ev_job_id r, ev_sequence r)) (table_rows (lg_events g)),
     so_findings = sort_key g_seq (table_rows (lg_findings g)),
     so_correlations = sort_key g_seq (table_rows (lg_correlations g))\<rparr>"

definition tenant_ids :: "source_rows \<Rightarrow> string list" where
  "tenant_ids s = sort (remdups (map j_tenant_id (so_jobs s) @ map ev_tenant_id (so_events s) @
     map g_tenant (so_findings s) @ map g_tenant (so_correlations s)))"

record counts =
  n_tenants :: int
  n_jobs :: int
  n_job_events :: int
  n_findings :: int
  n_correlations :: int

definition no_counts :: counts where
  "no_counts = \<lparr>n_tenants = 0, n_jobs = 0, n_job_events = 0, n_findings = 0, n_correlations = 0\<rparr>"

definition count_source :: "source_rows \<Rightarrow> counts" where
  "count_source s = \<lparr>n_tenants = int (length (tenant_ids s)), n_jobs = int (length (so_jobs s)),
     n_job_events = int (length (so_events s)), n_findings = int (length (so_findings s)),
     n_correlations = int (length (so_correlations s))\<rparr>"

definition counts_json :: "counts \<Rightarrow> json" where
  "counts_json c = JObj [(''tenants'', JInt (n_tenants c)), (''jobs'', JInt (n_jobs c)),
     (''job_events'', JInt (n_job_events c)), (''findings'', JInt (n_findings c)),
     (''correlations'', JInt (n_correlations c))]"

record migration_report =
  mr_dry_run :: bool
  mr_source :: counts
  mr_imported :: counts
  mr_skipped :: counts

section \<open>Identifiers\<close>

definition short_hash :: "hashing \<Rightarrow> string \<Rightarrow> string" where
  "short_hash H s = take 12 (sha256_hex H s)"

text \<open>\<^verbatim>\<open>re.sub("[^a-z0-9]+", "-", s)\<close>; the flag says that the run has its hyphen.\<close>

fun hyphenate :: "bool \<Rightarrow> string \<Rightarrow> string" where
  "hyphenate in_run [] = []"
| "hyphenate in_run (c # cs) =
     (if is_lower_az c \<or> is_digit c then c # hyphenate False cs
      else if in_run then hyphenate True cs
      else CHR ''-'' # hyphenate True cs)"

definition legacy_slug :: "hashing \<Rightarrow> string \<Rightarrow> string" where
  "legacy_slug H t =
     (let base = rstrip_by (\<lambda>c. c = CHR ''-'') (dropWhile (\<lambda>c. c = CHR ''-'') (hyphenate False (py_casefold t)))
      in ''legacy-'' @ take 96 (if base = [] then ''tenant'' else base) @ ''-'' @ short_hash H t)"

definition legacy_correlation_id :: "hashing \<Rightarrow> string \<Rightarrow> int \<Rightarrow> document \<Rightarrow> string" where
  "legacy_correlation_id H t n p = ''corr_legacy_'' @ take 32 (sha256_hex H (json_canonical (float_repr H)
     (JObj [(''tenant'', JStr t), (''sequence'', JInt n), (''payload'', JObj p)])))"

definition migration_audit_id :: "hashing \<Rightarrow> string \<Rightarrow> string \<Rightarrow> string" where
  "migration_audit_id H path t = ''audit_migration_'' @ take 16 (sha256_hex H path) @ ''_'' @ short_hash H t"

section \<open>Importing one row\<close>

text \<open>Every step says whether it imported the row or found it there.\<close>

definition import_tenant :: "hashing \<Rightarrow> time \<Rightarrow> string \<Rightarrow> database \<Rightarrow> exn + bool \<times> database" where
  "import_tenant H ts t d =
     (if get_tenant t d \<noteq> None then Inr (False, d)
      else bind_exn (insert_tenant \<lparr>t_id = t, t_slug = legacy_slug H t, t_name = ''Imported tenant '' @ t,
             t_status = ''active'', t_retention_days = 90, t_created_at = ts, t_updated_at = ts\<rparr> d)
           (\<lambda>d1. Inr (True, d1)))"

definition is_object :: "json \<Rightarrow> bool" where
  "is_object v = (case v of JObj _ \<Rightarrow> True | _ \<Rightarrow> False)"

definition migrated_job :: "job_record \<Rightarrow> job_row" where
  "migrated_job r = job_record.extend r (job_row.fields (queue_of (j_source r))
     (if j_status r = SUCCEEDED then 1 else 0) None (Some ''legacy-sqlite-migration''))"

definition import_job :: "job_record \<Rightarrow> database \<Rightarrow> exn + bool \<times> database" where
  "import_job r d =
     (case find (\<lambda>x. j_id x = j_id r) (db_jobs d) of
        Some x \<Rightarrow>
          if j_tenant_id x \<noteq> j_tenant_id r then Inl (ValueError (''job ID collision across tenants: '' @ j_id r))
          else Inr (False, d)
      | None \<Rightarrow>
          if \<not> is_object (j_payload r) then Inl (ValueError ''job payload must be a JSON object'')
          else bind_exn (insert_job (migrated_job r) d) (\<lambda>d1. Inr (True, d1)))"

definition same_event :: "job_event \<Rightarrow> job_event \<Rightarrow> bool" where
  "same_event r x \<longleftrightarrow> ev_tenant_id x = ev_tenant_id r \<and> ev_job_id x = ev_job_id r \<and> ev_sequence x = ev_sequence r"

definition import_event :: "job_event \<Rightarrow> database \<Rightarrow> exn + bool \<times> database" where
  "import_event r d =
     (if find (same_event r) (db_job_events d) \<noteq> None then Inr (False, d)
      else if find (\<lambda>x. j_id x = ev_job_id r) (db_jobs d) = None
      then Inl (ValueError (''job event references missing job: '' @ ev_job_id r))
      else if \<not> is_object (ev_payload r) then Inl (ValueError ''job event payload must be a JSON object'')
      else bind_exn (insert_job_event r d) (\<lambda>d1. Inr (True, d1)))"

definition finding_time :: "time \<Rightarrow> finding \<Rightarrow> time" where
  "finding_time ts f = (case f_ts f of None \<Rightarrow> ts | Some x \<Rightarrow> instant x)"

text \<open>The answer has the entry of the map from the old finding id to the one in the target.\<close>

type_synonym id_entry = "(string \<times> string) \<times> string"

definition import_finding ::
  "core_lib \<Rightarrow> hashing \<Rightarrow> time \<Rightarrow> document registry_row \<Rightarrow> database \<Rightarrow> exn + (bool \<times> id_entry) \<times> database" where
  "import_finding L H ts r d =
     bind_exn (finding_from_dict L (g_payload r)) (\<lambda>f.
     let t = g_tenant r; fp = finding_fingerprint L H f
     in case find (has_fingerprint t fp) (db_findings d) of
          Some x \<Rightarrow> Inr ((False, ((t, f_id f), fr_finding_id x)), d)
        | None \<Rightarrow>
            if \<exists>x \<in> set (db_findings d). fr_tenant_id x = t \<and> fr_finding_id x = f_id f
            then Inl (ValueError (''finding ID has a different fingerprint: '' @ t @ ''/'' @ f_id f))
            else bind_exn (insert_finding (new_finding_row L t fp f (finding_time ts f) None ts (next_row_id d)) d)
                   (\<lambda>d1. Inr ((True, ((t, f_id f), f_id f)), d1)))"

text \<open>
  \<^verbatim>\<open>str\<close> of a value of the payload; \<open>rp\<close> prints those that are not strings. The severity is
  not checked: one that is none is refused when the correlations of the tenant are listed.
\<close>

definition str_value :: "(json \<Rightarrow> string) \<Rightarrow> json \<Rightarrow> string" where
  "str_value rp v = (case v of JStr s \<Rightarrow> s | _ \<Rightarrow> rp v)"

definition payload_str :: "(json \<Rightarrow> string) \<Rightarrow> string \<Rightarrow> document \<Rightarrow> exn + string" where
  "payload_str rp k p = (case map_of p k of None \<Rightarrow> Inl (KeyError k) | Some v \<Rightarrow> Inr (str_value rp v))"

definition payload_findings :: "(json \<Rightarrow> string) \<Rightarrow> document \<Rightarrow> exn + string list" where
  "payload_findings rp p =
     (case map_of p ''findings'' of
        None \<Rightarrow> Inr []
      | Some (JArr xs) \<Rightarrow> Inr (map (str_value rp) xs)
      | Some _ \<Rightarrow> Inl (ValueError ''correlation findings must be a list''))"

definition mapped_ids :: "id_entry list \<Rightarrow> string \<Rightarrow> string list \<Rightarrow> string list" where
  "mapped_ids ids t xs = map (\<lambda>i. case map_of (rev ids) (t, i) of None \<Rightarrow> i | Some j \<Rightarrow> j) xs"

definition import_correlation ::
  "hashing \<Rightarrow> (json \<Rightarrow> string) \<Rightarrow> id_entry list \<Rightarrow> time \<Rightarrow> document registry_row \<Rightarrow> database \<Rightarrow>
    exn + bool \<times> database" where
  "import_correlation H rp ids ts r d =
     (let t = g_tenant r; cid = legacy_correlation_id H t (g_seq r) (g_payload r)
      in if \<exists>x \<in> set (db_correlations d). cr_id x = cid then Inr (False, d)
         else
           bind_exn (payload_findings rp (g_payload r)) (\<lambda>fs.
           bind_exn (payload_str rp ''rule_id'' (g_payload r)) (\<lambda>rule.
           bind_exn (payload_str rp ''severity'' (g_payload r)) (\<lambda>sv.
           bind_exn (payload_str rp ''narrative'' (g_payload r)) (\<lambda>narrative.
           bind_exn (insert_correlation \<lparr>cr_id = cid, cr_tenant_id = t, cr_rule_id = rule,
               cr_rule_version = ''legacy'', cr_severity = sv, cr_narrative = narrative, cr_created_at = ts\<rparr> d) (\<lambda>d1.
           bind_exn (insert_links t cid (dict_fromkeys (mapped_ids ids t fs)) d1) (\<lambda>d2.
           Inr (True, d2))))))))"

definition import_audit ::
  "hashing \<Rightarrow> string \<Rightarrow> counts \<Rightarrow> counts \<Rightarrow> time \<Rightarrow> string \<Rightarrow> database \<Rightarrow> exn + bool \<times> database" where
  "import_audit H path source imported ts t d =
     (let i = migration_audit_id H path t
      in if \<exists>x \<in> set (db_audit_events d). a_id x = i then Inr (False, d)
         else bind_exn (insert_audit \<lparr>a_id = i, a_tenant_id = t, a_actor = ''legacy-sqlite-migration'',
                a_action = ''migration.legacy_sqlite'', a_resource_type = ''tenant'', a_resource_id = Some t,
                a_request_id = None, a_outcome = ''success'',
                a_details = JObj [(''source'', counts_json source), (''imported'', counts_json imported)],
                a_created_at = ts\<rparr> d) (\<lambda>d1. Inr (True, d1)))"

section \<open>The migration\<close>

fun import_all :: "('r \<Rightarrow> database \<Rightarrow> exn + 'a \<times> database) \<Rightarrow> 'r list \<Rightarrow> database \<Rightarrow> exn + 'a list \<times> database" where
  "import_all step [] d = Inr ([], d)"
| "import_all step (r # rs) d =
     bind_exn (step r d) (\<lambda>(a, d1). bind_exn (import_all step rs d1) (\<lambda>(as, d2). Inr (a # as, d2)))"

definition how_many :: "bool \<Rightarrow> bool list \<Rightarrow> int" where
  "how_many b bs = int (length (filter (\<lambda>x. x = b) bs))"

definition migrate_tx ::
  "core_lib \<Rightarrow> hashing \<Rightarrow> (json \<Rightarrow> string) \<Rightarrow> string \<Rightarrow> time \<Rightarrow> source_rows \<Rightarrow> database \<Rightarrow>
    exn + migration_report \<times> database" where
  "migrate_tx L H rp path ts s d =
     bind_exn (import_all (import_tenant H ts) (tenant_ids s) d) (\<lambda>(b1, d1).
     bind_exn (import_all import_job (so_jobs s) d1) (\<lambda>(b2, d2).
     bind_exn (import_all import_event (so_events s) d2) (\<lambda>(b3, d3).
     bind_exn (import_all (import_finding L H ts) (so_findings s) d3) (\<lambda>(b4, d4).
     bind_exn (import_all (import_correlation H rp (map snd b4) ts) (so_correlations s) d4) (\<lambda>(b5, d5).
     let tally = (\<lambda>b. \<lparr>n_tenants = how_many b b1, n_jobs = how_many b b2, n_job_events = how_many b b3,
                      n_findings = how_many b (map fst b4), n_correlations = how_many b b5\<rparr>)
     in bind_exn (import_all (import_audit H path (count_source s) (tally True) ts) (tenant_ids s) d5) (\<lambda>(b6, d6).
        Inr (\<lparr>mr_dry_run = False, mr_source = count_source s, mr_imported = tally True,
             mr_skipped = tally False\<rparr>, d6)))))))"

definition migrate ::
  "core_lib \<Rightarrow> hashing \<Rightarrow> (json \<Rightarrow> string) \<Rightarrow> string \<Rightarrow> time \<Rightarrow> bool \<Rightarrow> legacy_db \<Rightarrow> database \<Rightarrow>
    (exn + migration_report) \<times> database" where
  "migrate L H rp path ts apply_it g d =
     (if \<not> has_legacy_tables g then (Inl (ValueError ''source does not contain a legacy gateway schema''), d)
      else if \<not> apply_it
      then (Inr \<lparr>mr_dry_run = True, mr_source = count_source (read_source g), mr_imported = no_counts,
                mr_skipped = no_counts\<rparr>, d)
      else commit (migrate_tx L H rp path ts (read_source g) d) d)"

end
