(* ===== verification/Migration_Proofs.thy ===== *)
theory Migration_Proofs
  imports Migration Samples
begin

text \<open>
  Facts about the migration. Every import of a row obeys one contract: what it inserts it
  finds the next time, tables only grow, and a row that is there is skipped without a
  change. The lemmas of the contract hold for a whole table; the six imports interpret it.
\<close>

section \<open>Growth\<close>

definition grows :: "database \<Rightarrow> database \<Rightarrow> bool" where
  "grows d d' \<longleftrightarrow> prefix (db_tenants d) (db_tenants d') \<and> prefix (db_jobs d) (db_jobs d') \<and>
     prefix (db_job_events d) (db_job_events d') \<and> prefix (db_findings d) (db_findings d') \<and>
     prefix (db_correlations d) (db_correlations d') \<and> prefix (db_audit_events d) (db_audit_events d')"

lemma grows_refl [simp]: "grows d d"
  by (simp add: grows_def)

lemma grows_trans: "grows d d1 \<Longrightarrow> grows d1 d2 \<Longrightarrow> grows d d2"
  by (auto simp: grows_def intro: prefix_order.trans)

lemma find_prefix: "prefix xs ys \<Longrightarrow> find P xs = Some x \<Longrightarrow> find P ys = Some x"
  by (auto simp: prefix_def find_append)

section \<open>The contract of an import\<close>

locale importer =
  fixes step :: "'r \<Rightarrow> database \<Rightarrow> exn + 'a \<times> database"
    and there :: "'r \<Rightarrow> database \<Rightarrow> bool"
    and imported :: "'a \<Rightarrow> bool"
  assumes inserts: "step r d = Inr (a, d') \<Longrightarrow> there r d' \<and> grows d d'"
    and remains: "there r d \<Longrightarrow> grows d d' \<Longrightarrow> there r d'"
    and skips: "there r d \<Longrightarrow> \<exists>a. step r d = Inr (a, d) \<and> \<not> imported a"
begin

lemma import_all_there:
  "import_all step rs d = Inr (as, d') \<Longrightarrow> grows d d' \<and> (\<forall>r \<in> set rs. there r d')"
proof (induction rs arbitrary: d as)
  case (Cons r rs)
  then obtain a d1 as' where step: "step r d = Inr (a, d1)" and rest: "import_all step rs d1 = Inr (as', d')"
    by (auto simp: bind_exn_Inr)
  note rs = Cons.IH [OF rest]
  with inserts [OF step] show ?case by (auto intro: grows_trans remains)
qed simp

lemma import_all_skips:
  "\<forall>r \<in> set rs. there r d \<Longrightarrow> \<exists>as. import_all step rs d = Inr (as, d) \<and> (\<forall>a \<in> set as. \<not> imported a)"
proof (induction rs)
  case (Cons r rs)
  obtain a where "step r d = Inr (a, d)" "\<not> imported a"
    using skips [of r d] Cons.prems by auto
  moreover obtain as where "import_all step rs d = Inr (as, d)" "\<forall>a \<in> set as. \<not> imported a"
    using Cons by auto
  ultimately show ?case by (intro exI [of _ "a # as"]) simp
qed simp

lemma import_all_remains: "\<forall>r \<in> set rs. there r d \<Longrightarrow> grows d d' \<Longrightarrow> \<forall>r \<in> set rs. there r d'"
  using remains by blast

end

section \<open>The six imports\<close>

definition tenant_there :: "string \<Rightarrow> database \<Rightarrow> bool" where
  "tenant_there t d \<longleftrightarrow> get_tenant t d \<noteq> None"

definition job_there :: "job_record \<Rightarrow> database \<Rightarrow> bool" where
  "job_there r d \<longleftrightarrow> (\<exists>x. find (\<lambda>x. j_id x = j_id r) (db_jobs d) = Some x \<and> j_tenant_id x = j_tenant_id r)"

definition event_there :: "job_event \<Rightarrow> database \<Rightarrow> bool" where
  "event_there r d \<longleftrightarrow> find (same_event r) (db_job_events d) \<noteq> None"

definition finding_there :: "core_lib \<Rightarrow> hashing \<Rightarrow> document registry_row \<Rightarrow> database \<Rightarrow> bool" where
  "finding_there L H r d \<longleftrightarrow> (\<exists>f. finding_from_dict L (g_payload r) = Inr f \<and>
     find (has_fingerprint (g_tenant r) (finding_fingerprint L H f)) (db_findings d) \<noteq> None)"

definition correlation_there :: "hashing \<Rightarrow> document registry_row \<Rightarrow> database \<Rightarrow> bool" where
  "correlation_there H r d \<longleftrightarrow>
     (\<exists>x \<in> set (db_correlations d). cr_id x = legacy_correlation_id H (g_tenant r) (g_seq r) (g_payload r))"

definition audit_there :: "hashing \<Rightarrow> string \<Rightarrow> string \<Rightarrow> database \<Rightarrow> bool" where
  "audit_there H path t d \<longleftrightarrow> (\<exists>x \<in> set (db_audit_events d). a_id x = migration_audit_id H path t)"

lemma migrated_job_columns [simp]:
  "j_id (migrated_job r) = j_id r" "j_tenant_id (migrated_job r) = j_tenant_id r"
  "j_idempotency_key (migrated_job r) = j_idempotency_key r"
  "job_record.truncate (migrated_job r) = r"
  by (simp_all add: migrated_job_def job_record.defs job_row.defs)

lemma find_same_event [simp]: "same_event r r"
  by (simp add: same_event_def)

lemma insert_links_only:
  "insert_links t c fs d = Inr d' \<Longrightarrow> \<exists>ls. d' = d\<lparr>db_correlation_findings := ls\<rparr>"
proof (induction fs arbitrary: d)
  case (Cons f fs)
  then obtain d1 where d1: "insert_correlation_finding \<lparr>cf_tenant_id = t, cf_correlation_id = c, cf_finding_id = f\<rparr> d = Inr d1"
    "insert_links t c fs d1 = Inr d'" by (auto simp: bind_exn_Inr)
  then obtain ls where "d' = d1\<lparr>db_correlation_findings := ls\<rparr>" using Cons.IH by blast
  with d1(1) show ?case by (auto simp: insert_correlation_finding_def split: if_splits)
qed (auto intro: exI [of _ "db_correlation_findings d'"])

interpretation tenants: importer "import_tenant H ts" tenant_there id
proof unfold_locales
  fix r d a d' assume "import_tenant H ts r d = Inr (a, d')"
  then show "tenant_there r d' \<and> grows d d'"
    by (auto simp: import_tenant_def tenant_there_def bind_exn_Inr insert_tenant_Inr grows_def get_tenant_def
        find_append split: if_splits)
qed (auto simp: import_tenant_def tenant_there_def grows_def get_tenant_def dest: find_prefix)

interpretation jobs: importer import_job job_there id
proof unfold_locales
  fix r d a d' assume "import_job r d = Inr (a, d')"
  then show "job_there r d' \<and> grows d d'"
    by (auto simp: import_job_def job_there_def bind_exn_Inr insert_job_def grows_def find_append
        split: option.splits if_splits)
qed (auto simp: import_job_def job_there_def grows_def dest: find_prefix)

interpretation events: importer import_event event_there id
proof unfold_locales
  fix r d a d' assume "import_event r d = Inr (a, d')"
  then show "event_there r d' \<and> grows d d'"
    by (auto simp: import_event_def event_there_def bind_exn_Inr insert_job_event_def grows_def find_append
        split: option.splits if_splits)
qed (auto simp: import_event_def event_there_def grows_def dest: find_prefix)

interpretation findings: importer "import_finding L H ts" "finding_there L H" fst
proof unfold_locales
  fix r d a d' assume "import_finding L H ts r d = Inr (a, d')"
  then show "finding_there L H r d' \<and> grows d d'"
    by (auto simp: import_finding_def finding_there_def bind_exn_Inr insert_finding_def grows_def find_append Let_def
        new_finding_row_def has_fingerprint_def split: option.splits if_splits)
next
  fix r d assume "finding_there L H r d"
  then show "\<exists>a. import_finding L H ts r d = Inr (a, d) \<and> \<not> fst a"
    by (auto simp: import_finding_def finding_there_def Let_def)
qed (auto simp: finding_there_def grows_def dest: find_prefix)

interpretation correlations: importer "import_correlation H rp ids ts" "correlation_there H" id
proof unfold_locales
  fix r d a d' assume "import_correlation H rp ids ts r d = Inr (a, d')"
  then show "correlation_there H r d' \<and> grows d d'"
    by (auto simp: import_correlation_def correlation_there_def bind_exn_Inr insert_correlation_def grows_def Let_def
        split: if_splits dest!: insert_links_only)
qed (auto simp: import_correlation_def correlation_there_def grows_def Let_def prefix_def)

interpretation audits: importer "import_audit H path src imp ts" "audit_there H path" id
proof unfold_locales
  fix r d a d' assume "import_audit H path src imp ts r d = Inr (a, d')"
  then show "audit_there H path r d' \<and> grows d d'"
    by (auto simp: import_audit_def audit_there_def bind_exn_Inr insert_audit_Inr grows_def Let_def split: if_splits)
qed (auto simp: import_audit_def audit_there_def grows_def Let_def prefix_def)

section \<open>Running it again\<close>

definition source_there :: "core_lib \<Rightarrow> hashing \<Rightarrow> string \<Rightarrow> source_rows \<Rightarrow> database \<Rightarrow> bool" where
  "source_there L H path s d \<longleftrightarrow>
     (\<forall>t \<in> set (tenant_ids s). tenant_there t d \<and> audit_there H path t d) \<and>
     (\<forall>r \<in> set (so_jobs s). job_there r d) \<and> (\<forall>r \<in> set (so_events s). event_there r d) \<and>
     (\<forall>r \<in> set (so_findings s). finding_there L H r d) \<and>
     (\<forall>r \<in> set (so_correlations s). correlation_there H r d)"

text \<open>The parts of a migration that commits.\<close>

lemma migrate_tx_parts:
  assumes "migrate_tx L H rp path ts s d = Inr (rep, d')"
  obtains b1 d1 b2 d2 b3 d3 b4 d4 b5 d5 b6 where
    "import_all (import_tenant H ts) (tenant_ids s) d = Inr (b1, d1)"
    and "import_all import_job (so_jobs s) d1 = Inr (b2, d2)"
    and "import_all import_event (so_events s) d2 = Inr (b3, d3)"
    and "import_all (import_finding L H ts) (so_findings s) d3 = Inr (b4, d4)"
    and "import_all (import_correlation H rp (map snd b4) ts) (so_correlations s) d4 = Inr (b5, d5)"
    and "import_all (import_audit H path (count_source s) (mr_imported rep) ts) (tenant_ids s) d5 = Inr (b6, d')"
    and "mr_imported rep = \<lparr>n_tenants = how_many True b1, n_jobs = how_many True b2, n_job_events = how_many True b3,
      n_findings = how_many True (map fst b4), n_correlations = how_many True b5\<rparr>"
    and "mr_source rep = count_source s"
  using assms by (auto simp: migrate_tx_def bind_exn_Inr Let_def)

lemma migrate_tx_there:
  assumes "migrate_tx L H rp path ts s d = Inr (rep, d')"
  shows "source_there L H path s d'"
  using assms
proof (rule migrate_tx_parts)
  fix b1 d1 b2 d2 b3 d3 b4 d4 b5 d5 b6
  assume i: "import_all (import_tenant H ts) (tenant_ids s) d = Inr (b1, d1)"
    "import_all import_job (so_jobs s) d1 = Inr (b2, d2)"
    "import_all import_event (so_events s) d2 = Inr (b3, d3)"
    "import_all (import_finding L H ts) (so_findings s) d3 = Inr (b4, d4)"
    "import_all (import_correlation H rp (map snd b4) ts) (so_correlations s) d4 = Inr (b5, d5)"
    "import_all (import_audit H path (count_source s) (mr_imported rep) ts) (tenant_ids s) d5 = Inr (b6, d')"
  note a1 = tenants.import_all_there [OF i(1)] and a2 = jobs.import_all_there [OF i(2)]
    and a3 = events.import_all_there [OF i(3)] and a4 = findings.import_all_there [OF i(4)]
    and a5 = correlations.import_all_there [OF i(5)] and a6 = audits.import_all_there [OF i(6)]
  have g5: "grows d5 d'" using a6 by simp
  have g4: "grows d4 d'" using a5 g5 by (auto intro: grows_trans)
  have g3: "grows d3 d'" using a4 g4 by (auto intro: grows_trans)
  have g2: "grows d2 d'" using a3 g3 by (auto intro: grows_trans)
  have g1: "grows d1 d'" using a2 g2 by (auto intro: grows_trans)
  show "source_there L H path s d'"
    unfolding source_there_def
    using a1 a2 a3 a4 a5 a6 tenants.remains [OF _ g1] jobs.remains [OF _ g2] events.remains [OF _ g3]
      findings.remains [OF _ g4] correlations.remains [OF _ g5]
    by blast
qed

lemma how_many_none: "\<forall>b \<in> set bs. \<not> b \<Longrightarrow> how_many True bs = 0"
  by (simp add: how_many_def)

lemma migrate_tx_again:
  assumes "source_there L H path s d"
  shows "\<exists>rep. migrate_tx L H rp path ts s d = Inr (rep, d) \<and> mr_imported rep = no_counts \<and>
    mr_source rep = count_source s"
proof -
  have there: "\<forall>t \<in> set (tenant_ids s). tenant_there t d" "\<forall>t \<in> set (tenant_ids s). audit_there H path t d"
    "\<forall>r \<in> set (so_jobs s). job_there r d" "\<forall>r \<in> set (so_events s). event_there r d"
    "\<forall>r \<in> set (so_findings s). finding_there L H r d" "\<forall>r \<in> set (so_correlations s). correlation_there H r d"
    using assms by (auto simp: source_there_def)
  obtain b1 where b1: "import_all (import_tenant H ts) (tenant_ids s) d = Inr (b1, d)" "\<forall>a \<in> set b1. \<not> a"
    using tenants.import_all_skips [OF there(1), of H ts] by auto
  obtain b2 where b2: "import_all import_job (so_jobs s) d = Inr (b2, d)" "\<forall>a \<in> set b2. \<not> a"
    using jobs.import_all_skips [OF there(3)] by auto
  obtain b3 where b3: "import_all import_event (so_events s) d = Inr (b3, d)" "\<forall>a \<in> set b3. \<not> a"
    using events.import_all_skips [OF there(4)] by auto
  obtain b4 where b4: "import_all (import_finding L H ts) (so_findings s) d = Inr (b4, d)" "\<forall>a \<in> set b4. \<not> fst a"
    using findings.import_all_skips [OF there(5), of ts] by auto
  obtain b5 where b5: "import_all (import_correlation H rp (map snd b4) ts) (so_correlations s) d = Inr (b5, d)"
    "\<forall>a \<in> set b5. \<not> a"
    using correlations.import_all_skips [OF there(6), of rp "map snd b4" ts] by auto
  obtain b6 where b6: "import_all (import_audit H path (count_source s) no_counts ts) (tenant_ids s) d = Inr (b6, d)"
    using audits.import_all_skips [OF there(2)] by blast
  have "\<forall>a \<in> set (map fst b4). \<not> a" using b4(2) by auto
  then show ?thesis
    using b1 b2 b3 b4 b5 b6 by (simp add: migrate_tx_def how_many_none no_counts_def [symmetric])
qed

lemma migrate_commits:
  assumes "migrate L H rp path ts True g d = (Inr rep, d')"
  shows "migrate_tx L H rp path ts (read_source g) d = Inr (rep, d')" and "has_legacy_tables g"
  using assms by (auto simp: migrate_def commit_Inr split: if_splits)

section \<open>What becomes of the jobs\<close>

text \<open>Into tables that have none of them, every job and event is copied in the order read.\<close>

lemma import_jobs_appends:
  "import_all import_job rs d = Inr (bs, d') \<Longrightarrow> distinct (map j_id rs) \<Longrightarrow>
    \<forall>r \<in> set rs. find (\<lambda>x. j_id x = j_id r) (db_jobs d) = None \<Longrightarrow>
    d' = d\<lparr>db_jobs := db_jobs d @ map migrated_job rs\<rparr>"
proof (induction rs arbitrary: d bs)
  case (Cons r rs)
  then obtain b d1 bs' where step: "import_job r d = Inr (b, d1)" and rest: "import_all import_job rs d1 = Inr (bs', d')"
    by (auto simp: bind_exn_Inr)
  have d1: "d1 = d\<lparr>db_jobs := db_jobs d @ [migrated_job r]\<rparr>"
    using step Cons.prems(3) by (auto simp: import_job_def bind_exn_Inr insert_job_def split: if_splits)
  have "\<forall>x \<in> set rs. find (\<lambda>y. j_id y = j_id x) (db_jobs d1) = None"
    using Cons.prems(2,3) by (auto simp: d1 find_append image_iff)
  with Cons.IH [OF rest] Cons.prems(2) show ?case by (simp add: d1)
qed simp

definition event_key :: "job_event \<Rightarrow> string \<times> string \<times> int" where
  "event_key r = (ev_tenant_id r, ev_job_id r, ev_sequence r)"

lemma same_event_key: "same_event r = (\<lambda>x. event_key x = event_key r)"
  by (auto simp: same_event_def event_key_def)

lemma import_events_appends:
  "import_all import_event rs d = Inr (bs, d') \<Longrightarrow> distinct (map event_key rs) \<Longrightarrow>
    \<forall>r \<in> set rs. find (same_event r) (db_job_events d) = None \<Longrightarrow>
    d' = d\<lparr>db_job_events := db_job_events d @ rs\<rparr>"
proof (induction rs arbitrary: d bs)
  case (Cons r rs)
  then obtain b d1 bs' where step: "import_event r d = Inr (b, d1)" and rest: "import_all import_event rs d1 = Inr (bs', d')"
    by (auto simp: bind_exn_Inr)
  have d1: "d1 = d\<lparr>db_job_events := db_job_events d @ [r]\<rparr>"
    using step Cons.prems(3) by (auto simp: import_event_def bind_exn_Inr insert_job_event_def split: if_splits)
  have "\<forall>x \<in> set rs. find (same_event x) (db_job_events d1) = None"
    using Cons.prems(2,3) by (auto simp: d1 find_append same_event_key image_iff)
  with Cons.IH [OF rest] Cons.prems(2) show ?case by (simp add: d1)
qed simp

text \<open>The other imports leave both tables alone.\<close>

definition same_jobs :: "database \<Rightarrow> database \<Rightarrow> bool" where
  "same_jobs d d' \<longleftrightarrow> db_jobs d' = db_jobs d \<and> db_job_events d' = db_job_events d"

lemma import_all_same_jobs:
  assumes "\<And>r d a d'. step r d = Inr (a, d') \<Longrightarrow> same_jobs d d'" and "import_all step rs d = Inr (as, d')"
  shows "same_jobs d d'"
  using assms(2)
proof (induction rs arbitrary: d as)
  case (Cons r rs)
  then obtain a d1 as' where "step r d = Inr (a, d1)" "import_all step rs d1 = Inr (as', d')"
    by (auto simp: bind_exn_Inr)
  with Cons.IH assms(1) show ?case by (fastforce simp: same_jobs_def)
qed (simp add: same_jobs_def)

lemma imports_same_jobs:
  "import_tenant H ts t d = Inr (a, d') \<Longrightarrow> same_jobs d d'"
  "import_finding L H ts r d = Inr (b, d') \<Longrightarrow> same_jobs d d'"
  "import_correlation H rp ids ts r d = Inr (a, d') \<Longrightarrow> same_jobs d d'"
  "import_audit H path src imp ts t d = Inr (a, d') \<Longrightarrow> same_jobs d d'"
  by (auto simp: import_tenant_def import_finding_def import_correlation_def import_audit_def same_jobs_def
      bind_exn_Inr insert_tenant_Inr insert_finding_def insert_correlation_def insert_audit_Inr Let_def
      split: option.splits if_splits dest!: insert_links_only)

lemma migrate_tx_jobs:
  assumes "migrate_tx L H rp path ts s d = Inr (rep, d')" and "db_jobs d = []" and "db_job_events d = []"
    and "distinct (map j_id (so_jobs s))" and "distinct (map event_key (so_events s))"
  shows "db_jobs d' = map migrated_job (so_jobs s) \<and> db_job_events d' = so_events s"
  using assms(1)
proof (rule migrate_tx_parts)
  fix b1 d1 b2 d2 b3 d3 b4 d4 b5 d5 b6
  assume i: "import_all (import_tenant H ts) (tenant_ids s) d = Inr (b1, d1)"
    "import_all import_job (so_jobs s) d1 = Inr (b2, d2)"
    "import_all import_event (so_events s) d2 = Inr (b3, d3)"
    "import_all (import_finding L H ts) (so_findings s) d3 = Inr (b4, d4)"
    "import_all (import_correlation H rp (map snd b4) ts) (so_correlations s) d4 = Inr (b5, d5)"
    "import_all (import_audit H path (count_source s) (mr_imported rep) ts) (tenant_ids s) d5 = Inr (b6, d')"
  have "same_jobs d d1" using import_all_same_jobs [OF imports_same_jobs(1) i(1)] .
  then have d1: "db_jobs d1 = []" "db_job_events d1 = []" using assms(2,3) by (simp_all add: same_jobs_def)
  have d2: "d2 = d1\<lparr>db_jobs := map migrated_job (so_jobs s)\<rparr>"
    using import_jobs_appends [OF i(2) assms(4)] d1 by simp
  then have "db_job_events d2 = []" using d1 by simp
  then have d3: "d3 = d2\<lparr>db_job_events := so_events s\<rparr>"
    using import_events_appends [OF i(3) assms(5)] by simp
  have "same_jobs d3 d4" using import_all_same_jobs [OF imports_same_jobs(2) i(4)] .
  moreover have "same_jobs d4 d5" using import_all_same_jobs [OF imports_same_jobs(3) i(5)] .
  moreover have "same_jobs d5 d'" using import_all_same_jobs [OF imports_same_jobs(4) i(6)] .
  ultimately show "db_jobs d' = map migrated_job (so_jobs s) \<and> db_job_events d' = so_events s"
    by (simp add: same_jobs_def d3 d2)
qed

section \<open>Reading in order\<close>

lemma sort_key_sorted: "sorted (map f xs) \<Longrightarrow> sort_key f xs = xs"
proof (induction xs)
  case (Cons x xs)
  then have "sort_key f (x # xs) = insort_key f x xs" by simp
  also have "\<dots> = x # xs" using Cons.prems by (cases xs) auto
  finally show ?case .
qed simp

lemma find_unique:
  assumes "set xs = set ys" and "\<And>x y. x \<in> set xs \<Longrightarrow> y \<in> set xs \<Longrightarrow> P x \<Longrightarrow> P y \<Longrightarrow> x = y"
  shows "find P xs = find P ys"
proof (cases "find P xs")
  case None
  then show ?thesis using assms(1) by (metis find_None_iff)
next
  case (Some x)
  then have x: "x \<in> set xs" "P x" by (auto dest: find_SomeD)
  then obtain y where y: "find P ys = Some y" using assms(1) by (cases "find P ys") (auto simp: find_None_iff)
  then have "y \<in> set xs" "P y" using assms(1) by (auto dest: find_SomeD)
  with x assms(2) Some y show ?thesis by auto
qed

lemma numbered_filter_sorted:
  assumes "numbered es"
  shows "filter (is_event_of t j) (sort_key event_key es) = filter (is_event_of t j) es"
proof -
  let ?es = "filter (is_event_of t j) es"
  have "map ev_sequence ?es = map int [Suc 0..<Suc (length ?es)]" using assms by (simp add: numbered_def)
  moreover have "sorted (map int [Suc 0..<Suc (length ?es)])" by (simp add: sorted_map del: upt_Suc)
  ultimately have seq: "sorted (map ev_sequence ?es)" by (simp del: upt_Suc)
  have keys: "map event_key ?es = map (\<lambda>n. (t, j, n)) (map ev_sequence ?es)"
    by (auto simp: event_key_def is_event_of_def)
  have "sorted (map (\<lambda>n. (t, j, n)) ns)" if "sorted ns" for ns :: "int list"
    using that by (simp add: sorted_map)
  then have "sorted (map event_key ?es)" unfolding keys using seq .
  then have "sort_key event_key ?es = ?es" by (rule sort_key_sorted)
  then show ?thesis by (simp add: filter_sort)
qed

lemma numbered_distinct:
  assumes "\<forall>t j. distinct (map ev_sequence (filter (is_event_of t j) es))"
  shows "distinct (map event_key es)"
  using assms
proof (induction es)
  case (Cons e es)
  have "distinct (map ev_sequence (filter (is_event_of t j) es))" for t j
    using Cons.prems [rule_format, of t j] by (simp split: if_splits)
  then have "distinct (map event_key es)" using Cons.IH by blast
  moreover have "event_key e \<notin> event_key ` set es"
  proof
    assume "event_key e \<in> event_key ` set es"
    then obtain x where "x \<in> set es" "event_key x = event_key e" by auto
    then have "x \<in> set (filter (is_event_of (ev_tenant_id e) (ev_job_id e)) es)" "ev_sequence x = ev_sequence e"
      by (auto simp: event_key_def is_event_of_def)
    moreover have "ev_sequence e \<notin> ev_sequence ` set (filter (is_event_of (ev_tenant_id e) (ev_job_id e)) es)"
      using Cons.prems [rule_format, of "ev_tenant_id e" "ev_job_id e"] by (simp add: is_event_of_def)
    ultimately show False by (metis imageI)
  qed
  ultimately show ?case by simp
qed simp

end
