(* ===== verification/Migration_Properties.thy ===== *)
theory Migration_Properties
  imports Migration_Proofs Job_Properties
begin

text \<open>
  What the migration of a legacy database guarantees: the gateway goes on with the same
  jobs, and migrating twice is migrating once.
\<close>

section \<open>Jobs\<close>

lemma find_map: "find P (map f xs) = map_option f (find (P \<circ> f) xs)"
  by (induction xs) auto

lemma truncate_job: "job_record.truncate = (\<lambda>r :: job_record. r)"
proof
  show "job_record.truncate r = r" for r :: job_record by (cases r) (simp add: job_record.defs)
qed

text \<open>The view of the jobs does not depend on the order of the rows.\<close>

lemma migrated_view:
  assumes "sq_invar s" and "so = read_source (legacy_of s g)"
    and "db_jobs d = map migrated_job (so_jobs so)" and "db_job_events d = so_events so"
  shows "sa_view d = sq_view s"
proof -
  have table: "distinct (map j_id (sq_jobs s))" and num: "numbered (sq_events s)"
    using assms(1) by (simp_all add: sq_invar_def job_table_ok_def)
  have rows: "so_jobs so = sort_key (\<lambda>r. (j_created_at r, j_id r)) (sq_jobs s)"
    "so_events so = sort_key event_key (sq_events s)"
    by (simp_all add: assms(2) read_source_def legacy_of_def table_rows_def event_key_def [abs_def])
  have "map_option job_record.truncate (find (is_job t j) (db_jobs d)) =
      map_option job_record.truncate (find (is_job t j) (sq_jobs s))" for t j
  proof -
    have "is_job t j \<circ> migrated_job = is_job t j" by (auto simp: is_job_def)
    then have "find (is_job t j) (db_jobs d) = map_option migrated_job (find (is_job t j) (so_jobs so))"
      by (simp add: assms(3) find_map)
    also have "find (is_job t j) (so_jobs so) = find (is_job t j) (sq_jobs s)"
      using table by (intro find_unique) (auto simp: rows is_job_def distinct_map inj_on_def)
    finally show ?thesis
      by (simp add: option.map_comp o_def truncate_job)
  qed
  moreover have "filter (is_event_of t j) (db_job_events d) = filter (is_event_of t j) (sq_events s)" for t j
    by (simp add: assms(4) rows numbered_filter_sorted [OF num])
  ultimately show ?thesis by (simp add: sa_view_def sq_view_def table_view_def)
qed

lemma migrated_invar:
  assumes "sq_invar s" and "so = read_source (legacy_of s g)" and "source_there L H path so d"
    and "db_jobs d = map migrated_job (so_jobs so)" and "db_job_events d = so_events so"
  shows "sa_invar d"
proof -
  have table: "distinct (map j_id (sq_jobs s))" "keys_unique (sq_jobs s)" and num: "numbered (sq_events s)"
    using assms(1) by (simp_all add: sq_invar_def job_table_ok_def)
  have rows: "so_jobs so = sort_key (\<lambda>r. (j_created_at r, j_id r)) (sq_jobs s)"
    "so_events so = sort_key event_key (sq_events s)"
    by (simp_all add: assms(2) read_source_def legacy_of_def table_rows_def event_key_def [abs_def])
  have "distinct (map j_id (db_jobs d))"
    using table(1) by (simp add: assms(4) rows o_def distinct_map)
  moreover have "keys_unique (db_jobs d)"
  proof -
    have "set (db_jobs d) = migrated_job ` set (sq_jobs s)" by (simp add: assms(4) rows)
    then have "r \<in> set (db_jobs d) \<longleftrightarrow> (\<exists>x \<in> set (sq_jobs s). r = migrated_job x)" for r by auto
    then show ?thesis
      unfolding keys_unique_def using keys_uniqueD [OF table(2)] by (metis migrated_job_columns(1-3))
  qed
  moreover have "numbered (db_job_events d)"
    using num unfolding numbered_def assms(5) rows(2) numbered_filter_sorted [OF num] .
  moreover have "\<forall>r \<in> set (db_jobs d). get_tenant (j_tenant_id r) d \<noteq> None"
    using assms(3) by (auto simp: source_there_def tenant_there_def tenant_ids_def assms(4))
  ultimately show ?thesis by (simp add: sa_invar_def job_table_ok_def)
qed

lemma migration_related:
  assumes "sq_invar s" and "db_jobs d0 = []" and "db_job_events d0 = []"
    and "migrate L H rp path ts True (legacy_of s g) d0 = (Inr rep, d)"
  shows "backends.related s d"
proof -
  define so where "so = read_source (legacy_of s g)"
  have run: "migrate_tx L H rp path ts so d0 = Inr (rep, d)"
    unfolding so_def using assms(4) by (rule migrate_commits)
  have table: "distinct (map j_id (sq_jobs s))" and num: "numbered (sq_events s)"
    using assms(1) by (simp_all add: sq_invar_def job_table_ok_def)
  have "distinct (map ev_sequence (filter (is_event_of t j) (sq_events s)))" for t j
  proof -
    have "map ev_sequence (filter (is_event_of t j) (sq_events s)) =
        map int [Suc 0..<Suc (length (filter (is_event_of t j) (sq_events s)))]"
      using num by (simp add: numbered_def)
    then show ?thesis by (simp add: distinct_map del: upt_Suc)
  qed
  then have "distinct (map event_key (sq_events s))" by (intro numbered_distinct) blast
  then have keys: "distinct (map event_key (so_events so))" "distinct (map j_id (so_jobs so))"
    using table by (simp_all add: so_def read_source_def legacy_of_def table_rows_def distinct_map)
  have copied: "db_jobs d = map migrated_job (so_jobs so) \<and> db_job_events d = so_events so"
    using migrate_tx_jobs [OF run assms(2,3) keys(2,1)] .
  show ?thesis
    using assms(1) migrated_view [OF assms(1) so_def] migrated_invar [OF assms(1) so_def migrate_tx_there [OF run]] copied
    by (simp add: backends.related_def)
qed

text \<open>
  C20: Migrating to the relational database is invisible to the clients of the job
  repository: after a committed migration of a legacy database into an empty one, any
  further calls (lookups, listings, events, claims, transitions) get from the SQLAlchemy
  repository the very answers that the SQLite repository would have given.
\<close>

theorem migration_transparent:
  assumes "migrate L H rp path ts True (legacy_of (sqlite_after cs) g) empty_db = (Inr rep, d)"
    and "run_ready sa_ready (sqlalchemy_repository L) cs' d"
  shows "fst (perform_all (sqlalchemy_repository L) cs' d) = fst (perform_all sqlite_repository cs' (sqlite_after cs))"
proof -
  have "backends.related (sqlite_after cs) d"
    using sqlite_after_invar _ _ assms(1) by (rule migration_related) (simp_all add: empty_db_def)
  from backends.perform_all_agree [OF this run_ready_True assms(2)] show ?thesis by simp
qed

definition legacy_calls :: "job_call list" where
  "legacy_calls = [Call_create (sample_env 5 ''a'') ''acme'' LAB (JObj []) (Some ''k'')]"

definition legacy_sample :: legacy_db where
  "legacy_sample = legacy_of (sqlite_after legacy_calls)
     (registry_add_correlation sample_core ''acme''
        \<lparr>c_rule_id = ''r'', c_findings = [''f1''], c_severity = HIGH, c_narrative = ''n''\<rparr>
        (registry_store sample_core ''acme'' (sample_finding ''f1'' LAB HIGH ''t'') (new_registry 10)))"

definition sample_migration :: "(exn + migration_report) \<times> database" where
  "sample_migration = migrate sample_core sample_hashing (\<lambda>_. []) ''old.db'' 50 True legacy_sample empty_db"

lemma sample_migration_commits:
  "\<exists>rep. fst sample_migration = Inr rep \<and>
    mr_imported rep = \<lparr>n_tenants = 1, n_jobs = 1, n_job_events = 1, n_findings = 1, n_correlations = 1\<rparr>"
proof -
  have "case fst sample_migration of Inr rep \<Rightarrow> mr_imported rep =
      \<lparr>n_tenants = 1, n_jobs = 1, n_job_events = 1, n_findings = 1, n_correlations = 1\<rparr> | _ \<Rightarrow> False"
    by code_simp
  then show ?thesis by (auto split: sum.splits)
qed

theorem migration_transparent_witness:
  "\<exists>d. fst (perform_all (sqlalchemy_repository sample_core) [Call_get ''acme'' ''job_a'', Call_list_events ''acme'' ''job_a'' 0 9] d) =
    fst (perform_all sqlite_repository [Call_get ''acme'' ''job_a'', Call_list_events ''acme'' ''job_a'' 0 9]
      (sqlite_after legacy_calls))"
proof -
  obtain rep where "fst sample_migration = Inr rep" using sample_migration_commits by blast
  then have "migrate sample_core sample_hashing (\<lambda>_. []) ''old.db'' 50 True legacy_sample empty_db = (Inr rep, snd sample_migration)"
    by (simp add: sample_migration_def prod_eq_iff)
  from migration_transparent [OF this [unfolded legacy_sample_def],
      of "[Call_get ''acme'' ''job_a'', Call_list_events ''acme'' ''job_a'' 0 9]"]
  show ?thesis by (intro exI [of _ "snd sample_migration"]) simp
qed

section \<open>Running it twice\<close>

text \<open>
  C22: The migration can be repeated. After a run that committed, with any content the target
  had before, a second run from the same file reports the same source, imports nothing at
  all and leaves the database as it is.
\<close>

theorem migration_repeatable:
  assumes "migrate L H rp path ts True g d = (Inr rep, d')"
  shows "\<exists>rep'. migrate L H rp path ts' True g d' = (Inr rep', d') \<and> mr_imported rep' = no_counts \<and>
    mr_source rep' = mr_source rep"
proof -
  note run = migrate_commits [OF assms]
  have "mr_source rep = count_source (read_source g)" using run(1) by (rule migrate_tx_parts)
  with migrate_tx_again [OF migrate_tx_there [OF run(1)], of rp ts'] run(2) show ?thesis
    by (auto simp: migrate_def)
qed

theorem migration_repeatable_witness:
  "\<exists>rep rep'. fst sample_migration = Inr rep \<and> n_findings (mr_imported rep) = 1 \<and>
    migrate sample_core sample_hashing (\<lambda>_. []) ''old.db'' 60 True legacy_sample (snd sample_migration) =
      (Inr rep', snd sample_migration) \<and> mr_imported rep' = no_counts"
proof -
  obtain rep where rep: "fst sample_migration = Inr rep" "n_findings (mr_imported rep) = 1"
    using sample_migration_commits by auto
  then have "migrate sample_core sample_hashing (\<lambda>_. []) ''old.db'' 50 True legacy_sample empty_db = (Inr rep, snd sample_migration)"
    by (simp add: sample_migration_def prod_eq_iff)
  from migration_repeatable [OF this, of 60] rep show ?thesis by blast
qed

text \<open>
  Every finding of the legacy database is represented in the target: after a run that
  committed, the tenant has a finding with its fingerprint, and only the rows that had none
  were imported.
\<close>

theorem migration_keeps_findings:
  assumes "migrate L H rp path ts True g d = (Inr rep, d')" and "r \<in> set (table_rows (lg_findings g))"
  shows "\<exists>f x. finding_from_dict L (g_payload r) = Inr f \<and> x \<in> set (db_findings d') \<and>
    fr_tenant_id x = g_tenant r \<and> fr_fingerprint x = finding_fingerprint L H f"
proof -
  have "source_there L H path (read_source g) d'"
    using migrate_tx_there [OF migrate_commits(1) [OF assms(1)]] .
  then have "finding_there L H r d'" using assms(2) by (simp add: source_there_def read_source_def)
  then show ?thesis by (auto simp: finding_there_def has_fingerprint_def dest!: find_SomeD)
qed

end
