(* ===== verification/Adapters.thy ===== *)
theory Adapters
  imports Dispatch
begin

text \<open>
  The product adapters of \<^verbatim>\<open>adapters/\<close>: limits, the run of a product's command line in a
  subprocess with the payload in a temporary file, what is made of its output, and the
  worker that stands between. What the operating system does is an input: whether the
  directory is there, what the disk does with the payload, how the subprocess ends. \<^verbatim>\<open>json.loads\<close> is a parameter.
\<close>

section \<open>Adapters\<close>

record adapter =
  ad_source :: finding_source
  ad_module :: string
  ad_product_id :: string
  ad_version :: string
  ad_queue :: string
  ad_timeout_seconds :: rat
  ad_max_concurrency :: int
  ad_max_input_bytes :: int
  ad_max_output_bytes :: int

text \<open>The class attributes, with the defaults of \<^verbatim>\<open>JSONSubprocessAdapter\<close>.\<close>

definition adapter_class :: "finding_source \<Rightarrow> string \<Rightarrow> string \<Rightarrow> string \<Rightarrow> rat \<Rightarrow> int \<Rightarrow> adapter" where
  "adapter_class src cli_module product queue timeout concurrency =
     \<lparr>ad_source = src, ad_module = cli_module, ad_product_id = product, ad_version = ''0.6.0'', ad_queue = queue,
      ad_timeout_seconds = timeout, ad_max_concurrency = concurrency, ad_max_input_bytes = 1048576,
      ad_max_output_bytes = 10485760\<rparr>"

definition soc_adapter :: adapter where
  "soc_adapter = adapter_class SOC ''ai_soc_agent.cli'' ''001-soc'' ''fast'' 60 4"

definition vuln_adapter :: adapter where
  "vuln_adapter = adapter_class VULN ''ai_vuln_agent.cli'' ''002-vuln'' ''analysis'' 180 2"

definition lab_adapter :: adapter where
  "lab_adapter = adapter_class LAB ''ai_agent_lab.cli'' ''003-lab'' ''sandbox'' 300 1"

definition code_adapter :: adapter where
  "code_adapter = adapter_class CODE ''codeguard.cli'' ''004-code'' ''analysis'' 300 2"

definition reverse_adapter :: adapter where
  "reverse_adapter = adapter_class REVERSE ''ai_reverse_agent.cli'' ''005-reverse'' ''sandbox'' 600 1"

definition firmware_adapter :: adapter where
  "firmware_adapter = adapter_class FIRMWARE ''ai_firmware_agent.cli'' ''006-firmware'' ''sandbox'' 900 1"

definition product_adapters :: "adapter list" where
  "product_adapters = [soc_adapter, vuln_adapter, lab_adapter, code_adapter, reverse_adapter, firmware_adapter]"

text \<open>The constructor: a limit in bytes of zero counts as not given.\<close>

definition make_adapter :: "adapter \<Rightarrow> rat option \<Rightarrow> int option \<Rightarrow> int option \<Rightarrow> int option \<Rightarrow> exn + adapter" where
  "make_adapter A timeout concurrency input output =
     (let B = A\<lparr>ad_timeout_seconds := (case timeout of None \<Rightarrow> ad_timeout_seconds A | Some x \<Rightarrow> x),
                ad_max_concurrency := (case concurrency of None \<Rightarrow> ad_max_concurrency A | Some n \<Rightarrow> n),
                ad_max_input_bytes := (if input = None \<or> input = Some 0 then ad_max_input_bytes A else the input),
                ad_max_output_bytes := (if output = None \<or> output = Some 0 then ad_max_output_bytes A else the output)\<rparr>
      in if ad_timeout_seconds B \<le> 0 then Inl (ValueError ''timeout_seconds must be positive'')
         else if ad_max_concurrency B \<le> 0 then Inl (ValueError ''max_concurrency must be positive'')
         else Inr B)"

definition adapter_health :: "bool \<Rightarrow> adapter \<Rightarrow> (string \<times> json) list" where
  "adapter_health is_dir A =
     [(''status'', JStr (if is_dir then ''ok'' else ''degraded'')), (''source'', JStr (ad_product_id A)),
      (''available'', JBool is_dir), (''queue'', JStr (ad_queue A))]"

definition capabilities_to_dict :: "core_lib \<Rightarrow> adapter \<Rightarrow> json" where
  "capabilities_to_dict L A = JObj
     [(''source'', JStr (source_value L (ad_source A))), (''product_id'', JStr (ad_product_id A)),
      (''version'', JStr (ad_version A)), (''queue'', JStr (ad_queue A)),
      (''timeout_seconds'', JFloat (ad_timeout_seconds A)), (''max_concurrency'', JInt (ad_max_concurrency A)),
      (''max_input_bytes'', JInt (ad_max_input_bytes A)), (''max_output_bytes'', JInt (ad_max_output_bytes A))]"

section \<open>Errors\<close>

definition cli_error :: "string \<Rightarrow> product_error" where
  "cli_error m = \<lparr>pe_code = ''PRODUCT_CLI_ERROR'', pe_message = m, pe_retryable = False, pe_timeout = False\<rparr>"

definition timeout_error :: "string \<Rightarrow> product_error" where
  "timeout_error m = \<lparr>pe_code = ''ADAPTER_TIMEOUT'', pe_message = m, pe_retryable = True, pe_timeout = True\<rparr>"

definition output_limit_error :: "string \<Rightarrow> product_error" where
  "output_limit_error m = \<lparr>pe_code = ''ADAPTER_OUTPUT_LIMIT'', pe_message = m, pe_retryable = False, pe_timeout = False\<rparr>"

definition unavailable_error :: "string \<Rightarrow> product_error" where
  "unavailable_error m = \<lparr>pe_code = ''ADAPTER_UNAVAILABLE'', pe_message = m, pe_retryable = True, pe_timeout = False\<rparr>"

section \<open>The subprocess\<close>

text \<open>How starting and awaiting the subprocess ends; bytes are strings of their Latin-1 reading.\<close>

datatype process_end = Start_fails | Runs_too_long | Await_cancelled | Exits int string string

text \<open>
  The text functions the adapter uses on the output: \<open>loads\<close> decodes the standard output as
  UTF-8 and JSON, \<open>detail\<close> decodes the head of the standard error with replacement and strips
  it, \<open>general\<close> prints a number of seconds in the format \<^verbatim>\<open>g\<close>.
\<close>

record output_text =
  ot_loads :: "string \<Rightarrow> json option"
  ot_detail :: "string \<Rightarrow> string"
  ot_general :: "rat \<Rightarrow> string"

datatype 'a run = Returns 'a | Raises product_error | Cancelled

definition execute_cli :: "output_text \<Rightarrow> adapter \<Rightarrow> process_end \<Rightarrow> json run" where
  "execute_cli T A p =
     (case p of
        Start_fails \<Rightarrow> Raises (unavailable_error (ad_product_id A @ '' CLI could not be started''))
      | Runs_too_long \<Rightarrow>
          Raises (timeout_error (ad_product_id A @ '' CLI exceeded '' @ ot_general T (ad_timeout_seconds A) @ ''s''))
      | Await_cancelled \<Rightarrow> Cancelled
      | Exits status out err \<Rightarrow>
          if ad_max_output_bytes A < int (length out)
          then Raises (output_limit_error (ad_product_id A @ '' CLI output exceeded '' @
            py_str_int (ad_max_output_bytes A) @ '' bytes''))
          else if status \<noteq> 0
          then Raises (cli_error (ad_product_id A @ '' CLI exited with '' @ py_str_int status @ '': '' @
            ot_detail T (take 65536 err)))
          else
            (case ot_loads T out of
               None \<Rightarrow> Raises (cli_error (ad_product_id A @ '' CLI emitted invalid JSON''))
             | Some (JObj fs) \<Rightarrow> Returns (JObj fs)
             | Some (JArr xs) \<Rightarrow> Returns (JArr xs)
             | Some _ \<Rightarrow> Raises (cli_error (ad_product_id A @ '' CLI output must be an object or list''))))"

text \<open>The signals \<^verbatim>\<open>_stop_process\<close> sends: the exit code if there is one already, and whether the
  process ends within the two seconds of grace.\<close>

definition stop_process :: "int option \<Rightarrow> bool \<Rightarrow> string list" where
  "stop_process returncode ends_in_grace =
     (if returncode \<noteq> None then [] else if ends_in_grace then [''SIGTERM''] else [''SIGTERM'', ''SIGKILL''])"

section \<open>The scan\<close>

text \<open>The length of the UTF-8 encoding of a Latin-1 string.\<close>

definition utf8_length :: "string \<Rightarrow> int" where
  "utf8_length s = int (length s) + int (length (filter (\<lambda>c. \<not> is_ascii c) s))"

definition write_payload :: "(rat \<Rightarrow> string) \<Rightarrow> adapter \<Rightarrow> json \<Rightarrow> string run" where
  "write_payload frepr A payload =
     (let encoded = json_text frepr payload
      in if ad_max_input_bytes A < utf8_length encoded
         then Raises (cli_error (ad_product_id A @ '' input exceeded '' @ py_str_int (ad_max_input_bytes A) @ '' bytes''))
         else Returns encoded)"

definition found_items :: "adapter \<Rightarrow> json \<Rightarrow> json list run" where
  "found_items A decoded =
     (case decoded of
        JArr xs \<Rightarrow> Returns xs
      | JObj fs \<Rightarrow>
          (case map_of fs ''findings'' of
             None \<Rightarrow> Returns []
           | Some (JArr xs) \<Rightarrow> Returns xs
           | Some _ \<Rightarrow> Raises (cli_error (ad_product_id A @ '' CLI 'findings' must be a list'')))
      | _ \<Rightarrow> Raises (cli_error (ad_product_id A @ '' CLI output must be an object or list'')))"

definition item_or :: "(string \<times> json) list \<Rightarrow> string \<Rightarrow> json \<Rightarrow> json" where
  "item_or fs k dflt = (case map_of fs k of None \<Rightarrow> dflt | Some v \<Rightarrow> v)"

definition normalized_item :: "core_lib \<Rightarrow> adapter \<Rightarrow> (string \<times> json) list \<Rightarrow> (string \<times> json) list" where
  "normalized_item L A fs = dict_update fs
     [(''id'', item_or fs ''id'' (JStr [])), (''source'', JStr (source_value L (ad_source A))),
      (''severity'', item_or fs ''severity'' (JStr ''medium'')), (''confidence'', item_or fs ''confidence'' (JFloat (1 / 2))),
      (''title'', item_or fs ''title'' (JStr ''Untitled finding''))]"

text \<open>The findings are yielded one by one; an error ends the generator after those before it.\<close>

fun yield_findings :: "core_lib \<Rightarrow> (exn \<Rightarrow> string) \<Rightarrow> adapter \<Rightarrow> json list \<Rightarrow> finding list \<times> scan_outcome option" where
  "yield_findings L txt A [] = ([], None)"
| "yield_findings L txt A (JObj fs # xs) =
     (case finding_from_dict L (normalized_item L A fs) of
        Inl x \<Rightarrow> ([], Some (Scan_exception (txt x)))
      | Inr f \<Rightarrow> (case yield_findings L txt A xs of (ys, out) \<Rightarrow> (f # ys, out)))"
| "yield_findings L txt A (_ # xs) =
     ([], Some (Scan_product_error (cli_error (ad_product_id A @ '' CLI finding must be an object''))))"

text \<open>
  The whole scan as the executor collects it: an error loses what was yielded before. The
  files are those of the temporary directory, \<open>path\<close> is the fresh name of the payload's.
\<close>

definition collect :: "finding list \<times> scan_outcome option \<Rightarrow> scan_outcome" where
  "collect r = (case snd r of None \<Rightarrow> Scan_findings (fst r) | Some out \<Rightarrow> out)"

definition scan_output :: "core_lib \<Rightarrow> (exn \<Rightarrow> string) \<Rightarrow> output_text \<Rightarrow> adapter \<Rightarrow> process_end \<Rightarrow> scan_outcome" where
  "scan_output L txt T A p =
     (case execute_cli T A p of
        Raises x \<Rightarrow> Scan_product_error x
      | Cancelled \<Rightarrow> Scan_cancelled
      | Returns decoded \<Rightarrow>
          (case found_items A decoded of
             Raises x \<Rightarrow> Scan_product_error x
           | Cancelled \<Rightarrow> Scan_cancelled
           | Returns xs \<Rightarrow> collect (yield_findings L txt A xs)))"

text \<open>
  What the disk does with the payload: the temporary file cannot be created, or it is created
  and not all of the payload can be written, or it is written; and the exception of removing
  it. The file is created and written before the \<^verbatim>\<open>try\<close> whose \<^verbatim>\<open>finally\<close> removes it.
\<close>

datatype payload_write = Written | Not_created string | Partly_written string string

record payload_disk =
  pd_write :: payload_write
  pd_unlink :: "string option"

definition adapter_scan ::
  "core_lib \<Rightarrow> (exn \<Rightarrow> string) \<Rightarrow> (rat \<Rightarrow> string) \<Rightarrow> output_text \<Rightarrow> adapter \<Rightarrow> bool \<Rightarrow> string \<Rightarrow> json \<Rightarrow> payload_disk \<Rightarrow>
    process_end \<Rightarrow> (string \<times> string) list \<Rightarrow> scan_outcome \<times> (string \<times> string) list" where
  "adapter_scan L txt frepr T A is_dir path payload D p files =
     (if \<not> is_dir
      then (Scan_product_error (unavailable_error (ad_product_id A @ '' CLI directory is unavailable'')), files)
      else
        (case write_payload frepr A payload of
           Raises x \<Rightarrow> (Scan_product_error x, files)
         | Cancelled \<Rightarrow> (Scan_cancelled, files)
         | Returns encoded \<Rightarrow>
             (case pd_write D of
                Not_created m \<Rightarrow> (Scan_exception m, files)
              | Partly_written m partial \<Rightarrow> (Scan_exception m, (path, partial) # files)
              | Written \<Rightarrow>
                  (let during = (path, encoded) # files
                   in case pd_unlink D of
                        Some m \<Rightarrow> (Scan_exception m, during)
                      | None \<Rightarrow> (scan_output L txt T A p, filter (\<lambda>f. fst f \<noteq> path) during)))))"

section \<open>The worker\<close>

text \<open>Its arguments, the size and the text of the file to the arguments the product gets.\<close>

definition worker_main ::
  "(string \<Rightarrow> json option) \<Rightarrow> (rat \<Rightarrow> string) \<Rightarrow> string \<Rightarrow> int \<Rightarrow> string \<Rightarrow> string + string list" where
  "worker_main loads frepr cli_module max_input_bytes content =
     (if max_input_bytes < utf8_length content then Inl ''integration payload exceeds configured limit''
      else
        (case loads content of
           None \<Rightarrow> Inl ''JSONDecodeError''
         | Some (JObj fs) \<Rightarrow> Inr [cli_module, ''--input'', dumps frepr (JObj fs), ''--json'']
         | Some _ \<Rightarrow> Inl ''integration payload must be a JSON object''))"

end
