(* ===== verification/Adapter_Properties.thy ===== *)
theory Adapter_Properties
  imports Adapters Samples
begin

text \<open>
  What the executor can rely on when it runs a product: which errors are worth another
  attempt, when a payload stays on disk, that findings carry the source of their adapter,
  and that the worker passes on what the adapter wrote.
\<close>

section \<open>Dictionaries\<close>

lemma map_of_dict_set: "map_of (dict_set kv fs) = (map_of fs)(fst kv \<mapsto> snd kv)"
proof (cases "fst kv \<in> fst ` set fs")
  case True
  have "map_of (map (\<lambda>x. if fst x = fst kv then kv else x) gs) k =
      (if k = fst kv then (if fst kv \<in> fst ` set gs then Some (snd kv) else None) else map_of gs k)" for gs k
    by (induction gs) (auto, metis fst_conv image_eqI)
  with True show ?thesis by (intro ext) (simp add: dict_set_def)
next
  case False
  then have "map_of fs (fst kv) = None" by (simp add: map_of_eq_None_iff)
  with False show ?thesis by (cases kv) (auto simp: dict_set_def map_add_def split: option.split)
qed

lemma map_of_dict_update: "map_of (dict_update fs kvs) = map_of fs ++ map_of (rev kvs)"
proof (induction kvs arbitrary: fs)
  case (Cons kv kvs)
  then show ?case by (cases kv) (simp add: dict_update_def map_of_dict_set map_add_def fun_eq_iff split: option.split)
qed (simp add: dict_update_def)

lemma normalized_item_source:
  "map_of (normalized_item L A fs) ''source'' = Some (JStr (source_value L (ad_source A)))"
  by (simp add: normalized_item_def map_of_dict_update)

section \<open>The scan\<close>

lemma execute_cli_error:
  "execute_cli T A p = Raises x \<Longrightarrow>
    (pe_retryable x \<longleftrightarrow> p = Start_fails \<or> p = Runs_too_long) \<and> (pe_timeout x \<longleftrightarrow> p = Runs_too_long)"
  by (auto simp: execute_cli_def cli_error_def timeout_error_def output_limit_error_def unavailable_error_def
      split: process_end.splits if_splits option.splits json.splits)

lemma found_items_error: "found_items A v = Raises x \<Longrightarrow> \<not> pe_retryable x \<and> \<not> pe_timeout x"
  by (auto simp: found_items_def cli_error_def split: json.splits option.splits)

lemma yield_findings_error:
  "snd (yield_findings L et A xs) = Some (Scan_product_error x) \<Longrightarrow> \<not> pe_retryable x \<and> \<not> pe_timeout x"
  by (induction L et A xs rule: yield_findings.induct)
    (auto simp: cli_error_def split: sum.splits prod.splits)

lemma execute_cli_runs: "execute_cli T A p = Returns v \<Longrightarrow> \<exists>status out err. p = Exits status out err"
  by (auto simp: execute_cli_def split: process_end.splits)

lemma scan_output_error:
  assumes "scan_output L et T A p = Scan_product_error x"
  shows "(pe_retryable x \<longleftrightarrow> p = Start_fails \<or> p = Runs_too_long) \<and> (pe_timeout x \<longleftrightarrow> p = Runs_too_long)"
proof (cases "execute_cli T A p")
  case (Returns v)
  then have exits: "p \<noteq> Start_fails" "p \<noteq> Runs_too_long" using execute_cli_runs by blast+
  have "\<not> pe_retryable x \<and> \<not> pe_timeout x"
    using assms Returns found_items_error [of A v x] yield_findings_error [of L et A _ x]
    by (auto simp: scan_output_def collect_def split: run.splits option.splits)
  with exits show ?thesis by simp
next
  case (Raises y)
  with assms execute_cli_error [OF Raises] show ?thesis by (simp add: scan_output_def)
qed (use assms in \<open>simp add: scan_output_def\<close>)

text \<open>
  C26: A scan that fails with a product error is worth another attempt exactly when the
  product's directory was not there, or its payload was written and removed and the product
  could not be started or ran too long; it is reported as a timeout exactly when it ran too
  long. (The design in \<^verbatim>\<open>docs/architecture.md\<close>, section 9, would not retry a missing CLI.) No
  payload stays on disk, also when the worker is cancelled, but in two cases: a write that
  fails leaves what it wrote, and a file that cannot be removed stays.
\<close>

theorem scan_failures_classified:
  assumes "path \<notin> fst ` set files"
  shows "snd (adapter_scan L et frepr T A is_dir path payload D p files) =
      (if is_dir \<and> utf8_length (json_text frepr payload) \<le> ad_max_input_bytes A then
         (case pd_write D of
            Not_created m \<Rightarrow> files
          | Partly_written m partial \<Rightarrow> (path, partial) # files
          | Written \<Rightarrow> if pd_unlink D = None then files else (path, json_text frepr payload) # files)
       else files) \<and>
    (fst (adapter_scan L et frepr T A is_dir path payload D p files) = Scan_product_error x \<longrightarrow>
      (pe_retryable x \<longleftrightarrow> \<not> is_dir \<or>
         utf8_length (json_text frepr payload) \<le> ad_max_input_bytes A \<and> pd_write D = Written \<and> pd_unlink D = None \<and>
         (p = Start_fails \<or> p = Runs_too_long)) \<and>
      (pe_timeout x \<longleftrightarrow> is_dir \<and> utf8_length (json_text frepr payload) \<le> ad_max_input_bytes A \<and>
         pd_write D = Written \<and> pd_unlink D = None \<and> p = Runs_too_long))"
proof -
  have clean: "filter (\<lambda>f. fst f \<noteq> path) files = files" using assms by (force simp: filter_id_conv)
  show ?thesis
    using scan_output_error [of L et T A p x] clean
    by (auto simp: adapter_scan_def write_payload_def Let_def unavailable_error_def cli_error_def
        split: if_splits payload_write.splits option.splits)
qed

definition sample_output :: output_text where
  "sample_output = \<lparr>ot_loads = (\<lambda>_. Some (JArr [JObj [(''source'', JStr ''soc'')]])), ot_detail = id, ot_general = (\<lambda>_. ''300'')\<rparr>"

definition sample_disk :: payload_disk where
  "sample_disk = \<lparr>pd_write = Written, pd_unlink = None\<rparr>"

theorem scan_failures_classified_witness:
  "\<exists>x. fst (adapter_scan sample_core (\<lambda>_. []) (\<lambda>_. []) sample_output lab_adapter True ''p'' (JObj []) sample_disk
      Runs_too_long [(''q'', [])]) = Scan_product_error x \<and> pe_retryable x \<and> pe_timeout x"
proof -
  let ?r = "adapter_scan sample_core (\<lambda>_. []) (\<lambda>_. []) sample_output lab_adapter True ''p'' (JObj []) sample_disk
    Runs_too_long [(''q'', [])]"
  have fits: "utf8_length (json_text (\<lambda>_. []) (JObj [])) \<le> ad_max_input_bytes lab_adapter" by code_simp
  then obtain x where "fst ?r = Scan_product_error x"
    by (simp add: adapter_scan_def write_payload_def Let_def scan_output_def execute_cli_def sample_disk_def
        del: json_text.simps)
  with fits show ?thesis
    using scan_failures_classified [of "''p''" "[(''q'', [])]" sample_core "\<lambda>_. []" "\<lambda>_. []" sample_output lab_adapter
        True "JObj []" sample_disk Runs_too_long x] by (intro exI [of _ x]) (auto simp: sample_disk_def)
qed

text \<open>
  A product cannot report findings in the name of another: whatever source its output
  claims, every finding of a scan has the source of the adapter that ran it.
\<close>

theorem findings_carry_source:
  assumes "\<And>fs f. finding_from_dict L fs = Inr f \<Longrightarrow> map_of fs ''source'' = Some (JStr (source_value L (f_source f)))"
    and "inj (source_value L)"
    and "fst (adapter_scan L et frepr T A is_dir path payload D p files) = Scan_findings found"
  shows "\<forall>f \<in> set found. f_source f = ad_source A"
proof -
  have source: "\<forall>f \<in> set (fst (yield_findings L et A xs)). f_source f = ad_source A" for xs
    using assms(1,2)
    by (induction L et A xs rule: yield_findings.induct)
      (fastforce simp: normalized_item_source split: sum.splits prod.splits dest: injD)+
  obtain v xs where "execute_cli T A p = Returns v" "found_items A v = Returns xs"
    "collect (yield_findings L et A xs) = Scan_findings found"
    using assms(3)
    by (auto simp: adapter_scan_def scan_output_def Let_def split: if_splits run.splits payload_write.splits option.splits)
  then have "found = fst (yield_findings L et A xs) \<or> snd (yield_findings L et A xs) = Some (Scan_findings found)"
    by (auto simp: collect_def split: option.splits)
  moreover have "snd (yield_findings L et A ys) \<noteq> Some (Scan_findings found)" for ys
    by (induction L et A ys rule: yield_findings.induct) (auto split: sum.splits prod.splits)
  ultimately show ?thesis using source by blast
qed

text \<open>A core whose reader looks at the source only.\<close>

definition source_core :: core_lib where
  "source_core = sample_core\<lparr>finding_from_dict := (\<lambda>fs.
     case map_of fs ''source'' of
       Some (JStr s) \<Rightarrow>
         (case find (\<lambda>x. sample_source x = s) [SOC, VULN, LAB, CODE, REVERSE, FIRMWARE, EXTERNAL] of
            Some src \<Rightarrow> Inr (sample_finding ''f'' src LOW ''t'')
          | None \<Rightarrow> Inl (ValueError s))
     | _ \<Rightarrow> Inl (ValueError ''source''))\<rparr>"

theorem findings_carry_source_witness:
  "\<exists>found. fst (adapter_scan source_core (\<lambda>_. []) (\<lambda>_. []) sample_output lab_adapter True ''p'' (JObj []) sample_disk (Exits 0 [] []) []) =
      Scan_findings found \<and> length found = 1 \<and> (\<forall>f \<in> set found. f_source f = LAB)"
proof -
  let ?r = "fst (adapter_scan source_core (\<lambda>_. []) (\<lambda>_. []) sample_output lab_adapter True ''p'' (JObj []) sample_disk (Exits 0 [] []) [])"
  have "case ?r of Scan_findings found \<Rightarrow> length found = 1 | _ \<Rightarrow> False" by code_simp
  then obtain found where found: "?r = Scan_findings found" "length found = 1" by (auto split: scan_outcome.splits)
  have reads: "map_of fs ''source'' = Some (JStr (source_value source_core (f_source f)))"
    if "finding_from_dict source_core fs = Inr f" for fs f
    using that
    by (auto simp: source_core_def sample_core_def sample_finding_def split: option.splits json.splits
        simp del: find.simps dest: find_SomeD)
  have "inj (source_value source_core)"
    by (rule inj_on_inverseI [of _ source_of]) (simp add: source_core_def sample_core_def)
  from findings_carry_source [OF reads this found(1)] found show ?thesis
    by (auto simp: lab_adapter_def adapter_class_def)
qed

text \<open>What the adapter wrote the worker accepts, and it hands the same document to the product.\<close>

lemma payload_reaches_product:
  assumes "write_payload frepr A (JObj fs) = Returns content" and "loads content = Some (JObj fs)"
  shows "worker_main loads frepr (ad_module A) (ad_max_input_bytes A) content =
    Inr [ad_module A, ''--input'', dumps frepr (JObj fs), ''--json'']"
  using assms by (auto simp: write_payload_def worker_main_def Let_def split: if_splits)

end
