(* ===== verification/Gateway.thy ===== *)
theory Gateway
  imports Adapters Correlations
begin

text \<open>
  The composition of the gateway (\<^verbatim>\<open>gateway.py\<close>) from its arguments and environment, the
  endpoints that report on it, and the tracing of requests (\<^verbatim>\<open>tracing.py\<close>). What is built is
  a value that names the chosen parts; opening databases and serving is not modelled. The
  file system is a parameter. The attributes of a span are a dictionary.
\<close>

section \<open>Composition\<close>

datatype registry_choice = Registry_given | Registry_sql string | Registry_sqlite string | Registry_memory
datatype jobs_choice = Jobs_given | Jobs_sql string | Jobs_sqlite string
datatype dispatcher_choice = Dispatcher_given | Dispatcher_inline | Dispatcher_celery
datatype identity_choice = Identity_given | Identity_sql string

record gateway_args =
  ga_root :: "string option"
  ga_registry :: bool
  ga_database_path :: "string option"
  ga_database_url :: "string option"
  ga_job_repository :: bool
  ga_dispatcher :: bool
  ga_identity_repository :: bool

definition no_args :: gateway_args where
  "no_args = \<lparr>ga_root = None, ga_registry = False, ga_database_path = None, ga_database_url = None, ga_job_repository = False,
     ga_dispatcher = False, ga_identity_repository = False\<rparr>"

text \<open>
  The file system as the gateway sees it; \<open>fs_checkout\<close> is the fourth directory above the
  resolved file of the module. A product runs in its directory.
\<close>

record files =
  fs_expanduser :: "string \<Rightarrow> exn + string"
  fs_resolve :: "string \<Rightarrow> string"
  fs_is_dir :: "string \<Rightarrow> bool"
  fs_checkout :: string

record integration_gateway =
  ig_products :: "(adapter \<times> string) list"
  ig_registry :: registry_choice
  ig_correlations :: "correlation_rule list"

record gateway_app =
  gw_gateway :: integration_gateway
  gw_jobs :: jobs_choice
  gw_max_attempts :: int
  gw_dispatcher :: dispatcher_choice
  gw_identity :: "identity_choice option"
  gw_principals :: "(string \<times> principal) list"
  gw_limiter :: limiter

definition env_or :: "(string \<Rightarrow> string option) \<Rightarrow> string \<Rightarrow> string \<Rightarrow> string" where
  "env_or env k dflt = (case env k of None \<Rightarrow> dflt | Some v \<Rightarrow> v)"

text \<open>\<^verbatim>\<open>value or os.getenv(name)\<close>.\<close>

definition given_or_env :: "string option \<Rightarrow> (string \<Rightarrow> string option) \<Rightarrow> string \<Rightarrow> string option" where
  "given_or_env x env k = (if truthy x then x else env k)"

definition auto_create_schema :: "(string \<Rightarrow> string option) \<Rightarrow> bool" where
  "auto_create_schema env \<longleftrightarrow>
     py_lower (py_strip (env_or env ''INTEGRATION_AUTO_CREATE_SCHEMA'' [])) \<in> {''1'', ''true'', ''yes''}"

definition suite_root :: "files \<Rightarrow> (string \<Rightarrow> string option) \<Rightarrow> exn + string" where
  "suite_root fs env =
     (let configured = py_strip (env_or env ''INTEGRATION_SUITE_ROOT'' [])
      in if configured \<noteq> [] then bind_exn (fs_expanduser fs configured) (\<lambda>p. Inr (fs_resolve fs p))
         else Inr (fs_checkout fs))"

text \<open>The operator \<^verbatim>\<open>/\<close> of a resolved path and a relative one.\<close>

definition path_join :: "string \<Rightarrow> string \<Rightarrow> string" where
  "path_join base p = (if base = ''/'' then ''/'' @ p else base @ ''/'' @ p)"

definition capability_path :: "(string \<Rightarrow> bool) \<Rightarrow> string \<Rightarrow> string \<Rightarrow> string \<Rightarrow> string" where
  "capability_path is_dir base current legacy =
     (let target = path_join base current in if is_dir target then target else path_join base legacy)"

text \<open>
  The products with their directories in the new and in the legacy layout. The last name of
  the legacy directory of the lab is Chinese; it is written as its UTF-8 bytes.
\<close>

definition lab_legacy_name :: string where
  "lab_legacy_name = ''003AI Agent'' @
     [CHR 0xE5, CHR 0xAE, CHR 0x89, CHR 0xE5, CHR 0x85, CHR 0xA8, CHR 0xE9, CHR 0x9D, CHR 0xB6, CHR 0xE5, CHR 0x9C, CHR 0xBA]"

definition product_layouts :: "(adapter \<times> string \<times> string) list" where
  "product_layouts =
     [(soc_adapter, ''001AI-Agent-Security-Lab/modules/soc-analysis'', ''001AI-SOC-Agent''),
      (vuln_adapter, ''002AI-Code-Audit/modules/vulnerability-analysis'', ''002AI-Vulnerability-Agent''),
      (lab_adapter, ''001AI-Agent-Security-Lab'', lab_legacy_name),
      (code_adapter, ''002AI-Code-Audit'', ''004AI-Code-Audit''),
      (reverse_adapter, ''003AI-Firmware-Security-Agent/modules/reverse-analysis'', ''005AI-Reverse-Agent''),
      (firmware_adapter, ''003AI-Firmware-Security-Agent'', ''006AI-Firmware-Security-Agent'')]"

definition choose_registry :: "gateway_args \<Rightarrow> (string \<Rightarrow> string option) \<Rightarrow> registry_choice" where
  "choose_registry a env =
     (let path = given_or_env (ga_database_path a) env ''INTEGRATION_DB_PATH'';
          url = given_or_env (ga_database_url a) env ''INTEGRATION_DATABASE_URL''
      in if ga_registry a then Registry_given
         else if truthy url then Registry_sql (the url)
         else if truthy path then Registry_sqlite (the path)
         else Registry_memory)"

definition place_product :: "files \<Rightarrow> string \<Rightarrow> adapter \<times> string \<times> string \<Rightarrow> adapter \<times> string" where
  "place_product fs base x = (case x of (A, current, legacy) \<Rightarrow> (A, capability_path (fs_is_dir fs) base current legacy))"

definition build_gateway ::
  "core_lib \<Rightarrow> files \<Rightarrow> gateway_args \<Rightarrow> (string \<Rightarrow> string option) \<Rightarrow> exn + integration_gateway" where
  "build_gateway L fs a env =
     bind_exn (case ga_root a of Some r \<Rightarrow> Inr r | None \<Rightarrow> suite_root fs env) (\<lambda>r.
     bind_exn (same_host_rule L (24 * 60 * 60 * 1000000)) (\<lambda>rule.
     Inr \<lparr>ig_products = map (place_product fs (fs_resolve fs r)) product_layouts,
          ig_registry = choose_registry a env, ig_correlations = [rule]\<rparr>))"

definition choose_jobs :: "gateway_args \<Rightarrow> (string \<Rightarrow> string option) \<Rightarrow> jobs_choice" where
  "choose_jobs a env =
     (let path = given_or_env (ga_database_path a) env ''INTEGRATION_DB_PATH'';
          url = given_or_env (ga_database_url a) env ''INTEGRATION_DATABASE_URL''
      in if ga_job_repository a then Jobs_given
         else if truthy url then Jobs_sql (the url)
         else Jobs_sqlite (if truthy path then the path else '':memory:''))"

definition load_max_attempts :: "(string \<Rightarrow> string option) \<Rightarrow> exn + int" where
  "load_max_attempts env =
     (case py_int (env_or env ''INTEGRATION_JOB_MAX_ATTEMPTS'' ''2'') of
        None \<Rightarrow> Inl (ValueError ''invalid literal for int() with base 10'')
      | Some n \<Rightarrow> if n < 1 then Inl (ValueError ''max_attempts must be at least one'') else Inr n)"

definition choose_dispatcher :: "gateway_args \<Rightarrow> (string \<Rightarrow> string option) \<Rightarrow> exn + dispatcher_choice" where
  "choose_dispatcher a env =
     (if ga_dispatcher a then Inr Dispatcher_given
      else
        (let mode = py_lower (py_strip (env_or env ''INTEGRATION_JOB_MODE'' ''inline''))
         in if mode = ''inline'' then Inr Dispatcher_inline
            else if mode = ''celery'' then Inr Dispatcher_celery
            else Inl (RuntimeError (''INTEGRATION_JOB_MODE must be 'inline' or 'celery'' @ [CHR 0x27]))))"

definition auth_backend :: "(string \<Rightarrow> string option) \<Rightarrow> string" where
  "auth_backend env = py_lower (py_strip (env_or env ''INTEGRATION_AUTH_BACKEND'' ''static''))"

definition choose_identity :: "gateway_args \<Rightarrow> (string \<Rightarrow> string option) \<Rightarrow> exn + identity_choice option" where
  "choose_identity a env =
     (let url = given_or_env (ga_database_url a) env ''INTEGRATION_DATABASE_URL''; backend = auth_backend env
      in if backend \<notin> {''static'', ''database'', ''hybrid''}
         then Inl (RuntimeError (''INTEGRATION_AUTH_BACKEND must be 'static', 'database', or 'hybrid'' @ [CHR 0x27]))
         else if ga_identity_repository a then Inr (Some Identity_given)
         else if backend = ''static'' then Inr None
         else if \<not> truthy url then Inl (RuntimeError ''database authentication requires INTEGRATION_DATABASE_URL'')
         else Inr (Some (Identity_sql (the url))))"

definition choose_principals ::
  "(string \<Rightarrow> exn + json) \<Rightarrow> (string \<Rightarrow> string option) \<Rightarrow> exn + (string \<times> principal) list" where
  "choose_principals parse env =
     (if auth_backend env \<in> {''static'', ''hybrid''}
      then load_principals parse (env ''INTEGRATION_AUTH_TOKENS'') (env ''INTEGRATION_AUTH_REQUIRED'')
             (auth_backend env = ''static'')
      else Inr [])"

definition build_app ::
  "core_lib \<Rightarrow> files \<Rightarrow> (string \<Rightarrow> exn + json) \<Rightarrow> gateway_args \<Rightarrow> (string \<Rightarrow> string option) \<Rightarrow> exn + gateway_app" where
  "build_app L fs parse a env =
     bind_exn (build_gateway L fs a env) (\<lambda>G.
     bind_exn (load_max_attempts env) (\<lambda>n.
     bind_exn (choose_dispatcher a env) (\<lambda>disp.
     bind_exn (choose_identity a env) (\<lambda>ident.
     bind_exn (choose_principals parse env) (\<lambda>ps.
     bind_exn (load_exchange_rate_limiter env) (\<lambda>l.
     Inr \<lparr>gw_gateway = G, gw_jobs = choose_jobs a env, gw_max_attempts = n,
          gw_dispatcher = disp, gw_identity = ident, gw_principals = ps, gw_limiter = l\<rparr>))))))"

text \<open>The executor of the application, once its stores are open.\<close>

definition app_executor ::
  "core_lib \<Rightarrow> (exn \<Rightarrow> string) \<Rightarrow> 's job_repository \<Rightarrow> 's finding_registry \<Rightarrow> gateway_app \<Rightarrow> 's executor" where
  "app_executor L et R G A =
     \<lparr>ex_repository = R, ex_registry = G, ex_products = ad_source ` fst ` set (ig_products (gw_gateway A)),
      ex_correlations = ig_correlations (gw_gateway A), ex_max_attempts = gw_max_attempts A, ex_core = L, ex_exn_text = et\<rparr>"

text \<open>The address the gateway is served at.\<close>

definition gateway_main :: "(string \<Rightarrow> string option) \<Rightarrow> exn + string \<times> int" where
  "gateway_main env =
     (case py_int (env_or env ''PORT'' ''8080'') of
        None \<Rightarrow> Inl (ValueError ''invalid literal for int() with base 10'')
      | Some n \<Rightarrow> Inr (env_or env ''HOST'' ''0.0.0.0'', n))"

text \<open>The middleware of the application; \<open>C\<close> and \<open>e\<close> are what the repository's calls use.\<close>

definition app_authenticator :: "crypto \<Rightarrow> call_env \<Rightarrow> gateway_app \<Rightarrow> authenticator option" where
  "app_authenticator C e A = (if gw_identity A = None then None else Some (database_authenticator C e))"

definition app_decide ::
  "crypto \<Rightarrow> call_env \<Rightarrow> gateway_app \<Rightarrow> http_request \<Rightarrow> database \<Rightarrow> (exn + decision) \<times> database" where
  "app_decide C e A = decide (gw_principals A) (app_authenticator C e A)"

section \<open>What the gateway reports\<close>

definition livez :: response where
  "livez = json_response 200 (JObj [(''status'', JStr ''ok'')]) []"

text \<open>\<open>health\<close> are the adapters with whether their directories are there.\<close>

definition product_health :: "files \<Rightarrow> integration_gateway \<Rightarrow> (bool \<times> adapter) list" where
  "product_health fs G = map (\<lambda>(A, r). (fs_is_dir fs r, A)) (ig_products G)"

definition readyz :: "bool \<Rightarrow> bool \<Rightarrow> (bool \<times> adapter) list \<Rightarrow> response" where
  "readyz repository_pings dispatcher_ready health =
     (let ready = (repository_pings \<and> dispatcher_ready \<and>
            (\<forall>h \<in> set health. map_of (adapter_health (fst h) (snd h)) ''status'' = Some (JStr ''ok'')))
      in json_response (if ready then 200 else 503)
           (JObj [(''status'', JStr (if ready then ''ready'' else ''degraded''))]) [])"

definition list_adapters :: "core_lib \<Rightarrow> adapter list \<Rightarrow> response" where
  "list_adapters L products =
     (let adapters = map (capabilities_to_dict L) (sort_key (\<lambda>A. source_value L (ad_source A)) products)
      in json_response 200 (JObj [(''count'', JInt (int (length adapters))), (''adapters'', JArr adapters)]) [])"

definition admin_health :: "core_lib \<Rightarrow> bool \<Rightarrow> bool \<Rightarrow> (bool \<times> adapter) list \<Rightarrow> response" where
  "admin_health L repository_pings dispatcher_ready health =
     json_response 200 (JObj
       [(''status'', JStr (if repository_pings then ''ok'' else ''degraded'')),
        (''dispatcher_ready'', JBool dispatcher_ready),
        (''products'', JObj (map (\<lambda>(there, A). (source_value L (ad_source A),
           JObj [(''health'', JObj (adapter_health there A)), (''capabilities'', capabilities_to_dict L A)])) health))]) []"

section \<open>Workers\<close>

text \<open>
  The settings of the Celery application (\<^verbatim>\<open>celery_app.py\<close>) that bear on delivery, and the
  stores a worker opens for a job (\<^verbatim>\<open>tasks.py\<close>).
\<close>

record celery_settings =
  cs_broker :: string
  cs_backend :: string
  cs_acks_late :: bool
  cs_reject_on_worker_lost :: bool
  cs_prefetch :: int
  cs_default_queue :: "string \<Rightarrow> string option"

definition create_celery_app :: "(string \<Rightarrow> string option) \<Rightarrow> celery_settings" where
  "create_celery_app env =
     (let broker = env_or env ''INTEGRATION_BROKER_URL'' ''redis://127.0.0.1:6379/0''
      in \<lparr>cs_broker = broker, cs_backend = env_or env ''INTEGRATION_RESULT_BACKEND'' broker, cs_acks_late = True,
           cs_reject_on_worker_lost = True, cs_prefetch = 1,
           cs_default_queue = [execute_job_task \<mapsto> ''analysis'']\<rparr>)"

record worker_parts =
  wk_jobs :: jobs_choice
  wk_gateway :: integration_gateway
  wk_max_attempts :: int

definition execute_job :: "core_lib \<Rightarrow> files \<Rightarrow> (string \<Rightarrow> string option) \<Rightarrow> exn + worker_parts" where
  "execute_job L fs env =
     (let url = env ''INTEGRATION_DATABASE_URL''; path = env ''INTEGRATION_DB_PATH''
      in if \<not> truthy url \<and> \<not> truthy path
         then Inl (RuntimeError ''INTEGRATION_DATABASE_URL or INTEGRATION_DB_PATH is required for workers'')
         else
           bind_exn (build_gateway L fs (no_args\<lparr>ga_database_path := path, ga_database_url := url\<rparr>) env) (\<lambda>G.
           bind_exn (load_max_attempts env) (\<lambda>n.
           Inr \<lparr>wk_jobs = (if truthy url then Jobs_sql (the url) else Jobs_sqlite (the path)),
                wk_gateway = G, wk_max_attempts = n\<rparr>)))"

section \<open>Tracing\<close>

definition is_job_id :: "string \<Rightarrow> bool" where
  "is_job_id s \<longleftrightarrow> startswith ''job_'' s \<and> length s = 36 \<and> list_all is_hex_lower (drop 4 s)"

definition is_product_number :: "string \<Rightarrow> bool" where
  "is_product_number s \<longleftrightarrow> s \<in> {''001'', ''002'', ''003'', ''004'', ''005'', ''006''}"

text \<open>The groups of the two regular expressions.\<close>

definition product_of_path :: "string \<Rightarrow> string option" where
  "product_of_path p =
     (let number = take 3 (drop 6 p)
      in if startswith ''/v0.5/'' p \<and> is_product_number number \<and> drop 9 p = ''/scan'' then Some number else None)"

definition job_of_path :: "string \<Rightarrow> string option" where
  "job_of_path p =
     (let job = take 36 (drop 10 p); rest = drop 46 p
      in if startswith ''/v1/scans/'' p \<and> is_job_id job \<and>
            (rest = [] \<or> (hd rest = CHR ''/'' \<and> line_feed \<notin> set rest))
         then Some job else None)"

text \<open>
  The attributes of a request's span: those at its start, those the handlers set on the
  active span, and those at its end. \<open>sent\<close> are the status codes of the response starts that
  were sent, \<open>raised\<close> says that the application raised.
\<close>

definition start_attributes :: "string \<Rightarrow> string \<Rightarrow> string \<Rightarrow> string option \<Rightarrow> (string \<times> json) list" where
  "start_attributes path verb request_id trace_id =
     [(''gateway.request_id'', JStr request_id), (''http.request.method'', JStr verb)] @
     (case product_of_path path of None \<Rightarrow> [] | Some p \<Rightarrow> [(''gateway.product_id'', JStr p)]) @
     (case job_of_path path of None \<Rightarrow> [] | Some j \<Rightarrow> [(''gateway.job_id'', JStr j)]) @
     (case trace_id of None \<Rightarrow> [] | Some t \<Rightarrow> [(''gateway.trace_id'', JStr t)])"

definition set_gateway_job_id :: "string \<Rightarrow> (string \<times> json) list option \<Rightarrow> (string \<times> json) list option" where
  "set_gateway_job_id j attrs =
     map_option (\<lambda>as. if is_job_id j then dict_set (''gateway.job_id'', JStr j) as else as) attrs"

definition set_gateway_product_id :: "string \<Rightarrow> (string \<times> json) list option \<Rightarrow> (string \<times> json) list option" where
  "set_gateway_product_id p attrs =
     map_option (\<lambda>as. if is_product_number p then dict_set (''gateway.product_id'', JStr p) as else as) attrs"

definition end_attributes :: "int list \<Rightarrow> bool \<Rightarrow> int \<Rightarrow> (string \<times> json) list \<Rightarrow> (string \<times> json) list" where
  "end_attributes sent raised latency_ms as =
     (let status = (if sent = [] then 500 else last sent)
      in dict_update as
           [(''gateway.status'', JStr (if raised then ''error'' else if status < 500 then ''ok'' else ''error'')),
            (''http.response.status_code'', JInt status), (''gateway.latency_ms'', JInt latency_ms)])"

section \<open>Lemmas\<close>

text \<open>With a database behind it, or a static token, the gateway never lets in an anonymous caller.\<close>

lemma build_app_parts:
  assumes "build_app L fs parse a env = Inr A"
  shows "build_gateway L fs a env = Inr (gw_gateway A)"
    and "load_max_attempts env = Inr (gw_max_attempts A)" and "choose_dispatcher a env = Inr (gw_dispatcher A)"
    and "choose_identity a env = Inr (gw_identity A)" and "choose_principals parse env = Inr (gw_principals A)"
    and "load_exchange_rate_limiter env = Inr (gw_limiter A)"
  using assms by (auto simp: build_app_def bind_exn_Inr)

lemma load_entries_length: "load_entries kvs = Inr ps \<Longrightarrow> length ps = length kvs"
  by (induction kvs arbitrary: ps) (auto simp: bind_exn_Inr)

lemma closed_gateway:
  assumes "build_app L fs parse a env = Inr A"
    and "auth_backend env \<noteq> ''static'' \<or> (\<exists>kv kvs. parse (py_strip (env_or env ''INTEGRATION_AUTH_TOKENS'' [])) = Inr (JObj (kv # kvs)) \<and>
      py_strip (env_or env ''INTEGRATION_AUTH_TOKENS'' []) \<noteq> [])"
  shows "gw_principals A \<noteq> [] \<or> app_authenticator C e A \<noteq> None"
proof (cases "auth_backend env = ''static''")
  case True
  with assms(2) obtain kv kvs where tokens: "parse (py_strip (env_or env ''INTEGRATION_AUTH_TOKENS'' [])) = Inr (JObj (kv # kvs))"
    "py_strip (env_or env ''INTEGRATION_AUTH_TOKENS'' []) \<noteq> []" by blast
  then have "load_entries (kv # kvs) = Inr (gw_principals A)"
    using build_app_parts(5) [OF assms(1)] True
    by (simp add: choose_principals_def load_principals_def env_or_def Let_def)
  from load_entries_length [OF this] show ?thesis by auto
next
  case False
  then have "gw_identity A \<noteq> None"
    using build_app_parts(4) [OF assms(1)]
    by (cases "gw_identity A") (auto simp: choose_identity_def Let_def split: if_splits)
  then show ?thesis by (auto simp: app_authenticator_def)
qed

text \<open>Every source but the external ones is served by exactly one product, in a directory of either layout.\<close>

lemma build_gateway_products:
  assumes "build_gateway L fs a env = Inr G"
  obtains r where "ig_products G =
    map (place_product fs (fs_resolve fs r)) product_layouts"
proof -
  have "\<exists>r. ig_products G = map (place_product fs (fs_resolve fs r)) product_layouts"
    using assms by (auto simp del: map_eq_conv simp: build_gateway_def bind_exn_Inr)
  then show thesis using that by blast
qed

lemma sources_in_order:
  assumes "build_gateway L fs a env = Inr G"
  shows "map (\<lambda>p. ad_source (fst p)) (ig_products G) = [SOC, VULN, LAB, CODE, REVERSE, FIRMWARE]"
  by (rule build_gateway_products [OF assms]) (simp add: place_product_def product_layouts_def adapter_class_def soc_adapter_def
      vuln_adapter_def lab_adapter_def code_adapter_def reverse_adapter_def firmware_adapter_def)

lemma products_in_a_layout:
  assumes "build_gateway L fs a env = Inr G" and "(A, dir) \<in> set (ig_products G)"
  shows "\<exists>r current legacy. (A, current, legacy) \<in> set product_layouts \<and>
    dir = path_join (fs_resolve fs r) (if fs_is_dir fs (path_join (fs_resolve fs r) current) then current else legacy)"
proof -
  obtain r where "ig_products G =
      map (place_product fs (fs_resolve fs r)) product_layouts"
    using assms(1) by (rule build_gateway_products)
  with assms(2) obtain current legacy where "(A, current, legacy) \<in> set product_layouts"
    "dir = capability_path (fs_is_dir fs) (fs_resolve fs r) current legacy" by (auto simp: place_product_def)
  then show ?thesis by (intro exI [of _ r] exI [of _ current] exI [of _ legacy]) (simp add: capability_path_def Let_def)
qed

lemma app_serves_products:
  assumes "build_app L fs parse a env = Inr A"
  shows "ex_products (app_executor L et R G A) = - {EXTERNAL}"
proof -
  have "ex_products (app_executor L et R G A) = set (map (\<lambda>p. ad_source (fst p)) (ig_products (gw_gateway A)))"
    by (simp add: app_executor_def image_image)
  also have "\<dots> = {SOC, VULN, LAB, CODE, REVERSE, FIRMWARE}"
    unfolding sources_in_order [OF build_app_parts(1) [OF assms]] by simp
  also have "\<dots> = - {EXTERNAL}"
  proof -
    have "src \<in> {SOC, VULN, LAB, CODE, REVERSE, FIRMWARE} \<longleftrightarrow> src \<noteq> EXTERNAL" for src by (cases src) simp_all
    then show ?thesis by blast
  qed
  finally show ?thesis .
qed

lemma app_executor_made:
  assumes "build_app L fs parse a env = Inr A"
  shows "make_executor (app_executor L et R G A) = Inr (app_executor L et R G A)"
proof -
  have "1 \<le> gw_max_attempts A"
    using build_app_parts(2) [OF assms] by (auto simp: load_max_attempts_def split: option.splits if_splits)
  then show ?thesis by (simp add: make_executor_def app_executor_def)
qed

end
