(* ===== verification/Gateway_Properties.thy ===== *)
theory Gateway_Properties
  imports Gateway Access_Properties
begin

text \<open>
  What the configuration of the gateway means for access: when an anonymous request is
  refused, a configuration that asks for authentication and gets none, and which stores the
  gateway and its workers share.
\<close>

text \<open>
  C25: A gateway that was started with database authentication, or with at least one static
  token, refuses every request without credentials to every path that is not open, with
  status 401, whatever the rest of the configuration.
\<close>

theorem anonymous_refused:
  assumes "build_app L fs parse a env = Inr A"
    and "auth_backend env \<noteq> ''static'' \<or> (\<exists>kv kvs. parse (py_strip (env_or env ''INTEGRATION_AUTH_TOKENS'' [])) = Inr (JObj (kv # kvs)) \<and>
      py_strip (env_or env ''INTEGRATION_AUTH_TOKENS'' []) \<noteq> [])"
    and "rq_is_http r" and "\<not> open_path (rq_path r)" and "header ''authorization'' r = None"
  shows "app_decide C e A r d = (Inr (Deny 401 ''AUTHENTICATION_REQUIRED''), d)"
proof -
  have "gw_principals A \<noteq> [] \<or> app_authenticator C e A \<noteq> None" using assms(1,2) by (rule closed_gateway)
  moreover have "bearer_token [] = None" by (simp add: bearer_token_def)
  ultimately show ?thesis
    using assms(3-5) by (auto simp: app_decide_def decide_def open_path_def authenticate_request_def)
qed

definition empty_env :: "string \<Rightarrow> string option" where
  "empty_env k = None"

definition database_env :: "string \<Rightarrow> string option" where
  "database_env = empty_env(''INTEGRATION_AUTH_BACKEND'' \<mapsto> ''database'', ''INTEGRATION_DATABASE_URL'' \<mapsto> ''sqlite://'')"

definition anonymous_request :: "string \<Rightarrow> http_request" where
  "anonymous_request path = \<lparr>rq_is_http = True, rq_path = path, rq_method = ''DELETE'', rq_headers = []\<rparr>"

definition sample_files :: files where
  "sample_files = \<lparr>fs_expanduser = Inr, fs_resolve = (\<lambda>p. p), fs_is_dir = (\<lambda>p. True), fs_checkout = ''/suite''\<rparr>"

definition no_json :: "string \<Rightarrow> exn + json" where
  "no_json s = Inl (ValueError s)"

theorem anonymous_refused_witness:
  "\<exists>A. build_app sample_core sample_files no_json no_args database_env = Inr A \<and>
    app_decide sample_crypto (sample_env 1 ''x'') A (anonymous_request ''/v1/admin/keys'') empty_db =
      (Inr (Deny 401 ''AUTHENTICATION_REQUIRED''), empty_db)"
proof -
  have "case build_app sample_core sample_files no_json no_args database_env of Inr A \<Rightarrow> True | _ \<Rightarrow> False" by code_simp
  then obtain A where A: "build_app sample_core sample_files no_json no_args database_env = Inr A" by (auto split: sum.splits)
  have backend: "auth_backend database_env \<noteq> ''static''" by code_simp
  have request: "rq_is_http (anonymous_request ''/v1/admin/keys'')"
    "\<not> open_path (rq_path (anonymous_request ''/v1/admin/keys''))"
    "header ''authorization'' (anonymous_request ''/v1/admin/keys'') = None" by code_simp+
  show ?thesis using A anonymous_refused [OF A disjI1 [OF backend] request] by blast
qed

definition required_env :: "string \<Rightarrow> string option" where
  "required_env = empty_env(''INTEGRATION_AUTH_REQUIRED'' \<mapsto> ''true'', ''INTEGRATION_AUTH_TOKENS'' \<mapsto> ''{}'')"

text \<open>
  C38: Requiring authentication does not imply having it. With authentication required and the
  token variable set to an empty JSON object the gateway starts, and it then calls the
  application as an administrator of the default tenant for every anonymous request: the
  check for required tokens looks at the text of the variable, not at the tokens in it.
\<close>

theorem required_yet_open:
  assumes "parse ''{}'' = Inr (JObj [])"
  shows "\<exists>A. build_app L fs parse no_args required_env = Inr A \<and>
    (\<forall>C e r d. rq_is_http r \<and> \<not> open_path (rq_path r) \<longrightarrow>
      app_decide C e A r d = (Inr (Call_as (plain_principal ''default'' ''admin'')), d))"
proof -
  have "\<exists>G. build_gateway L fs no_args required_env = Inr G"
  proof -
    have "py_strip [] = []" by code_simp
    then have "suite_root fs required_env = Inr (fs_checkout fs)"
      by (simp add: suite_root_def env_or_def required_env_def empty_env_def)
    then show ?thesis by (simp add: build_gateway_def no_args_def same_host_rule_def)
  qed
  then obtain G where gateway: "build_gateway L fs no_args required_env = Inr G" ..
  have attempts: "load_max_attempts required_env = Inr 2" by code_simp
  have disp: "choose_dispatcher no_args required_env = Inr Dispatcher_inline" by code_simp
  have ident: "choose_identity no_args required_env = Inr None" by code_simp
  have "case load_exchange_rate_limiter required_env of Inr l \<Rightarrow> True | _ \<Rightarrow> False" by code_simp
  then obtain l where limiter: "load_exchange_rate_limiter required_env = Inr l" by (auto split: sum.splits)
  have backend: "auth_backend required_env = ''static''" by code_simp
  have strip: "py_strip ''{}'' = ''{}''" by code_simp
  have tokens: "required_env ''INTEGRATION_AUTH_TOKENS'' = Some ''{}''" by code_simp
  have principals: "choose_principals parse required_env = Inr []"
    using assms by (simp add: choose_principals_def backend tokens load_principals_def strip)
  show ?thesis
    by (simp add: build_app_def gateway attempts disp ident principals limiter app_decide_def app_authenticator_def
        decide_def open_path_def)
qed

theorem required_yet_open_witness:
  "\<exists>A. build_app sample_core sample_files (\<lambda>s. if s = ''{}'' then Inr (JObj []) else no_json s) no_args required_env = Inr A \<and>
    app_decide sample_crypto (sample_env 1 ''x'') A (anonymous_request ''/v1/admin/keys'') empty_db =
      (Inr (Call_as (plain_principal ''default'' ''admin'')), empty_db)"
proof -
  have "rq_is_http (anonymous_request ''/v1/admin/keys'') \<and> \<not> open_path (rq_path (anonymous_request ''/v1/admin/keys''))"
    by code_simp
  with required_yet_open [where L = sample_core and fs = sample_files and parse = "\<lambda>s. if s = ''{}'' then Inr (JObj []) else no_json s"] show ?thesis by auto
qed

text \<open>
  The gateway and its Celery workers read the same environment to the same stores: if the
  gateway was built from the environment alone, a worker opens the job repository the gateway
  has, composes the same gateway of products, registry and rule, and makes the same number of
  attempts, except where the gateway keeps its findings in memory only; then every worker
  refuses its jobs with a RuntimeError.
\<close>

theorem workers_share_stores:
  assumes "build_app L fs parse no_args env = Inr A"
  shows "if ig_registry (gw_gateway A) = Registry_memory then \<exists>msg. execute_job L fs env = Inl (RuntimeError msg)
    else execute_job L fs env = Inr \<lparr>wk_jobs = gw_jobs A, wk_gateway = gw_gateway A, wk_max_attempts = gw_max_attempts A\<rparr>"
proof -
  let ?url = "env ''INTEGRATION_DATABASE_URL''" and ?path = "env ''INTEGRATION_DB_PATH''"
  have "\<not> truthy None" by (simp add: truthy_def)
  then have choices: "choose_registry (no_args\<lparr>ga_database_path := ?path, ga_database_url := ?url\<rparr>) env = choose_registry no_args env"
    "given_or_env (ga_database_url no_args) env ''INTEGRATION_DATABASE_URL'' = ?url"
    "given_or_env (ga_database_path no_args) env ''INTEGRATION_DB_PATH'' = ?path"
    by (auto simp: choose_registry_def no_args_def given_or_env_def)
  then have gateway: "build_gateway L fs (no_args\<lparr>ga_database_path := ?path, ga_database_url := ?url\<rparr>) env = Inr (gw_gateway A)"
    using build_app_parts(1) [OF assms] by (simp add: build_gateway_def no_args_def)
  have "ig_registry (gw_gateway A) = choose_registry no_args env" "gw_jobs A = choose_jobs no_args env"
    using assms by (auto simp: build_app_def build_gateway_def bind_exn_Inr)
  then show ?thesis
    using build_app_parts(2) [OF assms] gateway
    by (auto simp: execute_job_def choose_registry_def choose_jobs_def choices Let_def) (auto simp: no_args_def)
qed

theorem workers_share_stores_witness:
  "\<exists>A. build_app sample_core sample_files no_json no_args database_env = Inr A \<and> execute_job sample_core sample_files database_env =
    Inr \<lparr>wk_jobs = gw_jobs A, wk_gateway = gw_gateway A, wk_max_attempts = gw_max_attempts A\<rparr>"
proof -
  have "case build_app sample_core sample_files no_json no_args database_env of
      Inr A \<Rightarrow> ig_registry (gw_gateway A) \<noteq> Registry_memory | _ \<Rightarrow> False" by code_simp
  then obtain A where A: "build_app sample_core sample_files no_json no_args database_env = Inr A"
    "ig_registry (gw_gateway A) \<noteq> Registry_memory"
    by (auto split: sum.splits)
  with workers_share_stores [OF A(1)] show ?thesis by auto
qed

end
