(* ===== verification/Fixtures.thy ===== *)
theory Fixtures
  imports Identity Api_V1
begin

text \<open>
  The fixture scripts (\<^verbatim>\<open>scripts/seed_rbac_e2e.py\<close>, \<^verbatim>\<open>scripts/seed_e2e.py\<close>): they
  write and delete rows of the shared database directly. Deletes follow the foreign keys the
  row classes declare: cascading, set null, or restricted. \<open>ci\<close> says that the database's
  \<^verbatim>\<open>LIKE\<close> ignores case (SQLite's does, PostgreSQL's does not). The values \<^verbatim>\<open>001\<close> to
  \<^verbatim>\<open>006\<close> of a source column are the members of the source enumeration.
\<close>

section \<open>Deletes\<close>

definition delete_jobs :: "(job_row \<Rightarrow> bool) \<Rightarrow> database \<Rightarrow> database" where
  "delete_jobs P d = d\<lparr>db_jobs := filter (\<lambda>r. \<not> P r) (db_jobs d),
     db_job_events := filter (\<lambda>x. \<not> (\<exists>r \<in> set (db_jobs d). P r \<and> is_event_of (j_tenant_id r) (j_id r) x)) (db_job_events d)\<rparr>"

definition delete_correlations :: "(correlation_row \<Rightarrow> bool) \<Rightarrow> database \<Rightarrow> database" where
  "delete_correlations P d = d\<lparr>db_correlations := filter (\<lambda>r. \<not> P r) (db_correlations d),
     db_correlation_findings := filter (\<lambda>l. \<not> (\<exists>r \<in> set (db_correlations d). P r \<and>
       cr_tenant_id r = cf_tenant_id l \<and> cr_id r = cf_correlation_id l)) (db_correlation_findings d)\<rparr>"

definition delete_tenants :: "(tenant_row \<Rightarrow> bool) \<Rightarrow> database \<Rightarrow> database" where
  "delete_tenants P d =
     (let gone = (\<lambda>t. \<exists>r \<in> set (db_tenants d). P r \<and> t_id r = t);
          d1 = delete_correlations (\<lambda>r. gone (cr_tenant_id r)) (delete_jobs (\<lambda>r. gone (j_tenant_id r)) d)
      in d1\<lparr>db_tenants := filter (\<lambda>r. \<not> P r) (db_tenants d),
            db_memberships := filter (\<lambda>r. \<not> gone (m_tenant_id r)) (db_memberships d),
            db_api_keys := filter (\<lambda>r. \<not> gone (k_tenant_id r)) (db_api_keys d),
            db_sessions := filter (\<lambda>r. \<not> gone (s_tenant_id r)) (db_sessions d),
            db_findings := filter (\<lambda>r. \<not> gone (fr_tenant_id r)) (db_findings d),
            db_audit_events := filter (\<lambda>r. \<not> gone (a_tenant_id r)) (db_audit_events d)\<rparr>)"

definition delete_users :: "(user_row \<Rightarrow> bool) \<Rightarrow> database \<Rightarrow> database" where
  "delete_users P d =
     (let gone = (\<lambda>u. \<exists>r \<in> set (db_users d). P r \<and> u_id r = u)
      in d\<lparr>db_users := filter (\<lambda>r. \<not> P r) (db_users d),
           db_memberships := filter (\<lambda>r. \<not> gone (m_user_id r)) (db_memberships d),
           db_sessions := filter (\<lambda>r. \<not> gone (s_user_id r)) (db_sessions d)\<rparr>)"

text \<open>A client with a session is not deleted; one that was rotated from it forgets it.\<close>

definition delete_clients :: "(client_row \<Rightarrow> bool) \<Rightarrow> database \<Rightarrow> exn + database" where
  "delete_clients P d =
     (let gone = (\<lambda>i. \<exists>r \<in> set (db_clients d). P r \<and> i_id r = i)
      in if \<exists>s \<in> set (db_sessions d). gone (s_identity_client_id s) then Inl IntegrityError
         else Inr (d\<lparr>db_clients := upd_where (\<lambda>r. case i_rotated_from_id r of None \<Rightarrow> False | Some i \<Rightarrow> gone i)
                (\<lambda>r. r\<lparr>i_rotated_from_id := None\<rparr>) (filter (\<lambda>r. \<not> P r) (db_clients d))\<rparr>))"

definition like_prefix :: "bool \<Rightarrow> string \<Rightarrow> string \<Rightarrow> bool" where
  "like_prefix ci p s =
     (if ci then startswith (py_lower p) (py_lower s) else startswith p s)"

section \<open>The role fixture\<close>

definition issuer :: string where
  "issuer = ''https://chatgpt.com/''"

definition personas :: "(string \<times> string \<times> string option) list" where
  "personas =
     [(''viewer'', ''viewer'', Some ''a''), (''analyst'', ''analyst'', Some ''a''), (''admin'', ''admin'', Some ''a''),
      (''cross'', ''viewer'', Some ''b''), (''revoked'', ''viewer'', Some ''a''), (''expiring'', ''analyst'', Some ''a''),
      (''logout'', ''analyst'', Some ''a''), (''refresh'', ''viewer'', Some ''a''), (''no-member'', ''viewer'', None)]"

definition normalize_run_id :: "string \<Rightarrow> exn + string" where
  "normalize_run_id v =
     (let s = py_lower (py_strip v)
      in if s \<noteq> [] \<and> length s \<le> 32 \<and> slug_char (hd s) \<and> slug_char (last s) \<and>
            list_all (\<lambda>c. slug_char c \<or> c = CHR ''-'') s
         then Inr s
         else Inl (ValueError ''run-id must contain 1 to 32 lowercase letters, digits, or internal hyphens''))"

definition tenant_id :: "string \<Rightarrow> string \<Rightarrow> string" where
  "tenant_id n side = ''e2e-rbac-'' @ n @ ''-'' @ side"

definition subject :: "string \<Rightarrow> string \<Rightarrow> string" where
  "subject n persona = ''e2e-rbac:'' @ n @ '':'' @ persona"

definition client_name :: "string \<Rightarrow> string" where
  "client_name n = ''[e2e-rbac:'' @ n @ ''] Dashboard BFF''"

definition fixture_tenants :: "string \<Rightarrow> string list" where
  "fixture_tenants n = [tenant_id n ''a'', tenant_id n ''b'']"

definition fixture_user :: "bool \<Rightarrow> string \<Rightarrow> user_row \<Rightarrow> bool" where
  "fixture_user ci n r \<longleftrightarrow> u_issuer r = issuer \<and> like_prefix ci (subject n []) (u_subject r)"

definition fixture_client :: "string \<Rightarrow> client_row \<Rightarrow> bool" where
  "fixture_client n r \<longleftrightarrow> i_name r = client_name n"

text \<open>The two subqueries.\<close>

definition user_ids :: "bool \<Rightarrow> string \<Rightarrow> database \<Rightarrow> string list" where
  "user_ids ci n d = map u_id (filter (fixture_user ci n) (db_users d))"

definition client_ids :: "string \<Rightarrow> database \<Rightarrow> string list" where
  "client_ids n d = map i_id (filter (fixture_client n) (db_clients d))"

definition fixture_session :: "bool \<Rightarrow> string \<Rightarrow> database \<Rightarrow> session_row \<Rightarrow> bool" where
  "fixture_session ci n d s \<longleftrightarrow> s_tenant_id s \<in> set (fixture_tenants n) \<or>
     s_user_id s \<in> set (user_ids ci n d) \<or> s_identity_client_id s \<in> set (client_ids n d)"

record fixture_counts =
  fx_tenants :: int
  fx_users :: int
  fx_clients :: int
  fx_sessions :: int
  fx_findings :: int
  fx_jobs :: int

definition how_many_rows :: "('r \<Rightarrow> bool) \<Rightarrow> 'r list \<Rightarrow> int" where
  "how_many_rows P rs = int (length (filter P rs))"

definition count_fixture :: "bool \<Rightarrow> string \<Rightarrow> database \<Rightarrow> fixture_counts" where
  "count_fixture ci n d =
     \<lparr>fx_tenants = how_many_rows (\<lambda>r. t_id r \<in> set (fixture_tenants n)) (db_tenants d),
      fx_users = how_many_rows (\<lambda>r. u_id r \<in> set (user_ids ci n d)) (db_users d),
      fx_clients = how_many_rows (\<lambda>r. i_id r \<in> set (client_ids n d)) (db_clients d),
      fx_sessions = how_many_rows (fixture_session ci n d) (db_sessions d),
      fx_findings = how_many_rows (\<lambda>r. fr_tenant_id r \<in> set (fixture_tenants n)) (db_findings d),
      fx_jobs = how_many_rows (\<lambda>r. j_tenant_id r \<in> set (fixture_tenants n)) (db_jobs d)\<rparr>"

definition no_fixture :: fixture_counts where
  "no_fixture = \<lparr>fx_tenants = 0, fx_users = 0, fx_clients = 0, fx_sessions = 0, fx_findings = 0, fx_jobs = 0\<rparr>"

definition snapshot :: "bool \<Rightarrow> string \<Rightarrow> database \<Rightarrow> exn + fixture_counts" where
  "snapshot ci run d = bind_exn (normalize_run_id run) (\<lambda>n. Inr (count_fixture ci n d))"

text \<open>The deletes in the order of the script, in one transaction.\<close>

definition cleanup_tx :: "bool \<Rightarrow> string \<Rightarrow> database \<Rightarrow> exn + unit \<times> database" where
  "cleanup_tx ci n d =
     (let mine = (\<lambda>t. t \<in> set (fixture_tenants n));
          d1 = d\<lparr>db_correlation_findings := filter (\<lambda>l. \<not> mine (cf_tenant_id l)) (db_correlation_findings d)\<rparr>;
          d2 = delete_correlations (\<lambda>r. mine (cr_tenant_id r)) d1;
          d3 = d2\<lparr>db_findings := filter (\<lambda>r. \<not> mine (fr_tenant_id r)) (db_findings d2)\<rparr>;
          d4 = d3\<lparr>db_job_events := filter (\<lambda>x. \<not> mine (ev_tenant_id x)) (db_job_events d3)\<rparr>;
          d5 = delete_jobs (\<lambda>r. mine (j_tenant_id r)) d4;
          d6 = d5\<lparr>db_audit_events := filter (\<lambda>r. \<not> mine (a_tenant_id r)) (db_audit_events d5)\<rparr>;
          d7 = d6\<lparr>db_api_keys := filter (\<lambda>r. \<not> mine (k_tenant_id r)) (db_api_keys d6)\<rparr>;
          d8 = d7\<lparr>db_memberships := filter (\<lambda>r. \<not> mine (m_tenant_id r)) (db_memberships d7)\<rparr>;
          d9 = d8\<lparr>db_sessions := filter (\<lambda>s. \<not> fixture_session ci n d8 s) (db_sessions d8)\<rparr>;
          d10 = delete_tenants (\<lambda>r. mine (t_id r)) d9
      in bind_exn (delete_clients (fixture_client n) d10) (\<lambda>d11.
         Inr ((), delete_users (fixture_user ci n) d11)))"

definition cleanup :: "bool \<Rightarrow> string \<Rightarrow> database \<Rightarrow> (exn + fixture_counts) \<times> database" where
  "cleanup ci run d =
     (case normalize_run_id run of
        Inl x \<Rightarrow> (Inl x, d)
      | Inr n \<Rightarrow>
          (case commit (cleanup_tx ci n d) d of
             (Inl x, d1) \<Rightarrow> (Inl x, d1)
           | (Inr _, d1) \<Rightarrow>
               if count_fixture ci n d1 \<noteq> no_fixture then (Inl (RuntimeError ''fixture cleanup incomplete''), d1)
               else (Inr (count_fixture ci n d), d1)))"

section \<open>Provisioning\<close>

definition fixture_title :: "string \<Rightarrow> string \<Rightarrow> string" where
  "fixture_title n side = ''E2E RBAC '' @ py_upper n @ '' TENANT '' @ py_upper side"

definition fixture_job_id :: "hashing \<Rightarrow> string \<Rightarrow> string \<Rightarrow> string" where
  "fixture_job_id H n side = ''job_'' @ take 32 (sha256_hex H (''e2e-rbac:'' @ n @ '':'' @ side @ '':job''))"

definition fixture_finding :: "hashing \<Rightarrow> time \<Rightarrow> string \<Rightarrow> string \<Rightarrow> database \<Rightarrow> finding_row" where
  "fixture_finding H ts n side d =
     (let t = tenant_id n side; fid = ''e2e-rbac-'' @ n @ ''-'' @ side @ ''-finding'';
          asset = side @ ''-asset.e2e.invalid''; title = fixture_title n side
      in \<lparr>fr_row_id = next_row_id d, fr_tenant_id = t, fr_finding_id = fid,
          fr_fingerprint = ''e2e:'' @ take 60 (sha256_hex H (t @ '':'' @ fid)),
          fr_source = SOC, fr_severity = HIGH, fr_confidence = 99/100, fr_status = ''open'', fr_asset = Some asset,
          fr_cve = None, fr_title = title, fr_description = ''isolated browser RBAC fixture'', fr_first_seen = ts,
          fr_last_seen = ts, fr_occurrences = 1, fr_job_id = None, fr_assigned_to = None,
          fr_payload =
            [(''id'', JStr fid), (''source'', JStr ''001''), (''severity'', JStr ''high''), (''confidence'', JFloat (99/100)),
             (''title'', JStr title), (''description'', JStr ''isolated browser RBAC fixture''), (''host'', JStr asset),
             (''cve'', JNull), (''ts'', JStr (isoformat ts)), (''evidence'', JArr []), (''related'', JArr []),
             (''tags'', JArr [JStr ''e2e-rbac'']),
             (''metadata'', JObj [(''fixture'', JStr ''e2e-rbac''), (''run_id'', JStr n)])],
          fr_created_at = ts, fr_updated_at = ts\<rparr>)"

definition fixture_job :: "hashing \<Rightarrow> time \<Rightarrow> string \<Rightarrow> string \<Rightarrow> job_row" where
  "fixture_job H ts n side = job_record.extend
     \<lparr>j_id = fixture_job_id H n side, j_tenant_id = tenant_id n side, j_source = SOC,
      j_payload = JObj [(''fixture'', JStr ''e2e-rbac''), (''run_id'', JStr n)], j_status = SUCCEEDED,
      j_created_at = ts, j_updated_at = ts, j_idempotency_key = None, j_dispatch_id = None, j_attempt = 1,
      j_cancel_requested = False, j_result_count = 1, j_error_code = None, j_error_message = None\<rparr>
     (job_row.fields ''fast'' 1 None None)"

definition seed_tenant :: "hashing \<Rightarrow> time \<Rightarrow> string \<Rightarrow> string \<Rightarrow> database \<Rightarrow> exn + database" where
  "seed_tenant H ts n side d =
     bind_exn (insert_finding (fixture_finding H ts n side d) d) (insert_job (fixture_job H ts n side))"

definition seed_resources ::
  "hashing \<Rightarrow> time \<Rightarrow> string \<Rightarrow> database \<Rightarrow> (exn + (string \<times> json) list) \<times> database" where
  "seed_resources H ts n d =
     commit
       (bind_exn (seed_tenant H ts n ''a'' d) (\<lambda>d1.
        bind_exn (seed_tenant H ts n ''b'' d1) (\<lambda>d2.
        Inr ([(''tenant_a_finding_title'', JStr (fixture_title n ''a'')), (''tenant_a_job_id'', JStr (fixture_job_id H n ''a'')),
              (''tenant_b_finding_title'', JStr (fixture_title n ''b'')), (''tenant_b_job_id'', JStr (fixture_job_id H n ''b''))],
             d2)))) d"

text \<open>
  The environments of the calls: \<open>env k\<close> is that of the \<open>k\<close>-th persona's user and
  membership; a call that fails ends the run, and then everything of the run is deleted.
\<close>

record provision_env =
  pe_tenant_a :: call_env
  pe_tenant_b :: call_env
  pe_user :: "string \<Rightarrow> call_env"
  pe_member :: "string \<Rightarrow> call_env"
  pe_client :: secret_env
  pe_seeded :: time

definition seed_persona ::
  "provision_env \<Rightarrow> string \<Rightarrow> string \<times> string \<times> string option \<Rightarrow> database \<Rightarrow> (exn + string \<times> json) \<times> database" where
  "seed_persona E n p d =
     (case p of (persona, role, side) \<Rightarrow>
        (case upsert_user (pe_user E persona) issuer (subject n persona)
                (Some (persona @ ''.'' @ n @ ''@e2e.invalid'')) (Some (''E2E '' @ persona)) d of
           (Inl x, d1) \<Rightarrow> (Inl x, d1)
         | (Inr user, d1) \<Rightarrow>
             let identity = (persona, JObj
                   [(''subject'', JStr (u_subject user)), (''email'', JStr (coalesce (u_email user) [])),
                    (''display_name'', JStr (coalesce (u_display_name user) []))])
             in (case side of
                   None \<Rightarrow> (Inr identity, d1)
                 | Some x \<Rightarrow>
                     (case set_membership (pe_member E persona) (tenant_id n x) (u_id user) role ''e2e-rbac-fixture'' d1 of
                        (Inl exc, d2) \<Rightarrow> (Inl exc, d2)
                      | (Inr _, d2) \<Rightarrow> (Inr identity, d2)))))"

fun seed_personas ::
  "provision_env \<Rightarrow> string \<Rightarrow> (string \<times> string \<times> string option) list \<Rightarrow> database \<Rightarrow>
    (exn + (string \<times> json) list) \<times> database" where
  "seed_personas E n [] d = (Inr [], d)"
| "seed_personas E n (p # ps) d =
     (case seed_persona E n p d of
        (Inl x, d1) \<Rightarrow> (Inl x, d1)
      | (Inr i, d1) \<Rightarrow>
          (case seed_personas E n ps d1 of
             (Inl x, d2) \<Rightarrow> (Inl x, d2)
           | (Inr is, d2) \<Rightarrow> (Inr (i # is), d2)))"

definition provision_body ::
  "crypto \<Rightarrow> hashing \<Rightarrow> provision_env \<Rightarrow> string \<Rightarrow> database \<Rightarrow> (exn + json) \<times> database" where
  "provision_body C H E n d =
     (case create_tenant (pe_tenant_a E) (tenant_id n ''a'') (tenant_id n ''a'') (''E2E RBAC '' @ n @ '' Tenant A'') 90
             ''e2e-rbac-fixture'' d of
        (Inl x, d1) \<Rightarrow> (Inl x, d1)
      | (Inr _, d1) \<Rightarrow>
     (case create_tenant (pe_tenant_b E) (tenant_id n ''b'') (tenant_id n ''b'') (''E2E RBAC '' @ n @ '' Tenant B'') 90
             ''e2e-rbac-fixture'' d1 of
        (Inl x, d2) \<Rightarrow> (Inl x, d2)
      | (Inr _, d2) \<Rightarrow>
     (case seed_personas E n personas d2 of
        (Inl x, d3) \<Rightarrow> (Inl x, d3)
      | (Inr identities, d3) \<Rightarrow>
     (case issue_identity_client C (pe_client E) (client_name n) [issuer] d3 of
        (Inl x, d4) \<Rightarrow> (Inl x, d4)
      | (Inr (client, token), d4) \<Rightarrow>
     (case seed_resources H (pe_seeded E) n d4 of
        (Inl x, d5) \<Rightarrow> (Inl x, d5)
      | (Inr resources, d5) \<Rightarrow>
          (Inr (JObj ([(''run_id'', JStr n), (''issuer'', JStr issuer), (''tenant_a'', JStr (tenant_id n ''a'')),
              (''tenant_b'', JStr (tenant_id n ''b'')), (''identity_client_id'', JStr (ir_id client)),
              (''bridge_token'', JStr token), (''identities'', JObj identities)] @ resources)), d5))))))"

definition provision ::
  "bool \<Rightarrow> crypto \<Rightarrow> hashing \<Rightarrow> provision_env \<Rightarrow> string \<Rightarrow> database \<Rightarrow> (exn + json) \<times> database" where
  "provision ci C H E run d =
     (case normalize_run_id run of
        Inl x \<Rightarrow> (Inl x, d)
      | Inr n \<Rightarrow>
          (case cleanup ci n d of
             (Inl x, d1) \<Rightarrow> (Inl x, d1)
           | (Inr _, d1) \<Rightarrow>
               (case provision_body C H E n d1 of
                  (Inr v, d2) \<Rightarrow> (Inr v, d2)
                | (Inl x, d2) \<Rightarrow>
                    (case cleanup ci n d2 of (Inl y, d3) \<Rightarrow> (Inl y, d3) | (Inr _, d3) \<Rightarrow> (Inl x, d3)))))"

section \<open>Changing the fixture\<close>

definition persona_user :: "string \<Rightarrow> string \<Rightarrow> database \<Rightarrow> string option" where
  "persona_user n persona d = map_option u_id (find (is_user issuer (subject n persona)) (db_users d))"

text \<open>The tenant (\<open>a\<close> or \<open>b\<close>) of a persona that is a member.\<close>

definition member_side :: "string \<Rightarrow> exn + string" where
  "member_side persona =
     (case map_of personas persona of
        Some (role, Some x) \<Rightarrow> Inr x
      | _ \<Rightarrow> Inl (ValueError ''persona must identify a fixture member''))"

definition suspend_persona ::
  "call_env \<Rightarrow> string \<Rightarrow> string \<Rightarrow> string \<Rightarrow> database \<Rightarrow> (exn + json) \<times> database" where
  "suspend_persona e run persona status d =
     (case bind_exn (normalize_run_id run) (\<lambda>n.
           bind_exn (member_side persona) (\<lambda>x.
           if status \<notin> {''active'', ''suspended''} then Inl (ValueError ''status must be active or suspended'')
           else if \<not> truthy (persona_user n persona d) then Inl (KeyError ''fixture persona not found'')
           else Inr (n, x))) of
        Inl exc \<Rightarrow> (Inl exc, d)
      | Inr (n, x) \<Rightarrow>
          (case set_membership_status e (tenant_id n x) (the (persona_user n persona d)) status ''e2e-rbac-fixture'' d of
             (Inl exc, d1) \<Rightarrow> (Inl exc, d1)
           | (Inr _, d1) \<Rightarrow>
               (Inr (JObj [(''run_id'', JStr n), (''persona'', JStr persona), (''status'', JStr status)]), d1)))"

definition expire_sessions :: "time \<Rightarrow> string \<Rightarrow> string \<Rightarrow> database \<Rightarrow> (exn + int) \<times> database" where
  "expire_sessions ts run persona d =
     commit
       (bind_exn (normalize_run_id run) (\<lambda>n.
        bind_exn (member_side persona) (\<lambda>x.
        if \<not> truthy (persona_user n persona d) then Inl (KeyError ''fixture persona not found'')
        else
          (let mine = (\<lambda>s. s_tenant_id s = tenant_id n x \<and> s_user_id s = the (persona_user n persona d))
           in Inr (how_many_rows mine (db_sessions d),
                   d\<lparr>db_sessions := upd_where mine (\<lambda>s. s\<lparr>s_expires_at := ts - 1000000\<rparr>) (db_sessions d)\<rparr>))))) d"

section \<open>The demo data\<close>

text \<open>
  \<^verbatim>\<open>seed_e2e.py\<close>. Its titles and the message of the failed job are Chinese text, outside
  the model's alphabet: \<open>title k\<close> is that of the \<open>k\<close>-th entry.
\<close>

record seed_entry =
  se_source :: finding_source
  se_severity :: finding_severity
  se_confidence :: rat
  se_title :: string
  se_asset :: "string option"
  se_cve :: "string option"
  se_occurrences :: int
  se_status :: string
  se_assigned_to :: "string option"
  se_minutes_ago :: int

definition seed_findings :: "(nat \<Rightarrow> string) \<Rightarrow> seed_entry list" where
  "seed_findings title =
     [\<lparr>se_source = FIRMWARE, se_severity = CRITICAL, se_confidence = 98/100, se_title = title 0,
       se_asset = Some ''edge-gateway-07'', se_cve = Some ''CVE-2024-3094'', se_occurrences = 3, se_status = ''open'',
       se_assigned_to = None, se_minutes_ago = 4\<rparr>,
      \<lparr>se_source = SOC, se_severity = HIGH, se_confidence = 94/100, se_title = title 1,
       se_asset = Some ''auth-prod-02'', se_cve = None, se_occurrences = 8, se_status = ''confirmed'',
       se_assigned_to = Some ''SOC Team'', se_minutes_ago = 12\<rparr>,
      \<lparr>se_source = CODE, se_severity = HIGH, se_confidence = 91/100, se_title = title 2,
       se_asset = Some ''payments-api'', se_cve = None, se_occurrences = 1, se_status = ''open'',
       se_assigned_to = None, se_minutes_ago = 22\<rparr>,
      \<lparr>se_source = LAB, se_severity = MEDIUM, se_confidence = 88/100, se_title = title 3,
       se_asset = Some ''research-agent'', se_cve = None, se_occurrences = 2, se_status = ''open'',
       se_assigned_to = None, se_minutes_ago = 31\<rparr>,
      \<lparr>se_source = VULN, se_severity = MEDIUM, se_confidence = 86/100, se_title = title 4,
       se_asset = Some ''vpn.example.internal'', se_cve = Some ''CVE-2023-23397'', se_occurrences = 2,
       se_status = ''accepted_risk'', se_assigned_to = None, se_minutes_ago = 47\<rparr>,
      \<lparr>se_source = REVERSE, se_severity = LOW, se_confidence = 79/100, se_title = title 5,
       se_asset = Some ''sample-98af.exe'', se_cve = None, se_occurrences = 1, se_status = ''resolved'',
       se_assigned_to = None, se_minutes_ago = 71\<rparr>,
      \<lparr>se_source = SOC, se_severity = INFO, se_confidence = 65/100, se_title = title 6,
       se_asset = Some ''scheduler'', se_cve = None, se_occurrences = 1, se_status = ''open'',
       se_assigned_to = None, se_minutes_ago = 95\<rparr>]"

definition seed_fingerprint :: "core_lib \<Rightarrow> hashing \<Rightarrow> string \<Rightarrow> seed_entry \<Rightarrow> string" where
  "seed_fingerprint L H t x = ''e2e:'' @ take 60 (sha256_hex H (dumps (float_repr H) (json_sorted (JObj
     [(''tenant'', JStr t), (''source'', JStr (source_value L (se_source x))), (''title'', JStr (se_title x)),
      (''asset'', json_opt (se_asset x)), (''cve'', json_opt (se_cve x))]))))"

definition minutes :: "int \<Rightarrow> time" where
  "minutes n = n * 60000000"

definition seed_row :: "core_lib \<Rightarrow> hashing \<Rightarrow> time \<Rightarrow> string \<Rightarrow> seed_entry \<Rightarrow> database \<Rightarrow> finding_row" where
  "seed_row L H ts t x d =
     (let fp = seed_fingerprint L H t x
      in \<lparr>fr_row_id = next_row_id d, fr_tenant_id = t, fr_finding_id = ''e2e-'' @ take 16 fp, fr_fingerprint = fp,
          fr_source = se_source x, fr_severity = se_severity x, fr_confidence = se_confidence x, fr_status = se_status x,
          fr_asset = se_asset x, fr_cve = se_cve x, fr_title = se_title x, fr_description = [],
          fr_first_seen = ts - minutes (se_minutes_ago x + 5), fr_last_seen = ts - minutes (se_minutes_ago x),
          fr_occurrences = se_occurrences x, fr_job_id = None, fr_assigned_to = se_assigned_to x,
          fr_payload = [(''seeded_by'', JStr ''seed_e2e''), (''asset'', json_opt (se_asset x)),
            (''cve'', json_opt (se_cve x)), (''assigned_to'', json_opt (se_assigned_to x))],
          fr_created_at = ts, fr_updated_at = ts\<rparr>)"

fun insert_seeds :: "core_lib \<Rightarrow> hashing \<Rightarrow> time \<Rightarrow> string \<Rightarrow> seed_entry list \<Rightarrow> database \<Rightarrow> exn + database" where
  "insert_seeds L H ts t [] d = Inr d"
| "insert_seeds L H ts t (x # xs) d = bind_exn (insert_finding (seed_row L H ts t x d) d) (insert_seeds L H ts t xs)"

definition seed_job ::
  "time \<Rightarrow> string \<Rightarrow> string \<Rightarrow> int \<times> job_status \<times> finding_source \<times> string \<times> rat \<times> int \<Rightarrow> job_row" where
  "seed_job ts message t spec =
     (case spec of (k, st, src, queue, progress, results) \<Rightarrow> job_record.extend
        \<lparr>j_id = ''e2e-job-'' @ zfill 3 k, j_tenant_id = t, j_source = src,
         j_payload = JObj [(''seeded_by'', JStr ''seed_e2e'')], j_status = st,
         j_created_at = ts - minutes (20 + k * 15), j_updated_at = ts - minutes (15 + k * 15),
         j_idempotency_key = None, j_dispatch_id = None, j_attempt = 1, j_cancel_requested = False,
         j_result_count = results,
         j_error_code = (if st \<noteq> FAILED then None else Some ''ADAPTER_TIMEOUT''),
         j_error_message = (if st \<noteq> FAILED then None else Some message)\<rparr>
        (job_row.fields queue progress None None))"

definition seed_jobs :: "time \<Rightarrow> string \<Rightarrow> string \<Rightarrow> job_row list" where
  "seed_jobs ts message t = map (seed_job ts message t)
     [(0, RUNNING, CODE, ''analysis'', 1/2, 2), (1, SUCCEEDED, SOC, ''fast'', 1, 1), (2, FAILED, FIRMWARE, ''sandbox'', 3/10, 0)]"

fun insert_jobs :: "job_row list \<Rightarrow> database \<Rightarrow> exn + database" where
  "insert_jobs [] d = Inr d"
| "insert_jobs (r # rs) d = bind_exn (insert_job r d) (insert_jobs rs)"

definition reset_seeds :: "bool \<Rightarrow> string \<Rightarrow> database \<Rightarrow> database" where
  "reset_seeds ci t d =
     (let d1 = d\<lparr>db_findings := filter (\<lambda>r. \<not> (fr_tenant_id r = t \<and> like_prefix ci ''e2e:'' (fr_fingerprint r))) (db_findings d)\<rparr>;
          d2 = d1\<lparr>db_job_events := filter (\<lambda>x. \<not> (ev_tenant_id x = t \<and> like_prefix ci ''e2e-job-'' (ev_job_id x))) (db_job_events d1)\<rparr>
      in delete_jobs (\<lambda>r. j_tenant_id r = t \<and> like_prefix ci ''e2e-job-'' (j_id r)) d2)"

text \<open>The answer has the counts of the findings and the jobs.\<close>

definition seed ::
  "bool \<Rightarrow> core_lib \<Rightarrow> hashing \<Rightarrow> time \<Rightarrow> (nat \<Rightarrow> string) \<Rightarrow> string \<Rightarrow> string \<Rightarrow> bool \<Rightarrow> database \<Rightarrow>
    (exn + int \<times> int) \<times> database" where
  "seed ci L H ts title message t reset d =
     commit
       (bind_exn (insert_seeds L H ts t (seed_findings title) (if reset then reset_seeds ci t d else d)) (\<lambda>d1.
        bind_exn (insert_jobs (seed_jobs ts message t) d1) (\<lambda>d2.
        Inr ((int (length (seed_findings title)), int (length (seed_jobs ts message t))), d2)))) d"

end
