(* ===== verification/Fixture_Properties.thy ===== *)
theory Fixture_Properties
  imports Fixtures Samples
begin

text \<open>
  What the fixture scripts leave in the shared database: a cleanup removes everything of its
  run and nothing of another run or tenant, a failed provisioning leaves nothing behind, and
  the demo data cannot be appended to itself.
\<close>

section \<open>Run ids\<close>

lemma slug_char_plain: "slug_char c \<or> c = CHR ''-'' \<Longrightarrow> lower_char c = c \<and> \<not> py_isspace c \<and> c \<noteq> CHR '':''"
  by (auto simp: slug_char_def is_lower_az_def is_upper_az_def is_digit_def lower_char_def py_isspace_def)

lemma dropWhile_none: "\<forall>c \<in> set xs. \<not> P c \<Longrightarrow> dropWhile P xs = xs"
  by (cases xs) auto

lemma normalized_plain:
  assumes "normalize_run_id run = Inr n"
  shows "py_lower n = n" and "CHR '':'' \<notin> set n" and "normalize_run_id n = Inr n"
proof -
  from assms have n: "n \<noteq> []" "list_all (\<lambda>c. slug_char c \<or> c = CHR ''-'') n"
    "length n \<le> 32" "slug_char (hd n)" "slug_char (last n)"
    by (auto simp: normalize_run_id_def Let_def split: if_splits)
  have chars: "lower_char c = c \<and> \<not> py_isspace c \<and> c \<noteq> CHR '':''" if "c \<in> set n" for c
    using that n(2) by (intro slug_char_plain) (auto simp: list_all_iff)
  show lower: "py_lower n = n" using chars by (simp add: py_lower_def map_idI)
  show "CHR '':'' \<notin> set n" using chars by blast
  have "py_strip n = n"
    using chars by (simp add: py_strip_def rstrip_by_def dropWhile_none)
  with lower n show "normalize_run_id n = Inr n" by (simp add: normalize_run_id_def)
qed

text \<open>Different run ids have different tenants, users and clients.\<close>

lemma tenant_id_inj:
  assumes "t \<in> set (fixture_tenants n)" and "t \<in> set (fixture_tenants n')"
  shows "n = n'"
proof -
  have "butlast (butlast t) = ''e2e-rbac-'' @ n" "butlast (butlast t) = ''e2e-rbac-'' @ n'"
    using assms by (auto simp: fixture_tenants_def tenant_id_def butlast_append)
  then show ?thesis by simp
qed

lemma subject_inj:
  assumes "startswith (subject n []) s" and "startswith (subject n' []) s"
    and "CHR '':'' \<notin> set n" and "CHR '':'' \<notin> set n'"
  shows "n = n'"
proof -
  have "takeWhile (\<lambda>c. c \<noteq> CHR '':'') (drop 9 s) = m"
    if "startswith (subject m []) s" "CHR '':'' \<notin> set m" for m
  proof -
    from that(1) have "s = subject m [] @ drop (length (subject m [])) s"
      by (metis append_take_drop_id startswith_def)
    then obtain u where "s = ''e2e-rbac:'' @ m @ '':'' @ u" by (auto simp: subject_def)
    with that(2) show ?thesis by (auto simp: takeWhile_append2 takeWhile_append intro!: takeWhile_eq_all_conv [THEN iffD2])
  qed
  with assms show ?thesis by metis
qed

lemma fixture_user_inj:
  assumes "normalize_run_id run = Inr n" and "normalize_run_id run' = Inr n'"
    and "fixture_user ci n r" and "fixture_user ci n' r"
  shows "n = n'"
proof -
  have lower: "py_lower (subject m []) = subject m []" if "py_lower m = m" for m
    using that by (simp add: subject_def py_lower_def lower_char_def is_upper_az_def)
  define s where "s = (if ci then py_lower (u_subject r) else u_subject r)"
  have "startswith (subject n []) s" "startswith (subject n' []) s"
    using assms(3,4) lower normalized_plain(1) [OF assms(1)] normalized_plain(1) [OF assms(2)]
    by (auto simp: fixture_user_def like_prefix_def s_def split: if_splits)
  then show ?thesis
    using normalized_plain(2) [OF assms(1)] normalized_plain(2) [OF assms(2)] by (rule subject_inj)
qed

section \<open>What a cleanup leaves\<close>

text \<open>The cascades add nothing to the explicit deletes, except for the memberships of the users.\<close>

definition swept :: "bool \<Rightarrow> string \<Rightarrow> database \<Rightarrow> database" where
  "swept ci n d =
     (let mine = (\<lambda>t. t \<in> set (fixture_tenants n))
      in \<lparr>db_tenants = filter (\<lambda>r. \<not> mine (t_id r)) (db_tenants d),
          db_users = filter (\<lambda>r. \<not> fixture_user ci n r) (db_users d),
          db_memberships = filter (\<lambda>r. \<not> mine (m_tenant_id r) \<and> m_user_id r \<notin> set (user_ids ci n d)) (db_memberships d),
          db_api_keys = filter (\<lambda>r. \<not> mine (k_tenant_id r)) (db_api_keys d),
          db_clients = upd_where (\<lambda>r. case i_rotated_from_id r of None \<Rightarrow> False | Some i \<Rightarrow> i \<in> set (client_ids n d))
            (\<lambda>r. r\<lparr>i_rotated_from_id := None\<rparr>) (filter (\<lambda>r. \<not> fixture_client n r) (db_clients d)),
          db_sessions = filter (\<lambda>s. \<not> fixture_session ci n d s) (db_sessions d),
          db_jobs = filter (\<lambda>r. \<not> mine (j_tenant_id r)) (db_jobs d),
          db_job_events = filter (\<lambda>x. \<not> mine (ev_tenant_id x)) (db_job_events d),
          db_findings = filter (\<lambda>r. \<not> mine (fr_tenant_id r)) (db_findings d),
          db_correlations = filter (\<lambda>r. \<not> mine (cr_tenant_id r)) (db_correlations d),
          db_correlation_findings = filter (\<lambda>l. \<not> mine (cf_tenant_id l)) (db_correlation_findings d),
          db_audit_events = filter (\<lambda>r. \<not> mine (a_tenant_id r)) (db_audit_events d)\<rparr>)"

lemma delete_correlations_unlinked:
  assumes "\<forall>l \<in> set (db_correlation_findings d). \<not> mine (cf_tenant_id l)"
  shows "delete_correlations (\<lambda>r. mine (cr_tenant_id r)) d =
    d\<lparr>db_correlations := filter (\<lambda>r. \<not> mine (cr_tenant_id r)) (db_correlations d)\<rparr>"
proof -
  have "filter (\<lambda>l. \<not> (\<exists>r \<in> set (db_correlations d). mine (cr_tenant_id r) \<and>
      cr_tenant_id r = cf_tenant_id l \<and> cr_id r = cf_correlation_id l)) (db_correlation_findings d) =
      db_correlation_findings d"
    using assms by (intro filter_True) auto
  then show ?thesis by (simp add: delete_correlations_def)
qed

lemma delete_jobs_eventless:
  assumes "\<forall>x \<in> set (db_job_events d). \<not> mine (ev_tenant_id x)"
  shows "delete_jobs (\<lambda>r. mine (j_tenant_id r)) d = d\<lparr>db_jobs := filter (\<lambda>r. \<not> mine (j_tenant_id r)) (db_jobs d)\<rparr>"
proof -
  have "filter (\<lambda>x. \<not> (\<exists>r \<in> set (db_jobs d). mine (j_tenant_id r) \<and> is_event_of (j_tenant_id r) (j_id r) x)) (db_job_events d) =
      db_job_events d"
    using assms by (intro filter_True) (auto simp: is_event_of_def)
  then show ?thesis by (simp add: delete_jobs_def)
qed

text \<open>A tenant that nothing refers to any more.\<close>

definition unreferenced :: "(string \<Rightarrow> bool) \<Rightarrow> database \<Rightarrow> bool" where
  "unreferenced mine d \<longleftrightarrow>
     (\<forall>r \<in> set (db_memberships d). \<not> mine (m_tenant_id r)) \<and> (\<forall>r \<in> set (db_api_keys d). \<not> mine (k_tenant_id r)) \<and>
     (\<forall>r \<in> set (db_sessions d). \<not> mine (s_tenant_id r)) \<and> (\<forall>r \<in> set (db_jobs d). \<not> mine (j_tenant_id r)) \<and>
     (\<forall>r \<in> set (db_findings d). \<not> mine (fr_tenant_id r)) \<and> (\<forall>r \<in> set (db_correlations d). \<not> mine (cr_tenant_id r)) \<and>
     (\<forall>r \<in> set (db_audit_events d). \<not> mine (a_tenant_id r))"

lemma delete_tenants_unreferenced:
  assumes "unreferenced mine d"
  shows "delete_tenants (\<lambda>r. mine (t_id r)) d = d\<lparr>db_tenants := filter (\<lambda>r. \<not> mine (t_id r)) (db_tenants d)\<rparr>"
proof -
  let ?gone = "\<lambda>t. \<exists>r \<in> set (db_tenants d). mine (t_id r) \<and> t_id r = t"
  have jobs: "delete_jobs (\<lambda>r. ?gone (j_tenant_id r)) d = d"
    using assms by (simp add: delete_jobs_def unreferenced_def) (intro database.equality, auto intro!: filter_True)
  have correlations: "delete_correlations (\<lambda>r. ?gone (cr_tenant_id r)) d = d"
    using assms by (simp add: delete_correlations_def unreferenced_def) (intro database.equality, auto intro!: filter_True)
  have kept: "filter (\<lambda>r. \<not> ?gone (m_tenant_id r)) (db_memberships d) = db_memberships d"
    "filter (\<lambda>r. \<not> ?gone (k_tenant_id r)) (db_api_keys d) = db_api_keys d"
    "filter (\<lambda>r. \<not> ?gone (s_tenant_id r)) (db_sessions d) = db_sessions d"
    "filter (\<lambda>r. \<not> ?gone (fr_tenant_id r)) (db_findings d) = db_findings d"
    "filter (\<lambda>r. \<not> ?gone (a_tenant_id r)) (db_audit_events d) = db_audit_events d"
    using assms unfolding unreferenced_def by (auto intro!: filter_True)
  show ?thesis unfolding delete_tenants_def Let_def jobs correlations kept by simp
qed

lemma cleanup_tx_swept: "cleanup_tx ci n d = Inr ((), swept ci n d)"
proof -
  let ?mine = "\<lambda>t. t \<in> set (fixture_tenants n)"
  define d1 where "d1 = d\<lparr>db_correlation_findings := filter (\<lambda>l. \<not> ?mine (cf_tenant_id l)) (db_correlation_findings d)\<rparr>"
  define d4 where "d4 = d1\<lparr>db_correlations := filter (\<lambda>r. \<not> ?mine (cr_tenant_id r)) (db_correlations d1),
     db_findings := filter (\<lambda>r. \<not> ?mine (fr_tenant_id r)) (db_findings d1),
     db_job_events := filter (\<lambda>x. \<not> ?mine (ev_tenant_id x)) (db_job_events d1)\<rparr>"
  define d9 where "d9 = d4\<lparr>db_jobs := filter (\<lambda>r. \<not> ?mine (j_tenant_id r)) (db_jobs d4),
     db_audit_events := filter (\<lambda>r. \<not> ?mine (a_tenant_id r)) (db_audit_events d4),
     db_api_keys := filter (\<lambda>r. \<not> ?mine (k_tenant_id r)) (db_api_keys d4),
     db_memberships := filter (\<lambda>r. \<not> ?mine (m_tenant_id r)) (db_memberships d4),
     db_sessions := filter (\<lambda>s. \<not> fixture_session ci n d s) (db_sessions d4)\<rparr>"
  have free: "unreferenced ?mine d9"
    by (simp add: unreferenced_def d9_def d4_def d1_def fixture_session_def)
  have start: "cleanup_tx ci n d = bind_exn (delete_clients (fixture_client n) (delete_tenants (\<lambda>r. ?mine (t_id r)) d9))
      (\<lambda>d11. Inr ((), delete_users (fixture_user ci n) d11))"
    unfolding cleanup_tx_def Let_def d1_def [symmetric]
    by (simp add: delete_correlations_unlinked [where mine = ?mine] delete_jobs_eventless [where mine = ?mine] d1_def d4_def d9_def
        fixture_session_def user_ids_def client_ids_def)
  define d10 where "d10 = d9\<lparr>db_tenants := filter (\<lambda>r. \<not> ?mine (t_id r)) (db_tenants d9)\<rparr>"
  have clients: "delete_clients (fixture_client n) d10 = Inr (d10\<lparr>db_clients := db_clients (swept ci n d)\<rparr>)"
  proof -
    have gone: "(\<exists>r \<in> set (db_clients d10). fixture_client n r \<and> i_id r = i) \<longleftrightarrow> i \<in> set (client_ids n d)" for i
      by (auto simp: client_ids_def d10_def d9_def d4_def d1_def)
    have "\<not> (\<exists>s \<in> set (db_sessions d10). s_identity_client_id s \<in> set (client_ids n d))"
      by (auto simp: fixture_session_def d10_def d9_def d4_def d1_def)
    then show ?thesis
      unfolding delete_clients_def gone Let_def by (simp add: swept_def d10_def d9_def d4_def d1_def)
  qed
  have users: "delete_users (fixture_user ci n) (d10\<lparr>db_clients := db_clients (swept ci n d)\<rparr>) = swept ci n d"
  proof -
    have gone: "(\<exists>r \<in> set (db_users (d10\<lparr>db_clients := cs\<rparr>)). fixture_user ci n r \<and> u_id r = i) \<longleftrightarrow>
        i \<in> set (user_ids ci n d)" for i cs
      by (auto simp: user_ids_def d10_def d9_def d4_def d1_def)
    have "filter (\<lambda>r. m_user_id r \<notin> set (user_ids ci n d)) (db_memberships d10) = db_memberships (swept ci n d)"
      "filter (\<lambda>r. s_user_id r \<notin> set (user_ids ci n d)) (db_sessions d10) = db_sessions (swept ci n d)"
      by (auto simp: swept_def fixture_session_def d10_def d9_def d4_def d1_def intro!: filter_cong)
    then show ?thesis
      unfolding delete_users_def gone Let_def by (simp add: swept_def d10_def d9_def d4_def d1_def)
  qed
  show ?thesis
    using start clients users by (simp add: delete_tenants_unreferenced [OF free] d10_def)
qed

text \<open>The sweep leaves nothing of the run, and sweeping again changes nothing.\<close>

lemma swept_ids:
  "user_ids ci n (swept ci n d) = []" "client_ids n (swept ci n d) = []"
  by (auto simp: user_ids_def client_ids_def swept_def upd_where_def fixture_client_def filter_empty_conv)

lemma swept_session: "fixture_session ci n (swept ci n d) = (\<lambda>s. s_tenant_id s \<in> set (fixture_tenants n))"
  by (simp add: fixture_session_def swept_ids fun_eq_iff)

lemma count_swept: "count_fixture ci n (swept ci n d) = no_fixture"
  unfolding count_fixture_def swept_ids swept_session
  by (auto simp: no_fixture_def how_many_rows_def swept_def fixture_session_def filter_empty_conv)

lemma swept_clean: "swept ci n (swept ci n d) = swept ci n d"
proof -
  have forget: "upd_where (\<lambda>r. case i_rotated_from_id r of None \<Rightarrow> False | Some i \<Rightarrow> i \<in> set []) f xs = xs"
    for f :: "client_row \<Rightarrow> client_row" and xs
    by (simp add: upd_where_def map_idI split: option.split)
  show ?thesis
    unfolding swept_def [of ci n "swept ci n d"] swept_ids Let_def swept_session forget
    by (intro database.equality)
      (auto simp: swept_def fixture_session_def upd_where_def fixture_client_def intro!: filter_True filter_cong)
qed

lemma cleanup_swept:
  "normalize_run_id run = Inr n \<Longrightarrow> cleanup ci run d = (Inr (count_fixture ci n d), swept ci n d)"
  by (simp add: cleanup_def cleanup_tx_swept commit_def count_swept)

text \<open>
  A cleanup always succeeds and is complete: for a well-formed run id it answers with the
  counts from before, leaves no row of the run, and repeating it changes nothing. In
  particular no foreign key stops it half way.
\<close>

theorem cleanup_complete:
  assumes "normalize_run_id run = Inr n" and "cleanup ci run d = (r, d')"
  shows "r = Inr (count_fixture ci n d) \<and> count_fixture ci n d' = no_fixture \<and> cleanup ci run d' = (Inr no_fixture, d')"
  using assms(2) by (auto simp: cleanup_swept [OF assms(1)] count_swept swept_clean)

text \<open>Evaluated inputs for the witnesses.\<close>

definition fixture_env :: "nat \<Rightarrow> call_env" where
  "fixture_env k = sample_env 100 (replicate k (CHR ''u''))"

definition fixture_hashing :: hashing where
  "fixture_hashing = \<lparr>sha256_hex = (\<lambda>s. take 60 (drop 11 s)), float_repr = (\<lambda>x. ''0.5'')\<rparr>"

definition fixture_secrets :: "string \<Rightarrow> secret_env" where
  "fixture_secrets tok = call_env.extend (fixture_env 30) (secret_env.fields (replicate 24 (CHR ''0'')) tok ''salt'')"

definition fixture_provision :: provision_env where
  "fixture_provision = \<lparr>pe_tenant_a = fixture_env 0, pe_tenant_b = fixture_env 1, pe_user = (\<lambda>p. sample_env 100 p),
     pe_member = (\<lambda>p. sample_env 100 (''m'' @ p)), pe_client = fixture_secrets ''tok'', pe_seeded = 100\<rparr>"

definition provisioned :: database where
  "provisioned = snd (provision False sample_crypto fixture_hashing fixture_provision ''Run-1'' empty_db)"

lemma run_ids: "normalize_run_id ''Run-1'' = Inr ''run-1''" "normalize_run_id ''run-2'' = Inr ''run-2''"
  by code_simp+

theorem cleanup_complete_witness:
  "\<exists>r d'. cleanup False ''Run-1'' provisioned = (r, d') \<and> r = Inr (count_fixture False ''run-1'' provisioned) \<and>
    count_fixture False ''run-1'' d' = no_fixture"
proof -
  obtain r d' where "cleanup False ''Run-1'' provisioned = (r, d')" by fastforce
  with cleanup_complete [OF run_ids(1) this] show ?thesis by blast
qed

text \<open>What the database holds for one tenant.\<close>

definition tenant_data ::
  "string \<Rightarrow> database \<Rightarrow> tenant_row list \<times> api_key_row list \<times> job_row list \<times> job_event list \<times> finding_row list \<times>
    correlation_row list \<times> correlation_finding_row list \<times> audit_row list" where
  "tenant_data t d =
     (filter (\<lambda>r. t_id r = t) (db_tenants d), filter (\<lambda>r. k_tenant_id r = t) (db_api_keys d),
      filter (\<lambda>r. j_tenant_id r = t) (db_jobs d), filter (\<lambda>x. ev_tenant_id x = t) (db_job_events d),
      filter (\<lambda>r. fr_tenant_id r = t) (db_findings d), filter (\<lambda>r. cr_tenant_id r = t) (db_correlations d),
      filter (\<lambda>l. cf_tenant_id l = t) (db_correlation_findings d), filter (\<lambda>r. a_tenant_id r = t) (db_audit_events d))"

text \<open>
  C34: A cleanup touches its own run only: every tenant that is not one of the run's two keeps
  its row, keys, jobs, events, findings, correlations and audit trail, and another run keeps
  its tenants, its users and its identity clients, even where the run ids are prefixes of one
  another or the database compares without regard to case.
\<close>

theorem cleanup_isolated:
  assumes "normalize_run_id run = Inr n" and "normalize_run_id run' = Inr n'" and "n \<noteq> n'"
    and "cleanup ci run d = (r, d')"
  shows "(\<forall>t. t \<notin> set (fixture_tenants n) \<longrightarrow> tenant_data t d' = tenant_data t d) \<and>
    set (fixture_tenants n') \<inter> set (fixture_tenants n) = {} \<and>
    user_ids ci n' d' = user_ids ci n' d \<and> client_ids n' d' = client_ids n' d"
proof -
  have d': "d' = swept ci n d" using assms(4) by (simp add: cleanup_swept [OF assms(1)])
  have "tenant_data t d' = tenant_data t d" if "t \<notin> set (fixture_tenants n)" for t
    using that by (auto simp: tenant_data_def d' swept_def Let_def intro!: filter_cong)
  moreover have "set (fixture_tenants n') \<inter> set (fixture_tenants n) = {}" using tenant_id_inj assms(3) by blast
  moreover have "user_ids ci n' d' = user_ids ci n' d"
    using fixture_user_inj [OF assms(1,2)] assms(3)
    by (auto simp: user_ids_def d' swept_def Let_def intro!: arg_cong [where f = "map u_id"] filter_cong)
  moreover have "client_ids n' d' = client_ids n' d"
  proof -
    have "map i_id (filter (fixture_client n') (upd_where P (\<lambda>r. r\<lparr>i_rotated_from_id := None\<rparr>)
        (filter (\<lambda>r. \<not> fixture_client n r) rs))) = map i_id (filter (fixture_client n') rs)" for P and rs :: "client_row list"
      using assms(3) by (induction rs) (auto simp: upd_where_def fixture_client_def client_name_def)
    then show ?thesis by (simp add: client_ids_def d' swept_def Let_def)
  qed
  ultimately show ?thesis by blast
qed

theorem cleanup_isolated_witness:
  "\<exists>r d'. cleanup False ''Run-1'' provisioned = (r, d') \<and>
    user_ids False ''run-2'' d' = user_ids False ''run-2'' provisioned \<and> tenant_data ''acme'' d' = tenant_data ''acme'' provisioned"
proof -
  obtain r d' where run: "cleanup False ''Run-1'' provisioned = (r, d')" by fastforce
  have "''run-1'' \<noteq> ''run-2''" "''acme'' \<notin> set (fixture_tenants ''run-1'')" by code_simp+
  with run cleanup_isolated [OF run_ids _ run] show ?thesis by blast
qed

text \<open>
  Provisioning is all or nothing: if it raises, whatever call failed and with whatever
  exception, no row of the run is left.
\<close>

theorem provision_all_or_nothing:
  assumes "provision ci C H E run d = (Inl x, d')" and "normalize_run_id run = Inr n"
  shows "count_fixture ci n d' = no_fixture"
  using assms
  by (auto simp: provision_def cleanup_swept [OF normalized_plain(3) [OF assms(2)]] count_swept split: prod.splits sum.splits)

text \<open>The slug of the first tenant is taken by another tenant.\<close>

definition slug_taken :: database where
  "slug_taken = empty_db\<lparr>db_tenants := [default_tenant ''e2e-rbac-run-1-a'' 1\<lparr>t_id := ''other''\<rparr>]\<rparr>"

lemma slug_taken_fails:
  "\<exists>d1. provision_body sample_crypto fixture_hashing fixture_provision ''run-1'' slug_taken = (Inl IntegrityError, d1)"
proof -
  have "fst (create_tenant (pe_tenant_a fixture_provision) (tenant_id ''run-1'' ''a'') (tenant_id ''run-1'' ''a'')
      (''E2E RBAC '' @ ''run-1'' @ '' Tenant A'') 90 ''e2e-rbac-fixture'' slug_taken) = Inl IntegrityError" by code_simp
  then obtain d1 where "create_tenant (pe_tenant_a fixture_provision) (tenant_id ''run-1'' ''a'') (tenant_id ''run-1'' ''a'')
      (''E2E RBAC '' @ ''run-1'' @ '' Tenant A'') 90 ''e2e-rbac-fixture'' slug_taken = (Inl IntegrityError, d1)"
    by (metis prod.collapse)
  then show ?thesis unfolding provision_body_def by simp
qed

theorem provision_all_or_nothing_witness:
  "\<exists>x d'. provision False sample_crypto fixture_hashing fixture_provision ''Run-1'' slug_taken = (Inl x, d') \<and>
    count_fixture False ''run-1'' d' = no_fixture"
proof -
  have same: "swept False ''run-1'' slug_taken = slug_taken"
    by (intro database.equality)
      (auto simp: swept_def slug_taken_def empty_db_def upd_where_def default_tenant_def fixture_tenants_def tenant_id_def)
  obtain d1 where "provision_body sample_crypto fixture_hashing fixture_provision ''run-1'' slug_taken = (Inl IntegrityError, d1)"
    using slug_taken_fails by blast
  then have "\<exists>d'. provision False sample_crypto fixture_hashing fixture_provision ''Run-1'' slug_taken = (Inl IntegrityError, d')"
    by (simp add: provision_def run_ids(1) cleanup_swept [OF normalized_plain(3) [OF run_ids(1)]] same)
  then show ?thesis using provision_all_or_nothing [OF _ run_ids(1)] by blast
qed

section \<open>The demo data\<close>

lemma insert_seeds_grows:
  "insert_seeds L H ts t xs d = Inr d' \<Longrightarrow> set (db_findings d) \<subseteq> set (db_findings d')"
  by (induction xs arbitrary: d) (fastforce simp: bind_exn_Inr insert_finding_def split: if_splits)+

lemma insert_jobs_findings: "insert_jobs rs d = Inr d' \<Longrightarrow> db_findings d' = db_findings d"
  by (induction rs arbitrary: d) (auto simp: bind_exn_Inr insert_job_def split: if_splits)

text \<open>
  The demo data cannot be appended to itself: after a seeding of a tenant succeeded, with
  or without a reset, a second seeding of the tenant without a reset raises an IntegrityError
  and changes nothing, at any later time.
\<close>

theorem seed_append_fails:
  assumes "seed ci L H ts title message t reset d = (Inr c, d')"
  shows "seed ci L H ts' title message' t False d' = (Inl IntegrityError, d')"
proof -
  obtain x xs where xs: "seed_findings title = x # xs" by (simp add: seed_findings_def)
  obtain d0 d1 d2 where first: "insert_finding (seed_row L H ts t x d0) d0 = Inr d1"
    and rest: "insert_seeds L H ts t xs d1 = Inr d2" and jobs: "insert_jobs (seed_jobs ts message t) d2 = Inr d'"
    using assms by (auto simp: seed_def commit_Inr bind_exn_Inr xs)
  have "seed_row L H ts t x d0 \<in> set (db_findings d')"
    using first insert_seeds_grows [OF rest] insert_jobs_findings [OF jobs]
    by (auto simp: insert_finding_def split: if_splits)
  moreover have "fr_tenant_id (seed_row L H ts t x d0) = t" "fr_fingerprint (seed_row L H ts t x d0) = seed_fingerprint L H t x"
    by (simp_all add: seed_row_def Let_def)
  ultimately have "\<exists>y \<in> set (db_findings d'). fr_tenant_id y = t \<and> fr_fingerprint y = seed_fingerprint L H t x" by blast
  then have "insert_finding (seed_row L H ts' t x d') d' = Inl IntegrityError"
    by (auto simp: insert_finding_def seed_row_def Let_def)
  then show ?thesis by (simp add: seed_def xs commit_def)
qed

theorem seed_append_fails_witness:
  "\<exists>c d'. seed False sample_core fixture_hashing 100 (\<lambda>k. []) [] ''run'' True
      (empty_db\<lparr>db_tenants := [default_tenant ''run'' 1]\<rparr>) = (Inr c, d') \<and>
    seed False sample_core fixture_hashing 200 (\<lambda>k. []) [] ''run'' False d' = (Inl IntegrityError, d')"
proof -
  have "case seed False sample_core fixture_hashing 100 (\<lambda>k. []) [] ''run'' True
      (empty_db\<lparr>db_tenants := [default_tenant ''run'' 1]\<rparr>) of (Inr c, d') \<Rightarrow> True | _ \<Rightarrow> False" by code_simp
  then obtain c d' where "seed False sample_core fixture_hashing 100 (\<lambda>k. []) [] ''run'' True
      (empty_db\<lparr>db_tenants := [default_tenant ''run'' 1]\<rparr>) = (Inr c, d')" by (auto split: prod.splits sum.splits)
  with seed_append_fails [OF this] show ?thesis by blast
qed

end
