(* ===== verification/Admin_Cli.thy ===== *)
theory Admin_Cli
  imports Identity_Proofs Migration Api_V1
begin

text \<open>
  The administration command line (\<^verbatim>\<open>admin_cli.py\<close>): a parsed command, the one call of the
  identity repository or of the migrator that it makes, and the document it prints.
  \<^verbatim>\<open>datetime.fromisoformat\<close> is a parameter. \<^verbatim>\<open>argparse\<close> ends the process on a value outside
  the choices; here that is the answer \<open>Usage_error\<close>.
\<close>

datatype admin_command =
    Tenant_create string string string int string
  | Tenant_status string string string
  | User_upsert string string "string option" "string option"
  | Membership_set string string string string
  | Api_key_issue string string "string list" "string option" string
  | Api_key_revoke string string string
  | Api_key_list string bool
  | Identity_client_create string "string list"
  | Identity_client_list
  | Identity_client_rotate string
  | Identity_client_revoke string
  | User_session_revoke string string string
  | User_session_cleanup "string option"
  | Migrate_sqlite string bool

datatype cli_answer = Printed json | Usage_error string | Raised exn

text \<open>The choices of the options.\<close>

fun command_ok :: "admin_command \<Rightarrow> bool" where
  "command_ok (Tenant_status t st actor) \<longleftrightarrow> st \<in> set tenant_statuses"
| "command_ok (Membership_set t u role actor) \<longleftrightarrow> role \<in> set roles"
| "command_ok (Api_key_issue t role scopes expires actor) \<longleftrightarrow> role \<in> set roles"
| "command_ok (Identity_client_create name issuers) \<longleftrightarrow> issuers \<noteq> []"
| "command_ok _ \<longleftrightarrow> True"

definition parse_timestamp :: "(string \<Rightarrow> exn + py_datetime) \<Rightarrow> string \<Rightarrow> string \<Rightarrow> exn + py_datetime" where
  "parse_timestamp from_iso option_name v =
     bind_exn (from_iso (if endswith ''Z'' v then take (length v - 1) v @ ''+00:00'' else v)) (\<lambda>ts.
     if is_naive ts then Inl (ValueError (option_name @ '' must include a timezone'')) else Inr ts)"

definition parse_expiry :: "(string \<Rightarrow> exn + py_datetime) \<Rightarrow> string option \<Rightarrow> exn + py_datetime option" where
  "parse_expiry from_iso v =
     (case v of
        None \<Rightarrow> Inr None
      | Some s \<Rightarrow> bind_exn (parse_timestamp from_iso ''--expires-at'' s) (\<lambda>ts. Inr (Some ts)))"

definition parse_before :: "(string \<Rightarrow> exn + py_datetime) \<Rightarrow> string option \<Rightarrow> exn + py_datetime option" where
  "parse_before from_iso v =
     (if truthy v then bind_exn (parse_timestamp from_iso ''--before'' (the v)) (\<lambda>ts. Inr (Some ts)) else Inr None)"

section \<open>Documents\<close>

definition identity_client_payload :: "client_record \<Rightarrow> (string \<times> json) list" where
  "identity_client_payload r =
     [(''id'', JStr (ir_id r)), (''name'', JStr (ir_name r)), (''key_prefix'', JStr (ir_key_prefix r)),
      (''allowed_issuers'', JArr (map JStr (ir_allowed_issuers r))), (''active'', JBool (ir_active r)),
      (''rotated_from_id'', json_opt (ir_rotated_from_id r)), (''created_at'', JStr (isoformat (ir_created_at r))),
      (''updated_at'', JStr (isoformat (ir_updated_at r))), (''last_used_at'', json_time_opt (ir_last_used_at r)),
      (''revoked_at'', json_time_opt (ir_revoked_at r))]"

definition api_key_payload :: "api_key_record \<Rightarrow> (string \<times> json) list" where
  "api_key_payload r =
     [(''id'', JStr (kr_id r)), (''key_prefix'', JStr (kr_key_prefix r)), (''role'', JStr (kr_role r)),
      (''scopes'', JArr (map JStr (kr_scopes r))), (''created_at'', JStr (isoformat (kr_created_at r))),
      (''revoked_at'', json_time_opt (kr_revoked_at r))]"

definition issued_key_payload :: "issued_api_key \<Rightarrow> json" where
  "issued_key_payload k = JObj
     [(''id'', JStr (ik_id k)), (''tenant_id'', JStr (ik_tenant_id k)), (''role'', JStr (ik_role k)),
      (''scopes'', JArr (map JStr (ik_scopes k))), (''expires_at'', json_time_opt (ik_expires_at k)),
      (''token'', JStr (ik_token k)), (''warning'', JStr ''store this token now; it cannot be recovered'')]"

definition issued_client_payload :: "string \<Rightarrow> client_record \<times> string \<Rightarrow> json" where
  "issued_client_payload warning rt =
     JObj (identity_client_payload (fst rt) @ [(''token'', JStr (snd rt)), (''warning'', JStr warning)])"

definition report_payload :: "migration_report \<Rightarrow> json" where
  "report_payload r = JObj
     [(''dry_run'', JBool (mr_dry_run r)), (''source'', counts_json (mr_source r)),
      (''imported'', counts_json (mr_imported r)), (''skipped'', counts_json (mr_skipped r))]"

definition print_text :: "(rat \<Rightarrow> string) \<Rightarrow> json \<Rightarrow> string" where
  "print_text frepr v = dumps frepr (json_sorted v)"

section \<open>Commands\<close>

definition answered :: "('a \<Rightarrow> json) \<Rightarrow> (exn + 'a) \<times> database \<Rightarrow> cli_answer \<times> database" where
  "answered f r = (case r of (Inl x, d) \<Rightarrow> (Raised x, d) | (Inr v, d) \<Rightarrow> (Printed (f v), d))"

text \<open>What a command reads besides the database: the environment of the call and the legacy files.\<close>

record cli_env =
  ce_call :: secret_env
  ce_crypto :: crypto
  ce_core :: core_lib
  ce_hashing :: hashing
  ce_repr :: "json \<Rightarrow> string"
  ce_iso :: "string \<Rightarrow> exn + py_datetime"
  ce_legacy :: "string \<Rightarrow> legacy_db"

definition cli_base :: "cli_env \<Rightarrow> call_env" where
  "cli_base E = call_env.truncate (ce_call E)"

fun run_command :: "cli_env \<Rightarrow> admin_command \<Rightarrow> database \<Rightarrow> cli_answer \<times> database" where
  "run_command E (Tenant_create t slug name days actor) d =
     answered (\<lambda>r. JObj [(''id'', JStr (t_id r)), (''slug'', JStr (t_slug r)), (''name'', JStr (t_name r)),
         (''status'', JStr (t_status r)), (''retention_days'', JInt (t_retention_days r))])
       (create_tenant (cli_base E) t slug name days actor d)"
| "run_command E (Tenant_status t st actor) d =
     answered (\<lambda>r. JObj [(''id'', JStr (t_id r)), (''status'', JStr (t_status r))])
       (set_tenant_status (cli_base E) t st actor d)"
| "run_command E (User_upsert issuer subject email display) d =
     answered (\<lambda>r. JObj [(''id'', JStr (u_id r)), (''issuer'', JStr (u_issuer r)), (''subject'', JStr (u_subject r)),
         (''email'', json_opt (u_email r)), (''display_name'', json_opt (u_display_name r))])
       (upsert_user (cli_base E) issuer subject email display d)"
| "run_command E (Membership_set t u role actor) d =
     answered (\<lambda>r. JObj [(''tenant_id'', JStr (m_tenant_id r)), (''user_id'', JStr (m_user_id r)), (''role'', JStr (m_role r))])
       (set_membership (cli_base E) t u role actor d)"
| "run_command E (Api_key_issue t role scopes expires actor) d =
     (case parse_expiry (ce_iso E) expires of
        Inl x \<Rightarrow> (Raised x, d)
      | Inr ts \<Rightarrow> answered issued_key_payload (issue_api_key (ce_crypto E) (ce_call E) t role scopes ts actor d))"
| "run_command E (Api_key_revoke t i actor) d =
     answered (\<lambda>b. JObj [(''id'', JStr i), (''revoked'', JBool b)]) (revoke_api_key (cli_base E) t i actor d)"
| "run_command E (Api_key_list t all_keys) d =
     answered (\<lambda>ks. JObj [(''api_keys'', JArr (map (\<lambda>k. JObj (api_key_payload k)) ks))]) (list_api_keys t all_keys d, d)"
| "run_command E (Identity_client_create name issuers) d =
     answered (issued_client_payload ''store this token now; it cannot be recovered'')
       (issue_identity_client (ce_crypto E) (ce_call E) name issuers d)"
| "run_command E Identity_client_list d =
     (Printed (JObj [(''identity_clients'', JArr (map (\<lambda>c. JObj (identity_client_payload c)) (list_identity_clients d)))]), d)"
| "run_command E (Identity_client_rotate i) d =
     answered (issued_client_payload ''store this token now; verify it before revoking the previous client'')
       (rotate_identity_client (ce_crypto E) (ce_call E) i d)"
| "run_command E (Identity_client_revoke i) d =
     (case revoke_identity_client (cli_base E) i d of
        (b, d1) \<Rightarrow> (Printed (JObj [(''id'', JStr i), (''revoked'', JBool b)]), d1))"
| "run_command E (User_session_revoke t i actor) d =
     answered (\<lambda>b. JObj [(''id'', JStr i), (''revoked'', JBool b)]) (revoke_user_session (cli_base E) t i actor None d)"
| "run_command E (User_session_cleanup before) d =
     (case parse_before (ce_iso E) before of
        Inl x \<Rightarrow> (Raised x, d)
      | Inr ts \<Rightarrow> answered (\<lambda>n. JObj [(''deleted'', JInt n)]) (cleanup_expired_user_sessions (cli_base E) ts d))"
| "run_command E (Migrate_sqlite path apply_it) d =
     answered report_payload
       (migrate (ce_core E) (ce_hashing E) (ce_repr E) path (now (ce_call E)) apply_it (ce_legacy E path) d)"

definition cli_main :: "cli_env \<Rightarrow> string option \<Rightarrow> admin_command \<Rightarrow> database \<Rightarrow> cli_answer \<times> database" where
  "cli_main E url c d =
     (if \<not> command_ok c then (Usage_error ''invalid choice'', d)
      else if py_strip (case url of None \<Rightarrow> [] | Some u \<Rightarrow> u) = []
      then (Usage_error ''INTEGRATION_DATABASE_URL must be set'', d)
      else run_command E c d)"

section \<open>Commands are calls of the repository\<close>

lemma snd_answered [simp]: "snd (answered f r) = snd r"
  by (auto simp: answered_def split: prod.split sum.split)

text \<open>
  A command other than the migration is one call of the identity repository or none, so all
  that holds over the calls holds over commands.
\<close>

lemma command_is_call:
  assumes "\<And>path apply_it. c \<noteq> Migrate_sqlite path apply_it"
  shows "\<exists>cs. length cs \<le> 1 \<and> snd (cli_main E url c d) = identity_run cs d"
proof (cases "\<not> command_ok c \<or> py_strip (case url of None \<Rightarrow> [] | Some u \<Rightarrow> u) = []")
  case True
  then show ?thesis by (intro exI [of _ "[]"]) (auto simp: cli_main_def identity_run_def)
next
  case False
  then have main: "snd (cli_main E url c d) = snd (run_command E c d)" by (simp add: cli_main_def)
  have one: "\<exists>cs. length cs \<le> 1 \<and> identity_perform x d = identity_run cs d" for x
    by (intro exI [of _ "[x]"]) (simp add: identity_run_def)
  have none: "\<exists>cs. length cs \<le> 1 \<and> d = identity_run cs d"
    by (intro exI [of _ "[]"]) (simp add: identity_run_def)
  show ?thesis
  proof (cases c)
    case (Api_key_issue t role scopes expires actor)
    then show ?thesis
      using main none one [of "Id_issue_api_key (ce_crypto E) (ce_call E) t role scopes
          (projr (parse_expiry (ce_iso E) expires)) actor"]
      by (cases "parse_expiry (ce_iso E) expires") auto
  next
    case (User_session_cleanup before)
    then show ?thesis
      using main none one [of "Id_cleanup (cli_base E) (projr (parse_before (ce_iso E) before))"]
      by (cases "parse_before (ce_iso E) before") auto
  next
    case (Identity_client_revoke i)
    then show ?thesis using main one [of "Id_revoke_client (cli_base E) i"] by (auto split: prod.splits)
  next
    case (Tenant_create t slug name days actor)
    then show ?thesis using main one [of "Id_create_tenant (cli_base E) t slug name days actor"] by simp
  next
    case (Tenant_status t st actor)
    then show ?thesis using main one [of "Id_set_tenant_status (cli_base E) t st actor"] by simp
  next
    case (User_upsert i s m n)
    then show ?thesis using main one [of "Id_upsert_user (cli_base E) i s m n"] by simp
  next
    case (Membership_set t u r actor)
    then show ?thesis using main one [of "Id_set_membership (cli_base E) t u r actor"] by simp
  next
    case (Api_key_revoke t i actor)
    then show ?thesis using main one [of "Id_revoke_api_key (cli_base E) t i actor"] by simp
  next
    case (Identity_client_create n issuers)
    then show ?thesis using main one [of "Id_issue_client (ce_crypto E) (ce_call E) n issuers"] by simp
  next
    case (Identity_client_rotate i)
    then show ?thesis using main one [of "Id_rotate_client (ce_crypto E) (ce_call E) i"] by simp
  next
    case (User_session_revoke t i actor)
    then show ?thesis using main one [of "Id_revoke_session (cli_base E) t i actor None"] by simp
  qed (use main none assms in auto)
qed

end
