(* ===== verification/Account_Types.thy ===== *)
theory Account_Types
  imports Schema Identity_Proofs
begin

text \<open>
  Rows as values of their columns, and when a row has the types its table declares: every
  column, text within its length, and NULL only where the column allows it. The rows of the
  accounts (tenants, users, memberships, keys, clients, sessions) are typed in every state
  the identity repository reaches, so a database that enforces the types never refuses one.
\<close>

section \<open>Typed rows\<close>

datatype sql_value = V_null | V_text string | V_int int | V_bool bool | V_time time | V_json

fun value_ok :: "column \<Rightarrow> sql_value \<Rightarrow> bool" where
  "value_ok c V_null \<longleftrightarrow> co_nullable c"
| "value_ok c (V_text s) \<longleftrightarrow> (case co_type c of String_ty n \<Rightarrow> length s \<le> n | Text_ty \<Rightarrow> True | _ \<Rightarrow> False)"
| "value_ok c (V_int i) \<longleftrightarrow> co_type c = Integer_ty \<and> - (2 ^ 31) \<le> i \<and> i < 2 ^ 31"
| "value_ok c (V_bool b) \<longleftrightarrow> co_type c = Boolean_ty"
| "value_ok c (V_time t) \<longleftrightarrow> co_type c = Timestamp_ty"
| "value_ok c V_json \<longleftrightarrow> co_type c = Json_ty"

definition row_ok :: "orm_table \<Rightarrow> (string \<times> sql_value) list \<Rightarrow> bool" where
  "row_ok T vs \<longleftrightarrow> map fst vs = map co_name (ot_columns T) \<and> list_all2 value_ok (ot_columns T) (map snd vs)"

fun text_value :: "string option \<Rightarrow> sql_value" where
  "text_value None = V_null"
| "text_value (Some s) = V_text s"

fun time_value :: "time option \<Rightarrow> sql_value" where
  "time_value None = V_null"
| "time_value (Some t) = V_time t"

definition tenant_values :: "tenant_row \<Rightarrow> (string \<times> sql_value) list" where
  "tenant_values r =
     [(''id'', V_text (t_id r)), (''slug'', V_text (t_slug r)), (''name'', V_text (t_name r)), (''status'', V_text (t_status r)),
      (''retention_days'', V_int (t_retention_days r)), (''created_at'', V_time (t_created_at r)),
      (''updated_at'', V_time (t_updated_at r))]"

definition user_values :: "user_row \<Rightarrow> (string \<times> sql_value) list" where
  "user_values r =
     [(''id'', V_text (u_id r)), (''issuer'', V_text (u_issuer r)), (''subject'', V_text (u_subject r)),
      (''email'', text_value (u_email r)), (''display_name'', text_value (u_display_name r)),
      (''created_at'', V_time (u_created_at r)), (''updated_at'', V_time (u_updated_at r))]"

definition membership_values :: "membership_row \<Rightarrow> (string \<times> sql_value) list" where
  "membership_values r =
     [(''tenant_id'', V_text (m_tenant_id r)), (''user_id'', V_text (m_user_id r)), (''role'', V_text (m_role r)),
      (''status'', V_text (m_status r)), (''created_at'', V_time (m_created_at r))]"

definition api_key_values :: "api_key_row \<Rightarrow> (string \<times> sql_value) list" where
  "api_key_values r =
     [(''id'', V_text (k_id r)), (''tenant_id'', V_text (k_tenant_id r)), (''key_prefix'', V_text (k_key_prefix r)),
      (''secret_hash'', V_text (k_secret_hash r)), (''role'', V_text (k_role r)), (''scopes'', V_json),
      (''expires_at'', time_value (k_expires_at r)), (''revoked_at'', time_value (k_revoked_at r)),
      (''created_at'', V_time (k_created_at r))]"

definition client_values :: "client_row \<Rightarrow> (string \<times> sql_value) list" where
  "client_values r =
     [(''id'', V_text (i_id r)), (''name'', V_text (i_name r)), (''key_prefix'', V_text (i_key_prefix r)),
      (''secret_hash'', V_text (i_secret_hash r)), (''allowed_issuers'', V_json), (''active'', V_bool (i_active r)),
      (''rotated_from_id'', text_value (i_rotated_from_id r)), (''created_at'', V_time (i_created_at r)),
      (''updated_at'', V_time (i_updated_at r)), (''last_used_at'', time_value (i_last_used_at r)),
      (''revoked_at'', time_value (i_revoked_at r))]"

definition session_values :: "session_row \<Rightarrow> (string \<times> sql_value) list" where
  "session_values r =
     [(''id'', V_text (s_id r)), (''token_hash'', V_text (s_token_hash r)), (''user_id'', V_text (s_user_id r)),
      (''tenant_id'', V_text (s_tenant_id r)), (''identity_client_id'', V_text (s_identity_client_id r)),
      (''created_at'', V_time (s_created_at r)), (''expires_at'', V_time (s_expires_at r)),
      (''last_seen_at'', time_value (s_last_seen_at r)), (''revoked_at'', time_value (s_revoked_at r))]"

definition account_types :: "database \<Rightarrow> bool" where
  "account_types d \<longleftrightarrow>
     (\<forall>r \<in> set (db_tenants d). row_ok tenants_table (tenant_values r)) \<and>
     (\<forall>r \<in> set (db_users d). row_ok users_table (user_values r)) \<and>
     (\<forall>r \<in> set (db_memberships d). row_ok memberships_table (membership_values r)) \<and>
     (\<forall>r \<in> set (db_api_keys d). row_ok api_keys_table (api_key_values r)) \<and>
     (\<forall>r \<in> set (db_clients d). row_ok identity_clients_table (client_values r)) \<and>
     (\<forall>r \<in> set (db_sessions d). row_ok user_sessions_table (session_values r))"

section \<open>What the types ask of a row\<close>

lemmas table_defs = row_ok_def column_def nullable_def defaulted_def

lemma text_value_ok [simp]:
  "value_ok c (text_value x) \<longleftrightarrow> (case x of None \<Rightarrow> co_nullable c | Some s \<Rightarrow> value_ok c (V_text s))"
  "value_ok c (time_value y) \<longleftrightarrow> (case y of None \<Rightarrow> co_nullable c | Some t \<Rightarrow> value_ok c (V_time t))"
  by (cases x; simp) (cases y; simp)

lemma tenant_typed:
  "row_ok tenants_table (tenant_values r) \<longleftrightarrow> length (t_id r) \<le> 128 \<and> length (t_slug r) \<le> 128 \<and> length (t_name r) \<le> 255 \<and>
     length (t_status r) \<le> 32 \<and> - (2 ^ 31) \<le> t_retention_days r \<and> t_retention_days r < 2 ^ 31"
  by (simp add: table_defs tenants_table_def tenant_values_def)

lemma user_typed:
  "row_ok users_table (user_values r) \<longleftrightarrow> length (u_id r) \<le> 128 \<and> length (u_issuer r) \<le> 512 \<and> length (u_subject r) \<le> 255 \<and>
     (\<forall>s. u_email r = Some s \<longrightarrow> length s \<le> 320) \<and> (\<forall>s. u_display_name r = Some s \<longrightarrow> length s \<le> 255)"
  by (auto simp: table_defs users_table_def user_values_def split: option.split)

lemma membership_typed:
  "row_ok memberships_table (membership_values r) \<longleftrightarrow> length (m_tenant_id r) \<le> 128 \<and> length (m_user_id r) \<le> 128 \<and>
     length (m_role r) \<le> 32 \<and> length (m_status r) \<le> 32"
  by (simp add: table_defs memberships_table_def membership_values_def)

lemma api_key_typed:
  "row_ok api_keys_table (api_key_values r) \<longleftrightarrow> length (k_id r) \<le> 128 \<and> length (k_tenant_id r) \<le> 128 \<and>
     length (k_key_prefix r) \<le> 32 \<and> length (k_secret_hash r) \<le> 255 \<and> length (k_role r) \<le> 32"
  by (simp add: table_defs api_keys_table_def api_key_values_def split: option.split)

lemma client_typed:
  "row_ok identity_clients_table (client_values r) \<longleftrightarrow> length (i_id r) \<le> 128 \<and> length (i_name r) \<le> 255 \<and>
     length (i_key_prefix r) \<le> 32 \<and> length (i_secret_hash r) \<le> 255 \<and> (\<forall>s. i_rotated_from_id r = Some s \<longrightarrow> length s \<le> 128)"
  by (auto simp: table_defs identity_clients_table_def client_values_def split: option.split)

lemma session_typed:
  "row_ok user_sessions_table (session_values r) \<longleftrightarrow> length (s_id r) \<le> 128 \<and> length (s_token_hash r) \<le> 64 \<and>
     length (s_user_id r) \<le> 128 \<and> length (s_tenant_id r) \<le> 128 \<and> length (s_identity_client_id r) \<le> 128"
  by (simp add: table_defs user_sessions_table_def session_values_def split: option.split)

lemmas row_typed = tenant_typed user_typed membership_typed api_key_typed client_typed session_typed

section \<open>What the program relies on\<close>

text \<open>
  The documented lengths: \<^verbatim>\<open>uuid4().hex\<close> has 32 digits, the salt 16 bytes, the digests 32 bytes
  and 64 hexadecimal digits.
\<close>

definition digest_shape :: "crypto \<Rightarrow> bool" where
  "digest_shape C \<longleftrightarrow> (\<forall>secret salt. length (scrypt_digest C secret salt) = 32) \<and> (\<forall>t. length (token_sha256 C t) = 64)"

definition uuid_shape :: "'a call_env_scheme \<Rightarrow> bool" where
  "uuid_shape e \<longleftrightarrow> (\<forall>n. length (uuid e n) = 32)"

fun call_shape :: "identity_call \<Rightarrow> bool" where
  "call_shape (Id_upsert_user e i s m n) \<longleftrightarrow> uuid_shape e"
| "call_shape (Id_issue_api_key C e t r scs x actor) \<longleftrightarrow> uuid_shape e \<and> env_shape e \<and> length (token_salt e) = 16 \<and> digest_shape C"
| "call_shape (Id_issue_client C e n iss) \<longleftrightarrow> uuid_shape e \<and> env_shape e \<and> length (token_salt e) = 16 \<and> digest_shape C"
| "call_shape (Id_rotate_client C e i) \<longleftrightarrow> uuid_shape e \<and> env_shape e \<and> length (token_salt e) = 16 \<and> digest_shape C"
| "call_shape (Id_issue_session C e i t u n actor rq) \<longleftrightarrow> uuid_shape e \<and> digest_shape C"
| "call_shape c \<longleftrightarrow> True"

lemma encoded_length: "length (urlsafe_b64encode bs) \<le> 4 * (length bs div 3 + 1)"
  by (induction bs rule: urlsafe_b64encode.induct) simp_all

lemma unpadded_length: "length (b64_unpadded bs) \<le> 4 * (length bs div 3 + 1)"
proof -
  have "length (b64_unpadded bs) \<le> length (urlsafe_b64encode bs)"
    unfolding b64_unpadded_def rstrip_by_def using length_dropWhile_le [of _ "rev (urlsafe_b64encode bs)"] by simp
  with encoded_length [of bs] show ?thesis by simp
qed

lemma cost_lengths: "length (py_str_int scrypt_n) = 5" "length (py_str_int scrypt_r) = 1" "length (py_str_int scrypt_p) = 1"
  by (simp_all add: scrypt_n_def scrypt_r_def scrypt_p_def py_str_int_def nat_digits.simps)

lemma secret_hash_length:
  assumes "length salt = 16" and "digest_shape C"
  shows "length (hash_secret C salt secret) \<le> 255"
  using unpadded_length [of salt] unpadded_length [of "scrypt_digest C secret salt"] assms
  by (simp add: hash_secret_def cost_lengths digest_shape_def)

lemma role_length: "r \<in> set roles \<Longrightarrow> length r \<le> 32"
  by (auto simp: roles_def)

lemma status_lengths: "s \<in> set tenant_statuses \<Longrightarrow> length s \<le> 32" "s \<in> set membership_statuses \<Longrightarrow> length s \<le> 32"
  by (auto simp: tenant_statuses_def membership_statuses_def)

lemma identifier_length: "is_identifier s \<Longrightarrow> length s \<le> 128"
  by (auto simp: is_identifier_def split: list.splits)

section \<open>Every call keeps the types\<close>

lemmas typed_simps = account_types_def row_typed

text \<open>A change of a table by new rows and by updates that keep a typed row typed.\<close>

lemma typed_update: "(\<forall>r \<in> set xs. P r) \<Longrightarrow> (\<And>r. P r \<Longrightarrow> P (f r)) \<Longrightarrow> \<forall>r \<in> set (upd_where Q f xs). P r"
  by (auto simp: set_upd_where)

lemma typed_audits [simp]: "account_types (d\<lparr>db_audit_events := xs\<rparr>) = account_types d"
  by (simp add: account_types_def)

lemma typed_lookups:
  assumes "account_types d"
  shows "get_tenant t d \<noteq> None \<Longrightarrow> length t \<le> 128" and "get_user u d \<noteq> None \<Longrightarrow> length u \<le> 128"
    and "client_live i d \<Longrightarrow> length i \<le> 128"
    and "get_client i d = Some c \<Longrightarrow> length (i_id c) \<le> 128 \<and> length (i_name c) \<le> 255"
  using assms
  by (auto simp: typed_simps get_tenant_def get_user_def client_live_def get_client_def split: option.splits dest!: find_SomeD)

lemma create_tenant_typed:
  "account_types d \<Longrightarrow> account_types (snd (create_tenant e t slug name days actor d))"
  unfolding create_tenant_def
  by (rule commit_preserves, assumption)
    (auto simp: step_inversion validate_identifier_def insert_tenant_Inr typed_simps is_slug_def dest: identifier_length split: if_splits)

lemma set_tenant_status_typed:
  "account_types d \<Longrightarrow> account_types (snd (set_tenant_status e t st actor d))"
  unfolding set_tenant_status_def
  by (rule commit_preserves, assumption)
    (auto simp: step_inversion typed_simps status_lengths set_upd_where split: if_splits option.splits)

lemma set_membership_typed:
  assumes "account_types d"
  shows "account_types (snd (set_membership e t u role actor d))"
  unfolding set_membership_def
  by (rule commit_preserves, rule assms)
    (use assms typed_lookups(1,2) [OF assms] in \<open>auto simp: step_inversion validate_role_def insert_membership_def typed_simps role_length
      set_upd_where split: if_splits option.splits\<close>)

lemma set_membership_status_typed:
  "account_types d \<Longrightarrow> account_types (snd (set_membership_status e t u st actor d))"
  unfolding set_membership_status_def
  by (rule commit_preserves, assumption)
    (auto simp: step_inversion typed_simps status_lengths set_upd_where split: if_splits option.splits)

lemma record_auth_event_typed:
  "account_types d \<Longrightarrow> account_types (snd (record_auth_event e t actor a outc rq j d))"
  unfolding record_auth_event_def
  by (rule commit_preserves, assumption) (auto simp: step_inversion split: if_splits)

lemma profile_typed:
  "row_ok users_table (user_values r) \<Longrightarrow> validate_user i s email display = Inr w \<Longrightarrow>
    row_ok users_table (user_values (profile_of email display ts r))"
  by (auto simp: user_typed profile_of_def validate_user_def split: if_splits option.splits)

lemma upsert_user_typed:
  assumes "account_types d" and "uuid_shape e"
  shows "account_types (snd (upsert_user e i s m n d))"
proof (cases "validate_user (py_strip i) (py_strip s) m n")
  case (Inr w)
  have users: "\<forall>r \<in> set (db_users d). row_ok users_table (user_values r)" using assms(1) by (simp add: account_types_def)
  have upd: "account_types (d\<lparr>db_users := upd_where P (profile_of m n ts) (db_users d)\<rparr>)" for P ts
    using assms(1) typed_update [OF users profile_typed [OF _ Inr]] by (simp add: account_types_def)
  have new: "account_types (d\<lparr>db_users := db_users d @ [\<lparr>u_id = ''usr_'' @ uuid e 0, u_issuer = py_strip i, u_subject = py_strip s,
      u_email = m, u_display_name = n, u_created_at = ts, u_updated_at = ts\<rparr>]\<rparr>)" for ts
    using assms Inr by (auto simp: typed_simps uuid_shape_def validate_user_def split: if_splits option.splits)
  have "account_types (snd (commit (upsert_first e (py_strip i) (py_strip s) m n sel d) d))" for sel
    by (rule commit_preserves, rule assms(1))
      (auto simp: upsert_first_def insert_user_def Let_def bind_exn_Inr upd new simp del: append_Cons split: option.splits if_splits)
  moreover have "account_types (snd (commit (upsert_retry e (py_strip i) (py_strip s) m n d) d))"
    by (rule commit_preserves, rule assms(1)) (auto simp: upsert_retry_def upd split: option.splits)
  moreover have "snd (commit (upsert_first e (py_strip i) (py_strip s) m n sel d) d) = d"
    if "fst (commit (upsert_first e (py_strip i) (py_strip s) m n sel d) d) = Inl x" for sel x
    using that by (cases "upsert_first e (py_strip i) (py_strip s) m n sel d") auto
  ultimately show ?thesis using Inr
    by (auto simp: upsert_user_def upsert_selected_def split: prod.split sum.split) (metis fst_conv snd_conv)+
qed (simp add: upsert_user_def assms(1))

lemma issue_api_key_typed:
  assumes "account_types d" and "call_shape (Id_issue_api_key C e t r scs x actor)"
  shows "account_types (snd (issue_api_key C e t r scs x actor d))"
proof -
  obtain w d' where w: "issue_api_key C e t r scs x actor d = (w, d')" by fastforce
  show ?thesis
  proof (cases w)
    case (Inl y)
    with w have "d' = d" by (auto simp: issue_api_key_def commit_def split: sum.splits)
    with w assms(1) show ?thesis by simp
  next
    case (Inr k)
    from w Inr have issued: "issue_api_key C e t r scs x actor d = (Inr k, d')" by simp
    show ?thesis
    proof (cases rule: issue_api_key_Inr [OF issued])
      case (1 sc expiry a)
      then have "get_tenant t d \<noteq> None" by auto
      with assms(2) w 1 typed_lookups(1) [OF assms(1)] assms(1) show ?thesis
        by (auto simp: typed_simps uuid_shape_def env_shape_def secret_hash_length role_length)
    qed
  qed
qed

lemma revoke_api_key_typed:
  "account_types d \<Longrightarrow> account_types (snd (revoke_api_key e t i actor d))"
  unfolding revoke_api_key_def
  by (rule commit_preserves, assumption)
    (auto simp: step_inversion typed_simps set_upd_where split: if_splits option.splits)

lemma new_client_typed:
  assumes "uuid_shape e" and "env_shape e" and "length (token_salt e) = 16" and "digest_shape C"
    and "length name \<le> 255" and "\<forall>x. from = Some x \<longrightarrow> length x \<le> 128"
  shows "row_ok identity_clients_table (client_values (fst (new_identity_client C e name iss from)))"
  using assms by (simp add: client_typed new_identity_client_def uuid_shape_def env_shape_def secret_hash_length)

lemma insert_client_typed:
  "account_types d \<Longrightarrow> insert_client r d = Inr d' \<Longrightarrow> row_ok identity_clients_table (client_values r) \<Longrightarrow> account_types d'"
  by (auto simp: insert_client_def account_types_def split: if_splits)

lemma issue_client_typed:
  assumes "account_types d" and "call_shape (Id_issue_client C e n iss)"
  shows "account_types (snd (issue_identity_client C e n iss d))"
  unfolding issue_identity_client_def
proof (rule commit_preserves, rule assms(1))
  fix v d'
  assume run: "bind_exn (normalize_client_name n) (\<lambda>clean. bind_exn (normalize_issuers iss) (\<lambda>allowed.
      case new_identity_client C e clean allowed None of (row, token) \<Rightarrow>
        bind_exn (insert_client row d) (\<lambda>d1. Inr ((client_info row, token), d1)))) = Inr (v, d')"
  then obtain clean allowed where clean: "normalize_client_name n = Inr clean"
    and ins: "insert_client (fst (new_identity_client C e clean allowed None)) d = Inr d'"
    by (auto simp: bind_exn_Inr split_beta)
  from clean have "length clean \<le> 255" by (auto simp: normalize_client_name_def split: if_splits)
  with assms(2) show "account_types d'" by (intro insert_client_typed [OF assms(1) ins] new_client_typed) simp_all
qed

lemma rotate_client_typed:
  assumes "account_types d" and "call_shape (Id_rotate_client C e i)"
  shows "account_types (snd (rotate_identity_client C e i d))"
  unfolding rotate_identity_client_def
proof (rule commit_preserves, rule assms(1))
  fix v d'
  assume run: "(case get_client i d of None \<Rightarrow> Inl (KeyError (''identity client not found: '' @ i))
     | Some previous \<Rightarrow> if \<not> i_active previous \<or> i_revoked_at previous \<noteq> None
            then Inl (ValueError ''revoked identity clients cannot be rotated'')
            else (case new_identity_client C e (i_name previous) (i_allowed_issuers previous) (Some (i_id previous)) of
                 (row, token) \<Rightarrow> bind_exn (insert_client row d) (\<lambda>d1. Inr ((client_info row, token), d1)))) = Inr (v, d')"
  then obtain c where c: "get_client i d = Some c"
    and ins: "insert_client (fst (new_identity_client C e (i_name c) (i_allowed_issuers c) (Some (i_id c)))) d = Inr d'"
    by (auto simp: bind_exn_Inr split: prod.splits option.splits if_splits)
  from typed_lookups(4) [OF assms(1) c] assms(2) show "account_types d'"
    by (intro insert_client_typed [OF assms(1) ins] new_client_typed) simp_all
qed

lemma client_use_typed:
  "account_types d \<Longrightarrow> account_types (snd (authenticate_identity_client C e tok iss d))"
  "account_types d \<Longrightarrow> account_types (snd (revoke_identity_client e i d))"
  by (auto simp: authenticate_identity_client_def revoke_identity_client_def typed_simps set_upd_where
      split: option.split prod.split)

lemma session_use_typed:
  "account_types d \<Longrightarrow> account_types (snd (authenticate_user_session C e tok d))"
  by (auto simp: authenticate_user_session_def typed_simps set_upd_where split: option.split)

lemma revoke_session_typed:
  "account_types d \<Longrightarrow> account_types (snd (revoke_user_session e t i actor rq d))"
  unfolding revoke_user_session_def
  by (rule commit_preserves, assumption)
    (auto simp: step_inversion typed_simps set_upd_where split: if_splits option.splits)

lemma cleanup_typed:
  "account_types d \<Longrightarrow> account_types (snd (cleanup_expired_user_sessions e b d))"
  unfolding cleanup_expired_user_sessions_def
  by (rule commit_preserves, assumption) (auto simp: step_inversion typed_simps)

lemma issue_session_typed:
  assumes "account_types d" and "call_shape (Id_issue_session C e i t u n actor rq)"
  shows "account_types (snd (issue_user_session C e i t u n actor rq d))"
proof -
  obtain w d' where w: "issue_user_session C e i t u n actor rq d = (w, d')" by fastforce
  show ?thesis
  proof (cases w)
    case (Inl y)
    with w have "d' = d" by (auto simp: issue_user_session_def commit_def split: sum.splits)
    with w assms(1) show ?thesis by simp
  next
    case (Inr k)
    with w have issued: "issue_user_session C e i t u n actor rq d = (Inr k, d')" by simp
    show ?thesis
    proof (cases rule: issue_user_session_Inr [OF issued])
      case (1 a m)
      then have "get_tenant t d \<noteq> None" by auto
      with assms(2) w 1(3,5,11) typed_lookups(1-3) [OF assms(1)] assms(1) show ?thesis
        by (auto simp: typed_simps uuid_shape_def digest_shape_def)
    qed
  qed
qed

lemma identity_typed:
  assumes "account_types d" and "call_shape c"
  shows "account_types (identity_perform c d)"
  using assms
  by (cases c) (simp_all add: create_tenant_typed set_tenant_status_typed upsert_user_typed set_membership_typed
      set_membership_status_typed record_auth_event_typed issue_api_key_typed revoke_api_key_typed issue_client_typed
      rotate_client_typed client_use_typed issue_session_typed session_use_typed revoke_session_typed cleanup_typed
      call_shape.simps(1) del: call_shape.simps(2-))

lemma empty_typed [simp]: "account_types empty_db"
  by (simp add: account_types_def empty_db_def)

section \<open>The property\<close>

text \<open>
  C31: The accounts are well typed. Whatever calls of the identity repository are made, with
  whatever arguments, every row of the tenants, users, memberships, API keys, identity
  clients and user sessions has the columns its table declares, with values of their types:
  text within the declared lengths, integers in range, NULL only where it is allowed. The
  program checks what it is given; of what the library draws only the documented lengths are
  assumed.
\<close>

theorem accounts_well_typed:
  assumes "\<forall>c \<in> set cs. call_shape c"
  shows "account_types (identity_run cs empty_db)"
proof -
  have "account_types (fold identity_perform cs d)" if "account_types d" "\<forall>c \<in> set cs. call_shape c" for d
    using that by (induction cs arbitrary: d) (auto intro: identity_typed)
  with assms show ?thesis by (simp add: identity_run_def)
qed

text \<open>A tenant, a user, a membership, a client and a session of the documented lengths.\<close>

definition shaped_env :: "char \<Rightarrow> secret_env" where
  "shaped_env c = \<lparr>now = 5, uuid = (\<lambda>n. replicate 32 c), token_hex = replicate 24 (CHR ''a''),
     token_urlsafe = replicate 43 (CHR ''B''), token_salt = replicate 16 (CHR ''s'')\<rparr>"

definition shaped_crypto :: crypto where
  "shaped_crypto = \<lparr>scrypt_digest = (\<lambda>secret salt. replicate 32 (CHR ''d'')), token_sha256 = (\<lambda>t. replicate 64 (CHR ''e''))\<rparr>"

definition shaped_calls :: "identity_call list" where
  "shaped_calls =
     [Id_create_tenant \<lparr>now = 5, uuid = (\<lambda>n. ''a1'')\<rparr> ''acme'' ''acme'' ''Acme'' 30 ''root'',
      Id_upsert_user \<lparr>now = 5, uuid = (\<lambda>n. replicate 32 (CHR ''u''))\<rparr> ''https://issuer'' ''subject'' None (Some ''User''),
      Id_set_membership \<lparr>now = 5, uuid = (\<lambda>n. ''a2'')\<rparr> ''acme'' (''usr_'' @ replicate 32 (CHR ''u'')) ''analyst'' ''root'',
      Id_issue_client shaped_crypto (shaped_env (CHR ''c'')) ''bridge'' [''https://issuer''],
      Id_issue_session shaped_crypto (shaped_env (CHR ''s'')) (''idc_'' @ replicate 32 (CHR ''c'')) ''acme''
        (''usr_'' @ replicate 32 (CHR ''u'')) 60 ''bridge'' None]"

theorem accounts_well_typed_witness: "account_types (identity_run shaped_calls empty_db)"
  by (rule accounts_well_typed)
    (simp add: shaped_calls_def uuid_shape_def env_shape_def digest_shape_def shaped_env_def shaped_crypto_def
      is_hex_lower_def url_token_char_def is_alnum_ascii_def is_upper_az_def list_all_iff)

end
