(* ===== verification/Isolation.thy ===== *)
theory Isolation
  imports Prelude
begin

text \<open>
  Noninterference of callers that share a state: if a call of one caller leaves the parts of
  the others alone, and its answer and what it does to its own part depend on that part
  only, then every caller gets the answers it would get if the others were not there.
\<close>

section \<open>Runs\<close>

fun run_steps :: "('c \<Rightarrow> 's \<Rightarrow> 'a \<times> 's) \<Rightarrow> 'c list \<Rightarrow> 's \<Rightarrow> 'a list \<times> 's" where
  "run_steps step [] s = ([], s)"
| "run_steps step (c # cs) s =
     (case step c s of (a, s1) \<Rightarrow> case run_steps step cs s1 of (as, s2) \<Rightarrow> (a # as, s2))"

lemma run_steps_Cons [simp]:
  "snd (run_steps step (c # cs) s) = snd (run_steps step cs (snd (step c s)))"
  "fst (run_steps step (c # cs) s) = fst (step c s) # fst (run_steps step cs (snd (step c s)))"
  by (simp_all split: prod.split)

declare run_steps.simps(2) [simp del]

text \<open>The answers to the calls that satisfy \<open>P\<close>.\<close>

fun answers_to :: "('c \<Rightarrow> bool) \<Rightarrow> 'c list \<Rightarrow> 'a list \<Rightarrow> 'a list" where
  "answers_to P (c # cs) (a # as) = (if P c then a # answers_to P cs as else answers_to P cs as)"
| "answers_to P _ _ = []"

text \<open>Every call that satisfies \<open>P\<close> finds a state it is ready for.\<close>

fun all_ready :: "('c \<Rightarrow> 's \<Rightarrow> 'a \<times> 's) \<Rightarrow> ('c \<Rightarrow> 's \<Rightarrow> bool) \<Rightarrow> ('c \<Rightarrow> bool) \<Rightarrow> 'c list \<Rightarrow> 's \<Rightarrow> bool" where
  "all_ready step ready P [] s \<longleftrightarrow> True"
| "all_ready step ready P (c # cs) s \<longleftrightarrow>
     (if P c then ready c s else True) \<and> all_ready step ready P cs (snd (step c s))"

section \<open>Unwinding\<close>

locale unwinding =
  fixes step :: "'c \<Rightarrow> 's \<Rightarrow> 'a \<times> 's"
    and caller :: "'c \<Rightarrow> string"
    and part :: "string \<Rightarrow> 's \<Rightarrow> 'p"
    and good :: "'s \<Rightarrow> bool"
    and ready :: "'c \<Rightarrow> 's \<Rightarrow> bool"
  assumes good_step: "good s \<Longrightarrow> good (snd (step c s))"
    and respects: "good s \<Longrightarrow> t \<noteq> caller c \<Longrightarrow> part t (snd (step c s)) = part t s"
    and consistent: "good s \<Longrightarrow> good u \<Longrightarrow> part (caller c) s = part (caller c) u \<Longrightarrow> ready c s \<Longrightarrow> ready c u \<Longrightarrow>
      fst (step c s) = fst (step c u) \<and> part (caller c) (snd (step c s)) = part (caller c) (snd (step c u))"
begin

lemma good_run: "good s \<Longrightarrow> good (snd (run_steps step cs s))"
  by (induction cs arbitrary: s) (simp_all add: good_step)

text \<open>What the callers other than \<open>t\<close> do, \<open>t\<close> does not see.\<close>

lemma others_unseen:
  assumes "good s" and "\<forall>c \<in> set cs. caller c \<noteq> t"
  shows "part t (snd (run_steps step cs s)) = part t s"
  using assms
proof (induction cs arbitrary: s)
  case (Cons c cs)
  have "part t (snd (run_steps step cs (snd (step c s)))) = part t (snd (step c s))"
    using Cons.prems by (intro Cons.IH good_step) auto
  also have "\<dots> = part t s" using Cons.prems by (intro respects) auto
  finally show ?case by simp
qed simp

lemma noninterference:
  assumes "good s" and "good u" and "part t s = part t u"
    and "all_ready step ready (\<lambda>c. caller c = t) cs s"
    and "all_ready step ready (\<lambda>c. caller c = t) (filter (\<lambda>c. caller c = t) cs) u"
  shows "answers_to (\<lambda>c. caller c = t) cs (fst (run_steps step cs s)) =
      fst (run_steps step (filter (\<lambda>c. caller c = t) cs) u) \<and>
    part t (snd (run_steps step cs s)) = part t (snd (run_steps step (filter (\<lambda>c. caller c = t) cs) u))"
  using assms
proof (induction cs arbitrary: s u)
  case Nil
  then show ?case by simp
next
  case (Cons c cs)
  show ?case
  proof (cases "caller c = t")
    case True
    with Cons.prems have "fst (step c s) = fst (step c u)" and "part t (snd (step c s)) = part t (snd (step c u))"
      using consistent [of s u c] by auto
    with True Cons.prems Cons.IH [of "snd (step c s)" "snd (step c u)"] show ?thesis
      by (simp add: good_step)
  next
    case False
    with Cons.prems have "part t (snd (step c s)) = part t u" using respects [of s t c] by auto
    with False Cons.prems Cons.IH [of "snd (step c s)" u] show ?thesis by (simp add: good_step)
  qed
qed

end

end
