(* ===== verification/Service.thy ===== *)
theory Service
  imports Isolation Dispatch
begin

text \<open>
  The routes of \<^verbatim>\<open>install_v1_routes\<close> that a tenant calls, as one operation over the state of
  the job repository, and the calls of workers beside them. The tenant of a request is the
  one the middleware put into its state. The lemmas show, in the contract of the
  repository, that tenants do not interfere.
\<close>

section \<open>Requests\<close>

text \<open>
  What \<^verbatim>\<open>install_v1_routes\<close> is given: the repository, one of the two dispatchers, and the
  products with their queues. A request draws times and UUIDs for each of its transactions,
  and finds the broker as it is at that time.
\<close>

datatype dispatch_mode = Inline_mode | Celery_mode

record 's service =
  sv_core :: core_lib
  sv_repository :: "'s job_repository"
  sv_mode :: dispatch_mode
  sv_queues :: "finding_source \<Rightarrow> string option"
  sv_exn_text :: "exn \<Rightarrow> string"

record request_env =
  re_calls :: "nat \<Rightarrow> call_env"
  re_broker :: broker

fun mode_dispatcher :: "dispatch_mode \<Rightarrow> request_env \<Rightarrow> 's dispatcher" where
  "mode_dispatcher Inline_mode E = inline_dispatcher (re_calls E 3)"
| "mode_dispatcher Celery_mode E = celery_dispatcher (re_broker E)"

text \<open>A step of an open stream is a call of its own: others come between two of them.\<close>

datatype scan_call =
    Create_scan scan_body
  | List_scans "job_status option" "finding_source option" int
  | Get_scan string
  | Cancel_scan string
  | Scan_events string
  | Stream_events string sse_state

datatype scan_answer = Responded "exn + response" | Streaming sse_state

fun handle_scan ::
  "'s service \<Rightarrow> request_env \<Rightarrow> api_request \<Rightarrow> scan_call \<Rightarrow> 's \<Rightarrow> scan_answer \<times> 's" where
  "handle_scan S E r (Create_scan b) s =
     map_prod Responded id (create_scan (sv_core S) (sv_repository S) (mode_dispatcher (sv_mode S) E) (sv_queues S)
       (sv_exn_text S) (re_calls E) r b s)"
| "handle_scan S E r (List_scans st src n) s =
     (Responded (Inr (list_scans (sv_core S) (sv_repository S) r st src n s)), s)"
| "handle_scan S E r (Get_scan j) s = (Responded (Inr (get_scan (sv_core S) (sv_repository S) r j s)), s)"
| "handle_scan S E r (Cancel_scan j) s =
     map_prod Responded id (cancel_scan (sv_core S) (sv_repository S) (mode_dispatcher (sv_mode S) E) (re_calls E 0) r j s)"
| "handle_scan S E r (Scan_events j) s =
     (case scan_events (sv_repository S) r j s of
        Inl resp \<Rightarrow> (Responded (Inr resp), s)
      | Inr x \<Rightarrow> (Streaming x, s))"
| "handle_scan S E r (Stream_events j x) s = (Streaming (sse_step (sv_repository S) (aq_tenant_id r) j s x), s)"

datatype service_call = Request request_env api_request scan_call | Worker job_call

datatype service_answer = Request_answer scan_answer | Worker_answer job_answer

fun service_step :: "'s service \<Rightarrow> service_call \<Rightarrow> 's \<Rightarrow> service_answer \<times> 's" where
  "service_step S (Request E r c) s = map_prod Request_answer id (handle_scan S E r c s)"
| "service_step S (Worker c) s = map_prod Worker_answer id (perform (sv_repository S) c s)"

fun call_tenant :: "job_call \<Rightarrow> string" where
  "call_tenant (Call_create e t src p key) = t"
| "call_tenant (Call_mark_running e t j rq) = t"
| "call_tenant (Call_transition e t j st n c m) = t"
| "call_tenant (Call_append_event e t j kind p) = t"
| "call_tenant (Call_set_dispatch_id e t j i) = t"
| "call_tenant (Call_request_cancel e t j) = t"
| "call_tenant (Call_get t j) = t"
| "call_tenant (Call_list_jobs t st src n) = t"
| "call_tenant (Call_find t k) = t"
| "call_tenant (Call_list_events t j n m) = t"

fun service_caller :: "service_call \<Rightarrow> string" where
  "service_caller (Request E r c) = aq_tenant_id r"
| "service_caller (Worker c) = call_tenant c"

section \<open>What a tenant can see\<close>

definition tenant_view :: "string \<Rightarrow> job_store \<Rightarrow> (string \<Rightarrow> job_record option) \<times> (string \<Rightarrow> job_event list)" where
  "tenant_view t a = (st_jobs a t, st_events a t)"

text \<open>The dispatchers of \<^verbatim>\<open>dispatch.py\<close> do not touch the repository and do not look at it.\<close>

definition detached :: "'s dispatcher \<Rightarrow> bool" where
  "detached D \<longleftrightarrow> (\<forall>job q s s'. snd (ds_submit D job q s) = s \<and> fst (ds_submit D job q s) = fst (ds_submit D job q s') \<and>
     snd (ds_cancel D job s) = s \<and> fst (ds_cancel D job s) = fst (ds_cancel D job s'))"

lemma detached_mode [simp]: "detached (mode_dispatcher m E)"
  by (cases m) (simp_all add: detached_def inline_dispatcher_def celery_dispatcher_def)

text \<open>
  The UUIDs a call draws are new: that of a job, in all tenants, as ids are; and those of the
  audit rows (\<open>rdy\<close>). The third transaction of a request that creates a scan is the one that
  records a failed dispatch.
\<close>

definition new_job_id :: "('s \<Rightarrow> job_store) \<Rightarrow> call_env \<Rightarrow> 's \<Rightarrow> bool" where
  "new_job_id view e s \<longleftrightarrow> \<not> job_id_used (''job_'' @ uuid e 0) (view s)"

fun job_call_ready :: "('s \<Rightarrow> job_store) \<Rightarrow> (call_env \<Rightarrow> string \<Rightarrow> 's \<Rightarrow> bool) \<Rightarrow> job_call \<Rightarrow> 's \<Rightarrow> bool" where
  "job_call_ready view rdy (Call_create e t src p key) s \<longleftrightarrow> new_job_id view e s \<and> rdy e t s"
| "job_call_ready view rdy c s \<longleftrightarrow> call_ready rdy c s"

fun service_ready ::
  "'s service \<Rightarrow> ('s \<Rightarrow> job_store) \<Rightarrow> (call_env \<Rightarrow> string \<Rightarrow> 's \<Rightarrow> bool) \<Rightarrow> service_call \<Rightarrow> 's \<Rightarrow> bool" where
  "service_ready S view rdy (Request E r (Create_scan b)) s \<longleftrightarrow>
     new_job_id view (re_calls E 0) s \<and> rdy (re_calls E 0) (aq_tenant_id r) s \<and>
     rdy (re_calls E 2) (aq_tenant_id r) (snd (r_create (sv_repository S) (re_calls E 0) (aq_tenant_id r) (sb_source b) (sb_payload b)
       (aq_idempotency_key r) s))"
| "service_ready S view rdy (Request E r (Cancel_scan j)) s \<longleftrightarrow> rdy (re_calls E 0) (aq_tenant_id r) s"
| "service_ready S view rdy (Request E r c) s \<longleftrightarrow> True"
| "service_ready S view rdy (Worker c) s \<longleftrightarrow> job_call_ready view rdy c s"

section \<open>The abstract operations\<close>

text \<open>An operation of a tenant leaves the others' jobs and events alone.\<close>

lemma spec_respects:
  "t \<noteq> t' \<Longrightarrow> tenant_view t (snd (spec_mark_running e t' j rq a)) = tenant_view t a"
  "t \<noteq> t' \<Longrightarrow> tenant_view t (snd (spec_transition e t' j st n c m a)) = tenant_view t a"
  "t \<noteq> t' \<Longrightarrow> tenant_view t (snd (spec_append_event e t' j kind p a)) = tenant_view t a"
  "t \<noteq> t' \<Longrightarrow> tenant_view t (spec_set_dispatch_id e t' j d a) = tenant_view t a"
  "t \<noteq> t' \<Longrightarrow> tenant_view t (snd (spec_request_cancel e t' j a)) = tenant_view t a"
  "t \<noteq> t' \<Longrightarrow> tenant_view t (snd (spec_insert e t' src pl key a)) = tenant_view t a"
  by (auto simp: tenant_view_def spec_mark_running_def spec_transition_def spec_append_event_def
      spec_set_dispatch_id_def spec_request_cancel_def spec_insert_def Let_def fun_eq_iff split: option.split)

text \<open>What it answers, and what it does to its own, depends on its own only.\<close>

definition alike :: "string \<Rightarrow> ('r \<times> job_store) \<Rightarrow> ('r \<times> job_store) \<Rightarrow> bool" where
  "alike t x y \<longleftrightarrow> fst x = fst y \<and> tenant_view t (snd x) = tenant_view t (snd y)"

lemma spec_alike:
  assumes "tenant_view t a = tenant_view t b"
  shows "alike t (spec_mark_running e t j rq a) (spec_mark_running e t j rq b)"
    and "alike t (spec_transition e t j st n c m a) (spec_transition e t j st n c m b)"
    and "alike t (spec_append_event e t j kind p a) (spec_append_event e t j kind p b)"
    and "tenant_view t (spec_set_dispatch_id e t j d a) = tenant_view t (spec_set_dispatch_id e t j d b)"
    and "alike t (spec_request_cancel e t j a) (spec_request_cancel e t j b)"
    and "\<not> job_id_used (''job_'' @ uuid e 0) a \<Longrightarrow> \<not> job_id_used (''job_'' @ uuid e 0) b \<Longrightarrow>
      alike t (spec_insert e t src pl key a) (spec_insert e t src pl key b)"
  using assms
  by (auto simp: alike_def tenant_view_def spec_mark_running_def spec_transition_def spec_append_event_def
      spec_set_dispatch_id_def spec_request_cancel_def spec_insert_def Let_def fun_eq_iff split: option.split)

end
