(* ===== verification/Tenant_Isolation.thy ===== *)
theory Tenant_Isolation
  imports Service
begin

text \<open>
  The unwinding conditions of \<open>Isolation\<close> for the calls of workers and for the requests of
  tenants, proved in the contract of the job repository, so that they hold of both backends.
\<close>

section \<open>Repository calls\<close>

context job_contract
begin

definition seen :: "string \<Rightarrow> 's \<Rightarrow> (string \<Rightarrow> job_record option) \<times> (string \<Rightarrow> job_event list)" where
  "seen t s = tenant_view t (view s)"

lemma refines_respects:
  "refines invar view rdy s spec out \<Longrightarrow> tenant_view t (snd spec) = tenant_view t (view s) \<Longrightarrow> seen t (snd out) = seen t s"
  by (auto simp: refines_def seen_def)

lemma refines_alike:
  "refines invar view r1 s spec1 out1 \<Longrightarrow> refines invar view r2 u spec2 out2 \<Longrightarrow> r1 \<Longrightarrow> r2 \<Longrightarrow>
    alike t spec1 spec2 \<Longrightarrow> fst out1 = fst out2 \<and> seen t (snd out1) = seen t (snd out2)"
  by (auto simp: refines_def seen_def alike_def)

lemma seen_jobs: "seen t s = seen t u \<Longrightarrow> st_jobs (view s) t = st_jobs (view u) t"
  and seen_events: "seen t s = seen t u \<Longrightarrow> st_events (view s) t = st_events (view u) t"
  by (simp_all add: seen_def tenant_view_def)

lemma find_seen:
  assumes "invar s" and "invar u" and "seen t s = seen t u"
  shows "r_find_by_idempotency_key R t k s = r_find_by_idempotency_key R t k u"
proof (cases "r_find_by_idempotency_key R t k s")
  case None
  show ?thesis
  proof (cases "r_find_by_idempotency_key R t k u")
    case (Some r)
    with assms(2) have "st_jobs (view u) t (j_id r) = Some r \<and> j_idempotency_key r = Some k" by (rule find_some)
    with find_none [OF assms(1) None, of "j_id r" r] seen_jobs [OF assms(3)] show ?thesis by simp
  qed (simp add: None)
next
  case (Some r)
  with assms(1) have "st_jobs (view s) t (j_id r) = Some r \<and> j_idempotency_key r = Some k" by (rule find_some)
  with seen_jobs [OF assms(3)] have "r_find_by_idempotency_key R t k u = Some r"
    by (intro find_complete [OF assms(2)]) auto
  with Some show ?thesis by simp
qed

lemma reads_seen:
  assumes "invar s" and "invar u" and "seen t s = seen t u"
  shows "r_get R t j s = r_get R t j u" and "r_list_events R t j n m s = r_list_events R t j n m u"
    and "r_list_jobs R t st src k s = r_list_jobs R t st src k u"
proof -
  show "r_get R t j s = r_get R t j u" unfolding get [OF assms(1)] get [OF assms(2)] seen_jobs [OF assms(3)] ..
  show "r_list_events R t j n m s = r_list_events R t j n m u" unfolding list_events [OF assms(1)] list_events [OF assms(2)] seen_events [OF assms(3)] ..
  obtain xs where xs: "listing {r. \<exists>j. st_jobs (view s) t j = Some r \<and> job_matches t st src r} xs"
    "r_list_jobs R t st src k s = sql_limit (page_limit k) xs"
    using list_jobs [OF assms(1)] by blast
  obtain ys where ys: "listing {r. \<exists>j. st_jobs (view u) t j = Some r \<and> job_matches t st src r} ys"
    "r_list_jobs R t st src k u = sql_limit (page_limit k) ys"
    using list_jobs [OF assms(2)] by blast
  from xs(1) ys(1) have "xs = ys" unfolding seen_jobs [OF assms(3)] by (rule listing_unique)
  with xs(2) ys(2) show "r_list_jobs R t st src k s = r_list_jobs R t st src k u" by simp
qed

lemma create_respects:
  assumes "invar s" and "t \<noteq> t'"
  shows "seen t (snd (r_create R e t' src p key s)) = seen t s"
proof (cases "\<exists>k r. key = Some k \<and> r_find_by_idempotency_key R t' k s = Some r")
  case True
  with assms show ?thesis by (auto simp: create_found)
next
  case False
  then have "\<And>k. key = Some k \<Longrightarrow> r_find_by_idempotency_key R t' k s = None" by auto
  from create_new [OF assms(1) this, where e = e and src = src and p = p] assms(2) show ?thesis
    by (auto intro: refines_respects spec_respects)
qed

lemma create_alike:
  assumes "invar s" and "invar u" and "seen t s = seen t u"
    and "new_job_id view e s" and "new_job_id view e u" and "ready e t s" and "ready e t u"
  shows "fst (r_create R e t src p key s) = fst (r_create R e t src p key u) \<and>
    seen t (snd (r_create R e t src p key s)) = seen t (snd (r_create R e t src p key u))"
proof (cases "\<exists>k r. key = Some k \<and> r_find_by_idempotency_key R t k s = Some r")
  case True
  then obtain k r where found: "key = Some k" "r_find_by_idempotency_key R t k s = Some r" by blast
  then have "r_find_by_idempotency_key R t k u = Some r" using find_seen [OF assms(1-3)] by simp
  with found assms(1-3) show ?thesis by (simp add: create_found)
next
  case False
  then have none: "\<And>k. key = Some k \<Longrightarrow> r_find_by_idempotency_key R t k s = None" by auto
  then have none': "\<And>k. key = Some k \<Longrightarrow> r_find_by_idempotency_key R t k u = None"
    using find_seen [OF assms(1-3)] by simp
  have "alike t (spec_insert e t src p key (view s)) (spec_insert e t src p key (view u))"
    using assms(3-5) by (intro spec_alike) (simp_all add: seen_def new_job_id_def)
  with create_new [where key = key and t = t and e = e and src = src and p = p, OF assms(1) none]
    create_new [where key = key and t = t and e = e and src = src and p = p, OF assms(2) none'] assms(6,7)
  show ?thesis by (intro refines_alike)
qed

lemma perform_respects:
  assumes "invar s" and "t \<noteq> call_tenant c"
  shows "seen t (snd (perform R c s)) = seen t s"
proof (cases c)
  case (Call_create e t' src p key)
  with assms create_respects show ?thesis by simp
next
  case (Call_mark_running e t' j rq)
  with assms refines_respects [OF mark_running [OF assms(1)]] show ?thesis by (simp add: spec_respects)
next
  case (Call_transition e t' j st n cd m)
  with assms refines_respects [OF transition [OF assms(1)]] show ?thesis by (simp add: spec_respects)
next
  case (Call_append_event e t' j kind p)
  with assms refines_respects [OF append_event [OF assms(1)]] show ?thesis by (simp add: spec_respects)
next
  case (Call_request_cancel e t' j)
  with assms refines_respects [OF request_cancel [OF assms(1)]] show ?thesis by (simp add: spec_respects)
next
  case (Call_set_dispatch_id e t' j d)
  with assms set_dispatch_id [OF assms(1)] show ?thesis by (simp add: spec_respects seen_def)
qed simp_all

lemma perform_alike:
  assumes "invar s" and "invar u" and "seen (call_tenant c) s = seen (call_tenant c) u"
    and "job_call_ready view ready c s" and "job_call_ready view ready c u"
  shows "fst (perform R c s) = fst (perform R c u) \<and>
    seen (call_tenant c) (snd (perform R c s)) = seen (call_tenant c) (snd (perform R c u))"
proof -
  have same: "tenant_view (call_tenant c) (view s) = tenant_view (call_tenant c) (view u)"
    using assms(3) by (simp add: seen_def)
  show ?thesis
  proof (cases c)
    case (Call_create e t src p key)
    with create_alike [of s u t e src p key] assms show ?thesis by simp
  next
    case (Call_mark_running e t j rq)
    from refines_alike [OF mark_running [OF assms(1)] mark_running [OF assms(2)] _ _ spec_alike(1) [OF same [unfolded Call_mark_running call_tenant.simps]]]
      assms(4,5) show ?thesis by (simp add: Call_mark_running)
  next
    case (Call_transition e t j st n cd m)
    from refines_alike [OF transition [OF assms(1)] transition [OF assms(2)] _ _ spec_alike(2) [OF same [unfolded Call_transition call_tenant.simps]]]
      assms(4,5) show ?thesis by (simp add: Call_transition)
  next
    case (Call_append_event e t j kind p)
    from refines_alike [OF append_event [OF assms(1)] append_event [OF assms(2)] _ _ spec_alike(3) [OF same [unfolded Call_append_event call_tenant.simps]]]
      assms(4,5) show ?thesis by (simp add: Call_append_event)
  next
    case (Call_request_cancel e t j)
    from refines_alike [OF request_cancel [OF assms(1)] request_cancel [OF assms(2)] _ _ spec_alike(5) [OF same [unfolded Call_request_cancel call_tenant.simps]]]
      assms(4,5) show ?thesis by (simp add: Call_request_cancel)
  next
    case (Call_set_dispatch_id e t j d)
    with set_dispatch_id [OF assms(1)] set_dispatch_id [OF assms(2)] spec_alike(4) [OF same] show ?thesis
      by (simp add: seen_def)
  next
    case (Call_get t j)
    with reads_seen [OF assms(1,2)] assms(3) show ?thesis by simp
  next
    case (Call_list_jobs t st src n)
    with reads_seen [OF assms(1,2)] assms(3) show ?thesis by simp
  next
    case (Call_find t k)
    with find_seen [OF assms(1,2)] assms(3) show ?thesis by simp
  next
    case (Call_list_events t j n m)
    with reads_seen [OF assms(1,2)] assms(3) show ?thesis by simp
  qed
qed

section \<open>Requests\<close>

text \<open>Two states in which a tenant sees the same.\<close>

definition same :: "string \<Rightarrow> 's \<Rightarrow> 's \<Rightarrow> bool" where
  "same t s u \<longleftrightarrow> invar s \<and> invar u \<and> seen t s = seen t u"

lemma sameD: "same t s u \<Longrightarrow> invar s" "same t s u \<Longrightarrow> invar u" "same t s u \<Longrightarrow> seen t s = seen t u"
  by (simp_all add: same_def)

lemma perform_same:
  assumes "same t s u" and "call_tenant c = t" and "job_call_ready view ready c s" and "job_call_ready view ready c u"
  shows "fst (perform R c s) = fst (perform R c u) \<and> same t (snd (perform R c s)) (snd (perform R c u))"
  using perform_alike [of s u c] assms by (auto simp: same_def perform_invar)

lemma create_same:
  assumes "same t s u" and "new_job_id view e s" and "new_job_id view e u" and "ready e t s" and "ready e t u"
  obtains v s1 u1 where "r_create R e t src p key s = (v, s1)" and "r_create R e t src p key u = (v, u1)" and "same t s1 u1"
  using perform_same [OF assms(1), of "Call_create e t src p key"] assms(2-5) that
  by (cases "r_create R e t src p key s"; cases "r_create R e t src p key u") auto

lemma transition_same:
  assumes "same t s u" and "ready e t s" and "ready e t u"
  obtains v s1 u1 where "r_transition R e t j st n c m s = (v, s1)" and "r_transition R e t j st n c m u = (v, u1)"
    and "same t s1 u1"
  using perform_same [OF assms(1), of "Call_transition e t j st n c m"] assms(2-3) that
  by (cases "r_transition R e t j st n c m s"; cases "r_transition R e t j st n c m u") auto

lemma cancel_same:
  assumes "same t s u" and "ready e t s" and "ready e t u"
  obtains v s1 u1 where "r_request_cancel R e t j s = (v, s1)" and "r_request_cancel R e t j u = (v, u1)" and "same t s1 u1"
  using perform_same [OF assms(1), of "Call_request_cancel e t j"] assms(2-3) that
  by (cases "r_request_cancel R e t j s"; cases "r_request_cancel R e t j u") auto

lemma set_dispatch_same:
  "same t s u \<Longrightarrow> same t (r_set_dispatch_id R e t j i s) (r_set_dispatch_id R e t j i u)"
  using perform_same [of t s u "Call_set_dispatch_id e t j i"] by simp

lemma get_same: "same t s u \<Longrightarrow> r_get R t j s = r_get R t j u"
  using reads_seen(1) sameD by blast

lemma detachedE:
  assumes "detached D"
  obtains v where "ds_submit D job q s = (v, s)" and "ds_submit D job q u = (v, u)"
  using assms unfolding detached_def by (metis prod.collapse)

lemma detached_cancelE:
  assumes "detached D"
  obtains v where "ds_cancel D job s = (v, s)" and "ds_cancel D job u = (v, u)"
  using assms unfolding detached_def by (metis prod.collapse)

text \<open>A dispatch that fails leaves the state as it was, unless the job is gone.\<close>

lemma dispatch_same:
  assumes "same t s u" and "detached D"
  obtains v s1 u1 where "dispatch_job R D e t q job s = (v, s1)" and "dispatch_job R D e t q job u = (v, u1)"
    and "same t s1 u1" and "st_jobs (view s) t (j_id job) \<noteq> None \<and> isl v \<longrightarrow> s1 = s \<and> u1 = u"
proof -
  obtain w where w: "ds_submit D job q s = (w, s)" "ds_submit D job q u = (w, u)" using assms(2) by (rule detachedE)
  show ?thesis
  proof (cases w)
    case (Inl x)
    with w assms(1) show ?thesis by (intro that [of "Inl x" s u]) (simp_all add: dispatch_job_def)
  next
    case (Inr i)
    let ?s = "r_set_dispatch_id R e t (j_id job) i s" and ?u = "r_set_dispatch_id R e t (j_id job) i u"
    have same: "same t ?s ?u" using assms(1) by (rule set_dispatch_same)
    have there: "r_get R t (j_id job) ?s \<noteq> None" if "st_jobs (view s) t (j_id job) \<noteq> None"
      using set_dispatch_id [OF sameD(1) [OF assms(1)], of e t "j_id job" i] that
      by (auto simp: get [OF sameD(1) [OF same]] spec_set_dispatch_id_def split: option.split)
    show ?thesis
    proof (cases "r_get R t (j_id job) ?s")
      case None
      moreover from this have "r_get R t (j_id job) ?u = None" using get_same [OF same, of "j_id job"] by simp
      ultimately show ?thesis using w Inr same there
        by (intro that [of "Inl (RuntimeError ''scan job disappeared'')" ?s ?u]) (auto simp: dispatch_job_def Let_def)
    next
      case (Some j)
      moreover from this have "r_get R t (j_id job) ?u = Some j" using get_same [OF same, of "j_id job"] by simp
      ultimately show ?thesis using w Inr same
        by (intro that [of "Inr j" ?s ?u]) (auto simp: dispatch_job_def Let_def)
    qed
  qed
qed

lemma create_there:
  assumes "invar s" and "r_create R e t src p key s = (Inr (job, b), s1)"
  shows "st_jobs (view s1) t (j_id job) \<noteq> None"
proof (cases "\<exists>k r. key = Some k \<and> r_find_by_idempotency_key R t k s = Some r")
  case True
  then obtain k r where found: "key = Some k" "r_find_by_idempotency_key R t k s = Some r" by blast
  with assms have "job = r" "s1 = s" by (auto simp: create_found)
  with find_some [OF assms(1) found(2)] show ?thesis by simp
next
  case False
  then have none: "\<And>k. key = Some k \<Longrightarrow> r_find_by_idempotency_key R t k s = None" by auto
  from create_new [where key = key and t = t and e = e and src = src and p = p, OF assms(1) none] assms(2)
  have "refines invar view (ready e t s) s (spec_insert e t src p key (view s)) (Inr (job, b), s1)" by simp
  then show ?thesis by (auto simp: refines_def spec_insert_def Let_def split: if_splits)
qed

lemma create_scan_same:
  assumes "same (aq_tenant_id r) s u" and "detached D"
    and "new_job_id view (E 0) s" and "new_job_id view (E 0) u"
    and "ready (E 0) (aq_tenant_id r) s" and "ready (E 0) (aq_tenant_id r) u"
    and "ready (E 2) (aq_tenant_id r) (snd (r_create R (E 0) (aq_tenant_id r) (sb_source b) (sb_payload b) (aq_idempotency_key r) s))"
    and "ready (E 2) (aq_tenant_id r) (snd (r_create R (E 0) (aq_tenant_id r) (sb_source b) (sb_payload b) (aq_idempotency_key r) u))"
  shows "fst (create_scan L R D queues txt E r b s) = fst (create_scan L R D queues txt E r b u) \<and>
    same (aq_tenant_id r) (snd (create_scan L R D queues txt E r b s)) (snd (create_scan L R D queues txt E r b u))"
proof -
  let ?t = "aq_tenant_id r"
  obtain v s1 u1 where v: "r_create R (E 0) ?t (sb_source b) (sb_payload b) (aq_idempotency_key r) s = (v, s1)"
    "r_create R (E 0) ?t (sb_source b) (sb_payload b) (aq_idempotency_key r) u = (v, u1)" "same ?t s1 u1"
    using assms(1,3-6) by (rule create_same)
  show ?thesis
  proof (cases "\<exists>q job. queues (sb_source b) = Some q \<and> v = Inr (job, True)")
    case False
    with v assms(1) show ?thesis
      by (auto simp: create_scan_def Let_def split: option.split sum.split bool.split)
  next
    case True
    then obtain q job where q: "queues (sb_source b) = Some q" "v = Inr (job, True)" by blast
    obtain w s2 u2 where w: "dispatch_job R D (E 1) ?t q job s1 = (w, s2)" "dispatch_job R D (E 1) ?t q job u1 = (w, u2)"
      "same ?t s2 u2" "st_jobs (view s1) ?t (j_id job) \<noteq> None \<and> isl w \<longrightarrow> s2 = s1 \<and> u2 = u1"
      using v(3) assms(2) by (rule dispatch_same)
    have "st_jobs (view s1) ?t (j_id job) \<noteq> None" using create_there sameD(1) [OF assms(1)] v(1) q(2) by blast
    with w(4) have failed: "isl w \<Longrightarrow> s2 = s1 \<and> u2 = u1" by blast
    show ?thesis
    proof (cases w)
      case (Inr job1)
      with v q w assms(1) show ?thesis by (simp add: create_scan_def Let_def)
    next
      case (Inl x)
      obtain y s3 u3 where "r_transition R (E 2) ?t (j_id job) FAILED None (Some ''DISPATCH_FAILED'') (Some (txt x)) s2 = (y, s3)"
        "r_transition R (E 2) ?t (j_id job) FAILED None (Some ''DISPATCH_FAILED'') (Some (txt x)) u2 = (y, u3)" "same ?t s3 u3"
        using w(3) by (rule transition_same) (use failed Inl assms(7,8) v in auto)
      with v q w Inl assms(1) show ?thesis by (simp add: create_scan_def Let_def split: sum.split)
    qed
  qed
qed

lemma cancel_scan_same:
  assumes "same (aq_tenant_id r) s u" and "detached D" and "ready e (aq_tenant_id r) s" and "ready e (aq_tenant_id r) u"
  shows "fst (cancel_scan L R D e r j s) = fst (cancel_scan L R D e r j u) \<and>
    same (aq_tenant_id r) (snd (cancel_scan L R D e r j s)) (snd (cancel_scan L R D e r j u))"
proof (cases "r_get R (aq_tenant_id r) j s")
  case None
  moreover from this have "r_get R (aq_tenant_id r) j u = None" using get_same [OF assms(1)] by simp
  ultimately show ?thesis using assms(1) by (simp add: cancel_scan_def)
next
  case (Some current)
  moreover from this have "r_get R (aq_tenant_id r) j u = Some current" using get_same [OF assms(1)] by simp
  moreover obtain v s1 u1 where v: "r_request_cancel R e (aq_tenant_id r) j s = (v, s1)"
    "r_request_cancel R e (aq_tenant_id r) j u = (v, u1)" "same (aq_tenant_id r) s1 u1"
    using assms(1,3,4) by (rule cancel_same)
  moreover obtain w where "ds_cancel D current s1 = (w, s1)" "ds_cancel D current u1 = (w, u1)"
    using assms(2) by (rule detached_cancelE)
  ultimately show ?thesis by (cases v; cases w) (simp_all add: cancel_scan_def)
qed

lemma sse_step_same: "same t s u \<Longrightarrow> sse_step R t j s x = sse_step R t j u x"
proof -
  assume "same t s u"
  from sameD [OF this] show ?thesis by (simp only: sse_step_def reads_seen(1,2) [of s u t])
qed

text \<open>What a request does to the repository, it does by calls for its tenant.\<close>

definition reaches :: "string \<Rightarrow> 's \<Rightarrow> 's \<Rightarrow> bool" where
  "reaches t s s' \<longleftrightarrow> (\<exists>cs. (\<forall>c \<in> set cs. call_tenant c = t) \<and> s' = snd (perform_all R cs s))"

lemma reaches_refl [simp, intro]: "reaches t s s"
  unfolding reaches_def by (rule exI [of _ "[]"]) simp

lemma perform_all_snoc: "snd (perform_all R (cs @ [c]) s) = snd (perform R c (snd (perform_all R cs s)))"
  by (induction cs arbitrary: s) simp_all

lemma reaches_step:
  assumes "reaches t s s1" and "call_tenant c = t" and "s2 = snd (perform R c s1)"
  shows "reaches t s s2"
proof -
  obtain cs where "\<forall>c \<in> set cs. call_tenant c = t" and "s1 = snd (perform_all R cs s)"
    using assms(1) unfolding reaches_def by blast
  with assms(2,3) have "(\<forall>c \<in> set (cs @ [c]). call_tenant c = t) \<and> s2 = snd (perform_all R (cs @ [c]) s)"
    by (simp add: perform_all_snoc)
  then show ?thesis unfolding reaches_def by blast
qed

lemma reaches_invar: "invar s \<Longrightarrow> reaches t s s' \<Longrightarrow> invar s'"
  by (auto simp: reaches_def perform_all_invar)

lemma reaches_respects:
  assumes "invar s" and "t \<noteq> t'" and "reaches t' s s'"
  shows "seen t s' = seen t s"
proof -
  have "seen t (snd (perform_all R cs s)) = seen t s" if "\<forall>c \<in> set cs. call_tenant c = t'" for cs
    using assms(1) that
  proof (induction cs arbitrary: s)
    case (Cons c cs)
    then have "seen t (snd (perform_all R cs (snd (perform R c s)))) = seen t (snd (perform R c s))"
      by (simp add: perform_invar)
    also have "\<dots> = seen t s" using Cons.prems assms(2) by (intro perform_respects) auto
    finally show ?case by simp
  qed simp
  with assms(3) show ?thesis by (auto simp: reaches_def)
qed

lemma dispatch_reaches:
  assumes "detached D"
  shows "reaches t s (snd (dispatch_job R D e t q job s))"
proof -
  obtain w where w: "ds_submit D job q s = (w, s)" using assms by (rule detachedE)
  have "reaches t s (r_set_dispatch_id R e t (j_id job) i s)" for i
    by (rule reaches_step [of t s s "Call_set_dispatch_id e t (j_id job) i"]) simp_all
  with w show ?thesis by (auto simp: dispatch_job_def Let_def split: sum.split option.split)
qed

lemma reaches_trans:
  assumes "reaches t s s1" and "reaches t s1 s2"
  shows "reaches t s s2"
proof -
  have "reaches t s (snd (perform_all R cs s1))" if "\<forall>c \<in> set cs. call_tenant c = t" for cs
    using assms(1) that
  proof (induction cs arbitrary: s1)
    case (Cons c cs)
    have "reaches t s (snd (perform R c s1))" by (rule reaches_step [OF Cons.prems(1), of c]) (use Cons.prems in auto)
    with Cons show ?case by simp
  qed simp
  with assms(2) show ?thesis by (auto simp: reaches_def)
qed

lemma create_scan_reaches:
  assumes "detached D"
  shows "reaches (aq_tenant_id r) s (snd (create_scan L R D queues txt E r b s))"
proof -
  let ?t = "aq_tenant_id r"
  obtain v s1 where v: "r_create R (E 0) ?t (sb_source b) (sb_payload b) (aq_idempotency_key r) s = (v, s1)" by fastforce
  have s1: "reaches ?t s s1"
    by (rule reaches_step [of ?t s s "Call_create (E 0) ?t (sb_source b) (sb_payload b) (aq_idempotency_key r)"])
      (simp_all add: v)
  show ?thesis
  proof (cases "\<exists>q job. queues (sb_source b) = Some q \<and> v = Inr (job, True)")
    case False
    with v s1 show ?thesis
      by (auto simp: create_scan_def Let_def split: option.split sum.split bool.split)
  next
    case True
    then obtain q job where q: "queues (sb_source b) = Some q" "v = Inr (job, True)" by blast
    obtain w s2 where w: "dispatch_job R D (E 1) ?t q job s1 = (w, s2)" by fastforce
    then have "reaches ?t s1 s2" using dispatch_reaches [OF assms] by (metis snd_conv)
    with s1 have s2: "reaches ?t s s2" by (rule reaches_trans)
    have "reaches ?t s (snd (r_transition R e ?t i st n c m s2))" for e i st n c m
      by (rule reaches_step [OF s2, of "Call_transition e ?t i st n c m"]) simp_all
    then have "reaches ?t s s3" if "r_transition R e ?t i st n c m s2 = (y, s3)" for e i st n c m y s3
      using that by (metis snd_conv)
    with v q w s1 s2 show ?thesis by (auto simp: create_scan_def Let_def split: sum.split prod.split)
  qed
qed

lemma cancel_scan_reaches:
  assumes "detached D"
  shows "reaches (aq_tenant_id r) s (snd (cancel_scan L R D e r j s))"
proof -
  let ?t = "aq_tenant_id r"
  obtain v s1 where v: "r_request_cancel R e ?t j s = (v, s1)" by fastforce
  have s1: "reaches ?t s s1" by (rule reaches_step [of ?t s s "Call_request_cancel e ?t j"]) (simp_all add: v)
  have "snd (ds_cancel D job s1) = s1" for job using assms unfolding detached_def by metis
  then have "s2 = s1" if "ds_cancel D job s1 = (w, s2)" for job w s2 using that by (metis snd_conv)
  with v s1 show ?thesis by (fastforce simp: cancel_scan_def split: option.split sum.split prod.split)
qed

lemma handle_scan_reaches:
  assumes "sv_repository S = R"
  shows "reaches (aq_tenant_id r) s (snd (handle_scan S E r c s))"
  using create_scan_reaches cancel_scan_reaches assms
  by (cases c) (auto split: sum.split)

lemma service_reaches:
  assumes "sv_repository S = R"
  shows "reaches (service_caller c) s (snd (service_step S c s))"
proof (cases c)
  case (Request E r rc)
  with handle_scan_reaches [OF assms] show ?thesis by simp
next
  case (Worker jc)
  with assms show ?thesis by (simp add: reaches_step [of "call_tenant jc" s s jc])
qed

lemma handle_scan_same:
  assumes "sv_repository S = R" and "same (aq_tenant_id r) s u"
    and "service_ready S view ready (Request E r c) s" and "service_ready S view ready (Request E r c) u"
  shows "fst (handle_scan S E r c s) = fst (handle_scan S E r c u) \<and>
    same (aq_tenant_id r) (snd (handle_scan S E r c s)) (snd (handle_scan S E r c u))"
proof (cases c)
  case (Create_scan b)
  with create_scan_same [where r = r and s = s and u = u and E = "re_calls E" and D = "mode_dispatcher (sv_mode S) E" and b = b, OF assms(2) detached_mode]
    assms show ?thesis by simp
next
  case (Cancel_scan j)
  with cancel_scan_same [where r = r and s = s and u = u and e = "re_calls E 0" and D = "mode_dispatcher (sv_mode S) E", OF assms(2) detached_mode]
    assms show ?thesis by simp
next
  case (List_scans st src n)
  with assms(1,2) reads_seen(3) [OF sameD [OF assms(2)]] show ?thesis by (simp add: list_scans_def)
next
  case (Get_scan j)
  with assms(1,2) get_same [OF assms(2)] show ?thesis by (simp add: get_scan_def)
next
  case (Scan_events j)
  with assms(1,2) get_same [OF assms(2)] show ?thesis by (simp add: scan_events_def split: option.split sum.split)
next
  case (Stream_events j x)
  with assms(1,2) sse_step_same [OF assms(2)] show ?thesis by simp
qed

lemma service_unwinding:
  assumes "sv_repository S = R"
  shows "unwinding (service_step S) service_caller seen invar (service_ready S view ready)"
proof
  fix s c t assume "invar s"
  then show "invar (snd (service_step S c s))" using service_reaches [OF assms] by (rule reaches_invar)
  assume "t \<noteq> service_caller c"
  then show "seen t (snd (service_step S c s)) = seen t s"
    using \<open>invar s\<close> service_reaches [OF assms] by (metis reaches_respects)
next
  fix s u c assume st: "invar s" "invar u" "seen (service_caller c) s = seen (service_caller c) u"
    and rdy: "service_ready S view ready c s" "service_ready S view ready c u"
  show "fst (service_step S c s) = fst (service_step S c u) \<and>
      seen (service_caller c) (snd (service_step S c s)) = seen (service_caller c) (snd (service_step S c u))"
  proof (cases c)
    case (Request E r rc)
    with st have "same (aq_tenant_id r) s u" by (simp add: same_def)
    from handle_scan_same [OF assms this] rdy Request show ?thesis by (auto dest: sameD)
  next
    case (Worker jc)
    with perform_alike [OF st(1,2), of jc] st(3) rdy assms show ?thesis by simp
  qed
qed

end

end
