(* ===== verification/Tenant_Frame.thy ===== *)
theory Tenant_Frame
  imports Tenant_Isolation
begin

text \<open>
  What an operation for one tenant leaves of the rest of the relational database: the rows
  of every other tenant in all tables, and the users and clients, which no tenant owns.
\<close>

section \<open>The rows of a tenant\<close>

definition own_rows :: "string \<Rightarrow> database \<Rightarrow> database" where
  "own_rows u d =
     \<lparr>db_tenants = filter (\<lambda>r. t_id r = u) (db_tenants d), db_users = db_users d,
      db_memberships = filter (\<lambda>r. m_tenant_id r = u) (db_memberships d),
      db_api_keys = filter (\<lambda>r. k_tenant_id r = u) (db_api_keys d), db_clients = db_clients d,
      db_sessions = filter (\<lambda>r. s_tenant_id r = u) (db_sessions d),
      db_jobs = filter (\<lambda>r. j_tenant_id r = u) (db_jobs d),
      db_job_events = filter (\<lambda>r. ev_tenant_id r = u) (db_job_events d),
      db_findings = filter (\<lambda>r. fr_tenant_id r = u) (db_findings d),
      db_correlations = filter (\<lambda>r. cr_tenant_id r = u) (db_correlations d),
      db_correlation_findings = filter (\<lambda>r. cf_tenant_id r = u) (db_correlation_findings d),
      db_audit_events = filter (\<lambda>r. a_tenant_id r = u) (db_audit_events d)\<rparr>"

text \<open>Rewriting a table whose changed rows are another tenant's.\<close>

lemma own_rows_append [simp]:
  "t_id a1 \<noteq> u \<Longrightarrow> own_rows u (d\<lparr>db_tenants := db_tenants d @ [a1]\<rparr>) = own_rows u d"
  "j_tenant_id a2 \<noteq> u \<Longrightarrow> own_rows u (d\<lparr>db_jobs := db_jobs d @ [a2]\<rparr>) = own_rows u d"
  "ev_tenant_id a3 \<noteq> u \<Longrightarrow> own_rows u (d\<lparr>db_job_events := db_job_events d @ [a3]\<rparr>) = own_rows u d"
  "fr_tenant_id a4 \<noteq> u \<Longrightarrow> own_rows u (d\<lparr>db_findings := db_findings d @ [a4]\<rparr>) = own_rows u d"
  "cr_tenant_id a5 \<noteq> u \<Longrightarrow> own_rows u (d\<lparr>db_correlations := db_correlations d @ [a5]\<rparr>) = own_rows u d"
  "cf_tenant_id a6 \<noteq> u \<Longrightarrow> own_rows u (d\<lparr>db_correlation_findings := db_correlation_findings d @ [a6]\<rparr>) = own_rows u d"
  "a_tenant_id a7 \<noteq> u \<Longrightarrow> own_rows u (d\<lparr>db_audit_events := db_audit_events d @ [a7]\<rparr>) = own_rows u d"
  by (simp_all add: own_rows_def)

lemma filter_upd_outside:
  "(\<And>x. x \<in> set xs \<Longrightarrow> P x \<Longrightarrow> \<not> Q x \<and> \<not> Q (f x)) \<Longrightarrow> filter Q (upd_where P f xs) = filter Q xs"
  by (induction xs) (auto simp: upd_where_def)

lemma own_rows_jobs:
  assumes "\<And>x. P x \<Longrightarrow> j_tenant_id x \<noteq> u \<and> j_tenant_id (f x) \<noteq> u"
  shows "own_rows u (d\<lparr>db_jobs := upd_where P f (db_jobs d)\<rparr>) = own_rows u d"
proof -
  have "filter (\<lambda>r. j_tenant_id r = u) (upd_where P f (db_jobs d)) = filter (\<lambda>r. j_tenant_id r = u) (db_jobs d)"
    using assms by (intro filter_upd_outside) auto
  then show ?thesis by (simp add: own_rows_def)
qed

lemma own_rows_sessions:
  assumes "\<And>x. x \<in> set (db_sessions d) \<Longrightarrow> P x \<Longrightarrow> s_tenant_id x \<noteq> u \<and> s_tenant_id (f x) \<noteq> u"
  shows "own_rows u (d\<lparr>db_sessions := upd_where P f (db_sessions d)\<rparr>) = own_rows u d"
proof -
  have "filter (\<lambda>r. s_tenant_id r = u) (upd_where P f (db_sessions d)) = filter (\<lambda>r. s_tenant_id r = u) (db_sessions d)"
    using assms by (intro filter_upd_outside) auto
  then show ?thesis by (simp add: own_rows_def)
qed

lemma own_rows_set_row:
  assumes "findings_ok d" and "r \<in> set (db_findings d)" and "same_keys r r'" and "fr_tenant_id r \<noteq> u"
  shows "own_rows u (set_row r' d) = own_rows u d"
  using set_row_other_tenant [OF assms] by (simp add: own_rows_def set_row_def)

section \<open>Inserts\<close>

lemma own_rows_insert:
  "insert_job r1 d = Inr d' \<Longrightarrow> j_tenant_id r1 \<noteq> u \<Longrightarrow> own_rows u d' = own_rows u d"
  "insert_job_event r2 d = Inr d' \<Longrightarrow> ev_tenant_id r2 \<noteq> u \<Longrightarrow> own_rows u d' = own_rows u d"
  "insert_finding r3 d = Inr d' \<Longrightarrow> fr_tenant_id r3 \<noteq> u \<Longrightarrow> own_rows u d' = own_rows u d"
  "insert_correlation r4 d = Inr d' \<Longrightarrow> cr_tenant_id r4 \<noteq> u \<Longrightarrow> own_rows u d' = own_rows u d"
  "insert_correlation_finding r5 d = Inr d' \<Longrightarrow> cf_tenant_id r5 \<noteq> u \<Longrightarrow> own_rows u d' = own_rows u d"
  "insert_audit r6 d = Inr d' \<Longrightarrow> a_tenant_id r6 \<noteq> u \<Longrightarrow> own_rows u d' = own_rows u d"
  by (auto simp: insert_job_def insert_job_event_def insert_finding_def insert_correlation_def
      insert_correlation_finding_def insert_audit_Inr split: if_splits)

section \<open>The job repository\<close>

text \<open>
  An observation of the database that does not look at the jobs, events and audit rows of the
  tenants \<open>other\<close>, nor at these tenants, does not notice a repository call for one of them.
\<close>

locale job_frame =
  fixes obs :: "database \<Rightarrow> 'o" and other :: "string \<Rightarrow> bool"
  assumes tenants: "other (t_id r) \<Longrightarrow> obs (d\<lparr>db_tenants := db_tenants d @ [r]\<rparr>) = obs d"
    and new_jobs: "other (j_tenant_id x) \<Longrightarrow> obs (d\<lparr>db_jobs := db_jobs d @ [x]\<rparr>) = obs d"
    and jobs: "(\<And>x. P x \<Longrightarrow> other (j_tenant_id x) \<and> other (j_tenant_id (f x))) \<Longrightarrow>
      obs (d\<lparr>db_jobs := upd_where P f (db_jobs d)\<rparr>) = obs d"
    and events: "other (ev_tenant_id v) \<Longrightarrow> obs (d\<lparr>db_job_events := db_job_events d @ [v]\<rparr>) = obs d"
    and audits: "other (a_tenant_id w) \<Longrightarrow> obs (d\<lparr>db_audit_events := db_audit_events d @ [w]\<rparr>) = obs d"
begin

lemma obs_ensure: "ensure_tenant t ts d = Inr d' \<Longrightarrow> other t \<Longrightarrow> obs d' = obs d"
  by (auto simp: ensure_tenant_cases default_tenant_def tenants split: if_splits)

lemma obs_inserts:
  "insert_job r1 d = Inr d' \<Longrightarrow> other (j_tenant_id r1) \<Longrightarrow> obs d' = obs d"
  "insert_job_event r2 d = Inr d' \<Longrightarrow> other (ev_tenant_id r2) \<Longrightarrow> obs d' = obs d"
  "insert_audit r3 d = Inr d' \<Longrightarrow> other (a_tenant_id r3) \<Longrightarrow> obs d' = obs d"
  by (auto simp: insert_job_def insert_job_event_def insert_audit_Inr new_jobs events audits split: if_splits)

lemma obs_append: "sa_append_event t j kind p ts d = Inr (a, d') \<Longrightarrow> other t \<Longrightarrow> obs d' = obs d"
  by (auto simp: sa_append_event_def Let_def bind_exn_Inr obs_inserts(2))

lemma obs_audit: "sa_audit i t action rtype rid details ts d = Inr d' \<Longrightarrow> other t \<Longrightarrow> obs d' = obs d"
  by (auto simp: sa_audit_def dest: obs_inserts(3))

lemma obs_job_update:
  "other t \<Longrightarrow> obs (d\<lparr>db_jobs := upd_where (is_job t j) (moved_job ts st n c m) (db_jobs d)\<rparr>) = obs d"
  "other t \<Longrightarrow> obs (d\<lparr>db_jobs := upd_where (is_job t j) (cancelled_job ts) (db_jobs d)\<rparr>) = obs d"
  "other t \<Longrightarrow> obs (d\<lparr>db_jobs := upd_where (is_job t j) (dispatched_job ts i) (db_jobs d)\<rparr>) = obs d"
  "other t \<Longrightarrow> obs (d\<lparr>db_jobs := upd_where (claimable t j rq) (running_job ts) (db_jobs d)\<rparr>) = obs d"
  by (rule jobs; auto simp: is_job_def claimable_def job_updates)+

text \<open>A transaction that leaves a tenant alone where it succeeds leaves it alone: a rollback does too.\<close>

lemma obs_commit:
  assumes "commit m d = (w, d1)" and "\<And>v d'. m = Inr (v, d') \<Longrightarrow> obs d' = obs d"
  shows "obs d1 = obs d"
  using assms by (cases m) auto

lemma obs_create_tx:
  assumes "sa_create_tx e L t src p key d = Inr (v, d')" and "other t"
  shows "obs d' = obs d"
proof -
  obtain d1 d2 d3 x where steps: "ensure_tenant t (now e) d = Inr d1"
    "insert_job (new_job_row (''job_'' @ uuid e 0) t src p key (now e)) d1 = Inr d2"
    "sa_append_event t (''job_'' @ uuid e 0) ''status'' (status_payload QUEUED) (now e) d2 = Inr (x, d3)"
    "sa_audit (uuid e 1) t ''job.created'' ''job'' (Some (''job_'' @ uuid e 0))
      (JObj [(''source'', JStr (source_value L src)), (''queue'', JStr (queue_of src))]) (now e) d3 = Inr d'"
    using assms(1) by (auto simp: sa_create_tx_def Let_def bind_exn_Inr simp del: append_Cons)
  have "other (j_tenant_id (new_job_row (''job_'' @ uuid e 0) t src p key (now e)))"
    using assms(2) by (simp add: new_job_row_def new_job_def job_record.extend_def)
  with steps assms(2) show ?thesis
    by (simp add: obs_ensure obs_inserts(1) obs_append obs_audit)
qed

lemma obs_create:
  assumes "other t"
  shows "obs (snd (sa_create L e t src p key d)) = obs d"
proof -
  obtain w d1 where w: "commit (sa_create_tx e L t src p key d) d = (w, d1)" by fastforce
  then have "obs d1 = obs d" by (rule obs_commit) (rule obs_create_tx [OF _ assms])
  with w show ?thesis by (auto simp: sa_create_def sa_insert_def split: option.split sum.split)
qed

lemma obs_mark_running:
  assumes "other t"
  shows "obs (snd (sa_mark_running e t j rq d)) = obs d"
proof -
  let ?d = "d\<lparr>db_jobs := upd_where (claimable t j rq) (running_job (now e)) (db_jobs d)\<rparr>"
  obtain w d1 where w: "commit (sa_append_event t j ''status'' (status_payload RUNNING) (now e) ?d) d = (w, d1)" by fastforce
  have upd: "obs ?d = obs d" using assms by (rule obs_job_update)
  from w have "obs d1 = obs d"
    by (rule obs_commit) (use upd in \<open>simp add: obs_append [OF _ assms]\<close>)
  with w upd show ?thesis by (auto simp: sa_mark_running_def Let_def split: sum.split)
qed

lemma obs_transition:
  assumes "other t"
  shows "obs (snd (sa_transition e t j st n c m d)) = obs d"
proof -
  let ?p = "transition_payload st c m"
  let ?d = "d\<lparr>db_jobs := upd_where (is_job t j) (moved_job (now e) st n c m) (db_jobs d)\<rparr>"
  let ?m = "bind_exn (required_row t j d) (\<lambda>_. bind_exn (sa_append_event t j ''status'' ?p (now e) ?d) (\<lambda>(_, d1).
    bind_exn (sa_audit (uuid e 0) t ''job.status_changed'' ''job'' (Some j) ?p (now e) d1) (\<lambda>d2. Inr ((), d2))))"
  obtain w d1 where w: "commit ?m d = (w, d1)" by fastforce
  have upd: "obs ?d = obs d" using assms by (rule obs_job_update)
  from w have "obs d1 = obs d"
    by (rule obs_commit) (use upd in \<open>auto simp: bind_exn_Inr obs_append [OF _ assms] obs_audit [OF _ assms]\<close>)
  with w show ?thesis by (auto simp: sa_transition_def Let_def split: sum.split)
qed

lemma obs_log:
  assumes "other t"
  shows "obs (snd (sa_log e t j kind p d)) = obs d"
proof -
  obtain w d1 where w: "sa_log e t j kind p d = (w, d1)" by fastforce
  then have "obs d1 = obs d" unfolding sa_log_def
    by (rule obs_commit) (auto simp: bind_exn_Inr obs_append [OF _ assms])
  with w show ?thesis by simp
qed

lemma obs_request_cancel:
  assumes "other t"
  shows "obs (snd (sa_request_cancel e t j d)) = obs d"
proof (cases "required_row t j d")
  case (Inr row)
  let ?p = "status_payload (cancel_status (j_status row))"
  let ?d = "d\<lparr>db_jobs := upd_where (is_job t j) (cancelled_job (now e)) (db_jobs d)\<rparr>"
  let ?m = "bind_exn (sa_append_event t j ''cancel_requested'' ?p (now e) ?d) (\<lambda>(_, d1).
    bind_exn (sa_audit (uuid e 0) t ''job.cancel_requested'' ''job'' (Some j) ?p (now e) d1) (\<lambda>d2. Inr ((), d2)))"
  obtain w d1 where w: "commit ?m d = (w, d1)" by fastforce
  have upd: "obs ?d = obs d" using assms by (rule obs_job_update)
  from w have "obs d1 = obs d"
    by (rule obs_commit) (use upd in \<open>auto simp: bind_exn_Inr obs_append [OF _ assms] obs_audit [OF _ assms]\<close>)
  with w Inr show ?thesis by (auto simp: sa_request_cancel_def Let_def split: sum.split)
qed (simp add: sa_request_cancel_def)

lemma obs_perform:
  assumes "other (call_tenant c)"
  shows "obs (snd (perform (sqlalchemy_repository L) c d)) = obs d"
  using assms
  by (cases c) (simp_all add: sqlalchemy_repository_def obs_create obs_mark_running obs_transition
      obs_log obs_request_cancel sa_set_dispatch_id_def obs_job_update)

end

interpretation others_rows: job_frame "own_rows u" "\<lambda>t. t \<noteq> u" for u
  by unfold_locales (simp_all add: own_rows_jobs)

text \<open>No repository call touches the findings.\<close>

interpretation finding_rows: job_frame db_findings "\<lambda>t. True"
  by unfold_locales simp_all

lemma own_rows_reaches:
  assumes "sqlalchemy.reaches L t d d'" and "t \<noteq> u"
  shows "own_rows u d' = own_rows u d"
proof -
  have "own_rows u (snd (perform_all (sqlalchemy_repository L) cs d)) = own_rows u d"
    if "\<forall>c \<in> set cs. call_tenant c = t" for cs d
    using that assms(2)
  proof (induction cs arbitrary: d)
    case (Cons c cs)
    then show ?case by (simp add: others_rows.obs_perform)
  qed simp
  with assms(1) show ?thesis by (auto simp: sqlalchemy.reaches_def)
qed

section \<open>The finding registry\<close>

lemma ensure_tenant_findings: "ensure_tenant t ts d = Inr d' \<Longrightarrow> findings_ok d \<Longrightarrow> findings_ok d' \<and> db_findings d' = db_findings d"
  by (auto simp: ensure_tenant_cases split: if_splits)

lemma own_rows_store_first:
  assumes "findings_ok d" and "selected sel t d" and "t \<noteq> u" and "store_first L H e t f job sel d = Inr (r, d')"
  shows "own_rows u d' = own_rows u d"
proof -
  obtain d1 where d1: "ensure_tenant t (now e) d = Inr d1" using assms(4) by (auto simp: store_first_def bind_exn_Inr)
  then have same: "own_rows u d1 = own_rows u d" using assms(3) by (rule others_rows.obs_ensure)
  have ok: "findings_ok d1" "db_findings d1 = db_findings d" using ensure_tenant_findings [OF d1 assms(1)] by simp_all
  show ?thesis
  proof (cases sel)
    case None
    let ?row = "new_finding_row L t (finding_fingerprint L H f) f (seen_at e f) job (now e) (next_row_id d1)"
    have "insert_finding ?row d1 = Inr d'"
      using assms(4) d1 None by (auto simp: store_first_def bind_exn_Inr Let_def)
    then have "own_rows u d' = own_rows u d1" by (rule own_rows_insert) (simp add: new_finding_row_def assms(3))
    with same show ?thesis by simp
  next
    case (Some row)
    then obtain m where d': "d' = set_row (merged_row L m (seen_at e f) job (now e) row) d1"
      using assms(4) d1 by (auto simp: store_first_def bind_exn_Inr Let_def)
    have "own_rows u d' = own_rows u d1"
      unfolding d' using assms(2,3) Some ok by (intro own_rows_set_row [where r = row]) (simp_all add: selected_def)
    with same show ?thesis by simp
  qed
qed

lemma own_rows_store:
  assumes "findings_ok d" and "selected sel t d" and "t \<noteq> u"
  shows "own_rows u (snd (store_selected L H e t f job sel d)) = own_rows u d"
proof (cases "store_selected L H e t f job sel d")
  case (Pair v d')
  then have "own_rows u d' = own_rows u d"
  proof (cases rule: store_selected_cases)
    case (2 r)
    then show ?thesis by (rule own_rows_store_first [OF assms])
  next
    case (3 r)
    then show ?thesis
    proof (cases rule: store_retry_cases)
      case (1 row m)
      with assms show ?thesis by (simp add: own_rows_set_row [where r = row])
    qed
  qed simp
  with Pair show ?thesis by simp
qed

lemma own_rows_store_finding:
  assumes "findings_ok d" and "t \<noteq> u"
  shows "own_rows u (snd (store_finding L H e t f job d)) = own_rows u d"
    and "findings_ok (snd (store_finding L H e t f job d))"
proof -
  have sel: "selected (find (has_fingerprint t (finding_fingerprint L H f)) (db_findings d)) t d"
    by (auto simp: selected_def has_fingerprint_def split: option.split dest: find_SomeD)
  show "own_rows u (snd (store_finding L H e t f job d)) = own_rows u d"
    unfolding store_finding_def using assms(1) sel assms(2) by (rule own_rows_store)
  show "findings_ok (snd (store_finding L H e t f job d))"
    unfolding store_finding_def using assms(1) sel by (rule findings_ok_store)
qed

lemma insert_links_own_rows: "insert_links t c fs d = Inr d' \<Longrightarrow> t \<noteq> u \<Longrightarrow> own_rows u d' = own_rows u d"
proof (induction fs arbitrary: d)
  case (Cons f fs)
  then obtain d1 where d1: "insert_correlation_finding \<lparr>cf_tenant_id = t, cf_correlation_id = c, cf_finding_id = f\<rparr> d = Inr d1"
    "insert_links t c fs d1 = Inr d'" by (auto simp: bind_exn_Inr)
  from d1(1) have "own_rows u d1 = own_rows u d" by (rule own_rows_insert) (simp add: Cons.prems(2))
  with Cons.IH [OF d1(2) Cons.prems(2)] show ?case by simp
qed simp

lemma own_rows_add_correlation:
  assumes "t \<noteq> u"
  shows "own_rows u (snd (add_correlation L e t c d)) = own_rows u d"
proof -
  obtain w d1 where w: "add_correlation L e t c d = (w, d1)" by fastforce
  then have "own_rows u d1 = own_rows u d" unfolding add_correlation_def Let_def
  proof (rule others_rows.obs_commit)
    fix v d'
    let ?r = "\<lparr>cr_id = ''corr_'' @ uuid e 0, cr_tenant_id = t, cr_rule_id = c_rule_id c, cr_rule_version = ''1'',
      cr_severity = severity_value L (c_severity c), cr_narrative = c_narrative c, cr_created_at = now e\<rparr>"
    assume "bind_exn (ensure_tenant t (now e) d) (\<lambda>d1. bind_exn (insert_correlation ?r d1) (\<lambda>d2.
      bind_exn (insert_links t (''corr_'' @ uuid e 0) (c_findings c) d2) (\<lambda>d3. Inr ((), d3)))) = Inr (v, d')"
    then obtain d2 d3 where steps: "ensure_tenant t (now e) d = Inr d2" "insert_correlation ?r d2 = Inr d3"
      "insert_links t (''corr_'' @ uuid e 0) (c_findings c) d3 = Inr d'"
      by (auto simp: bind_exn_Inr simp del: append_Cons)
    from steps(2) have "own_rows u d3 = own_rows u d2" by (rule own_rows_insert) (simp add: assms)
    with others_rows.obs_ensure [OF steps(1) assms] insert_links_own_rows [OF steps(3) assms]
    show "own_rows u d' = own_rows u d" by simp
  qed
  with w show ?thesis by simp
qed

lemma add_correlation_findings: "db_findings (snd (add_correlation L e t c d)) = db_findings d"
proof -
  obtain w d1 where w: "add_correlation L e t c d = (w, d1)" by fastforce
  then have "db_findings d1 = db_findings d" unfolding add_correlation_def Let_def
    by (rule finding_rows.obs_commit)
      (auto simp: bind_exn_Inr insert_correlation_def split: if_splits dest!: insert_links_frame ensure_tenant_Inr(2))
  with w show ?thesis by simp
qed

lemma own_rows_update_lifecycle:
  assumes "findings_ok d" and "t \<noteq> u"
  shows "own_rows u (snd (update_lifecycle L e t fid st a actor d)) = own_rows u d"
proof -
  obtain w d1 where w: "update_lifecycle L e t fid st a actor d = (w, d1)" by fastforce
  then have "own_rows u d1 = own_rows u d" unfolding update_lifecycle_def
  proof (rule others_rows.obs_commit)
    fix v d'
    assume run: "(case find (\<lambda>r. fr_tenant_id r = t \<and> fr_finding_id r = fid) (db_findings d) of
          None \<Rightarrow> Inr (None, d)
        | Some row \<Rightarrow>
            bind_exn (insert_audit
              \<lparr>a_id = ''audit_'' @ uuid e 0, a_tenant_id = t, a_actor = actor, a_action = ''finding.updated'',
               a_resource_type = ''finding'', a_resource_id = Some fid, a_request_id = None,
               a_outcome = ''success'', a_details = JObj (lifecycle_changes st a row),
               a_created_at = now e\<rparr> (set_row (updated_row e st a row) d)) (\<lambda>d1.
            bind_exn (record_from_row L (updated_row e st a row)) (\<lambda>r. Inr (Some r, d1)))) = Inr (v, d')"
    show "own_rows u d' = own_rows u d"
    proof (cases "find (\<lambda>r. fr_tenant_id r = t \<and> fr_finding_id r = fid) (db_findings d)")
      case (Some row)
      then have row: "row \<in> set (db_findings d)" "fr_tenant_id row = t" by (auto dest: find_SomeD)
      obtain x where x: "insert_audit x (set_row (updated_row e st a row) d) = Inr d'" "a_tenant_id x = t"
        using run Some by (auto simp: bind_exn_Inr)
      have "same_keys row (updated_row e st a row)" by (simp add: updated_row_def same_keys_def)
      with row assms have "own_rows u (set_row (updated_row e st a row) d) = own_rows u d"
        by (intro own_rows_set_row [where r = row]) simp_all
      with own_rows_insert(6) [OF x(1)] x(2) assms(2) show ?thesis by simp
    qed (use run in simp)
  qed
  with w show ?thesis by simp
qed

section \<open>The executor\<close>

text \<open>
  Every step of an execution is at most one call: of the repository for the tenant of the
  job, or, inside the attempt, of the registry for the tenant that is bound.
\<close>

lemma exec_step_calls:
  assumes "P (x_state x)" and "\<And>c. call_tenant c = t \<Longrightarrow> P (snd (perform (ex_repository X) c (x_state x)))"
    and "\<And>e f. in_attempt (x_pc x) \<Longrightarrow> P (snd (rg_add_for_job (ex_registry X) e (x_tenant x) f (Some j) (x_state x)))"
    and "\<And>e c. in_attempt (x_pc x) \<Longrightarrow> P (snd (rg_add_correlation (ex_registry X) e (x_tenant x) c (x_state x)))"
  shows "P (x_state (exec_step X t j i x))"
proof -
  let ?R = "ex_repository X"
  have moved: "P s" if "r_transition ?R e t j st n c m (x_state x) = (v, s)" for e st n c m v s
    using assms(2) [of "Call_transition e t j st n c m"] that by simp
  have claimed: "P s" if "r_mark_running ?R e t j q (x_state x) = (v, s)" for e q v s
    using assms(2) [of "Call_mark_running e t j q"] that by simp
  have logged: "P s" if "r_append_event ?R e t j kind p (x_state x) = (v, s)" for e kind p v s
    using assms(2) [of "Call_append_event e t j kind p"] that by simp
  have added: "P s" if "in_attempt (x_pc x)" "rg_add_for_job (ex_registry X) e (x_tenant x) f (Some j) (x_state x) = (v, s)"
    for e f v s using assms(3) [OF that(1), of e f] that(2) by simp
  have correlated: "P s" if "in_attempt (x_pc x)" "rg_add_correlation (ex_registry X) e (x_tenant x) c (x_state x) = (v, s)"
    for e c v s using assms(4) [OF that(1), of e c] that(2) by simp
  note calls = moved claimed logged added correlated
  show ?thesis
  proof (cases "x_pc x" rule: in_attempt.cases)
    case (3 n fs seen todo)
    then have attempt: "in_attempt (x_pc x)" by simp
    show ?thesis
    proof (cases todo)
      case (Cons a rest)
      with 3 assms(1) calls(3) calls(4,5) [OF attempt] show ?thesis
        by (cases a) (auto simp: exec_step_def Let_def store_step_def in_try_def split: sum.split prod.split)
    qed (use 3 assms(1) in \<open>simp add: exec_step_def Let_def\<close>)
  next
    case (5 n f)
    then show ?thesis using assms(1) calls(1,3)
      by (cases f) (auto simp: exec_step_def Let_def failure_step_def finish_handler_def split: sum.split prod.split option.split)
  qed (use assms(1) calls(1,2) in \<open>auto simp: exec_step_def Let_def in_try_def finish_handler_def finish_outside_def
      split: sum.split prod.split option.split\<close>)
qed

lemma exec_step_isolated:
  assumes "deployed L H X" and "frame_ok X t ctx x" and "findings_ok (x_state x)" and "t \<noteq> u"
  shows "own_rows u (x_state (exec_step X t j i x)) = own_rows u (x_state x) \<and> findings_ok (x_state (exec_step X t j i x))"
proof -
  have parts: "ex_repository X = sqlalchemy_repository L" "ex_registry X = sqlalchemy_registry L H"
    using assms(1) by (simp_all add: deployed_def)
  let ?P = "\<lambda>d. own_rows u d = own_rows u (x_state x) \<and> findings_ok d"
  have "?P (x_state (exec_step X t j i x))"
  proof (rule exec_step_calls [where P = ?P])
    show "?P (snd (perform (ex_repository X) c (x_state x)))" if "call_tenant c = t" for c
    proof -
      have "db_findings (snd (perform (ex_repository X) c (x_state x))) = db_findings (x_state x)"
        unfolding parts by (rule finding_rows.obs_perform) simp
      then have "findings_ok (snd (perform (ex_repository X) c (x_state x)))"
        using assms(3) by (simp add: findings_ok_def)
      moreover have "own_rows u (snd (perform (ex_repository X) c (x_state x))) = own_rows u (x_state x)"
        unfolding parts by (rule others_rows.obs_perform) (use that assms(4) in simp)
      ultimately show ?thesis by simp
    qed
    have tenant: "x_tenant x = t" if "in_attempt (x_pc x)" using assms(2) that by (simp add: frame_ok_def binding_ok_def)
    show "?P (snd (rg_add_for_job (ex_registry X) e (x_tenant x) f (Some j) (x_state x)))" if "in_attempt (x_pc x)" for e f
    proof -
      have "snd (rg_add_for_job (ex_registry X) e t f (Some j) (x_state x)) = snd (store_finding L H e t f (Some j) (x_state x))"
        by (simp add: parts sqlalchemy_registry_def split: sum.split prod.split)
      with own_rows_store_finding [OF assms(3,4)] show ?thesis by (simp add: tenant [OF that])
    qed
    show "?P (snd (rg_add_correlation (ex_registry X) e (x_tenant x) c (x_state x)))" if "in_attempt (x_pc x)" for e c
      using own_rows_add_correlation [OF assms(4)] add_correlation_findings assms(3)
      by (simp add: parts sqlalchemy_registry_def tenant [OF that] findings_ok_def)
  qed (use assms(3) in simp)
  then show ?thesis .
qed

end
