(* ===== verification/Middleware.thy ===== *)
theory Middleware
  imports Tenant_Frame
begin

text \<open>
  The call of \<^verbatim>\<open>TenantRBACMiddleware\<close> (\<^verbatim>\<open>auth.py\<close>) around an application, with the context
  variable that holds the tenant, and the gateway it makes with the handlers of
  \<^verbatim>\<open>api_v1.py\<close> for tenants. What the web framework does (reading and setting headers, matching
  routes, rendering answers, serving what no route of the program matches) is the
  parameter \<open>framework\<close>.
\<close>

section \<open>The tenant of the context\<close>

text \<open>The context variable; a token restores what it was when it was set.\<close>

type_synonym tenant_var = "string option"

definition current_tenant :: "tenant_var \<Rightarrow> string" where
  "current_tenant v = (case v of None \<Rightarrow> ''default'' | Some t \<Rightarrow> t)"

definition bind_tenant :: "string \<Rightarrow> tenant_var \<Rightarrow> tenant_var \<times> tenant_var" where
  "bind_tenant t v = (v, Some t)"

definition reset_tenant :: "tenant_var \<Rightarrow> tenant_var \<Rightarrow> tenant_var" where
  "reset_tenant token v = token"

section \<open>The call\<close>

datatype asgi_message =
    Response_start int "(string \<times> string) list"
  | Response_body string
  | Other_message string

text \<open>\<^verbatim>\<open>scope["state"]\<close>, as the middleware fills it.\<close>

record request_state =
  st_request_id :: string
  st_tenant_id :: string
  st_role :: string
  st_principal :: principal
  st_auth_type :: string
  st_user_id :: "string option"
  st_session_id :: "string option"
  st_identity_client_id :: "string option"
  st_api_key_id :: "string option"

text \<open>What a call of an application did: the messages sent, the exception, the state after it.\<close>

record app_result =
  ar_sent :: "asgi_message list"
  ar_raised :: "exn option"
  ar_context :: tenant_var
  ar_database :: database

type_synonym asgi_app = "request_state option \<Rightarrow> http_request \<Rightarrow> tenant_var \<Rightarrow> database \<Rightarrow> app_result"

record framework =
  fw_set_header :: "string \<Rightarrow> string \<Rightarrow> (string \<times> string) list \<Rightarrow> (string \<times> string) list"
  fw_get_header :: "string \<Rightarrow> http_request \<Rightarrow> string option"
  fw_client_host :: "http_request \<Rightarrow> string option"
  fw_json :: "response \<Rightarrow> asgi_message list"

fun send_with_request_id :: "framework \<Rightarrow> string \<Rightarrow> asgi_message \<Rightarrow> asgi_message" where
  "send_with_request_id F rid (Response_start status hs) =
     Response_start status (fw_set_header F ''X-Request-ID'' rid hs)"
| "send_with_request_id F rid m = m"

definition request_state_of :: "string \<Rightarrow> principal \<Rightarrow> request_state" where
  "request_state_of rid p =
     \<lparr>st_request_id = rid, st_tenant_id = p_tenant_id p, st_role = p_role p, st_principal = p,
      st_auth_type = p_auth_type p, st_user_id = p_user_id p, st_session_id = p_session_id p,
      st_identity_client_id = p_identity_client_id p, st_api_key_id = p_api_key_id p\<rparr>"

definition call_as ::
  "asgi_app \<Rightarrow> (asgi_message \<Rightarrow> asgi_message) \<Rightarrow> principal \<Rightarrow> string \<Rightarrow> http_request \<Rightarrow> tenant_var \<Rightarrow> database \<Rightarrow> app_result" where
  "call_as app send p rid r v d =
     (case bind_tenant (p_tenant_id p) v of
        (token, bound) \<Rightarrow>
          (let res = app (Some (request_state_of rid p)) r bound d
           in res\<lparr>ar_sent := map send (ar_sent res), ar_context := reset_tenant token (ar_context res)\<rparr>))"

definition denial :: "int \<Rightarrow> string \<Rightarrow> string \<Rightarrow> response" where
  "denial status c rid =
     json_response status
       (auth_error status c (if status = 401 then ''Authentication required'' else ''Access denied'') rid)
       (if status = 401 then [(''WWW-Authenticate'', ''Bearer'')] else [])"

definition middleware ::
  "framework \<Rightarrow> (string \<times> principal) list \<Rightarrow> authenticator option \<Rightarrow> asgi_app \<Rightarrow> string \<Rightarrow> http_request \<Rightarrow>
    tenant_var \<Rightarrow> database \<Rightarrow> app_result" where
  "middleware F principals auth app fresh r v d =
     (let rid = request_id_of fresh r; send = send_with_request_id F rid
      in case decide principals auth r d of
           (Inl x, d1) \<Rightarrow> \<lparr>ar_sent = [], ar_raised = Some x, ar_context = v, ar_database = d1\<rparr>
         | (Inr Pass_through, d1) \<Rightarrow> app None r v d1
         | (Inr (Deny status c), d1) \<Rightarrow>
             \<lparr>ar_sent = map send (fw_json F (denial status c rid)), ar_raised = None, ar_context = v, ar_database = d1\<rparr>
         | (Inr (Call_as p), d1) \<Rightarrow> call_as app send p rid r v d1)"

section \<open>The tenants' routes\<close>

datatype v1_call =
    Scans scan_call
  | List_findings "string option" int page_filter
  | Update_finding string update_body

fun handle_v1 ::
  "database service \<Rightarrow> bool \<Rightarrow> request_env \<Rightarrow> api_request \<Rightarrow> v1_call \<Rightarrow> database \<Rightarrow> scan_answer \<times> database" where
  "handle_v1 S has_store E r (Scans c) d = handle_scan S E r c d"
| "handle_v1 S has_store E r (List_findings cursor limit q) d =
     (Responded (list_findings (sv_core S) has_store r cursor limit q d), d)"
| "handle_v1 S has_store E r (Update_finding fid b) d =
     map_prod Responded id (update_finding (sv_core S) has_store (re_calls E 0) r fid b d)"

text \<open>The request as the handlers see it: the headers, and the state the middleware set.\<close>

definition api_request_of :: "framework \<Rightarrow> request_state \<Rightarrow> http_request \<Rightarrow> api_request" where
  "api_request_of F st r =
     \<lparr>aq_request_id = st_request_id st, aq_tenant_id = st_tenant_id st, aq_role = st_role st,
      aq_authorization = fw_get_header F ''authorization'' r, aq_client_host = fw_client_host F r,
      aq_idempotency_key = fw_get_header F ''idempotency-key'' r, aq_last_event_id = fw_get_header F ''last-event-id'' r\<rparr>"

text \<open>
  The application: \<open>routes\<close> matches and validates; \<open>stream\<close> are the messages a stream that
  was opened sends at once; an exception of a handler leaves the application. \<open>crash\<close> is the
  framework's own answer to an exception, \<open>other\<close> what it does with a request for another
  route, such as the read-only \<^verbatim>\<open>/v1/adapters\<close>.
\<close>

record routing =
  rt_routes :: "http_request \<Rightarrow> v1_call option"
  rt_stream :: "sse_state \<Rightarrow> asgi_message list"
  rt_crash :: "exn \<Rightarrow> asgi_message list"
  rt_other :: asgi_app

definition v1_app :: "framework \<Rightarrow> routing \<Rightarrow> database service \<Rightarrow> bool \<Rightarrow> request_env \<Rightarrow> asgi_app" where
  "v1_app F T S has_store E st r v d =
     (case (st, rt_routes T r) of
        (Some s, Some c) \<Rightarrow>
          (case handle_v1 S has_store E (api_request_of F s r) c d of
             (Responded (Inr resp), d1) \<Rightarrow> \<lparr>ar_sent = fw_json F resp, ar_raised = None, ar_context = v, ar_database = d1\<rparr>
           | (Responded (Inl x), d1) \<Rightarrow> \<lparr>ar_sent = [], ar_raised = Some x, ar_context = v, ar_database = d1\<rparr>
           | (Streaming x, d1) \<Rightarrow> \<lparr>ar_sent = rt_stream T x, ar_raised = None, ar_context = v, ar_database = d1\<rparr>)
      | _ \<Rightarrow> rt_other T st r v d)"

text \<open>
  Outermost stands the framework's handling of server errors: an exception that comes
  through the middleware is answered, unless a response was started, past the middleware's
  \<^verbatim>\<open>send\<close>, and raised again.
\<close>

fun starts_response :: "asgi_message \<Rightarrow> bool" where
  "starts_response (Response_start status hs) = True"
| "starts_response m = False"

definition server_errors :: "routing \<Rightarrow> app_result \<Rightarrow> app_result" where
  "server_errors T res =
     (case ar_raised res of
        None \<Rightarrow> res
      | Some x \<Rightarrow>
          if \<exists>m \<in> set (ar_sent res). starts_response m then res
          else res\<lparr>ar_sent := ar_sent res @ rt_crash T x\<rparr>)"

definition gateway_call ::
  "framework \<Rightarrow> routing \<Rightarrow> database service \<Rightarrow> bool \<Rightarrow> (string \<times> principal) list \<Rightarrow> authenticator option \<Rightarrow>
    request_env \<Rightarrow> string \<Rightarrow> http_request \<Rightarrow> tenant_var \<Rightarrow> database \<Rightarrow> app_result" where
  "gateway_call F T S has_store principals auth E fresh r v d =
     server_errors T (middleware F principals auth (v1_app F T S has_store E) fresh r v d)"

section \<open>Lemmas\<close>

lemma server_errors_kept [simp]:
  "ar_raised (server_errors T res) = ar_raised res" "ar_context (server_errors T res) = ar_context res"
  "ar_database (server_errors T res) = ar_database res"
  "ar_raised res = None \<Longrightarrow> server_errors T res = res"
  by (simp_all add: server_errors_def split: option.split)

lemma middleware_context: "rq_is_http r \<Longrightarrow> ar_context (middleware F principals auth app fresh r v d) = v"
proof -
  assume http: "rq_is_http r"
  have "decide principals auth r d \<noteq> (Inr Pass_through, d1)" for d1
    using http by (auto simp: decide_def Let_def split: prod.splits sum.splits option.splits if_splits)
  then show ?thesis
    by (auto simp: middleware_def Let_def call_as_def bind_tenant_def reset_tenant_def
        split: prod.split sum.split decision.split)
qed

text \<open>What the framework is documented to do with a header that is set; names ignore case.\<close>

definition header_value :: "string \<Rightarrow> (string \<times> string) list \<Rightarrow> string option" where
  "header_value name hs = map_of (map (\<lambda>(k, v). (py_lower k, v)) hs) (py_lower name)"

definition sets_header :: "framework \<Rightarrow> bool" where
  "sets_header F \<longleftrightarrow> (\<forall>name val hs. header_value name (fw_set_header F name val hs) = Some val)"

lemma sent_with_id:
  assumes "sets_header F" and "Response_start status hs \<in> set (map (send_with_request_id F rid) ms)"
  shows "header_value ''X-Request-ID'' hs = Some rid"
proof -
  obtain m where m: "send_with_request_id F rid m = Response_start status hs" using assms(2) by auto
  then show ?thesis using assms(1) by (cases m) (auto simp: sets_header_def)
qed

lemma middleware_sends_id:
  assumes "sets_header F" and "rq_is_http r"
    and "Response_start status hs \<in> set (ar_sent (middleware F principals auth app fresh r v d))"
  shows "header_value ''X-Request-ID'' hs = Some (request_id_of fresh r)"
proof -
  have not: "decide principals auth r d \<noteq> (Inr Pass_through, d1)" for d1
    using assms(2) by (auto simp: decide_def Let_def split: prod.splits sum.splits option.splits if_splits)
  obtain w d1 where w: "decide principals auth r d = (w, d1)" by fastforce
  have "\<exists>ms. ar_sent (middleware F principals auth app fresh r v d) = map (send_with_request_id F (request_id_of fresh r)) ms"
  proof (cases w)
    case (Inl x)
    with w show ?thesis by (simp add: middleware_def)
  next
    case (Inr dec)
    with w not show ?thesis
      by (cases dec) (auto simp: middleware_def Let_def call_as_def bind_tenant_def)
  qed
  with assms(1,3) sent_with_id show ?thesis by metis
qed

section \<open>Tenants do not reach each other's rows\<close>

text \<open>Authentication writes at most the time of last use into a session of the caller's tenant.\<close>

lemma session_use_frame:
  assumes "unique_ids d" and "authenticate_user_session C e token d = (w, d1)"
  shows "w = None \<Longrightarrow> d1 = d" and "w = Some s \<Longrightarrow> sp_tenant_id s \<noteq> u \<Longrightarrow> own_rows u d1 = own_rows u d"
    and "db_findings d1 = db_findings d"
proof -
  show "w = None \<Longrightarrow> d1 = d" and "db_findings d1 = db_findings d"
    using assms(2) by (auto simp: authenticate_user_session_def split: if_splits option.splits)
  assume w: "w = Some s" and other: "sp_tenant_id s \<noteq> u"
  obtain row where row: "row \<in> set (db_sessions d)" "s_tenant_id row = sp_tenant_id s"
    "d1 = d\<lparr>db_sessions := upd_where (\<lambda>r. s_id r = s_id row) (\<lambda>r. r\<lparr>s_last_seen_at := Some (now e)\<rparr>) (db_sessions d)\<rparr>"
    using assms(2) w by (auto simp: authenticate_user_session_def split: if_splits option.splits dest!: find_SomeD)
  have only: "r = row" if "r \<in> set (db_sessions d)" "s_id r = s_id row" for r
    using assms(1) row(1) that by (auto simp: unique_ids_def distinct_map inj_on_def)
  show "own_rows u d1 = own_rows u d" unfolding row(3)
    by (rule own_rows_sessions) (use row(2) other in \<open>auto dest!: only\<close>)
qed

definition gateway_authenticator :: "crypto \<Rightarrow> call_env \<Rightarrow> authenticator option \<Rightarrow> bool" where
  "gateway_authenticator C e auth \<longleftrightarrow> auth = None \<or> auth = Some (database_authenticator C e)"

lemma authenticator_frame:
  assumes "unique_ids d" and "database_authenticator C e token d = (w, d1)"
  shows "w = None \<Longrightarrow> d1 = d" and "w = Some p \<Longrightarrow> p_tenant_id p \<noteq> u \<Longrightarrow> own_rows u d1 = own_rows u d"
    and "db_findings d1 = db_findings d"
proof -
  obtain x d2 where x: "authenticate_user_session C e token d = (x, d2)" by fastforce
  note frame = session_use_frame [OF assms(1) x]
  show "w = None \<Longrightarrow> d1 = d" and "db_findings d1 = db_findings d"
    using assms(2) x frame(1,3) by (auto simp: database_authenticator_def split: if_splits)
  assume w: "w = Some p" and other: "p_tenant_id p \<noteq> u"
  show "own_rows u d1 = own_rows u d"
  proof (cases "startswith ''igs_'' token")
    case True
    with assms(2) x w obtain s where "x = Some s" "p = session_caller s" "d1 = d2"
      by (auto simp: database_authenticator_def)
    with frame(2) other show ?thesis by (simp add: session_caller_def)
  next
    case False
    with assms(2) show ?thesis by (simp add: database_authenticator_def)
  qed
qed

lemma authentication_frame:
  assumes "unique_ids d" and "gateway_authenticator C e auth" and "authenticate_request principals auth r d = (w, d1)"
  shows "\<forall>p. w \<noteq> Inr (Some p) \<Longrightarrow> d1 = d" and "w = Inr (Some p) \<Longrightarrow> p_tenant_id p \<noteq> u \<Longrightarrow> own_rows u d1 = own_rows u d"
    and "db_findings d1 = db_findings d"
proof -
  have inner: "(\<exists>f token x. auth = Some f \<and> f token d = (x, d1) \<and> w = Inr x) \<or> d1 = d"
    using assms(3) by (auto simp: authenticate_request_def split: option.splits sum.splits prod.splits)
  have "(\<exists>token x. database_authenticator C e token d = (x, d1) \<and> w = Inr x) \<or> d1 = d"
    using inner assms(2) by (auto simp: gateway_authenticator_def)
  with authenticator_frame [OF assms(1)] show "\<forall>p. w \<noteq> Inr (Some p) \<Longrightarrow> d1 = d"
    and "w = Inr (Some p) \<Longrightarrow> p_tenant_id p \<noteq> u \<Longrightarrow> own_rows u d1 = own_rows u d"
    and "db_findings d1 = db_findings d"
    by (metis not_Some_eq, metis sum.inject(2), metis)
qed

lemma handle_v1_frame:
  assumes "sv_repository S = sqlalchemy_repository L" and "findings_ok d" and "aq_tenant_id r \<noteq> u"
  shows "own_rows u (snd (handle_v1 S has_store E r c d)) = own_rows u d"
proof (cases c)
  case (Scans sc)
  with own_rows_reaches [OF sqlalchemy.handle_scan_reaches [OF assms(1)] assms(3)] show ?thesis by simp
next
  case (Update_finding fid b)
  have "own_rows u (snd (update_finding (sv_core S) has_store e r fid b d)) = own_rows u d" for e
    using own_rows_update_lifecycle [OF assms(2,3)]
    by (auto simp: update_finding_def split: sum.split option.split prod.split) (metis snd_conv)+
  with Update_finding show ?thesis by simp
qed simp

lemma decide_frame:
  assumes "unique_ids d" and "gateway_authenticator C e auth" and "rq_is_http r" and "\<not> open_path (rq_path r)"
    and "principals \<noteq> [] \<or> auth \<noteq> None"
    and "authenticate_request principals auth r d = (w, d0)" and "decide principals auth r d = (v, d1)"
  shows "d1 = d0" and "v = Inr (Call_as p) \<Longrightarrow> w = Inr (Some p)" and "v \<noteq> Inr Pass_through"
proof -
  have "(v, d1) =
      (case authenticate_request principals auth r d of
           (Inl x, d1) \<Rightarrow> (Inl x, d1)
         | (Inr None, d1) \<Rightarrow> (Inr (Deny 401 ''AUTHENTICATION_REQUIRED''), d1)
         | (Inr (Some p), d1) \<Rightarrow>
             (let method = py_upper (rq_method r)
              in if startswith ''/v1/admin/'' (rq_path r) \<and> p_role p \<noteq> ''admin''
                 then (Inr (Deny 403 ''ACCESS_DENIED''), d1)
                 else if method \<notin> set safe_methods \<and> p_role p = ''viewer''
                 then (Inr (Deny 403 ''ACCESS_DENIED''), d1)
                 else if \<not> scope_allows p method (rq_path r) then (Inr (Deny 403 ''ACCESS_DENIED''), d1)
                 else (Inr (Call_as p), d1)))"
    using assms(3-5,7) by (auto simp: decide_def open_path_def split: if_splits)
  with assms(6) show "d1 = d0" and "v = Inr (Call_as p) \<Longrightarrow> w = Inr (Some p)" and "v \<noteq> Inr Pass_through"
    by (auto simp: Let_def split: sum.splits option.splits if_splits)
qed

lemma v1_app_frame:
  assumes "sv_repository S = sqlalchemy_repository L" and "findings_ok d" and "st_tenant_id st \<noteq> u" and "rt_routes T r = Some c"
  shows "own_rows u (ar_database (v1_app F T S has_store E (Some st) r v d)) = own_rows u d"
proof -
  obtain a d1 where a: "handle_v1 S has_store E (api_request_of F st r) c d = (a, d1)" by fastforce
  have "own_rows u d1 = own_rows u d"
    using handle_v1_frame [OF assms(1,2), of "api_request_of F st r" u has_store E c] assms(3) a
    by (simp add: api_request_of_def)
  with a assms(4) show ?thesis by (auto simp: v1_app_def split: scan_answer.split sum.split)
qed

lemma gateway_frame:
  assumes "unique_ids d" and "findings_ok d" and "gateway_authenticator C e auth" and "rq_is_http r"
    and "\<not> open_path (rq_path r)" and "principals \<noteq> [] \<or> auth \<noteq> None"
    and "sv_repository S = sqlalchemy_repository L" and "rt_routes T r = Some c"
  shows "(case fst (authenticate_request principals auth r d) of
      Inr (Some p) \<Rightarrow> \<forall>u. u \<noteq> p_tenant_id p \<longrightarrow>
        own_rows u (ar_database (gateway_call F T S has_store principals auth E fresh r v d)) = own_rows u d
    | _ \<Rightarrow> ar_database (gateway_call F T S has_store principals auth E fresh r v d) = d)"
proof -
  obtain w d0 where w: "authenticate_request principals auth r d = (w, d0)" by fastforce
  obtain x d1 where x: "decide principals auth r d = (x, d1)" by fastforce
  note dec = decide_frame [OF assms(1,3-6) w x]
  note auth = authentication_frame [OF assms(1,3) w]
  let ?res = "gateway_call F T S has_store principals auth E fresh r v d"
  have called: "ar_database ?res = ar_database (v1_app F T S has_store E (Some (request_state_of (request_id_of fresh r) p)) r
      (Some (p_tenant_id p)) d1)" if "x = Inr (Call_as p)" for p
    using x that by (simp add: gateway_call_def middleware_def Let_def call_as_def bind_tenant_def)
  have kept: "ar_database ?res = d1" if "\<forall>p. x \<noteq> Inr (Call_as p)"
    using x that dec(3)
    by (auto simp: gateway_call_def middleware_def Let_def split: sum.split decision.split)
  show ?thesis
  proof (cases "\<exists>p. w = Inr (Some p)")
    case True
    then obtain p where p: "w = Inr (Some p)" by blast
    have "own_rows u (ar_database ?res) = own_rows u d" if u: "u \<noteq> p_tenant_id p" for u
    proof (cases "\<exists>q. x = Inr (Call_as q)")
      case True
      then have x': "x = Inr (Call_as p)" using dec(2) p by auto
      have "findings_ok d1" using assms(2) auth(3) dec(1) by (simp add: findings_ok_def)
      with v1_app_frame [OF assms(7) this, of "request_state_of (request_id_of fresh r) p" u T r c] assms(8) u
      have "own_rows u (ar_database ?res) = own_rows u d1"
        by (simp add: called [OF x'] request_state_of_def)
      with auth(2) [OF p] u dec(1) show ?thesis by simp
    next
      case False
      with kept auth(2) [OF p] u dec(1) show ?thesis by simp
    qed
    with p w show ?thesis by simp
  next
    case False
    then have "\<forall>p. x \<noteq> Inr (Call_as p)" using dec(2) by blast
    with kept dec(1) auth(1) False w show ?thesis by (auto split: sum.split option.split)
  qed
qed

end
