(* ===== verification/Gateway_Isolation.thy ===== *)
theory Gateway_Isolation
  imports Middleware
begin

text \<open>
  Noninterference of tenants over the relational database: requests of every kind a tenant
  makes, and the calls workers make for jobs and findings, in any order. The row id of a
  finding counts the findings of all tenants and shows in the cursors, so a tenant can tell
  that others stored findings between two of its own; runs in which the tenant itself stores
  none are what the unwinding is about.
\<close>

section \<open>Events\<close>

datatype gateway_event =
    Api request_env api_request v1_call
  | Job_worker job_call
  | Store_worker call_env string finding "string option"
  | Correlation_worker call_env string correlation

datatype gateway_answer = Api_answer scan_answer | Job_answer job_answer | Registry_answer "exn + unit"

fun event_step ::
  "database service \<Rightarrow> hashing \<Rightarrow> bool \<Rightarrow> gateway_event \<Rightarrow> database \<Rightarrow> gateway_answer \<times> database" where
  "event_step S H has_store (Api E r c) d = map_prod Api_answer id (handle_v1 S has_store E r c d)"
| "event_step S H has_store (Job_worker c) d = map_prod Job_answer id (perform (sv_repository S) c d)"
| "event_step S H has_store (Store_worker e t f j) d =
     map_prod Registry_answer id (rg_add_for_job (sqlalchemy_registry (sv_core S) H) e t f j d)"
| "event_step S H has_store (Correlation_worker e t c) d =
     map_prod Registry_answer id (rg_add_correlation (sqlalchemy_registry (sv_core S) H) e t c d)"

fun event_tenant :: "gateway_event \<Rightarrow> string" where
  "event_tenant (Api E r c) = aq_tenant_id r"
| "event_tenant (Job_worker c) = call_tenant c"
| "event_tenant (Store_worker e t f j) = t"
| "event_tenant (Correlation_worker e t c) = t"

text \<open>The jobs and events of a tenant as its requests see them, and the rows of its findings.\<close>

definition tenant_part ::
  "string \<Rightarrow> database \<Rightarrow> ((string \<Rightarrow> job_record option) \<times> (string \<Rightarrow> job_event list)) \<times> finding_row list" where
  "tenant_part t d = (tenant_view t (sa_view d), rows_of t d)"

definition gateway_good :: "database \<Rightarrow> bool" where
  "gateway_good d \<longleftrightarrow> sa_invar d \<and> findings_ok d"

text \<open>An audit row for the tenant can be written.\<close>

definition audit_ready :: "call_env \<Rightarrow> string \<Rightarrow> database \<Rightarrow> bool" where
  "audit_ready e t d \<longleftrightarrow> get_tenant t d \<noteq> None \<and> (\<forall>x \<in> set (db_audit_events d). a_id x \<noteq> ''audit_'' @ uuid e 0)"

fun event_ready :: "database service \<Rightarrow> gateway_event \<Rightarrow> database \<Rightarrow> bool" where
  "event_ready S (Api E r (Scans c)) d \<longleftrightarrow> service_ready S sa_view sa_ready (Request E r c) d"
| "event_ready S (Api E r (List_findings cursor n q)) d \<longleftrightarrow> True"
| "event_ready S (Api E r (Update_finding fid b)) d \<longleftrightarrow> audit_ready (re_calls E 0) (aq_tenant_id r) d"
| "event_ready S (Job_worker c) d \<longleftrightarrow> job_call_ready sa_view sa_ready c d"
| "event_ready S (Store_worker e t f j) d \<longleftrightarrow> False"
| "event_ready S (Correlation_worker e t c) d \<longleftrightarrow> False"

section \<open>What an event leaves alone\<close>

lemma rows_of_findings: "db_findings d' = db_findings d \<Longrightarrow> rows_of t d' = rows_of t d \<and> (findings_ok d' \<longleftrightarrow> findings_ok d)"
  by (simp add: rows_of_def findings_ok_def)

lemma reaches_findings:
  assumes "sqlalchemy.reaches L t d d'"
  shows "db_findings d' = db_findings d"
proof -
  have "db_findings (snd (perform_all (sqlalchemy_repository L) cs d)) = db_findings d" for cs
  proof (induction cs arbitrary: d)
    case (Cons c cs)
    then show ?case by (simp add: finding_rows.obs_perform)
  qed simp
  with assms show ?thesis by (auto simp: sqlalchemy.reaches_def)
qed

lemma jobs_frame_part:
  "gateway_good d \<Longrightarrow> jobs_frame d d' \<Longrightarrow> findings_ok d' \<Longrightarrow> rows_of t d' = rows_of t d \<Longrightarrow>
    gateway_good d' \<and> tenant_part t d' = tenant_part t d"
  using jobs_frame_keeps [of d d'] by (auto simp: gateway_good_def tenant_part_def)

lemma reaches_part:
  assumes "gateway_good d" and "sqlalchemy.reaches L t d d'"
  shows "gateway_good d'" and "u \<noteq> t \<Longrightarrow> tenant_part u d' = tenant_part u d"
proof -
  have "sa_invar d'" using assms by (auto simp: gateway_good_def intro: sqlalchemy.reaches_invar)
  with rows_of_findings [OF reaches_findings [OF assms(2)]] assms(1) show "gateway_good d'"
    by (simp add: gateway_good_def)
  assume "u \<noteq> t"
  then have "tenant_view u (sa_view d') = tenant_view u (sa_view d)"
    using sqlalchemy.reaches_respects [OF _ _ assms(2), of u] assms(1)
    by (simp add: gateway_good_def sqlalchemy.seen_def)
  with rows_of_findings [OF reaches_findings [OF assms(2)]] show "tenant_part u d' = tenant_part u d"
    by (simp add: tenant_part_def)
qed

lemma store_event:
  assumes "gateway_good d"
  shows "gateway_good (snd (store_finding L H e t f j d))"
    and "u \<noteq> t \<Longrightarrow> tenant_part u (snd (store_finding L H e t f j d)) = tenant_part u d"
proof -
  let ?d = "snd (store_finding L H e t f j d)"
  have sel: "selected (find (has_fingerprint t (finding_fingerprint L H f)) (db_findings d)) t d"
    by (auto simp: selected_def has_fingerprint_def split: option.split dest: find_SomeD)
  have ok: "findings_ok d" using assms by (simp add: gateway_good_def)
  have ok': "findings_ok ?d" unfolding store_finding_def using ok sel by (rule findings_ok_store)
  have frame: "jobs_frame d ?d" unfolding store_finding_def by (rule store_frame)
  from jobs_frame_keeps [OF _ frame] assms ok' show "gateway_good ?d" by (simp add: gateway_good_def)
  assume "u \<noteq> t"
  then have "rows_of u ?d = rows_of u d" unfolding store_finding_def by (rule store_other_tenant [OF ok sel])
  with jobs_frame_part [OF assms frame ok'] show "tenant_part u ?d = tenant_part u d" by blast
qed

lemma update_frame: "jobs_frame d (snd (update_lifecycle L e t fid st a actor d))"
proof -
  have keep: "jobs_frame d (d1\<lparr>db_audit_events := xs\<rparr>) = jobs_frame d d1" for d1 xs
    by (simp add: jobs_frame_def)
  show ?thesis
    by (cases "update_lifecycle L e t fid st a actor d")
      (auto simp: update_lifecycle_def commit_def bind_exn_Inr insert_audit_Inr keep jobs_frame_set_row
        split: option.splits sum.splits prod.splits)
qed

lemma update_event:
  assumes "gateway_good d"
  shows "gateway_good (snd (update_lifecycle L e t fid st a actor d))"
    and "u \<noteq> t \<Longrightarrow> tenant_part u (snd (update_lifecycle L e t fid st a actor d)) = tenant_part u d"
proof -
  obtain w d' where w: "update_lifecycle L e t fid st a actor d = (w, d')" by fastforce
  have ok: "findings_ok d" using assms by (simp add: gateway_good_def)
  have "d' = d \<or> (\<exists>r. w = Inr (Some r))"
    using w by (auto simp: update_lifecycle_def commit_def bind_exn_Inr split: option.splits sum.splits)
  then have res: "findings_ok d' \<and> (u \<noteq> t \<longrightarrow> rows_of u d' = rows_of u d)" for u
    using update_lifecycle_ok [OF ok, of L e t fid st a actor _ d' u] ok w by auto
  have frame: "jobs_frame d d'" using update_frame [of d L e t fid st a actor] w by simp
  from jobs_frame_keeps [OF _ frame] assms res show "gateway_good (snd (update_lifecycle L e t fid st a actor d))"
    by (simp add: gateway_good_def w)
  assume "u \<noteq> t"
  with jobs_frame_part [OF assms frame] res w
  show "tenant_part u (snd (update_lifecycle L e t fid st a actor d)) = tenant_part u d" by simp
qed

section \<open>What an event sees\<close>

lemma find_rows_of:
  "find (\<lambda>r. fr_tenant_id r = t \<and> P r) (db_findings d) = find (\<lambda>r. fr_tenant_id r = t \<and> P r) (rows_of t d)"
proof -
  have "find (\<lambda>r. fr_tenant_id r = t \<and> P r) xs = find (\<lambda>r. fr_tenant_id r = t \<and> P r) (filter (\<lambda>r. fr_tenant_id r = t) xs)" for xs
    by (induction xs) auto
  then show ?thesis by (simp add: rows_of_def)
qed

lemma list_page_own:
  assumes "rows_of t d = rows_of t d'"
  shows "list_page L t cursor n q d = list_page L t cursor n q d'"
proof -
  have "filter (page_matches t q) (db_findings x) = filter (page_matches t q) (rows_of t x)" for x
    unfolding rows_of_def filter_filter by (rule filter_cong) (auto simp: page_matches_def)
  with assms have "page_rows t q d = page_rows t q d'" by (simp add: page_rows_def)
  then show ?thesis by (simp add: list_page_def)
qed

lemma rows_of_set_row:
  assumes "findings_ok d" and "r \<in> set (db_findings d)" and "same_keys r r'" and "fr_tenant_id r = t"
  shows "rows_of t (set_row r' d) = map (\<lambda>x. if x = r then r' else x) (rows_of t d)"
proof -
  have "fr_tenant_id r' = t" using assms(3,4) by (simp add: same_keys_def)
  then have "filter (\<lambda>x. fr_tenant_id x = t) (map (\<lambda>x. if x = r then r' else x) xs) =
      map (\<lambda>x. if x = r then r' else x) (filter (\<lambda>x. fr_tenant_id x = t) xs)" for xs
    using assms(4) by (induction xs) auto
  then show ?thesis unfolding rows_of_def set_row_findings [OF assms(1-3)] .
qed

text \<open>The update written out, where the audit row can be written.\<close>

lemma update_lifecycle_ready:
  assumes "audit_ready e t d"
  shows "update_lifecycle L e t fid st a actor d =
    (case find (\<lambda>r. fr_tenant_id r = t \<and> fr_finding_id r = fid) (rows_of t d) of
       None \<Rightarrow> (Inr None, d)
     | Some row \<Rightarrow>
         (case record_from_row L (updated_row e st a row) of
            Inl x \<Rightarrow> (Inl x, d)
          | Inr r \<Rightarrow> (Inr (Some r), (set_row (updated_row e st a row) d)\<lparr>db_audit_events := db_audit_events d @
              [\<lparr>a_id = ''audit_'' @ uuid e 0, a_tenant_id = t, a_actor = actor, a_action = ''finding.updated'',
               a_resource_type = ''finding'', a_resource_id = Some fid, a_request_id = None,
               a_outcome = ''success'', a_details = JObj (lifecycle_changes st a row),
               a_created_at = now e\<rparr>]\<rparr>)))"
proof (cases "find (\<lambda>r. fr_tenant_id r = t \<and> fr_finding_id r = fid) (db_findings d)")
  case None
  then show ?thesis by (simp add: update_lifecycle_def find_rows_of)
next
  case (Some row)
  let ?a = "\<lparr>a_id = ''audit_'' @ uuid e 0, a_tenant_id = t, a_actor = actor, a_action = ''finding.updated'',
      a_resource_type = ''finding'', a_resource_id = Some fid, a_request_id = None,
      a_outcome = ''success'', a_details = JObj (lifecycle_changes st a row), a_created_at = now e\<rparr>"
  have "insert_audit ?a (set_row (updated_row e st a row) d) =
      Inr ((set_row (updated_row e st a row) d)\<lparr>db_audit_events := db_audit_events d @ [?a]\<rparr>)"
    using assms by (auto simp: insert_audit_def audit_ready_def set_row_def)
  with Some show ?thesis
    by (simp add: update_lifecycle_def find_rows_of split: sum.split)
qed

lemma update_own:
  assumes "gateway_good d" and "gateway_good d'" and "tenant_part t d = tenant_part t d'"
    and "audit_ready e t d" and "audit_ready e t d'"
  shows "fst (update_lifecycle L e t fid st a actor d) = fst (update_lifecycle L e t fid st a actor d') \<and>
    tenant_part t (snd (update_lifecycle L e t fid st a actor d)) =
    tenant_part t (snd (update_lifecycle L e t fid st a actor d'))"
proof -
  have rows: "rows_of t d = rows_of t d'" and jobs: "tenant_view t (sa_view d) = tenant_view t (sa_view d')"
    using assms(3) by (simp_all add: tenant_part_def)
  have view: "tenant_view t (sa_view (snd (update_lifecycle L e t fid st a actor x))) = tenant_view t (sa_view x)"
    if "gateway_good x" for x
    using jobs_frame_keeps [OF _ update_frame, of x] that by (simp add: gateway_good_def)
  have row: "rows_of t (x\<lparr>db_audit_events := xs\<rparr>) = rows_of t x" for x xs by (simp add: rows_of_def)
  have "fst (update_lifecycle L e t fid st a actor d) = fst (update_lifecycle L e t fid st a actor d') \<and>
    rows_of t (snd (update_lifecycle L e t fid st a actor d)) = rows_of t (snd (update_lifecycle L e t fid st a actor d'))"
  proof (cases "find (\<lambda>r. fr_tenant_id r = t \<and> fr_finding_id r = fid) (rows_of t d')")
    case None
    with rows show ?thesis by (simp add: update_lifecycle_ready assms(4,5))
  next
    case (Some found)
    have there: "found \<in> set (db_findings x) \<and> fr_tenant_id found = t" if "rows_of t x = rows_of t d'" for x
    proof -
      have "found \<in> set (rows_of t x)" using find_SomeD [OF Some] that by simp
      then show ?thesis by (simp add: rows_of_def)
    qed
    have "same_keys found (updated_row e st a found)" by (simp add: updated_row_def same_keys_def)
    then have "rows_of t (set_row (updated_row e st a found) x) = map (\<lambda>y. if y = found then updated_row e st a found else y) (rows_of t x)"
      if "rows_of t x = rows_of t d'" "gateway_good x" for x
      using there [OF that(1)] that(2) by (intro rows_of_set_row) (simp_all add: gateway_good_def)
    with rows Some assms(1,2) show ?thesis
      by (auto simp: update_lifecycle_ready assms(4,5) row split: sum.split)
  qed
  with view [OF assms(1)] view [OF assms(2)] jobs show ?thesis by (simp add: tenant_part_def)
qed

lemma same_part:
  assumes "gateway_good d" and "gateway_good d'" and "tenant_part t d = tenant_part t d'"
  shows "sqlalchemy.same t d d'" and "rows_of t d = rows_of t d'"
  using assms by (simp_all add: sqlalchemy.same_def sqlalchemy.seen_def tenant_part_def gateway_good_def)

lemma part_of_jobs:
  assumes "sqlalchemy.reaches L t d d1" and "sqlalchemy.reaches L t d' d1'" and "sqlalchemy.same t d1 d1'"
    and "rows_of t d = rows_of t d'"
  shows "tenant_part t d1 = tenant_part t d1'"
proof -
  have "rows_of t d1 = rows_of t d1'"
    using rows_of_findings [OF reaches_findings [OF assms(1)], of t] rows_of_findings [OF reaches_findings [OF assms(2)], of t]
      assms(4) by simp
  with assms(3) show ?thesis by (simp add: tenant_part_def sqlalchemy.same_def sqlalchemy.seen_def)
qed

section \<open>Unwinding\<close>

lemma update_finding_event:
  assumes "gateway_good d"
  shows "gateway_good (snd (update_finding L has_store e r fid b d))"
    and "u \<noteq> aq_tenant_id r \<Longrightarrow> tenant_part u (snd (update_finding L has_store e r fid b d)) = tenant_part u d"
  using assms update_event [OF assms]
  by (auto simp: update_finding_def split: sum.split option.split prod.split) (metis snd_conv)+

lemma update_finding_own:
  assumes "gateway_good d" and "gateway_good d'" and "tenant_part (aq_tenant_id r) d = tenant_part (aq_tenant_id r) d'"
    and "audit_ready e (aq_tenant_id r) d" and "audit_ready e (aq_tenant_id r) d'"
  shows "fst (update_finding L has_store e r fid b d) = fst (update_finding L has_store e r fid b d') \<and>
    tenant_part (aq_tenant_id r) (snd (update_finding L has_store e r fid b d)) =
    tenant_part (aq_tenant_id r) (snd (update_finding L has_store e r fid b d'))"
proof -
  let ?st = "case ub_status b of None \<Rightarrow> None | Some st \<Rightarrow> st" and ?actor = "''role:'' @ aq_role r"
  obtain w x where w: "update_lifecycle L e (aq_tenant_id r) fid ?st (ub_assigned_to b) ?actor d = (w, x)" by fastforce
  obtain w' x' where w': "update_lifecycle L e (aq_tenant_id r) fid ?st (ub_assigned_to b) ?actor d' = (w', x')" by fastforce
  have "w' = w" and "tenant_part (aq_tenant_id r) x = tenant_part (aq_tenant_id r) x'"
    using update_own [OF assms, of L fid ?st "ub_assigned_to b" ?actor] w w' by simp_all
  with w w' assms(3) show ?thesis by (auto simp: update_finding_def split: sum.split option.split)
qed

lemma handle_v1_own:
  assumes "sv_repository S = sqlalchemy_repository L" and "gateway_good d" and "gateway_good d'"
    and "tenant_part (aq_tenant_id r) d = tenant_part (aq_tenant_id r) d'"
    and "event_ready S (Api E r c) d" and "event_ready S (Api E r c) d'"
  shows "fst (handle_v1 S has_store E r c d) = fst (handle_v1 S has_store E r c d') \<and>
    tenant_part (aq_tenant_id r) (snd (handle_v1 S has_store E r c d)) =
    tenant_part (aq_tenant_id r) (snd (handle_v1 S has_store E r c d'))"
proof (cases c)
  case (Scans sc)
  note same = same_part [OF assms(2-4)]
  have "fst (handle_scan S E r sc d) = fst (handle_scan S E r sc d') \<and>
      sqlalchemy.same (aq_tenant_id r) (snd (handle_scan S E r sc d)) (snd (handle_scan S E r sc d'))"
    using assms(5,6) Scans by (intro sqlalchemy.handle_scan_same [OF assms(1) same(1)]) simp_all
  with part_of_jobs [OF sqlalchemy.handle_scan_reaches [OF assms(1)] sqlalchemy.handle_scan_reaches [OF assms(1)] _ same(2)] Scans
  show ?thesis by simp
next
  case (List_findings cursor n q)
  have "list_page L (aq_tenant_id r) cursor n q d = list_page L (aq_tenant_id r) cursor n q d'" for L
    by (rule list_page_own) (rule same_part [OF assms(2-4)])
  with List_findings assms(4) show ?thesis by (simp add: list_findings_def)
next
  case (Update_finding fid b)
  with update_finding_own [OF assms(2-4), of "re_calls E 0" "sv_core S" has_store fid b] assms(5,6) show ?thesis by simp
qed

lemma handle_v1_event:
  assumes "sv_repository S = sqlalchemy_repository L" and "gateway_good d"
  shows "gateway_good (snd (handle_v1 S has_store E r c d))"
    and "u \<noteq> aq_tenant_id r \<Longrightarrow> tenant_part u (snd (handle_v1 S has_store E r c d)) = tenant_part u d"
  using reaches_part [OF assms(2) sqlalchemy.handle_scan_reaches [OF assms(1)]] update_finding_event [OF assms(2)] assms(2)
  by (cases c; simp)+

lemma registry_event:
  assumes "gateway_good d"
  shows "gateway_good (snd (rg_add_for_job (sqlalchemy_registry L H) e t f j d))"
    and "u \<noteq> t \<Longrightarrow> tenant_part u (snd (rg_add_for_job (sqlalchemy_registry L H) e t f j d)) = tenant_part u d"
    and "gateway_good (snd (rg_add_correlation (sqlalchemy_registry L H) e t c d))"
    and "tenant_part u (snd (rg_add_correlation (sqlalchemy_registry L H) e t c d)) = tenant_part u d"
proof -
  have "snd (rg_add_for_job (sqlalchemy_registry L H) e t f j d) = snd (store_finding L H e t f j d)"
    by (simp add: sqlalchemy_registry_def split: sum.split prod.split)
  with store_event [OF assms] show "gateway_good (snd (rg_add_for_job (sqlalchemy_registry L H) e t f j d))"
    and "u \<noteq> t \<Longrightarrow> tenant_part u (snd (rg_add_for_job (sqlalchemy_registry L H) e t f j d)) = tenant_part u d" by simp_all
  have corr: "snd (rg_add_correlation (sqlalchemy_registry L H) e t c d) = snd (add_correlation L e t c d)"
    by (simp add: sqlalchemy_registry_def)
  have "rows_of u (snd (add_correlation L e t c d)) = rows_of u d" and "findings_ok (snd (add_correlation L e t c d))"
    using rows_of_findings [OF add_correlation_findings] assms by (auto simp: gateway_good_def)
  from jobs_frame_part [OF assms add_correlation_frame this(2,1)]
  show "gateway_good (snd (rg_add_correlation (sqlalchemy_registry L H) e t c d))"
    and "tenant_part u (snd (rg_add_correlation (sqlalchemy_registry L H) e t c d)) = tenant_part u d"
    unfolding corr by simp_all
qed

text \<open>The gateway over the relational database, and the scan service over SQLite.\<close>

definition sql_service ::
  "core_lib \<Rightarrow> dispatch_mode \<Rightarrow> (finding_source \<Rightarrow> string option) \<Rightarrow> (exn \<Rightarrow> string) \<Rightarrow> database service" where
  "sql_service L m queues exn_text = \<lparr>sv_core = L, sv_repository = sqlalchemy_repository L, sv_mode = m, sv_queues = queues,
     sv_exn_text = exn_text\<rparr>"

definition sqlite_service ::
  "core_lib \<Rightarrow> dispatch_mode \<Rightarrow> (finding_source \<Rightarrow> string option) \<Rightarrow> (exn \<Rightarrow> string) \<Rightarrow> sqlite_db service" where
  "sqlite_service L m queues exn_text = \<lparr>sv_core = L, sv_repository = sqlite_repository, sv_mode = m, sv_queues = queues,
     sv_exn_text = exn_text\<rparr>"

lemma sql_service_repository [simp]: "sv_repository (sql_service L m queues exn_text) = sqlalchemy_repository L"
  by (simp add: sql_service_def)

interpretation gateway: unwinding "event_step (sql_service L m queues exn_text) H has_store" event_tenant tenant_part gateway_good
    "event_ready (sql_service L m queues exn_text)" for L m queues exn_text H has_store
proof
  fix d ev u assume good: "gateway_good d"
  let ?S = "sql_service L m queues exn_text"
  have job: "sqlalchemy.reaches L (call_tenant c) d (snd (perform (sqlalchemy_repository L) c d))" for c
    by (rule sqlalchemy.reaches_step [OF sqlalchemy.reaches_refl]) simp_all
  show "gateway_good (snd (event_step ?S H has_store ev d))"
    using good handle_v1_event(1) [OF sql_service_repository good] reaches_part(1) [OF good job] registry_event(1,3) [OF good]
    by (cases ev) simp_all
  assume "u \<noteq> event_tenant ev"
  then show "tenant_part u (snd (event_step ?S H has_store ev d)) = tenant_part u d"
    using handle_v1_event(2) [OF sql_service_repository good] reaches_part(2) [OF good job] registry_event(2,4) [OF good]
    by (cases ev) simp_all
next
  fix d d' ev
  let ?S = "sql_service L m queues exn_text"
  assume good: "gateway_good d" "gateway_good d'" and part: "tenant_part (event_tenant ev) d = tenant_part (event_tenant ev) d'"
    and rdy: "event_ready ?S ev d" "event_ready ?S ev d'"
  show "fst (event_step ?S H has_store ev d) = fst (event_step ?S H has_store ev d') \<and>
      tenant_part (event_tenant ev) (snd (event_step ?S H has_store ev d)) =
      tenant_part (event_tenant ev) (snd (event_step ?S H has_store ev d'))"
  proof (cases ev)
    case (Api E r c)
    with handle_v1_own [OF sql_service_repository good, of r _ _ _ _ E c has_store] part rdy show ?thesis by simp
  next
    case (Job_worker c)
    note same = same_part [OF good part]
    have job: "sqlalchemy.reaches L (call_tenant c) x (snd (perform (sqlalchemy_repository L) c x))" for x
      by (rule sqlalchemy.reaches_step [OF sqlalchemy.reaches_refl]) simp_all
    have "fst (perform (sqlalchemy_repository L) c d) = fst (perform (sqlalchemy_repository L) c d') \<and>
        sqlalchemy.same (call_tenant c) (snd (perform (sqlalchemy_repository L) c d)) (snd (perform (sqlalchemy_repository L) c d'))"
      using same rdy Job_worker by (intro sqlalchemy.perform_same) simp_all
    with part_of_jobs [OF job job] same(2) Job_worker show ?thesis by simp
  qed (use rdy in simp_all)
qed

interpretation sqlite_scans: unwinding "service_step (sqlite_service L m queues exn_text)" service_caller sqlite.seen sq_invar
    "service_ready (sqlite_service L m queues exn_text) sq_view (\<lambda>e t s. True)" for L m queues exn_text
  by (rule sqlite.service_unwinding) (simp add: sqlite_service_def)

end
