(* ===== verification/Subscribers.thy ===== *)
theory Subscribers
  imports Persistence Isolation
begin

text \<open>
  The SQLite registry with its subscribers (\<^verbatim>\<open>add\<close>, \<^verbatim>\<open>add_sync\<close>, \<^verbatim>\<open>add_correlation\<close>,
  \<^verbatim>\<open>subscribe\<close> of \<^verbatim>\<open>persistence.py\<close>): the database and the queues of the process. A
  subscription is the generator of one caller, with an identity; \<^verbatim>\<open>Reg_next\<close> is its next
  element where there is one. The tenant of a call is the one bound when it is made.
\<close>

section \<open>Operations\<close>

type_synonym live_registry = "registry_db \<times> streams"

definition registry_add :: "core_lib \<Rightarrow> string \<Rightarrow> finding \<Rightarrow> live_registry \<Rightarrow> live_registry" where
  "registry_add L t f s = (registry_store L t f (fst s), publish t (Stream_finding f) (snd s))"

definition registry_add_sync :: "core_lib \<Rightarrow> string \<Rightarrow> finding \<Rightarrow> live_registry \<Rightarrow> live_registry" where
  "registry_add_sync L t f s = (registry_store L t f (fst s), snd s)"

definition registry_correlate :: "core_lib \<Rightarrow> string \<Rightarrow> correlation \<Rightarrow> live_registry \<Rightarrow> live_registry" where
  "registry_correlate L t c s = (registry_add_correlation L t c (fst s), publish t (Stream_correlation c) (snd s))"

text \<open>The generator: entering it adds a queue, an element takes from it, and leaving it removes it.\<close>

definition registry_subscribe :: "string \<Rightarrow> nat \<Rightarrow> live_registry \<Rightarrow> live_registry" where
  "registry_subscribe t i s = (fst s, subscribe t i (snd s))"

definition registry_next :: "string \<Rightarrow> nat \<Rightarrow> live_registry \<Rightarrow> stream_item option \<times> live_registry" where
  "registry_next t i s = (case receive t i (snd s) of (x, qs) \<Rightarrow> (x, fst s, qs))"

definition registry_unsubscribe :: "string \<Rightarrow> nat \<Rightarrow> live_registry \<Rightarrow> live_registry" where
  "registry_unsubscribe t i s = (fst s, unsubscribe t i (snd s))"

section \<open>Runs\<close>

datatype live_call =
    Reg_add string finding
  | Reg_add_sync string finding
  | Reg_correlation string correlation
  | Reg_subscribe string nat
  | Reg_next string nat
  | Reg_leave string nat

fun registry_step :: "core_lib \<Rightarrow> live_call \<Rightarrow> live_registry \<Rightarrow> stream_item option \<times> live_registry" where
  "registry_step L (Reg_add t f) s = (None, registry_add L t f s)"
| "registry_step L (Reg_add_sync t f) s = (None, registry_add_sync L t f s)"
| "registry_step L (Reg_correlation t c) s = (None, registry_correlate L t c s)"
| "registry_step L (Reg_subscribe t i) s = (None, registry_subscribe t i s)"
| "registry_step L (Reg_next t i) s = registry_next t i s"
| "registry_step L (Reg_leave t i) s = (None, registry_unsubscribe t i s)"

text \<open>What a call announces to the subscribers of a tenant, and what a subscriber is given.\<close>

fun announced :: "string \<Rightarrow> live_call \<Rightarrow> stream_item list" where
  "announced t (Reg_add t' f) = (if t' = t then [Stream_finding f] else [])"
| "announced t (Reg_correlation t' c) = (if t' = t then [Stream_correlation c] else [])"
| "announced t _ = []"

fun given :: "string \<Rightarrow> nat \<Rightarrow> live_call list \<Rightarrow> stream_item option list \<Rightarrow> stream_item list" where
  "given t i (Reg_next t' i' # cs) (Some x # as) = (if t' = t \<and> i' = i then x # given t i cs as else given t i cs as)"
| "given t i (c # cs) (a # as) = given t i cs as"
| "given t i _ _ = []"

text \<open>The calls that begin or end the subscription.\<close>

fun manages :: "string \<Rightarrow> nat \<Rightarrow> live_call \<Rightarrow> bool" where
  "manages t i (Reg_subscribe t' i') \<longleftrightarrow> t' = t \<and> i' = i"
| "manages t i (Reg_leave t' i') \<longleftrightarrow> t' = t \<and> i' = i"
| "manages t i _ \<longleftrightarrow> False"

section \<open>Delivery\<close>

lemma map_of_publish:
  assumes "map_of qs i = Some xs"
  shows "map_of (map (\<lambda>(j, ys). (j, if queue_maxsize \<le> length ys then ys else ys @ [x])) qs) i =
    Some (if queue_maxsize \<le> length xs then xs else xs @ [x])"
  using assms by (induction qs) auto

lemma map_of_others: "i' \<noteq> i \<Longrightarrow> map_of (filter (\<lambda>q. fst q \<noteq> i') qs) i = map_of qs i"
  by (induction qs) auto

lemma map_of_received: "map_of (upd_where (\<lambda>q. fst q = i') (\<lambda>_. (i', ys)) qs) i =
    (if i = i' \<and> map_of qs i \<noteq> None then Some ys else map_of qs i)"
  by (induction qs) auto

text \<open>One call, seen from a subscription whose queue holds \<open>xs\<close>.\<close>

lemma publish_queue:
  assumes "map_of (qs t) i = Some xs"
  shows "map_of (publish t' x qs t) i =
    Some (if t' = t \<and> length xs < queue_maxsize then xs @ [x] else xs)"
  using assms by (auto simp: publish_def map_of_publish)

lemma receive_other: "t' \<noteq> t \<or> i' \<noteq> i \<Longrightarrow> map_of (snd (receive t' i' qs) t) i = map_of (qs t) i"
  by (auto simp: receive_def map_of_received split: option.split list.split)

lemma receive_own:
  "map_of (qs t) i = Some [] \<Longrightarrow> receive t i qs = (None, qs)"
  "map_of (qs t) i = Some (x # xs) \<Longrightarrow> fst (receive t i qs) = Some x \<and> map_of (snd (receive t i qs) t) i = Some xs"
  by (simp_all add: receive_def map_of_received)

lemma subscription_step:
  assumes "map_of (snd s t) i = Some xs" and "\<not> manages t i c"
  obtains ys where "map_of (snd (snd (registry_step L c s)) t) i = Some ys"
    and "given t i [c] [fst (registry_step L c s)] @ ys =
      (if length xs < queue_maxsize then xs @ announced t c else xs)"
proof (cases "\<exists>t' i'. c = Reg_next t' i'")
  case True
  then obtain t' i' where c: "c = Reg_next t' i'" by blast
  show ?thesis
  proof (cases "t' = t \<and> i' = i")
    case True
    show ?thesis
    proof (cases xs)
      case Nil
      with True assms(1) c receive_own(1) [where qs = "snd s"] show ?thesis
        by (intro that [of "[]"]) (simp_all add: registry_next_def)
    next
      case (Cons x rest)
      obtain qs where "receive t i (snd s) = (Some x, qs)" "map_of (qs t) i = Some rest"
        using receive_own(2) [where qs = "snd s" and t = t and i = i and x = x and xs = rest] assms(1) Cons
        by (cases "receive t i (snd s)") auto
      with True c Cons show ?thesis by (intro that [of rest]) (simp_all add: registry_next_def)
    qed
  next
    case False
    with assms(1) c receive_other [of t' t i' i "snd s"] show ?thesis
      by (cases "fst (receive t' i' (snd s))")
        (auto simp: registry_next_def split: prod.splits intro!: that)
  qed
next
  case False
  with assms publish_queue [where qs = "snd s", OF assms(1)] show ?thesis
    by (cases c) (auto simp: registry_add_def registry_add_sync_def registry_correlate_def registry_subscribe_def
        registry_unsubscribe_def subscribe_def unsubscribe_def map_of_others split: if_splits intro!: that)
qed

lemma given_Cons: "given t i (c # cs) (a # as) = given t i [c] [a] @ given t i cs as"
  by (cases c; cases a) auto

definition announcements :: "string \<Rightarrow> live_call list \<Rightarrow> stream_item list" where
  "announcements t cs = concat (map (announced t) cs)"

lemma delivery:
  assumes "map_of (snd s t) i = Some xs" and "\<forall>c \<in> set cs. \<not> manages t i c"
  shows "\<exists>ys. map_of (snd (snd (run_steps (registry_step L) cs s)) t) i = Some ys \<and>
    subseq (given t i cs (fst (run_steps (registry_step L) cs s)) @ ys) (xs @ announcements t cs) \<and>
    (length xs + length (announcements t cs) \<le> queue_maxsize \<longrightarrow>
      given t i cs (fst (run_steps (registry_step L) cs s)) @ ys = xs @ announcements t cs)"
  using assms
proof (induction cs arbitrary: s xs)
  case Nil
  then show ?case by (simp add: announcements_def)
next
  case (Cons c cs)
  let ?s = "snd (registry_step L c s)" and ?a = "fst (registry_step L c s)"
  obtain ys where ys: "map_of (snd ?s t) i = Some ys"
    and step: "given t i [c] [?a] @ ys = (if length xs < queue_maxsize then xs @ announced t c else xs)"
    using Cons.prems by (auto intro: subscription_step)
  let ?g = "given t i [c] [?a]" and ?G = "given t i cs (fst (run_steps (registry_step L) cs ?s))"
  obtain zs where zs: "map_of (snd (snd (run_steps (registry_step L) cs ?s)) t) i = Some zs"
    "subseq (?G @ zs) (ys @ announcements t cs)"
    "length ys + length (announcements t cs) \<le> queue_maxsize \<longrightarrow> ?G @ zs = ys @ announcements t cs"
    using Cons.IH [OF ys] Cons.prems(2) by auto
  have all: "announcements t (c # cs) = announced t c @ announcements t cs" by (simp add: announcements_def)
  have "subseq (?g @ ys) (xs @ announced t c)" using step by auto
  then have "subseq ((?g @ ys) @ announcements t cs) ((xs @ announced t c) @ announcements t cs)"
    by (rule list_emb_append_mono) simp
  moreover have "subseq (?g @ ?G @ zs) (?g @ ys @ announcements t cs)"
    by (rule list_emb_append_mono [OF subseq_order.refl zs(2)])
  ultimately have "subseq (?g @ ?G @ zs) (xs @ announcements t (c # cs))"
    unfolding all by (auto intro: subseq_order.trans)
  moreover have "?g @ ?G @ zs = xs @ announcements t (c # cs)"
    if small: "length xs + length (announcements t (c # cs)) \<le> queue_maxsize"
  proof -
    have "length (announced t c) \<le> 1" by (cases c) auto
    have eq: "?g @ ys = xs @ announced t c"
    proof (cases "length xs < queue_maxsize")
      case True
      then show ?thesis using step by simp
    next
      case False
      with small have "length (announced t c) = 0" unfolding all length_append by linarith
      then have "announced t c = []" by simp
      then show ?thesis using step by simp
    qed
    then have "length ?g + length ys = length xs + length (announced t c)" by (metis length_append)
    with small have "length ys + length (announcements t cs) \<le> queue_maxsize" by (simp add: all)
    with zs(3) have "?g @ ?G @ zs = (?g @ ys) @ announcements t cs" by simp
    with eq show ?thesis by (simp add: all)
  qed
  ultimately show ?case using zs(1) by (auto simp: given_Cons [of t i c cs])
qed

end
