(* ===== verification/Isolation_Properties.thy ===== *)
theory Isolation_Properties
  imports Gateway_Isolation Subscribers Executor_Properties Samples
begin

text \<open>
  The properties that separate tenants, over the middleware, the handlers, the two stores
  and the executor together, each with a witness.
\<close>

section \<open>Samples\<close>

definition tenant_request :: "string \<Rightarrow> api_request" where
  "tenant_request t = \<lparr>aq_request_id = ''req'', aq_tenant_id = t, aq_role = ''analyst'', aq_authorization = None,
     aq_client_host = None, aq_idempotency_key = Some ''k'', aq_last_event_id = None\<rparr>"

definition event_env :: "string \<Rightarrow> request_env" where
  "event_env u = \<lparr>re_calls = (\<lambda>n. sample_env 5 (u @ replicate n (CHR ''y''))),
     re_broker = \<lparr>bk_send = (\<lambda>task args queue. Inr task), bk_revoke = (\<lambda>i. Inr ()), bk_connect = Inr ()\<rparr>\<rparr>"

definition sample_gateway :: "database service" where
  "sample_gateway = sql_service sample_core Celery_mode (\<lambda>src. Some ''queue'') (\<lambda>x. ''error'')"

definition create_event :: "string \<Rightarrow> string \<Rightarrow> gateway_event" where
  "create_event t u = Api (event_env u) (tenant_request t) (Scans (Create_scan \<lparr>sb_source = LAB, sb_payload = JNull\<rparr>))"

definition list_event :: "string \<Rightarrow> gateway_event" where
  "list_event t = Api (event_env ''d'') (tenant_request t) (Scans (List_scans None None 10))"

definition page_event :: "string \<Rightarrow> gateway_event" where
  "page_event t = Api (event_env ''e'') (tenant_request t)
     (List_findings None 10 \<lparr>pf_source = None, pf_severity = None, pf_status = None\<rparr>)"

definition stored_event :: "string \<Rightarrow> gateway_event" where
  "stored_event t = Store_worker (sample_env 6 ''c'') t (sample_finding ''f1'' LAB HIGH ''title'') None"

definition two_tenants :: "gateway_event list" where
  "two_tenants = [create_event ''acme'' ''b'', create_event ''globex'' ''a'', stored_event ''globex'', list_event ''acme'',
     page_event ''acme'']"

lemma gateway_good_empty [simp]: "gateway_good empty_db"
  using sa_invar_empty by (simp add: gateway_good_def findings_ok_def) (simp add: empty_db_def)

lemma new_job_id_sql: "new_job_id sa_view e d \<longleftrightarrow> (''job_'' @ uuid e 0) \<notin> set (map j_id (db_jobs d))"
proof -
  have "(\<exists>t. find (is_job t j) js \<noteq> None) \<longleftrightarrow> j \<in> set (map j_id js)" for j and js :: "job_row list"
    by (auto simp: find_None_iff is_job_def)
  then show ?thesis by (simp add: new_job_id_def job_id_used_def sa_view_def)
qed

lemmas event_defs = create_event_def list_event_def page_event_def stored_event_def

lemma own_events: "filter (\<lambda>c. event_tenant c = ''acme'') two_tenants = [create_event ''acme'' ''b'', list_event ''acme'', page_event ''acme'']"
  by (simp add: two_tenants_def event_defs tenant_request_def)

lemmas ready_code = all_ready.simps event_defs event_ready.simps service_ready.simps new_job_id_sql

lemma two_tenants_ready:
  "all_ready (event_step sample_gateway sample_hashing True) (event_ready sample_gateway) (\<lambda>c. event_tenant c = ''acme'')
     two_tenants empty_db"
  unfolding two_tenants_def ready_code by code_simp

lemma acme_ready:
  "all_ready (event_step sample_gateway sample_hashing True) (event_ready sample_gateway) (\<lambda>c. event_tenant c = ''acme'')
     (filter (\<lambda>c. event_tenant c = ''acme'') two_tenants) empty_db"
  unfolding own_events ready_code by code_simp

section \<open>Properties\<close>

text \<open>
  C2: Tenants do not interfere. Whatever requests the tenants make of the gateway over the
  relational database, and whatever the workers do for them in between, in any order, a
  tenant gets the answers it would get if nobody else used the gateway: its scans, their
  events, streams and cancellations, the pages of its findings and its updates of them do not
  depend on the other tenants. The UUIDs it draws must be new, and it must not store findings
  itself in the meantime, because their row ids, which cursors show, count all tenants.
\<close>

theorem tenants_do_not_interfere:
  assumes "gateway_good d"
    and "all_ready (event_step (sql_service L m queues et) H has_store) (event_ready (sql_service L m queues et))
      (\<lambda>c. event_tenant c = t) cs d"
    and "all_ready (event_step (sql_service L m queues et) H has_store) (event_ready (sql_service L m queues et))
      (\<lambda>c. event_tenant c = t) (filter (\<lambda>c. event_tenant c = t) cs) d"
  shows "answers_to (\<lambda>c. event_tenant c = t) cs (fst (run_steps (event_step (sql_service L m queues et) H has_store) cs d)) =
    fst (run_steps (event_step (sql_service L m queues et) H has_store) (filter (\<lambda>c. event_tenant c = t) cs) d)"
  using gateway.noninterference [OF assms(1) assms(1) refl assms(2,3)] by simp

theorem tenants_do_not_interfere_witness:
  "answers_to (\<lambda>c. event_tenant c = ''acme'') two_tenants
      (fst (run_steps (event_step sample_gateway sample_hashing True) two_tenants empty_db)) =
    fst (run_steps (event_step sample_gateway sample_hashing True) (filter (\<lambda>c. event_tenant c = ''acme'') two_tenants) empty_db)"
  unfolding sample_gateway_def
  by (rule tenants_do_not_interfere [OF gateway_good_empty])
    (use two_tenants_ready acme_ready in \<open>simp_all only: sample_gateway_def\<close>)

text \<open>
  The same of the scans over SQLite, from an empty database.
\<close>

theorem sqlite_tenants_do_not_interfere:
  assumes "all_ready (service_step (sqlite_service L m queues et)) (service_ready (sqlite_service L m queues et) sq_view (\<lambda>e t s. True))
      (\<lambda>c. service_caller c = t) cs sq_empty"
    and "all_ready (service_step (sqlite_service L m queues et)) (service_ready (sqlite_service L m queues et) sq_view (\<lambda>e t s. True))
      (\<lambda>c. service_caller c = t) (filter (\<lambda>c. service_caller c = t) cs) sq_empty"
  shows "answers_to (\<lambda>c. service_caller c = t) cs (fst (run_steps (service_step (sqlite_service L m queues et)) cs sq_empty)) =
    fst (run_steps (service_step (sqlite_service L m queues et)) (filter (\<lambda>c. service_caller c = t) cs) sq_empty)"
  using sqlite_scans.noninterference [OF sq_invar_empty sq_invar_empty refl assms] by simp


definition sample_framework :: framework where
  "sample_framework = \<lparr>fw_set_header = (\<lambda>name val hs. (name, val) # hs), fw_get_header = header, fw_client_host = (\<lambda>r. None),
     fw_json = (\<lambda>resp. [Response_start (rs_status resp) (rs_headers resp)])\<rparr>"

definition sample_routing :: routing where
  "sample_routing = \<lparr>rt_routes = (\<lambda>r. Some (Scans (List_scans None None 10))), rt_stream = (\<lambda>x. []),
     rt_crash = (\<lambda>x. [Response_start 500 []]),
     rt_other = (\<lambda>st r v d. \<lparr>ar_sent = [], ar_raised = None, ar_context = v, ar_database = d\<rparr>)\<rparr>"

definition scans_request :: http_request where
  "scans_request = \<lparr>rq_is_http = True, rq_path = ''/v1/scans'', rq_method = ''GET'', rq_headers = []\<rparr>"

definition sample_tokens :: "(string \<times> principal) list" where
  "sample_tokens = [(''static-token-0001'', plain_principal ''acme'' ''viewer'')]"


text \<open>
  C4: An execution touches only the rows of its job's tenant. However the executor runs a job on
  the relational stores, with any product, outcome, stop or number of steps, and whatever
  tenant its context is bound to when it starts, the rows of every other tenant stay what
  they were: the findings and correlations it stores are its tenant's.
\<close>

theorem execution_touches_own_tenant:
  assumes "deployed L H X" and "findings_ok d" and "t \<noteq> u"
  shows "own_rows u (x_state (exec_run X t j is (exec_start ctx d))) = own_rows u d"
proof -
  have "own_rows u (x_state (exec_run X t j is x)) = own_rows u (x_state x)"
    if "frame_ok X t ctx x" "findings_ok (x_state x)" for x
    using that
  proof (induction "is" arbitrary: x)
    case (Cons i rest)
    have next_ok: "frame_ok X t ctx (exec_step X t j i x)"
      using Cons.prems(1) assms(1) by (intro frame_step) (simp_all add: deployed_def)
    note step = exec_step_isolated [OF assms(1) Cons.prems(1,2) assms(3), of j i]
    from Cons.IH [OF next_ok] step show ?case by (simp add: exec_run_def)
  qed (simp add: exec_run_def)
  moreover have "frame_ok X t ctx (exec_start ctx d)" using assms(1) by (intro frame_start) (simp add: deployed_def)
  ultimately show ?thesis using assms(2) by (simp add: exec_start_def)
qed

theorem execution_touches_own_tenant_witness:
  "own_rows ''globex'' (x_state (exec_run sample_executor ''acme'' ''job_a'' [sample_input 10 ''p'' None, sample_input 11 ''q'' None]
     (exec_start ''_system'' sample_sql))) = own_rows ''globex'' sample_sql"
proof (rule execution_touches_own_tenant)
  show "deployed sample_core sample_hashing sample_executor" by (rule sample_deployed)
  show "findings_ok sample_sql" by code_simp
qed simp

text \<open>
  C18: The tenant binding ends with the request, and responses carry the request id. For every
  HTTP request, application and outcome, exceptions included: the context variable is
  afterwards what it was before, the application is only ever called with the tenant of the
  request state bound (two applications that agree on such calls cannot be told apart), and
  every response start that the middleware sends, its own or the application's, has the
  request id in its header. The answer to an exception that leaves the middleware is sent
  outside of it by the framework; all other responses of the gateway carry the id.
\<close>

theorem tenant_bound_in_request:
  assumes "rq_is_http r" and "sets_header F"
    and "\<And>s r d. app (Some s) r (Some (st_tenant_id s)) d = app' (Some s) r (Some (st_tenant_id s)) d"
  shows "ar_context (middleware F principals auth app fresh r v d) = v \<and>
    middleware F principals auth app fresh r v d = middleware F principals auth app' fresh r v d \<and>
    (\<forall>status hs. Response_start status hs \<in> set (ar_sent (middleware F principals auth app fresh r v d)) \<longrightarrow>
      header_value ''X-Request-ID'' hs = Some (request_id_of fresh r)) \<and>
    ar_context (server_errors T (middleware F principals auth app fresh r v d)) = v \<and>
    (\<forall>status hs. Response_start status hs \<in> set (ar_sent (server_errors T (middleware F principals auth app fresh r v d))) \<longrightarrow>
      header_value ''X-Request-ID'' hs = Some (request_id_of fresh r) \<or>
      ar_raised (middleware F principals auth app fresh r v d) \<noteq> None)"
proof -
  have "decide principals auth r d \<noteq> (Inr Pass_through, d1)" for d1
    using assms(1) by (auto simp: decide_def Let_def split: prod.splits sum.splits option.splits if_splits)
  moreover have "call_as app send p rid r v d = call_as app' send p rid r v d" for send p rid d
    using assms(3) [of "request_state_of rid p" r d] by (simp add: call_as_def bind_tenant_def request_state_of_def)
  ultimately have "middleware F principals auth app fresh r v d = middleware F principals auth app' fresh r v d"
    by (auto simp: middleware_def Let_def split: prod.split sum.split decision.split)
  moreover note middleware_context [OF assms(1)] and sends = middleware_sends_id [OF assms(2,1)]
  moreover have "header_value ''X-Request-ID'' hs = Some (request_id_of fresh r) \<or>
      ar_raised (middleware F principals auth app fresh r v d) \<noteq> None"
    if "Response_start status hs \<in> set (ar_sent (server_errors T (middleware F principals auth app fresh r v d)))" for status hs
    using that sends by (cases "ar_raised (middleware F principals auth app fresh r v d)") auto
  ultimately show ?thesis by simp
qed

theorem tenant_bound_in_request_witness:
  "ar_context (middleware sample_framework sample_tokens None (rt_other sample_routing) ''f'' scans_request (Some ''x'') empty_db) = Some ''x''"
  using tenant_bound_in_request [where app = "rt_other sample_routing" and app' = "rt_other sample_routing" and
      F = sample_framework and r = scans_request]
  by (simp add: scans_request_def sets_header_def header_value_def sample_framework_def)

text \<open>
  C33: A subscriber is sent what its tenant finds, in order. Between subscribing and leaving, the
  items a subscription has yielded, followed by those that wait in its queue, are findings
  and correlations that were added for its tenant since, in the order they were added;
  nothing of another tenant, nothing twice. As long as no more than 1000 were waiting and
  added altogether, none is missing.
\<close>

theorem subscriber_gets_own_items:
  assumes "map_of (snd s t) i = None" and "\<forall>c \<in> set cs. \<not> manages t i c"
  shows "\<exists>waiting. map_of (snd (snd (run_steps (registry_step L) (Reg_subscribe t i # cs) s)) t) i = Some waiting \<and>
    subseq (given t i (Reg_subscribe t i # cs) (fst (run_steps (registry_step L) (Reg_subscribe t i # cs) s)) @ waiting)
      (announcements t cs) \<and>
    (length (announcements t cs) \<le> queue_maxsize \<longrightarrow>
      given t i (Reg_subscribe t i # cs) (fst (run_steps (registry_step L) (Reg_subscribe t i # cs) s)) @ waiting =
      announcements t cs)"
proof -
  have "map_of (snd (registry_subscribe t i s) t) i = Some []"
    using assms(1) by (simp add: registry_subscribe_def subscribe_def map_add_def)
  from delivery [OF this assms(2), of L] show ?thesis by simp
qed

theorem subscriber_gets_own_items_witness:
  "\<exists>waiting. map_of (snd (snd (run_steps (registry_step sample_core) [Reg_subscribe ''acme'' 0, Reg_add ''acme'' (sample_finding ''f'' LAB HIGH ''t''),
        Reg_add ''globex'' (sample_finding ''g'' LAB HIGH ''t'')] (new_registry 10, \<lambda>t. []))) ''acme'') 0 = Some waiting \<and>
    waiting = [Stream_finding (sample_finding ''f'' LAB HIGH ''t'')]"
  using subscriber_gets_own_items [where s = "(new_registry 10, \<lambda>t. [])" and t = "''acme''" and i = 0 and L = sample_core and
      cs = "[Reg_add ''acme'' (sample_finding ''f'' LAB HIGH ''t''), Reg_add ''globex'' (sample_finding ''g'' LAB HIGH ''t'')]"]
  by (simp add: announcements_def queue_maxsize_def)

end
