(* ===== verification/Iso_Order.thy ===== *)
theory Iso_Order
  imports Py_Json
begin

text \<open>
  The order of instants and the order of their texts. The SQLite repository keeps times as
  the text of \<^verbatim>\<open>isoformat()\<close> and has the database order jobs by that text; \<open>iso_text_order\<close>
  says that this is the order of the times, for the years a \<^verbatim>\<open>datetime\<close> can have. The calendar
  is compared through the days of a 400-year era.
\<close>

section \<open>Lexicographic order of parts of one length\<close>

lemma append_less_same_length:
  fixes xs ys :: string
  assumes "length xs = length xs'"
  shows "xs @ ys < xs' @ ys' \<longleftrightarrow> xs < xs' \<or> xs = xs' \<and> ys < ys'"
  using assms by (induction rule: list_induct2) auto

definition pad_digits :: "nat \<Rightarrow> nat \<Rightarrow> string" where
  "pad_digits w n = replicate (w - length (nat_digits n)) (CHR ''0'') @ nat_digits n"

lemma zfill_pad: "0 \<le> i \<Longrightarrow> zfill w i = pad_digits w (nat i)"
  by (simp add: zfill_def py_str_int_def pad_digits_def Let_def)

lemma digit_char_zero: "digit_char 0 = CHR ''0''"
  by code_simp

lemma pad_digits_zero: "pad_digits (Suc w) 0 = replicate (Suc w) (CHR ''0'')"
  by (simp add: pad_digits_def nat_digits.simps [of 0] digit_char_zero replicate_append_same flip: replicate_Suc)

lemma pad_digits_Suc:
  assumes "n < 10 ^ Suc w" and "0 < w"
  shows "pad_digits (Suc w) n = pad_digits w (n div 10) @ [digit_char (n mod 10)]"
proof (cases "n < 10")
  case True
  obtain v where v: "w = Suc v" using assms(2) by (cases w) auto
  show ?thesis using True pad_digits_zero [of v]
    by (simp add: pad_digits_def nat_digits.simps [of n] v)
next
  case False
  then have "nat_digits n = nat_digits (n div 10) @ [digit_char (n mod 10)]" by (simp add: nat_digits.simps [of n])
  then show ?thesis by (simp add: pad_digits_def)
qed

lemma pad_digits_length: "0 < w \<Longrightarrow> n < 10 ^ w \<Longrightarrow> length (pad_digits w n) = w"
  using nat_digits_length [of w n] by (simp add: pad_digits_def)

lemma digit_char_less: "a < b \<Longrightarrow> b < 10 \<Longrightarrow> digit_char a < digit_char b"
  by (simp add: digit_char_def less_char_def)

lemma pad_digits_less:
  assumes "a < b" and "b < 10 ^ w" and "0 < w"
  shows "pad_digits w a < pad_digits w b"
  using assms
proof (induction w arbitrary: a b)
  case (Suc w)
  show ?case
  proof (cases "w = 0")
    case True
    with Suc.prems show ?thesis
      by (simp add: pad_digits_def nat_digits.simps [of a] nat_digits.simps [of b] digit_char_less)
  next
    case False
    have lengths: "length (pad_digits w (a div 10)) = length (pad_digits w (b div 10))"
      using Suc.prems False by (simp add: pad_digits_length less_mult_imp_div_less mult.commute)
    have parts: "pad_digits (Suc w) x = pad_digits w (x div 10) @ [digit_char (x mod 10)]" if "x < 10 ^ Suc w" for x
      using pad_digits_Suc that False by blast
    have "a div 10 \<le> b div 10" using Suc.prems(1) by (intro div_le_mono) simp
    moreover have "a mod 10 < b mod 10" if "a div 10 = b div 10"
      using Suc.prems(1) div_mult_mod_eq [of a 10] div_mult_mod_eq [of b 10] that by linarith
    ultimately consider "a div 10 < b div 10" | "a div 10 = b div 10" "a mod 10 < b mod 10" by linarith
    then have "pad_digits w (a div 10) @ [digit_char (a mod 10)] < pad_digits w (b div 10) @ [digit_char (b mod 10)]"
    proof cases
      case 1
      then have "pad_digits w (a div 10) < pad_digits w (b div 10)"
        using Suc.IH [of "a div 10" "b div 10"] Suc.prems(2) False by (simp add: less_mult_imp_div_less mult.commute)
      then show ?thesis using append_less_same_length [OF lengths] by blast
    next
      case 2
      then show ?thesis using append_less_same_length [OF lengths] digit_char_less by simp
    qed
    then show ?thesis using parts [of a] parts [of b] Suc.prems by simp
  qed
qed simp

lemma zfill_length: "0 \<le> i \<Longrightarrow> i < 10 ^ w \<Longrightarrow> 0 < w \<Longrightarrow> length (zfill w i) = w"
  using pad_digits_length [of w "nat i"] by (simp add: zfill_pad nat_less_iff)

lemma zfill_less: "0 \<le> i \<Longrightarrow> i < j \<Longrightarrow> j < 10 ^ w \<Longrightarrow> 0 < w \<Longrightarrow> zfill w i < zfill w j"
  using pad_digits_less [of "nat i" "nat j" w] by (simp add: zfill_pad nat_less_iff)

section \<open>The calendar\<close>

lemma div_mod_less:
  fixes a b k :: int
  assumes "0 < k" and "a < b"
  shows "a div k < b div k \<or> a div k = b div k \<and> a mod k < b mod k"
proof (cases "a div k = b div k")
  case True
  then show ?thesis using assms(2) minus_mult_div_eq_mod [of a k] minus_mult_div_eq_mod [of b k] by simp
next
  case False
  with zdiv_mono1 [of a b k] assms show ?thesis by simp
qed

text \<open>The year of a day of the era, and the first day of a year.\<close>

definition year_of_era_day :: "int \<Rightarrow> int" where
  "year_of_era_day n = (n - n div 1460 + n div 36524 - n div 146096) div 365"

definition first_day :: "int \<Rightarrow> int" where
  "first_day y = 365 * y + y div 4 - y div 100"

lemma div_step: "(n + 1) div k = n div k \<or> (n + 1) div k = n div k + 1" if "0 < k" for n k :: int
proof -
  have "n div k \<le> (n + 1) div k" using that by (simp add: zdiv_mono1)
  moreover have "(n + 1) div k \<le> (n + k) div k" using that by (intro zdiv_mono1) auto
  moreover have "(n + k) div k = n div k + 1" using that by simp
  ultimately show ?thesis by linarith
qed

lemma year_mono: "a \<le> b \<Longrightarrow> year_of_era_day a \<le> year_of_era_day b"
proof (induction b rule: int_ge_induct)
  case (step n)
  let ?b = "n div 36524" and ?c = "(n + 1) div 36524"
  have quarters: "n div 146096 = ?b div 4" "(n + 1) div 146096 = ?c div 4"
    using zdiv_zmult2_eq [of 4 n 36524] zdiv_zmult2_eq [of 4 "n + 1" 36524] by simp_all
  have "?b - ?b div 4 \<le> ?c - ?c div 4"
  proof (cases "?c = ?b")
    case False
    then have "?c = ?b + 1" using div_step [of 36524 n] by simp
    then show ?thesis using div_step [of 4 ?b] by auto
  qed simp
  moreover have "(n + 1) div 1460 \<le> n div 1460 + 1" using div_step [of 1460 n] by auto
  ultimately have "n - n div 1460 + ?b - n div 146096 \<le> (n + 1) - (n + 1) div 1460 + ?c - (n + 1) div 146096"
    unfolding quarters by linarith
  then have "year_of_era_day n \<le> year_of_era_day (n + 1)" unfolding year_of_era_day_def by (rule zdiv_mono1) simp
  with step.IH show ?case by simp
qed simp

lemma years_table:
  "list_all (\<lambda>y. year_of_era_day (first_day y) = y \<and> year_of_era_day (first_day y - 1) = y - 1 \<and>
     first_day y - first_day (y - 1) \<le> 366) [1..399]"
  by code_simp

lemma year_bounds:
  assumes "1 \<le> y" and "y \<le> 399"
  shows "year_of_era_day (first_day y) = y" and "year_of_era_day (first_day y - 1) = y - 1"
    and "first_day y - first_day (y - 1) \<le> 366"
  using years_table assms by (auto simp: list_all_iff)

text \<open>The year and the day of the year of a day of the era.\<close>

lemma era_day:
  assumes "0 \<le> n" and "n < 146097"
  defines "y \<equiv> year_of_era_day n"
  shows "0 \<le> y" and "y \<le> 399" and "0 \<le> n - first_day y" and "n - first_day y \<le> 365"
proof -
  have ends: "year_of_era_day 0 = 0" "year_of_era_day 146096 = 399" "first_day 0 = 0" "first_day 399 = 145731"
    by (simp_all add: year_of_era_day_def first_day_def)
  show low: "0 \<le> y" using year_mono [OF assms(1)] ends by (simp add: y_def)
  have "n \<le> 146096" using assms(2) by simp
  from year_mono [OF this] show high: "y \<le> 399" using ends by (simp add: y_def)
  show "0 \<le> n - first_day y"
  proof (cases "y = 0")
    case False
    show ?thesis
    proof (rule ccontr)
      assume "\<not> 0 \<le> n - first_day y"
      then have "n \<le> first_day y - 1" by simp
      from year_mono [OF this] show False using year_bounds(2) [of y] low high False by (simp add: y_def)
    qed
  qed (use assms(1) ends in simp)
  show "n - first_day y \<le> 365"
  proof (cases "y = 399")
    case False
    have "\<not> first_day (y + 1) \<le> n"
    proof
      assume "first_day (y + 1) \<le> n"
      from year_mono [OF this] show False using year_bounds(1) [of "y + 1"] low high False by (simp add: y_def)
    qed
    with year_bounds(3) [of "y + 1"] low high False show ?thesis by simp
  qed (use assms(2) ends in simp)
qed

text \<open>Years that begin in March, and the day of such a year.\<close>

definition march_year :: "int \<Rightarrow> int" where
  "march_year z = year_of_era_day (z mod 146097) + z div 146097 * 400"

definition march_day :: "int \<Rightarrow> int" where
  "march_day z = z mod 146097 - first_day (year_of_era_day (z mod 146097))"

lemma march_day_bounds: "0 \<le> march_day z" "march_day z \<le> 365"
  using era_day(3,4) [of "z mod 146097"] by (simp_all add: march_day_def)

lemma march_less:
  assumes "a < b"
  shows "march_year a < march_year b \<or> march_year a = march_year b \<and> march_day a < march_day b"
proof (cases "a div 146097 = b div 146097")
  case True
  then have "a mod 146097 < b mod 146097" using assms by (metis div_mult_mod_eq add_less_cancel_left)
  with year_mono [of "a mod 146097" "b mod 146097"] show ?thesis
    by (auto simp: march_year_def march_day_def True)
next
  case False
  then have "a div 146097 < b div 146097" using zdiv_mono1 [of a b 146097] assms by simp
  with era_day(2) [of "a mod 146097"] era_day(1) [of "b mod 146097"] show ?thesis by (simp add: march_year_def)
qed

text \<open>Months from March to February, and the day of the month.\<close>

definition month_index :: "int \<Rightarrow> int" where
  "month_index n = (5 * n + 2) div 153"

definition month_day :: "int \<Rightarrow> int" where
  "month_day n = n - (153 * month_index n + 2) div 5 + 1"

lemma month_bounds:
  assumes "0 \<le> n" and "n \<le> 365"
  shows "0 \<le> month_index n" and "month_index n \<le> 11" and "1 \<le> month_day n" and "month_day n \<le> 31"
  using assms unfolding month_day_def month_index_def by linarith+

lemma month_less:
  assumes "a < b"
  shows "month_index a < month_index b \<or> month_index a = month_index b \<and> month_day a < month_day b"
  using zdiv_mono1 [of "5 * a + 2" "5 * b + 2" 153] assms by (auto simp: month_index_def month_day_def)

lemma civil_march:
  "civil_from_days z0 =
    (let z = z0 + 719468; i = month_index (march_day z)
     in (march_year z + (if 10 \<le> i then 1 else 0), if i < 10 then i + 3 else i - 9, month_day (march_day z)))"
proof -
  let ?i = "month_index (march_day (z0 + 719468))"
  have "civil_from_days z0 =
      (march_year (z0 + 719468) + (if (if ?i < 10 then ?i + 3 else ?i - 9) \<le> 2 then 1 else 0),
       if ?i < 10 then ?i + 3 else ?i - 9, month_day (march_day (z0 + 719468)))"
    unfolding civil_from_days_def march_year_def march_day_def month_index_def month_day_def first_day_def
      year_of_era_day_def Let_def by (rule refl)
  moreover have "0 \<le> ?i" "?i \<le> 11" using month_bounds(1,2) march_day_bounds by blast+
  ultimately show ?thesis by (simp add: Let_def)
qed

lemma civil_ranges:
  assumes "civil_from_days n = (y, m, d)"
  shows "1 \<le> m" and "m \<le> 12" and "1 \<le> d" and "d \<le> 31"
  using assms month_bounds [OF march_day_bounds(1,2), of "n + 719468"] by (auto simp: civil_march Let_def split: if_splits)

lemma civil_less:
  assumes "a < b"
  shows "civil_from_days a < civil_from_days b"
proof -
  let ?u = "a + 719468" and ?v = "b + 719468"
  have days: "march_year ?u < march_year ?v \<or> march_year ?u = march_year ?v \<and> march_day ?u < march_day ?v"
    using march_less [of ?u ?v] assms by simp
  have months: "march_day ?u < march_day ?v \<Longrightarrow> month_index (march_day ?u) < month_index (march_day ?v) \<or>
      month_index (march_day ?u) = month_index (march_day ?v) \<and> month_day (march_day ?u) < month_day (march_day ?v)"
    by (rule month_less)
  note bounds = month_bounds(1,2) [OF march_day_bounds(1,2), of ?u] month_bounds(1,2) [OF march_day_bounds(1,2), of ?v]
  from days show ?thesis
  proof
    assume "march_year ?u < march_year ?v"
    with bounds show ?thesis by (auto simp: civil_march Let_def less_prod_def)
  next
    assume "march_year ?u = march_year ?v \<and> march_day ?u < march_day ?v"
    with months bounds show ?thesis by (auto simp: civil_march Let_def less_prod_def)
  qed
qed

section \<open>The texts\<close>

definition calendar_text :: "int \<times> int \<times> int \<Rightarrow> string" where
  "calendar_text date = (case date of (y, m, d) \<Rightarrow> zfill 4 y @ ''-'' @ zfill 2 m @ ''-'' @ zfill 2 d)"

definition clock_text :: "int \<Rightarrow> string" where
  "clock_text secs = zfill 2 (secs div 3600) @ '':'' @ zfill 2 (secs div 60 mod 60) @ '':'' @ zfill 2 (secs mod 60)"

definition fraction_text :: "int \<Rightarrow> string" where
  "fraction_text us = (if us = 0 then [] else ''.'' @ zfill 6 us) @ ''+00:00''"

lemma isoformat_parts:
  "isoformat t = calendar_text (civil_from_days (t div 86400000000)) @ ''T'' @
     clock_text (t mod 86400000000 div 1000000) @ fraction_text (t mod 86400000000 mod 1000000)"
proof -
  obtain y m d where "civil_from_days (t div 86400000000) = (y, m, d)" by (rule prod_cases3)
  then show ?thesis
    by (simp only: isoformat_def calendar_text_def clock_text_def fraction_text_def Let_def prod.case append_assoc
        append_Cons append_Nil)
qed

text \<open>The instants of the years 1 to 9999, which a \<^verbatim>\<open>datetime\<close> can hold.\<close>

definition datetime_range :: "time \<Rightarrow> bool" where
  "datetime_range t \<longleftrightarrow> -62135596800000000 \<le> t \<and> t < 253402300800000000"

lemma civil_year:
  assumes "datetime_range t" and "civil_from_days (t div 86400000000) = (y, m, d)"
  shows "1 \<le> y" and "y \<le> 9999"
proof -
  have days: "-719162 \<le> t div 86400000000" "t div 86400000000 \<le> 2932896"
    using assms(1) zdiv_mono1 [of "-62135596800000000" t 86400000000] zdiv_mono1 [of t 253402300799999999 86400000000]
    by (simp_all add: datetime_range_def)
  have ends: "civil_from_days (-719162) = (1, 1, 1)" "civil_from_days 2932896 = (9999, 12, 31)" by code_simp+
  have "civil_from_days (-719162) \<le> (y, m, d)" "(y, m, d) \<le> civil_from_days 2932896"
    using days civil_less assms(2) by (metis order.order_iff_strict)+
  then show "1 \<le> y" "y \<le> 9999" unfolding ends by auto
qed

lemma calendar_text_less:
  assumes "(y, m, d) < (y', m', d')" and "0 \<le> y" "y \<le> 9999" "0 \<le> y'" "y' \<le> 9999"
    and "1 \<le> m" "m \<le> 12" "1 \<le> m'" "m' \<le> 12" and "1 \<le> d" "d \<le> 31" "1 \<le> d'" "d' \<le> 31"
  shows "calendar_text (y, m, d) < calendar_text (y', m', d')"
proof -
  have "length (zfill 4 y) = length (zfill 4 y')" "length (zfill 2 m) = length (zfill 2 m')"
    "y < y' \<Longrightarrow> zfill 4 y < zfill 4 y'" "m < m' \<Longrightarrow> zfill 2 m < zfill 2 m'" "d < d' \<Longrightarrow> zfill 2 d < zfill 2 d'"
    using assms by (simp_all add: zfill_length zfill_less)
  moreover have "y < y' \<or> y = y' \<and> (m < m' \<or> m = m' \<and> d < d')" using assms(1) by auto
  ultimately show ?thesis by (auto simp: calendar_text_def append_less_same_length)
qed

lemma calendar_text_length:
  assumes "0 \<le> y" "y \<le> 9999" "1 \<le> m" "m \<le> 12" "1 \<le> d" "d \<le> 31"
  shows "length (calendar_text (y, m, d)) = 10"
  using assms by (simp add: calendar_text_def zfill_length)

lemma clock_text_length: "0 \<le> s \<Longrightarrow> s < 86400 \<Longrightarrow> length (clock_text s) = 8"
  by (simp add: clock_text_def zfill_length)

lemma hms_less:
  fixes h h' m m' s s' :: int
  assumes "3600 * h + 60 * m + s < 3600 * h' + 60 * m' + s'"
    and "0 \<le> m" "m < 60" "0 \<le> m'" "m' < 60" "0 \<le> s" "s < 60" "0 \<le> s'" "s' < 60"
  shows "h < h' \<or> h = h' \<and> (m < m' \<or> m = m' \<and> s < s')"
proof (cases "h = h'")
  case True
  with assms have "m \<le> m'" by linarith
  with True assms(1) show ?thesis by auto
next
  case False
  from assms have "h \<le> h'" by linarith
  with False show ?thesis by simp
qed

lemma hms_parts: "3600 * (x div 3600) + 60 * (x div 60 mod 60) + x mod 60 = x" for x :: int
proof -
  have "x div 60 div 60 = x div 3600" using zdiv_zmult2_eq [of 60 x 60] by simp
  then show ?thesis using div_mult_mod_eq [of x 60] div_mult_mod_eq [of "x div 60" 60] by linarith
qed

lemma hms_text_less:
  fixes h h' m m' s s' :: int
  assumes "h < h' \<or> h = h' \<and> (m < m' \<or> m = m' \<and> s < s')"
    and "0 \<le> h" "h < 24" "0 \<le> h'" "h' < 24" "0 \<le> m" "m < 60" "0 \<le> m'" "m' < 60" "0 \<le> s" "s < 60" "0 \<le> s'" "s' < 60"
  shows "zfill 2 h @ '':'' @ zfill 2 m @ '':'' @ zfill 2 s < zfill 2 h' @ '':'' @ zfill 2 m' @ '':'' @ zfill 2 s'"
proof -
  have "length (zfill 2 h) = length (zfill 2 h')" "length (zfill 2 m) = length (zfill 2 m')"
    "h < h' \<Longrightarrow> zfill 2 h < zfill 2 h'" "m < m' \<Longrightarrow> zfill 2 m < zfill 2 m'" "s < s' \<Longrightarrow> zfill 2 s < zfill 2 s'"
    using assms by (simp_all add: zfill_length zfill_less)
  with assms(1) show ?thesis by (auto simp: append_less_same_length)
qed

lemma clock_text_less:
  assumes "0 \<le> a" and "a < b" and "b < 86400"
  shows "clock_text a < clock_text b"
proof -
  let ?h = "\<lambda>s::int. s div 3600" and ?m = "\<lambda>s::int. s div 60 mod 60" and ?s = "\<lambda>s::int. s mod 60"
  have small: "0 \<le> ?m x" "?m x < 60" "0 \<le> ?s x" "?s x < 60" for x :: int by simp_all
  have "3600 * ?h a + 60 * ?m a + ?s a < 3600 * ?h b + 60 * ?m b + ?s b" unfolding hms_parts by (rule assms(2))
  then have order: "?h a < ?h b \<or> ?h a = ?h b \<and> (?m a < ?m b \<or> ?m a = ?m b \<and> ?s a < ?s b)"
    by (rule hms_less) (fact small)+
  have hours: "0 \<le> ?h a" "?h a < 24" "0 \<le> ?h b" "?h b < 24" using assms by simp_all
  show ?thesis unfolding clock_text_def by (rule hms_text_less [OF order hours]) (fact small)+
qed

text \<open>A time with no fraction comes first: \<^verbatim>\<open>+\<close> is before the decimal point.\<close>

lemma fraction_text_less:
  assumes "0 \<le> a" and "a < b" and "b < 1000000"
  shows "fraction_text a < fraction_text b"
proof (cases "a = 0")
  case True
  have "CHR ''+'' < CHR ''.''" by (simp add: less_char_def)
  with True assms show ?thesis by (simp add: fraction_text_def)
next
  case False
  have "zfill 6 a @ ''+00:00'' < zfill 6 b @ ''+00:00''"
    using assms by (simp add: append_less_same_length zfill_length zfill_less)
  with False assms show ?thesis by (simp add: fraction_text_def)
qed

lemma iso_text_less:
  assumes "datetime_range a" and "datetime_range b" and "a < b"
  shows "isoformat a < isoformat b"
proof -
  let ?day = "\<lambda>t::int. t div 86400000000" and ?us = "\<lambda>t::int. t mod 86400000000"
  obtain y m d y' m' d' where civil: "civil_from_days (?day a) = (y, m, d)" "civil_from_days (?day b) = (y', m', d')"
    by (metis prod.collapse)
  note ranges = civil_ranges [OF civil(1)] civil_ranges [OF civil(2)] civil_year [OF assms(1) civil(1)] civil_year [OF assms(2) civil(2)]
  have lengths: "length (calendar_text (y, m, d)) = length (calendar_text (y', m', d'))"
    "length (clock_text (?us a div 1000000)) = length (clock_text (?us b div 1000000))"
    using ranges by (simp_all add: calendar_text_length clock_text_length)
  consider "?day a < ?day b" | "?day a = ?day b" "?us a < ?us b"
    using div_mod_less [of 86400000000 a b] assms(3) by (metis zero_less_numeral)
  then show ?thesis
  proof cases
    case 1
    from civil_less [OF this] have "calendar_text (y, m, d) < calendar_text (y', m', d')"
      unfolding civil by (rule calendar_text_less) (use ranges in simp_all)
    then show ?thesis unfolding isoformat_parts civil append_less_same_length [OF lengths(1)] by (rule disjI1)
  next
    case 2
    let ?s = "\<lambda>t::int. ?us t div 1000000" and ?f = "\<lambda>t::int. ?us t mod 1000000"
    have "?s a < ?s b \<or> ?s a = ?s b \<and> ?f a < ?f b" by (rule div_mod_less) (simp, rule 2(2))
    then have rest: "clock_text (?s a) @ fraction_text (?f a) < clock_text (?s b) @ fraction_text (?f b)"
    proof
      assume "?s a < ?s b"
      then have "clock_text (?s a) < clock_text (?s b)" by (intro clock_text_less) simp_all
      then show ?thesis unfolding append_less_same_length [OF lengths(2)] by (rule disjI1)
    next
      assume "?s a = ?s b \<and> ?f a < ?f b"
      moreover from this have "fraction_text (?f a) < fraction_text (?f b)" by (intro fraction_text_less) simp_all
      ultimately show ?thesis unfolding append_less_same_length [OF lengths(2)] by metis
    qed
    have same: "(y', m', d') = (y, m, d)" using 2(1) civil by simp
    have "date @ ''T'' @ x < date @ ''T'' @ x'" if "x < x'" for date x x' :: string
      using that by (simp add: append_less_same_length)
    from this [OF rest] show ?thesis unfolding isoformat_parts civil same .
  qed
qed

lemma iso_text_order:
  assumes "datetime_range a" and "datetime_range b"
  shows "isoformat a \<le> isoformat b \<longleftrightarrow> a \<le> b"
  using iso_text_less [OF assms] iso_text_less [OF assms(2,1)] by (metis linorder_not_le order.order_iff_strict)

end
