(* ===== verification/Sqlite_Text.thy ===== *)
theory Sqlite_Text
  imports Iso_Order Finding_Lifecycle Isolation
begin

text \<open>
  The SQLite repository as the database file has it. \<^verbatim>\<open>Sqlite_Jobs\<close> keeps jobs and events; the
  columns of the code hold their texts: the values of enums, \<^verbatim>\<open>isoformat()\<close> of times and
  \<^verbatim>\<open>json.dumps\<close> of payloads, compared and ordered as text by the statements and decoded by
  \<^verbatim>\<open>_job_from_row\<close> and \<^verbatim>\<open>_event_from_row\<close>. This theory models the statements on these rows.
\<close>

section \<open>Rows\<close>

record scan_job_row =
  sr_job_id :: string
  sr_tenant_id :: string
  sr_source :: string
  sr_payload :: string
  sr_status :: string
  sr_created_at :: string
  sr_updated_at :: string
  sr_idempotency_key :: "string option"
  sr_dispatch_id :: "string option"
  sr_attempt :: int
  sr_cancel_requested :: int
  sr_result_count :: int
  sr_error_code :: "string option"
  sr_error_message :: "string option"

record scan_event_row =
  er_tenant_id :: string
  er_job_id :: string
  er_sequence :: int
  er_kind :: string
  er_payload :: string
  er_created_at :: string

record text_db =
  tx_jobs :: "scan_job_row list"
  tx_events :: "scan_event_row list"

definition tx_empty :: text_db where
  "tx_empty = \<lparr>tx_jobs = [], tx_events = []\<rparr>"

text \<open>
  Parsing: the constructors of the two enums, \<^verbatim>\<open>json.loads\<close>, \<^verbatim>\<open>datetime.fromisoformat\<close>;
  \<open>tl_float\<close> prints a floating point number. \<open>FindingSource\<close> is not under \<^verbatim>\<open>src\<close>.
\<close>

record text_lib =
  tl_core :: core_lib
  tl_source :: "string \<Rightarrow> exn + finding_source"
  tl_float :: "rat \<Rightarrow> string"
  tl_loads :: "string \<Rightarrow> exn + json"
  tl_fromiso :: "string \<Rightarrow> exn + time"

definition job_status_of :: "string \<Rightarrow> exn + job_status" where
  "job_status_of s =
     (case find (\<lambda>st. job_status_value st = s) [QUEUED, RUNNING, SUCCEEDED, FAILED, CANCELLED, TIMED_OUT] of
        None \<Rightarrow> Inl (ValueError s) | Some st \<Rightarrow> Inr st)"

definition json_dump :: "text_lib \<Rightarrow> json \<Rightarrow> string" where
  "json_dump T p = json_text (tl_float T) p"

definition text_job_from_row :: "text_lib \<Rightarrow> scan_job_row \<Rightarrow> exn + job_record" where
  "text_job_from_row T r =
     bind_exn (tl_source T (sr_source r)) (\<lambda>src.
     bind_exn (tl_loads T (sr_payload r)) (\<lambda>p.
     bind_exn (job_status_of (sr_status r)) (\<lambda>st.
     bind_exn (tl_fromiso T (sr_created_at r)) (\<lambda>created.
     bind_exn (tl_fromiso T (sr_updated_at r)) (\<lambda>updated.
     Inr \<lparr>j_id = sr_job_id r, j_tenant_id = sr_tenant_id r, j_source = src, j_payload = p, j_status = st,
          j_created_at = created, j_updated_at = updated, j_idempotency_key = sr_idempotency_key r,
          j_dispatch_id = sr_dispatch_id r, j_attempt = sr_attempt r, j_cancel_requested = (sr_cancel_requested r \<noteq> 0),
          j_result_count = sr_result_count r, j_error_code = sr_error_code r, j_error_message = sr_error_message r\<rparr>)))))"

definition text_event_from_row :: "text_lib \<Rightarrow> scan_event_row \<Rightarrow> exn + job_event" where
  "text_event_from_row T r =
     bind_exn (tl_loads T (er_payload r)) (\<lambda>p.
     bind_exn (tl_fromiso T (er_created_at r)) (\<lambda>created.
     Inr \<lparr>ev_sequence = er_sequence r, ev_job_id = er_job_id r, ev_tenant_id = er_tenant_id r, ev_kind = er_kind r,
          ev_payload = p, ev_created_at = created\<rparr>))"

section \<open>Statements\<close>

definition is_job_row :: "string \<Rightarrow> string \<Rightarrow> scan_job_row \<Rightarrow> bool" where
  "is_job_row t j r \<longleftrightarrow> sr_tenant_id r = t \<and> sr_job_id r = j"

definition is_event_row :: "string \<Rightarrow> string \<Rightarrow> scan_event_row \<Rightarrow> bool" where
  "is_event_row t j r \<longleftrightarrow> er_tenant_id r = t \<and> er_job_id r = j"

definition text_fetch :: "text_lib \<Rightarrow> (scan_job_row \<Rightarrow> bool) \<Rightarrow> text_db \<Rightarrow> exn + job_record option" where
  "text_fetch T P x =
     (case find P (tx_jobs x) of None \<Rightarrow> Inr None | Some r \<Rightarrow> bind_exn (text_job_from_row T r) (\<lambda>j. Inr (Some j)))"

definition text_get :: "text_lib \<Rightarrow> string \<Rightarrow> string \<Rightarrow> text_db \<Rightarrow> exn + job_record option" where
  "text_get T t j = text_fetch T (is_job_row t j)"

definition text_find_by_key :: "text_lib \<Rightarrow> string \<Rightarrow> string \<Rightarrow> text_db \<Rightarrow> exn + job_record option" where
  "text_find_by_key T t k = text_fetch T (\<lambda>r. sr_tenant_id r = t \<and> sr_idempotency_key r = Some k)"

definition text_list_jobs ::
  "text_lib \<Rightarrow> string \<Rightarrow> job_status option \<Rightarrow> finding_source option \<Rightarrow> int \<Rightarrow> text_db \<Rightarrow> exn + job_record list" where
  "text_list_jobs T t st src n x =
     all_results (text_job_from_row T)
       (sql_limit (max 1 (min n 200))
         (rev (sort_key (\<lambda>r. (sr_created_at r, sr_job_id r))
           (filter (\<lambda>r. sr_tenant_id r = t \<and>
               (case st of None \<Rightarrow> True | Some s \<Rightarrow> sr_status r = job_status_value s) \<and>
               (case src of None \<Rightarrow> True | Some s \<Rightarrow> sr_source r = source_value (tl_core T) s)) (tx_jobs x)))))"

definition text_list_events :: "text_lib \<Rightarrow> string \<Rightarrow> string \<Rightarrow> int \<Rightarrow> int \<Rightarrow> text_db \<Rightarrow> exn + job_event list" where
  "text_list_events T t j after n x =
     all_results (text_event_from_row T)
       (sql_limit n (sort_key er_sequence (filter (\<lambda>r. is_event_row t j r \<and> after < er_sequence r) (tx_events x))))"

definition text_required :: "text_lib \<Rightarrow> string \<Rightarrow> string \<Rightarrow> text_db \<Rightarrow> exn + job_record" where
  "text_required T t j x =
     (case find (is_job_row t j) (tx_jobs x) of None \<Rightarrow> Inl (KeyError j) | Some r \<Rightarrow> text_job_from_row T r)"

definition text_append_event_locked ::
  "text_lib \<Rightarrow> string \<Rightarrow> string \<Rightarrow> string \<Rightarrow> json \<Rightarrow> time \<Rightarrow> text_db \<Rightarrow> job_event \<times> text_db" where
  "text_append_event_locked T t j kind p ts x =
     (let n = coalesce (sql_max (map er_sequence (filter (is_event_row t j) (tx_events x)))) 0 + 1
      in (\<lparr>ev_sequence = n, ev_job_id = j, ev_tenant_id = t, ev_kind = kind, ev_payload = p, ev_created_at = ts\<rparr>,
          x\<lparr>tx_events := tx_events x @
            [\<lparr>er_tenant_id = t, er_job_id = j, er_sequence = n, er_kind = kind, er_payload = json_dump T p,
              er_created_at = isoformat ts\<rparr>]\<rparr>))"

definition update_jobs :: "(scan_job_row \<Rightarrow> bool) \<Rightarrow> (scan_job_row \<Rightarrow> scan_job_row) \<Rightarrow> text_db \<Rightarrow> text_db" where
  "update_jobs P f x = x\<lparr>tx_jobs := upd_where P f (tx_jobs x)\<rparr>"

section \<open>Methods\<close>

definition text_insert ::
  "text_lib \<Rightarrow> call_env \<Rightarrow> string \<Rightarrow> finding_source \<Rightarrow> json \<Rightarrow> string option \<Rightarrow> text_db \<Rightarrow>
    (exn + job_record \<times> bool) \<times> text_db" where
  "text_insert T e t src p key x =
     (let jid = ''job_'' @ uuid e 0
      in if \<exists>r \<in> set (tx_jobs x). sr_job_id r = jid \<or>
            (key \<noteq> None \<and> sr_tenant_id r = t \<and> sr_idempotency_key r = key)
         then
           ((case key of
               None \<Rightarrow> Inl IntegrityError
             | Some k \<Rightarrow> bind_exn (text_find_by_key T t k x)
                 (\<lambda>found. case found of None \<Rightarrow> Inl IntegrityError | Some job \<Rightarrow> Inr (job, False))), x)
         else
           (let row = \<lparr>sr_job_id = jid, sr_tenant_id = t, sr_source = source_value (tl_core T) src,
                       sr_payload = json_dump T p, sr_status = job_status_value QUEUED,
                       sr_created_at = isoformat (now e), sr_updated_at = isoformat (now e), sr_idempotency_key = key,
                       sr_dispatch_id = None, sr_attempt = 0, sr_cancel_requested = 0, sr_result_count = 0,
                       sr_error_code = None, sr_error_message = None\<rparr>;
                x2 = snd (text_append_event_locked T t jid ''status'' (status_payload QUEUED) (now e)
                       (x\<lparr>tx_jobs := tx_jobs x @ [row]\<rparr>))
            in (bind_exn (text_get T t jid x2)
                  (\<lambda>found. case found of None \<Rightarrow> Inl (RuntimeError ''created job could not be reloaded'')
                                      | Some job \<Rightarrow> Inr (job, True)), x2)))"

definition text_create ::
  "text_lib \<Rightarrow> call_env \<Rightarrow> string \<Rightarrow> finding_source \<Rightarrow> json \<Rightarrow> string option \<Rightarrow> text_db \<Rightarrow>
    (exn + job_record \<times> bool) \<times> text_db" where
  "text_create T e t src p key x =
     (case key of
        None \<Rightarrow> text_insert T e t src p key x
      | Some k \<Rightarrow>
          (case text_find_by_key T t k x of
             Inl err \<Rightarrow> (Inl err, x)
           | Inr (Some existing) \<Rightarrow> (Inr (existing, False), x)
           | Inr None \<Rightarrow> text_insert T e t src p key x))"

definition text_mark_running ::
  "text_lib \<Rightarrow> call_env \<Rightarrow> string \<Rightarrow> string \<Rightarrow> bool \<Rightarrow> text_db \<Rightarrow> (exn + job_record option) \<times> text_db" where
  "text_mark_running T e t j require_queued x =
     (let P = (\<lambda>r. is_job_row t j r \<and> sr_status r = job_status_value (if require_queued then QUEUED else RUNNING) \<and>
                sr_cancel_requested r = 0);
          x1 = update_jobs P (\<lambda>r. r\<lparr>sr_status := job_status_value RUNNING, sr_attempt := sr_attempt r + 1,
                 sr_updated_at := isoformat (now e), sr_error_code := None, sr_error_message := None\<rparr>) x
      in if length (filter P (tx_jobs x)) \<noteq> 1 then (Inr None, x1)
         else
           (let x2 = snd (text_append_event_locked T t j ''status'' (status_payload RUNNING) (now e) x1)
            in (bind_exn (text_required T t j x2) (\<lambda>r. Inr (Some r)), x2)))"

definition text_transition ::
  "text_lib \<Rightarrow> call_env \<Rightarrow> string \<Rightarrow> string \<Rightarrow> job_status \<Rightarrow> int option \<Rightarrow> string option \<Rightarrow> string option \<Rightarrow>
    text_db \<Rightarrow> (exn + job_record) \<times> text_db" where
  "text_transition T e t j st n c m x =
     (case text_required T t j x of
        Inl err \<Rightarrow> (Inl err, x)
      | Inr current \<Rightarrow>
          (let count = (case n of None \<Rightarrow> j_result_count current | Some k \<Rightarrow> k);
               x1 = update_jobs (is_job_row t j) (\<lambda>r. r\<lparr>sr_status := job_status_value st,
                      sr_updated_at := isoformat (now e), sr_result_count := count, sr_error_code := c,
                      sr_error_message := m\<rparr>) x;
               x2 = snd (text_append_event_locked T t j ''status'' (transition_payload st c m) (now e) x1)
           in (text_required T t j x2, x2)))"

definition text_append_event ::
  "text_lib \<Rightarrow> call_env \<Rightarrow> string \<Rightarrow> string \<Rightarrow> string \<Rightarrow> json \<Rightarrow> text_db \<Rightarrow> (exn + job_event) \<times> text_db" where
  "text_append_event T e t j kind p x =
     (case text_required T t j x of
        Inl err \<Rightarrow> (Inl err, x)
      | Inr _ \<Rightarrow> (case text_append_event_locked T t j kind p (now e) x of (ev, x1) \<Rightarrow> (Inr ev, x1)))"

definition text_set_dispatch_id :: "call_env \<Rightarrow> string \<Rightarrow> string \<Rightarrow> string \<Rightarrow> text_db \<Rightarrow> text_db" where
  "text_set_dispatch_id e t j d x =
     update_jobs (is_job_row t j) (\<lambda>r. r\<lparr>sr_dispatch_id := Some d, sr_updated_at := isoformat (now e)\<rparr>) x"

definition text_request_cancel ::
  "text_lib \<Rightarrow> call_env \<Rightarrow> string \<Rightarrow> string \<Rightarrow> text_db \<Rightarrow> (exn + job_record) \<times> text_db" where
  "text_request_cancel T e t j x =
     (case text_required T t j x of
        Inl err \<Rightarrow> (Inl err, x)
      | Inr current \<Rightarrow>
          if terminal (j_status current) then (Inr current, x)
          else
            (let next_status = cancel_status (j_status current);
                 x1 = update_jobs (is_job_row t j) (\<lambda>r. r\<lparr>sr_cancel_requested := 1,
                        sr_status := job_status_value next_status, sr_updated_at := isoformat (now e)\<rparr>) x;
                 x2 = snd (text_append_event_locked T t j ''cancel_requested'' (status_payload next_status) (now e) x1)
             in (text_required T t j x2, x2)))"

text \<open>One call; \<open>Inl\<close> is an exception of a read.\<close>

fun text_perform :: "text_lib \<Rightarrow> job_call \<Rightarrow> text_db \<Rightarrow> (exn + job_answer) \<times> text_db" where
  "text_perform T (Call_create e t src p key) x = map_prod (Inr \<circ> Ans_create) id (text_create T e t src p key x)"
| "text_perform T (Call_mark_running e t j rq) x = map_prod (Inr \<circ> Ans_claim) id (text_mark_running T e t j rq x)"
| "text_perform T (Call_transition e t j st n c m) x = map_prod (Inr \<circ> Ans_job) id (text_transition T e t j st n c m x)"
| "text_perform T (Call_append_event e t j kind p) x = map_prod (Inr \<circ> Ans_event) id (text_append_event T e t j kind p x)"
| "text_perform T (Call_set_dispatch_id e t j i) x = (Inr Ans_none, text_set_dispatch_id e t j i x)"
| "text_perform T (Call_request_cancel e t j) x = map_prod (Inr \<circ> Ans_job) id (text_request_cancel T e t j x)"
| "text_perform T (Call_get t j) x = (bind_exn (text_get T t j x) (Inr \<circ> Ans_lookup), x)"
| "text_perform T (Call_list_jobs t st src n) x = (bind_exn (text_list_jobs T t st src n x) (Inr \<circ> Ans_jobs), x)"
| "text_perform T (Call_find t k) x = (bind_exn (text_find_by_key T t k x) (Inr \<circ> Ans_lookup), x)"
| "text_perform T (Call_list_events t j n m) x = (bind_exn (text_list_events T t j n m x) (Inr \<circ> Ans_events), x)"

section \<open>The texts of a state\<close>

definition job_text :: "text_lib \<Rightarrow> job_record \<Rightarrow> scan_job_row" where
  "job_text T j =
     \<lparr>sr_job_id = j_id j, sr_tenant_id = j_tenant_id j, sr_source = source_value (tl_core T) (j_source j),
      sr_payload = json_dump T (j_payload j), sr_status = job_status_value (j_status j),
      sr_created_at = isoformat (j_created_at j), sr_updated_at = isoformat (j_updated_at j),
      sr_idempotency_key = j_idempotency_key j, sr_dispatch_id = j_dispatch_id j, sr_attempt = j_attempt j,
      sr_cancel_requested = (if j_cancel_requested j then 1 else 0), sr_result_count = j_result_count j,
      sr_error_code = j_error_code j, sr_error_message = j_error_message j\<rparr>"

definition event_text :: "text_lib \<Rightarrow> job_event \<Rightarrow> scan_event_row" where
  "event_text T v =
     \<lparr>er_tenant_id = ev_tenant_id v, er_job_id = ev_job_id v, er_sequence = ev_sequence v, er_kind = ev_kind v,
      er_payload = json_dump T (ev_payload v), er_created_at = isoformat (ev_created_at v)\<rparr>"

definition text_of :: "text_lib \<Rightarrow> sqlite_db \<Rightarrow> text_db" where
  "text_of T s = \<lparr>tx_jobs = map (job_text T) (sq_jobs s), tx_events = map (event_text T) (sq_events s)\<rparr>"

text \<open>
  What a call writes can be read back: the time, of the range of \<^verbatim>\<open>datetime\<close>, and the
  payloads. The values of \<open>FindingSource\<close> name its members.
\<close>

definition reads_time :: "text_lib \<Rightarrow> time \<Rightarrow> bool" where
  "reads_time T t \<longleftrightarrow> datetime_range t \<and> tl_fromiso T (isoformat t) = Inr t"

definition reads_json :: "text_lib \<Rightarrow> json \<Rightarrow> bool" where
  "reads_json T p \<longleftrightarrow> tl_loads T (json_dump T p) = Inr p"

definition reads_sources :: "text_lib \<Rightarrow> bool" where
  "reads_sources T \<longleftrightarrow> (\<forall>src. tl_source T (source_value (tl_core T) src) = Inr src)"

fun written :: "job_call \<Rightarrow> time list \<times> json list" where
  "written (Call_create e t src p key) = ([now e], [p, status_payload QUEUED])"
| "written (Call_mark_running e t j rq) = ([now e], [status_payload RUNNING])"
| "written (Call_transition e t j st n c m) = ([now e], [transition_payload st c m])"
| "written (Call_append_event e t j kind p) = ([now e], [p])"
| "written (Call_set_dispatch_id e t j i) = ([now e], [])"
| "written (Call_request_cancel e t j) = ([now e], [status_payload CANCELLED, status_payload RUNNING])"
| "written c = ([], [])"

definition storable :: "text_lib \<Rightarrow> job_call \<Rightarrow> bool" where
  "storable T c \<longleftrightarrow> (\<forall>t \<in> set (fst (written c)). reads_time T t) \<and> (\<forall>p \<in> set (snd (written c)). reads_json T p)"

definition job_stored :: "text_lib \<Rightarrow> job_record \<Rightarrow> bool" where
  "job_stored T j \<longleftrightarrow> reads_json T (j_payload j) \<and> reads_time T (j_created_at j) \<and> reads_time T (j_updated_at j)"

definition event_stored :: "text_lib \<Rightarrow> job_event \<Rightarrow> bool" where
  "event_stored T v \<longleftrightarrow> reads_json T (ev_payload v) \<and> reads_time T (ev_created_at v)"

definition state_stored :: "text_lib \<Rightarrow> sqlite_db \<Rightarrow> bool" where
  "state_stored T s \<longleftrightarrow> (\<forall>j \<in> set (sq_jobs s). job_stored T j) \<and> (\<forall>v \<in> set (sq_events s). event_stored T v)"

section \<open>Reading back\<close>

lemma status_value_inject [simp]: "job_status_value a = job_status_value b \<longleftrightarrow> a = b"
  by (cases a; cases b) simp_all

lemma job_status_of_value [simp]: "job_status_of (job_status_value st) = Inr st"
  by (cases st) (simp_all add: job_status_of_def)

lemma source_value_inject:
  assumes "reads_sources T"
  shows "source_value (tl_core T) a = source_value (tl_core T) b \<longleftrightarrow> a = b"
  using assms unfolding reads_sources_def by (metis sum.inject(2))

lemma job_row_read: "reads_sources T \<Longrightarrow> job_stored T j \<Longrightarrow> text_job_from_row T (job_text T j) = Inr j"
  by (simp add: text_job_from_row_def job_text_def job_stored_def reads_json_def reads_time_def reads_sources_def)

lemma event_row_read: "event_stored T v \<Longrightarrow> text_event_from_row T (event_text T v) = Inr v"
  by (simp add: text_event_from_row_def event_text_def event_stored_def reads_json_def reads_time_def)

lemma all_results_read: "(\<And>x. x \<in> set xs \<Longrightarrow> f (g x) = Inr x) \<Longrightarrow> all_results f (map g xs) = Inr xs"
  by (induction xs) simp_all

lemma find_rows: "find P (map f xs) = map_option f (find (\<lambda>x. P (f x)) xs)"
  by (induction xs) simp_all

lemma upd_where_rows:
  assumes "\<And>x. P (f x) \<longleftrightarrow> Q x" and "\<And>x. Q x \<Longrightarrow> g (f x) = f (h x)"
  shows "upd_where P g (map f xs) = map f (upd_where Q h xs)"
  using assms by (induction xs) simp_all

lemma sort_rows:
  assumes "\<And>x y. x \<in> set xs \<Longrightarrow> y \<in> set xs \<Longrightarrow> k (f x) \<le> k (f y) \<longleftrightarrow> k' x \<le> k' y"
  shows "sort_key k (map f xs) = map f (sort_key k' xs)"
  using assms
proof (induction xs)
  case (Cons x xs)
  have insort: "insort_key k (f x) (map f ys) = map f (insort_key k' x ys)" if "set ys \<subseteq> set xs" for ys
    using that Cons.prems by (induction ys) auto
  from Cons insort [of "sort_key k' xs"] show ?case by simp
qed simp

lemma sql_limit_rows: "sql_limit n (map f xs) = map f (sql_limit n xs)"
  by (simp add: sql_limit_def take_map)

lemma set_sql_limit: "x \<in> set (sql_limit n xs) \<Longrightarrow> x \<in> set xs"
  by (auto simp: sql_limit_def dest: in_set_takeD split: if_splits)

lemma job_row_key [simp]: "is_job_row t j (job_text T r) \<longleftrightarrow> is_job t j r"
  by (simp add: is_job_row_def is_job_def job_text_def)

lemma event_row_key [simp]: "is_event_row t j (event_text T v) \<longleftrightarrow> is_event_of t j v"
  by (auto simp: is_event_row_def is_event_of_def event_text_def)

lemma job_text_state:
  "sr_status (job_text T r) = job_status_value st \<longleftrightarrow> j_status r = st"
  "sr_cancel_requested (job_text T r) = 0 \<longleftrightarrow> \<not> j_cancel_requested r"
  by (simp_all add: job_text_def)

lemma text_of_simps [simp]:
  "tx_jobs (text_of T s) = map (job_text T) (sq_jobs s)" "tx_events (text_of T s) = map (event_text T) (sq_events s)"
  by (simp_all add: text_of_def)

lemma fetch_text:
  assumes "reads_sources T" and "state_stored T s" and "\<And>r. P (job_text T r) \<longleftrightarrow> Q r"
  shows "text_fetch T P (text_of T s) = Inr (find Q (sq_jobs s))"
proof (cases "find Q (sq_jobs s)")
  case (Some r)
  then have "job_stored T r" using assms(2) by (auto simp: state_stored_def dest: find_SomeD)
  with Some assms(1,3) show ?thesis by (simp add: text_fetch_def find_rows job_row_read)
qed (simp add: text_fetch_def find_rows assms(3))

lemma get_text:
  assumes "reads_sources T" and "state_stored T s"
  shows "text_get T t j (text_of T s) = Inr (sq_get t j s)"
  unfolding text_get_def sq_get_def by (rule fetch_text [OF assms]) simp

lemma find_text:
  assumes "reads_sources T" and "state_stored T s"
  shows "text_find_by_key T t k (text_of T s) = Inr (sq_find_by_idempotency_key t k s)"
  unfolding text_find_by_key_def sq_find_by_idempotency_key_def
  by (rule fetch_text [OF assms]) (simp add: has_key_def job_text_def)

lemma required_text:
  assumes "reads_sources T" and "state_stored T s"
  shows "text_required T t j (text_of T s) = sq_required t j s"
  using get_text [OF assms, of t j]
  by (auto simp: text_get_def text_fetch_def text_required_def sq_required_def bind_exn_Inr split: option.splits)

text \<open>The order of the texts is the order of the times.\<close>

lemma list_jobs_text:
  assumes "reads_sources T" and "state_stored T s"
  shows "text_list_jobs T t st src n (text_of T s) = Inr (sq_list_jobs t st src n s)"
proof -
  let ?js = "filter (job_matches t st src) (sq_jobs s)"
  have stored: "job_stored T r" if "r \<in> set (sq_jobs s)" for r using assms(2) that by (simp add: state_stored_def)
  have rows: "filter (\<lambda>r. sr_tenant_id r = t \<and> (case st of None \<Rightarrow> True | Some s \<Rightarrow> sr_status r = job_status_value s) \<and>
      (case src of None \<Rightarrow> True | Some s \<Rightarrow> sr_source r = source_value (tl_core T) s)) (map (job_text T) (sq_jobs s)) =
    map (job_text T) ?js"
    using source_value_inject [OF assms(1)]
    by (auto simp: filter_map job_matches_def job_text_def split: option.split intro!: arg_cong [where f = "map (job_text T)"] filter_cong)
  have "sort_key (\<lambda>r. (sr_created_at r, sr_job_id r)) (map (job_text T) ?js) =
      map (job_text T) (sort_key (\<lambda>r. (j_created_at r, j_id r)) ?js)"
  proof (rule sort_rows)
    fix a b
    assume "a \<in> set ?js" and "b \<in> set ?js"
    then have times: "datetime_range (j_created_at a)" "datetime_range (j_created_at b)"
      using stored by (auto simp: job_stored_def reads_time_def)
    show "(sr_created_at (job_text T a), sr_job_id (job_text T a)) \<le> (sr_created_at (job_text T b), sr_job_id (job_text T b)) \<longleftrightarrow>
        (j_created_at a, j_id a) \<le> (j_created_at b, j_id b)"
      using iso_text_order [OF times] iso_text_order [OF times(2,1)]
      by (auto simp: job_text_def less_eq_prod_def less_le_not_le)
  qed
  then have "rev (sort_key (\<lambda>r. (sr_created_at r, sr_job_id r)) (map (job_text T) ?js)) = map (job_text T) (newest_first ?js)"
    by (simp add: newest_first_def rev_map)
  then have "text_list_jobs T t st src n (text_of T s) =
      all_results (text_job_from_row T) (map (job_text T) (sql_limit (page_limit n) (newest_first ?js)))"
    by (simp add: text_list_jobs_def rows sql_limit_rows page_limit_def)
  also have "\<dots> = Inr (sql_limit (page_limit n) (newest_first ?js))"
    using stored by (intro all_results_read job_row_read [OF assms(1)]) (auto dest: set_sql_limit simp: newest_first_def)
  finally show ?thesis by (simp add: sq_list_jobs_def)
qed

lemma list_events_text:
  assumes "state_stored T s"
  shows "text_list_events T t j after n (text_of T s) = Inr (sq_list_events t j after n s)"
proof -
  let ?vs = "filter (\<lambda>v. is_event_of t j v \<and> after < ev_sequence v) (sq_events s)"
  have rows: "filter (\<lambda>r. is_event_row t j r \<and> after < er_sequence r) (map (event_text T) (sq_events s)) = map (event_text T) ?vs"
    by (simp add: filter_map comp_def) (simp add: event_text_def)
  have "sort_key er_sequence (map (event_text T) ?vs) = map (event_text T) (sort_key ev_sequence ?vs)"
    by (rule sort_rows) (simp add: event_text_def)
  then have "text_list_events T t j after n (text_of T s) = all_results (text_event_from_row T) (map (event_text T) (sql_limit n (sort_key ev_sequence ?vs)))"
    by (simp add: text_list_events_def rows sql_limit_rows)
  also have "\<dots> = Inr (sql_limit n (sort_key ev_sequence ?vs))"
    using assms by (intro all_results_read event_row_read) (auto dest: set_sql_limit simp: state_stored_def)
  finally show ?thesis by (simp add: sq_list_events_def events_after_def)
qed

section \<open>Writing\<close>

lemma append_event_text:
  "text_append_event_locked T t j kind p ts (text_of T s) = map_prod id (text_of T) (sq_append_event_locked t j kind p ts s)"
proof -
  have "map er_sequence (filter (is_event_row t j) (map (event_text T) (sq_events s))) =
      map ev_sequence (filter (is_event_of t j) (sq_events s))"
    by (simp add: filter_map comp_def) (simp add: event_text_def)
  then show ?thesis
    by (simp add: text_append_event_locked_def sq_append_event_locked_def log_event_def new_event_def next_sequence_def
        text_of_def event_text_def Let_def del: map_map)
qed

lemma append_event_stored:
  assumes "state_stored T s" and "reads_json T p" and "reads_time T ts"
  shows "state_stored T (snd (sq_append_event_locked t j kind p ts s))"
  using assms by (auto simp: state_stored_def sq_append_event_locked_def log_event_def new_event_def event_stored_def)

lemma update_text:
  assumes "\<And>r. P (job_text T r) \<longleftrightarrow> Q r" and "\<And>r. Q r \<Longrightarrow> f (job_text T r) = job_text T (g r)"
  shows "update_jobs P f (text_of T s) = text_of T (s\<lparr>sq_jobs := upd_where Q g (sq_jobs s)\<rparr>)"
proof -
  have "upd_where P f (map (job_text T) (sq_jobs s)) = map (job_text T) (upd_where Q g (sq_jobs s))"
    using assms by (rule upd_where_rows)
  then show ?thesis by (simp add: update_jobs_def text_of_def)
qed

lemma update_stored:
  assumes "state_stored T s" and "\<And>r. job_stored T r \<Longrightarrow> job_stored T (g r)"
  shows "state_stored T (s\<lparr>sq_jobs := upd_where Q g (sq_jobs s)\<rparr>)"
  using assms by (auto simp: state_stored_def set_upd_where)

lemma insert_stored:
  assumes "state_stored T s" and "reads_json T p" and "reads_time T ts"
  shows "state_stored T (s\<lparr>sq_jobs := sq_jobs s @ [new_job jid t src p key ts]\<rparr>)"
  using assms by (auto simp: state_stored_def new_job_def job_stored_def)

text \<open>
  A method on the texts: it does what the modelled method does, and leaves a state whose rows
  can be read.
\<close>

definition text_refines :: "text_lib \<Rightarrow> 'a \<times> sqlite_db \<Rightarrow> 'a \<times> text_db \<Rightarrow> bool" where
  "text_refines T out res \<longleftrightarrow> res = map_prod id (text_of T) out \<and> state_stored T (snd out)"

lemma text_refinesI: "fst res = fst out \<Longrightarrow> snd res = text_of T (snd out) \<Longrightarrow> state_stored T (snd out) \<Longrightarrow> text_refines T out res"
  by (cases res; cases out) (simp add: text_refines_def)

lemma insert_text:
  assumes "reads_sources T" and "state_stored T s" and "storable T (Call_create e t src p key)"
  shows "text_refines T (sq_insert e t src p key s) (text_insert T e t src p key (text_of T s))"
proof -
  define jid where "jid = ''job_'' @ uuid e 0"
  let ?row = "new_job jid t src p key (now e)"
  let ?s1 = "s\<lparr>sq_jobs := sq_jobs s @ [?row]\<rparr>"
  let ?s2 = "snd (sq_append_event_locked t jid ''status'' (status_payload QUEUED) (now e) ?s1)"
  have writes: "reads_json T p" "reads_json T (status_payload QUEUED)" "reads_time T (now e)"
    using assms(3) by (simp_all add: storable_def)
  have stored: "state_stored T ?s2"
    by (intro append_event_stored insert_stored assms(2) writes)
  have conflict: "(\<exists>r \<in> set (tx_jobs (text_of T s)). sr_job_id r = jid \<or>
      (key \<noteq> None \<and> sr_tenant_id r = t \<and> sr_idempotency_key r = key)) \<longleftrightarrow> job_conflict ?row (sq_jobs s)"
    by (auto simp: job_conflict_def new_job_def job_text_def)
  have row: "(text_of T s)\<lparr>tx_jobs := tx_jobs (text_of T s) @ [\<lparr>sr_job_id = jid, sr_tenant_id = t,
      sr_source = source_value (tl_core T) src, sr_payload = json_dump T p, sr_status = job_status_value QUEUED,
      sr_created_at = isoformat (now e), sr_updated_at = isoformat (now e), sr_idempotency_key = key,
      sr_dispatch_id = None, sr_attempt = 0, sr_cancel_requested = 0, sr_result_count = 0, sr_error_code = None,
      sr_error_message = None\<rparr>]\<rparr> = text_of T ?s1"
    by (simp add: text_of_def job_text_def new_job_def)
  note unfold_insert = text_insert_def sq_insert_def Let_def jid_def [symmetric]
  show ?thesis
  proof (cases "job_conflict ?row (sq_jobs s)")
    case True
    then show ?thesis
      unfolding unfold_insert conflict using assms(2) find_text [OF assms(1,2)]
      by (auto simp: text_refines_def split: option.split)
  next
    case False
    then show ?thesis
      unfolding unfold_insert conflict row append_event_text snd_map_prod get_text [OF assms(1) stored]
      using stored by (auto simp: text_refines_def get_text [OF assms(1) stored] split: option.split)
  qed
qed

lemma create_text:
  assumes "reads_sources T" and "state_stored T s" and "storable T (Call_create e t src p key)"
  shows "text_refines T (sq_create e t src p key s) (text_create T e t src p key (text_of T s))"
  using insert_text [OF assms] assms(2)
  by (auto simp: text_create_def sq_create_def find_text [OF assms(1,2)] text_refines_def split: option.split)

lemma mark_running_text:
  assumes "reads_sources T" and "state_stored T s" and "storable T (Call_mark_running e t j rq)"
  shows "text_refines T (sq_mark_running e t j rq s) (text_mark_running T e t j rq (text_of T s))"
proof -
  let ?P = "\<lambda>r. is_job_row t j r \<and> sr_status r = job_status_value (if rq then QUEUED else RUNNING) \<and> sr_cancel_requested r = 0"
  let ?s1 = "s\<lparr>sq_jobs := upd_where (claimable t j rq) (running_job (now e)) (sq_jobs s)\<rparr>"
  let ?s2 = "snd (sq_append_event_locked t j ''status'' (status_payload RUNNING) (now e) ?s1)"
  have writes: "reads_json T (status_payload RUNNING)" "reads_time T (now e)" using assms(3) by (simp_all add: storable_def)
  have claim: "?P (job_text T r) \<longleftrightarrow> claimable t j rq r" for r
    by (simp add: claimable_def job_text_state del: job_status_value.simps)
  have count: "length (filter ?P (tx_jobs (text_of T s))) = length (filter (claimable t j rq) (sq_jobs s))"
    unfolding text_of_simps filter_map length_map comp_def claim ..
  have update: "update_jobs ?P (\<lambda>r. r\<lparr>sr_status := job_status_value RUNNING, sr_attempt := sr_attempt r + 1,
      sr_updated_at := isoformat (now e), sr_error_code := None, sr_error_message := None\<rparr>) (text_of T s) = text_of T ?s1"
    by (rule update_text, rule claim) (simp add: job_text_def running_job_def)
  have stored1: "state_stored T ?s1"
    by (rule update_stored [OF assms(2)]) (use writes in \<open>simp add: job_stored_def running_job_def\<close>)
  have stored2: "state_stored T ?s2" by (intro append_event_stored stored1 writes)
  show ?thesis
    unfolding text_mark_running_def sq_mark_running_def Let_def count update append_event_text snd_map_prod
      required_text [OF assms(1) stored2]
    using stored1 stored2 by (simp add: text_refines_def bind_exn_def split: sum.split)
qed

lemma transition_text:
  assumes "reads_sources T" and "state_stored T s" and "storable T (Call_transition e t j st n c m)"
  shows "text_refines T (sq_transition e t j st n c m s) (text_transition T e t j st n c m (text_of T s))"
proof (cases "sq_required t j s")
  case (Inl err)
  with assms show ?thesis by (simp add: text_refines_def text_transition_def sq_transition_def required_text)
next
  case (Inr current)
  let ?n = "case n of None \<Rightarrow> j_result_count current | Some k \<Rightarrow> k"
  let ?s1 = "s\<lparr>sq_jobs := upd_where (is_job t j) (moved_job (now e) st (Some ?n) c m) (sq_jobs s)\<rparr>"
  let ?s2 = "snd (sq_append_event_locked t j ''status'' (transition_payload st c m) (now e) ?s1)"
  have writes: "reads_json T (transition_payload st c m)" "reads_time T (now e)" using assms(3) by (simp_all add: storable_def)
  have update: "update_jobs (is_job_row t j) (\<lambda>r. r\<lparr>sr_status := job_status_value st, sr_updated_at := isoformat (now e),
      sr_result_count := ?n, sr_error_code := c, sr_error_message := m\<rparr>) (text_of T s) = text_of T ?s1"
    by (rule update_text) (simp_all, simp add: job_text_def moved_job_def)
  have "state_stored T ?s1"
    by (rule update_stored [OF assms(2)]) (use writes in \<open>simp add: job_stored_def moved_job_def\<close>)
  then have stored: "state_stored T ?s2" by (intro append_event_stored writes)
  show ?thesis
    using stored Inr
    by (intro text_refinesI)
      (simp_all add: text_transition_def sq_transition_def Let_def required_text [OF assms(1,2)] update append_event_text
        required_text [OF assms(1) stored] del: text_of_simps)
qed

lemma append_text:
  assumes "reads_sources T" and "state_stored T s" and "storable T (Call_append_event e t j kind p)"
  shows "text_refines T (sq_append_event e t j kind p s) (text_append_event T e t j kind p (text_of T s))"
proof -
  have "state_stored T (snd (sq_append_event_locked t j kind p (now e) s))"
    using assms by (intro append_event_stored) (simp_all add: storable_def)
  with assms show ?thesis
    by (cases "sq_append_event_locked t j kind p (now e) s")
      (auto simp: text_refines_def text_append_event_def sq_append_event_def required_text append_event_text split: sum.split)
qed

lemma dispatch_text:
  assumes "state_stored T s" and "storable T (Call_set_dispatch_id e t j i)"
  shows "text_set_dispatch_id e t j i (text_of T s) = text_of T (sq_set_dispatch_id e t j i s)"
    and "state_stored T (sq_set_dispatch_id e t j i s)"
proof -
  show "text_set_dispatch_id e t j i (text_of T s) = text_of T (sq_set_dispatch_id e t j i s)"
    unfolding text_set_dispatch_id_def sq_set_dispatch_id_def
    by (rule update_text) (simp_all, simp add: job_text_def dispatched_job_def)
  show "state_stored T (sq_set_dispatch_id e t j i s)"
    unfolding sq_set_dispatch_id_def
    by (rule update_stored [OF assms(1)]) (use assms(2) in \<open>simp add: storable_def job_stored_def dispatched_job_def\<close>)
qed

lemma cancel_text:
  assumes "reads_sources T" and "state_stored T s" and "storable T (Call_request_cancel e t j)"
  shows "text_refines T (sq_request_cancel e t j s) (text_request_cancel T e t j (text_of T s))"
proof (cases "\<exists>current. sq_required t j s = Inr current \<and> \<not> terminal (j_status current)")
  case False
  with assms show ?thesis
    by (auto simp: text_refines_def text_request_cancel_def sq_request_cancel_def required_text split: sum.split)
next
  case True
  then obtain current where current: "sq_required t j s = Inr current" "\<not> terminal (j_status current)" by blast
  let ?st = "cancel_status (j_status current)"
  let ?s1 = "s\<lparr>sq_jobs := upd_where (is_job t j)
    (\<lambda>r. r\<lparr>j_cancel_requested := True, j_status := ?st, j_updated_at := now e\<rparr>) (sq_jobs s)\<rparr>"
  let ?s2 = "snd (sq_append_event_locked t j ''cancel_requested'' (status_payload ?st) (now e) ?s1)"
  have "?st = CANCELLED \<or> ?st = RUNNING" using current(2) by (auto simp: not_terminal_iff cancel_status_def)
  then have writes: "reads_json T (status_payload ?st)" "reads_time T (now e)" using assms(3) by (auto simp: storable_def)
  have update: "update_jobs (is_job_row t j) (\<lambda>r. r\<lparr>sr_cancel_requested := 1, sr_status := job_status_value ?st,
      sr_updated_at := isoformat (now e)\<rparr>) (text_of T s) = text_of T ?s1"
    by (rule update_text) (simp_all, simp add: job_text_def)
  have "state_stored T ?s1" by (rule update_stored [OF assms(2)]) (use writes in \<open>simp add: job_stored_def\<close>)
  then have stored: "state_stored T ?s2" by (intro append_event_stored writes)
  show ?thesis
    using stored current
    by (intro text_refinesI)
      (simp_all add: text_request_cancel_def sq_request_cancel_def Let_def required_text [OF assms(1,2)] update append_event_text
        required_text [OF assms(1) stored] del: text_of_simps)
qed

text \<open>Every call.\<close>

lemma perform_text:
  assumes "reads_sources T" and "state_stored T s" and "storable T c"
  shows "text_perform T c (text_of T s) = map_prod Inr (text_of T) (perform sqlite_repository c s)"
    and "state_stored T (snd (perform sqlite_repository c s))"
proof -
  note writes = create_text [OF assms(1,2)] mark_running_text [OF assms(1,2)] transition_text [OF assms(1,2)]
    append_text [OF assms(1,2)] cancel_text [OF assms(1,2)]
  have "text_perform T c (text_of T s) = map_prod Inr (text_of T) (perform sqlite_repository c s) \<and>
      state_stored T (snd (perform sqlite_repository c s))"
    using assms
    by (cases c) (auto simp: sqlite_repository_def writes [unfolded text_refines_def] dispatch_text get_text find_text
        list_jobs_text list_events_text prod.map_comp comp_def)
  then show "text_perform T c (text_of T s) = map_prod Inr (text_of T) (perform sqlite_repository c s)"
    and "state_stored T (snd (perform sqlite_repository c s))" by blast+
qed

lemma run_text:
  assumes "reads_sources T" and "state_stored T s" and "\<forall>c \<in> set cs. storable T c"
  shows "run_steps (text_perform T) cs (text_of T s) =
    map_prod (map Inr) (text_of T) (run_steps (perform sqlite_repository) cs s)"
  using assms(2,3)
proof (induction cs arbitrary: s)
  case (Cons c cs)
  note step = perform_text [OF assms(1) Cons.prems(1), of c]
  from Cons.IH [OF step(2)] step(1) Cons.prems(2) show ?case
    by (auto simp: run_steps.simps(2) split: prod.split)
qed (simp add: run_steps.simps(1))

end
