(* ===== verification/Text_Properties.thy ===== *)
theory Text_Properties
  imports Sqlite_Text Samples
begin

text \<open>
  The database file of the SQLite job repository implements the modelled repository.
\<close>

definition sample_payload :: json where
  "sample_payload = JObj [(''target'', JStr ''a''), (''depth'', JInt 3)]"

definition sample_payloads :: "json list" where
  "sample_payloads = [sample_payload, status_payload QUEUED, status_payload RUNNING,
     transition_payload FAILED (Some ''E'') None]"

definition sample_times :: "time list" where
  "sample_times = [1700000000000000, 1700000000000001]"

definition sample_text :: text_lib where
  "sample_text = \<lparr>tl_core = sample_core, tl_source = (\<lambda>s. Inr (source_of s)), tl_float = (\<lambda>q. ''0.5''),
     tl_loads = (\<lambda>s. case find (\<lambda>p. json_text (\<lambda>q. ''0.5'') p = s) sample_payloads of
       None \<Rightarrow> Inl (ValueError s) | Some p \<Rightarrow> Inr p),
     tl_fromiso = (\<lambda>s. case find (\<lambda>t. isoformat t = s) sample_times of None \<Rightarrow> Inl (ValueError s) | Some t \<Rightarrow> Inr t)\<rparr>"

definition sample_writes :: "job_call list" where
  "sample_writes =
     [Call_create (sample_env 1700000000000000 ''a'') ''acme'' LAB sample_payload (Some ''k''),
      Call_create (sample_env 1700000000000001 ''b'') ''acme'' SOC sample_payload None,
      Call_mark_running (sample_env 1700000000000001 ''c'') ''acme'' ''job_a'' True,
      Call_transition (sample_env 1700000000000001 ''d'') ''acme'' ''job_a'' FAILED None (Some ''E'') None,
      Call_list_jobs ''acme'' None None 10, Call_list_events ''acme'' ''job_a'' 0 100]"

lemma sample_times_text:
  "isoformat 1700000000000000 = ''2023-11-14T22:13:20+00:00''"
  "isoformat 1700000000000001 = ''2023-11-14T22:13:20.000001+00:00''"
  by code_simp+

lemma sample_times_read: "reads_time sample_text 1700000000000000" "reads_time sample_text 1700000000000001"
  by (simp_all add: reads_time_def datetime_range_def sample_text_def sample_times_def sample_times_text)

lemma sample_payloads_read:
  "reads_json sample_text sample_payload" "reads_json sample_text (status_payload QUEUED)"
  "reads_json sample_text (status_payload RUNNING)" "reads_json sample_text (transition_payload FAILED (Some ''E'') None)"
  by (simp_all add: reads_json_def json_dump_def sample_text_def sample_payloads_def sample_payload_def status_payload_def
      transition_payload_def error_object_def truthy_def json_opt_def json_string_def json_escape_char_def)

text \<open>
  C21: The SQLite job repository loses nothing by storing text. Run any sequence of calls on the
  tables of text columns, from empty tables, with the statements comparing and ordering texts:
  if the times are of the years 1 to 9999 and times, payloads and sources can be read back
  from their texts, no read raises, every answer is the one of the repository that keeps the
  values themselves, lists in the order of the times included, and the rows left are the texts
  of its state.
\<close>

theorem text_tables_faithful:
  assumes "reads_sources T" and "\<forall>c \<in> set cs. storable T c"
  shows "run_steps (text_perform T) cs tx_empty =
    map_prod (map Inr) (text_of T) (run_steps (perform sqlite_repository) cs sq_empty)"
proof -
  have "text_of T sq_empty = tx_empty" by (simp add: text_of_def sq_empty_def tx_empty_def)
  moreover have "state_stored T sq_empty" by (simp add: state_stored_def sq_empty_def)
  ultimately show ?thesis using run_text [OF assms(1) _ assms(2)] by metis
qed

theorem text_tables_faithful_witness:
  "run_steps (text_perform sample_text) sample_writes tx_empty =
    map_prod (map Inr) (text_of sample_text) (run_steps (perform sqlite_repository) sample_writes sq_empty)"
proof (rule text_tables_faithful)
  show "reads_sources sample_text" by (simp add: reads_sources_def sample_text_def sample_core_def)
  show "\<forall>c \<in> set sample_writes. storable sample_text c"
    by (simp add: sample_writes_def storable_def sample_times_read sample_payloads_read)
qed

end
